(* ===== verification/Go_Base.thy ===== *)
theory Go_Base
  imports Main
    "HOL-Library.AList"
    "HOL-Library.Char_ord"
    "HOL-Library.List_Lexorder"
begin

text \<open>
  The prelude of the development: what the components share of the Go language and its
  standard library.

  \<^item> A Go \<open>string\<close> or \<open>[]byte\<close> is a list of bytes, here \<^typ>\<open>string\<close> (a \<open>char\<close> of HOL is
    one byte). A \<open>for _, r := range s\<close> loop whose body only tells ASCII code points apart is
    the same loop over the bytes, since UTF-8 decodes a byte below 128 to itself and every
    other byte to a rune of at least 128. The case conversions and \<open>TrimSpace\<close> are modelled on
    ASCII; bytes above 127 are left as they are.
  \<^item> A Go \<open>map\<close> is an association list with distinct keys (\<open>gomap_ok\<close>); the list order is the
    order in which a \<open>range\<close> loop meets the entries. Go leaves that order open, and every
    theorem is stated for every such list.
  \<^item> \<open>time.Time\<close> is the number of nanoseconds since Go's zero time, so \<open>IsZero\<close> is \<open>t = 0\<close>;
    \<open>time.Duration\<close> is an \<^typ>\<open>int\<close> of nanoseconds.
  \<^item> An \<open>int64\<close> addition whose overflow matters goes through \<open>int64_wrap\<close>.
  \<^item> An \<open>error\<close> is a \<open>goerror\<close>: \<open>errors.New\<close> or \<open>fmt.Errorf\<close> with one or two wrapped errors; a
    fallible function returns \<open>goerror + 'a\<close>.
\<close>

named_theorems go_string \<open>definitional equations of the string library\<close>
named_theorems go_map \<open>lookup laws of association-list maps\<close>

section \<open>Errors\<close>

datatype goerror =
    ErrorsNew string
  | Errorf string goerror string
  | Errorf2 string goerror string goerror string

primrec Error :: "goerror \<Rightarrow> string" where
  "Error (ErrorsNew m) = m"
| "Error (Errorf before e after) = before @ Error e @ after"
| "Error (Errorf2 before e between e' after) = before @ Error e @ between @ Error e' @ after"

primrec errors_Is :: "goerror \<Rightarrow> goerror \<Rightarrow> bool" where
  "errors_Is (ErrorsNew m) target = (ErrorsNew m = target)"
| "errors_Is (Errorf before e after) target = (Errorf before e after = target \<or> errors_Is e target)"
| "errors_Is (Errorf2 before e between e' after) target =
     (Errorf2 before e between e' after = target \<or> errors_Is e target \<or> errors_Is e' target)"

type_synonym 'a result = "goerror + 'a"

text \<open>The \<open>error\<close> result of a function that returns nothing else; \<open>None\<close> is \<open>nil\<close>.\<close>

type_synonym goerr = "goerror option"

text \<open>\<open>fmt.Errorf("%w: msg", e)\<close>.\<close>

definition wrapf :: "goerror \<Rightarrow> string \<Rightarrow> goerror" where
  "wrapf e msg = Errorf [] e ('': '' @ msg)"

text \<open>\<open>fmt.Errorf("%w: %w", e, e')\<close>.\<close>

definition wrap2 :: "goerror \<Rightarrow> goerror \<Rightarrow> goerror" where
  "wrap2 e e' = Errorf2 [] e '': '' e' []"

lemma errors_Is_refl [simp]: "errors_Is e e"
  by (cases e) simp_all

lemma errors_Is_wrapf [simp]: "errors_Is (wrapf e msg) e"
  by (simp add: wrapf_def)

lemma errors_Is_wrap2 [simp]: "errors_Is (wrap2 e e') e" "errors_Is e' t \<Longrightarrow> errors_Is (wrap2 e e') t"
  by (simp_all add: wrap2_def)

section \<open>Time and machine integers\<close>

type_synonym gotime = int
type_synonym duration = int

abbreviation (input) zero_time :: gotime where
  "zero_time \<equiv> 0"

abbreviation (input) IsZero :: "gotime \<Rightarrow> bool" where
  "IsZero t \<equiv> t = zero_time"

abbreviation (input) millisecond :: duration where
  "millisecond \<equiv> 1000000"

abbreviation (input) second :: duration where
  "second \<equiv> 1000000000"

abbreviation (input) minute :: duration where
  "minute \<equiv> 60000000000"

abbreviation (input) hour :: duration where
  "hour \<equiv> 3600000000000"

text \<open>
  \<open>int(d.Seconds())\<close>: truncation towards zero. The floating-point sum inside \<open>Seconds\<close> stays
  below the next whole second for every duration under 2^22 seconds.
\<close>

definition truncated_seconds :: "duration \<Rightarrow> int" where
  "truncated_seconds d = (if d \<ge> 0 then d div second else - ((- d) div second))"

definition int64_max :: int where
  "int64_max = 9223372036854775807"

definition int64_wrap :: "int \<Rightarrow> int" where
  "int64_wrap x = (x + 9223372036854775808) mod 18446744073709551616 - 9223372036854775808"

definition int64_ok :: "int \<Rightarrow> bool" where
  "int64_ok x \<longleftrightarrow> - 9223372036854775808 \<le> x \<and> x \<le> int64_max"

text \<open>\<open>t.UnixNano()\<close>.\<close>

definition UnixNano :: "gotime \<Rightarrow> int" where
  "UnixNano t = int64_wrap (t - 62135596800 * second)"

lemma int64_wrap_id [simp]: "int64_ok x \<Longrightarrow> int64_wrap x = x"
  by (simp add: int64_wrap_def int64_ok_def int64_max_def)

lemma int64_wrap_ok [simp]: "int64_ok (int64_wrap x)"
proof -
  have "0 \<le> (x + 9223372036854775808) mod 18446744073709551616"
    and "(x + 9223372036854775808) mod 18446744073709551616 < 18446744073709551616"
    by simp_all
  then show ?thesis
    by (simp add: int64_wrap_def int64_ok_def int64_max_def)
qed

section \<open>The string library\<close>

text \<open>Functions of package \<open>strings\<close> that the sources use, under their Go names.\<close>

definition HasPrefix :: "string \<Rightarrow> string \<Rightarrow> bool" where
  "HasPrefix s p \<longleftrightarrow> take (length p) s = p"

definition HasSuffix :: "string \<Rightarrow> string \<Rightarrow> bool" where
  "HasSuffix s p \<longleftrightarrow> HasPrefix (rev s) (rev p)"

definition TrimPrefix :: "string \<Rightarrow> string \<Rightarrow> string" where
  "TrimPrefix s p = (if HasPrefix s p then drop (length p) s else s)"

definition TrimSuffix :: "string \<Rightarrow> string \<Rightarrow> string" where
  "TrimSuffix s p = (if HasSuffix s p then take (length s - length p) s else s)"

text \<open>\<open>strings.Index\<close>: the position of the first occurrence; \<open>None\<close> is Go's \<open>-1\<close>.\<close>

fun Index :: "string \<Rightarrow> string \<Rightarrow> nat option" where
  "Index [] sub = (if sub = [] then Some 0 else None)"
| "Index (c # cs) sub =
     (if HasPrefix (c # cs) sub then Some 0 else map_option Suc (Index cs sub))"

definition Contains :: "string \<Rightarrow> string \<Rightarrow> bool" where
  "Contains s sub \<longleftrightarrow> Index s sub \<noteq> None"

definition ContainsAny :: "string \<Rightarrow> string \<Rightarrow> bool" where
  "ContainsAny s chars \<longleftrightarrow> list_ex (\<lambda>c. c \<in> set chars) s"

text \<open>\<open>strings.Cut\<close>: the text before and after the first separator, and whether it occurs.\<close>

definition Cut :: "string \<Rightarrow> string \<Rightarrow> string \<times> string \<times> bool" where
  "Cut s sep =
     (case Index s sep of
        None \<Rightarrow> (s, [], False)
      | Some i \<Rightarrow> (take i s, drop (i + length sep) s, True))"

text \<open>\<open>strings.LastIndex\<close> of a one-byte separator.\<close>

definition LastIndexByte :: "string \<Rightarrow> char \<Rightarrow> nat option" where
  "LastIndexByte s c = map_option (\<lambda>i. length s - Suc i) (Index (rev s) [c])"

text \<open>\<open>strings.ReplaceAll\<close> for a non-empty old string: left to right, non-overlapping.\<close>

function ReplaceAll :: "string \<Rightarrow> string \<Rightarrow> string \<Rightarrow> string" where
  "ReplaceAll s old new =
     (if old = [] \<or> s = [] then s
      else if HasPrefix s old then new @ ReplaceAll (drop (length old) s) old new
      else hd s # ReplaceAll (tl s) old new)"
  by pat_completeness auto
termination
  by (relation "measure (\<lambda>(s, old, new). length s)") auto

declare ReplaceAll.simps [simp del]

definition is_upper :: "char \<Rightarrow> bool" where
  "is_upper c \<longleftrightarrow> CHR ''A'' \<le> c \<and> c \<le> CHR ''Z''"

definition is_lower :: "char \<Rightarrow> bool" where
  "is_lower c \<longleftrightarrow> CHR ''a'' \<le> c \<and> c \<le> CHR ''z''"

definition is_digit :: "char \<Rightarrow> bool" where
  "is_digit c \<longleftrightarrow> CHR ''0'' \<le> c \<and> c \<le> CHR ''9''"

definition is_hex :: "char \<Rightarrow> bool" where
  "is_hex c \<longleftrightarrow> is_digit c \<or> CHR ''a'' \<le> c \<and> c \<le> CHR ''f'' \<or> CHR ''A'' \<le> c \<and> c \<le> CHR ''F''"

definition is_control :: "char \<Rightarrow> bool" where
  "is_control c \<longleftrightarrow> c < CHR '' '' \<or> c = CHR 0x7F"

definition lower_char :: "char \<Rightarrow> char" where
  "lower_char c = (if is_upper c then char_of (of_char c + 32 :: nat) else c)"

definition upper_char :: "char \<Rightarrow> char" where
  "upper_char c = (if is_lower c then char_of (of_char c - 32 :: nat) else c)"

definition ToLower :: "string \<Rightarrow> string" where
  "ToLower s = map lower_char s"

definition ToUpper :: "string \<Rightarrow> string" where
  "ToUpper s = map upper_char s"

definition EqualFold :: "string \<Rightarrow> string \<Rightarrow> bool" where
  "EqualFold a b \<longleftrightarrow> ToLower a = ToLower b"

definition is_space :: "char \<Rightarrow> bool" where
  "is_space c \<longleftrightarrow> c = CHR '' '' \<or> CHR 0x09 \<le> c \<and> c \<le> CHR 0x0D"

definition TrimSpace :: "string \<Rightarrow> string" where
  "TrimSpace s = rev (dropWhile is_space (rev (dropWhile is_space s)))"

lemma HasPrefix_conv: "HasPrefix s p \<longleftrightarrow> (\<exists>t. s = p @ t)"
  unfolding HasPrefix_def by (metis append_eq_conv_conj append_take_drop_id)

lemma HasSuffix_conv: "HasSuffix s p \<longleftrightarrow> (\<exists>t. s = t @ p)"
  unfolding HasSuffix_def HasPrefix_conv by (metis rev_append rev_rev_ident)

lemma HasPrefix_Nil [simp]: "HasPrefix s []"
  by (simp add: HasPrefix_def)

lemma HasPrefix_append [simp]: "HasPrefix (p @ t) p"
  by (simp add: HasPrefix_def)

lemma HasPrefix_Cons [simp]: "HasPrefix (c # s) (d # p) \<longleftrightarrow> c = d \<and> HasPrefix s p"
  by (auto simp: HasPrefix_def)

lemma HasSuffix_append [simp]: "HasSuffix (t @ p) p"
  by (auto simp: HasSuffix_conv)

lemma TrimSuffix_append [simp]: "TrimSuffix (t @ p) p = t"
  by (simp add: TrimSuffix_def)

lemma Index_prefix: "Index (sub @ t) sub = Some 0"
proof (cases "sub @ t")
  case Nil
  then show ?thesis by simp
next
  case (Cons c cs)
  have "HasPrefix (sub @ t) sub" by simp
  with Cons show ?thesis by simp
qed

lemma Index_Some_decomp:
  "Index s sub = Some i \<Longrightarrow> s = take i s @ sub @ drop (i + length sub) s"
proof (induction s arbitrary: i)
  case Nil
  then show ?case by (simp split: if_splits)
next
  case (Cons c cs)
  then show ?case
    by (auto simp: HasPrefix_conv split: if_splits)
qed

lemma Contains_conv: "Contains s sub \<longleftrightarrow> (\<exists>a b. s = a @ sub @ b)"
proof
  assume "Contains s sub"
  then obtain i where "Index s sub = Some i" by (auto simp: Contains_def)
  from Index_Some_decomp [OF this] show "\<exists>a b. s = a @ sub @ b" by blast
next
  assume "\<exists>a b. s = a @ sub @ b"
  then obtain a b where "s = a @ sub @ b" by blast
  then show "Contains s sub"
    by (induction a arbitrary: s) (auto simp: Contains_def Index_prefix)
qed

lemma ContainsAny_conv: "ContainsAny s chars \<longleftrightarrow> set s \<inter> set chars \<noteq> {}"
  by (auto simp: ContainsAny_def list_ex_iff)

text \<open>The first separator splits a list uniquely.\<close>

lemma split_at_unique:
  "c \<notin> set a \<Longrightarrow> c \<notin> set b \<Longrightarrow> a @ c # x = b @ c # y \<longleftrightarrow> a = b \<and> x = y"
proof (induction a arbitrary: b)
  case Nil
  then show ?case by (cases b) auto
next
  case (Cons d a)
  then show ?case by (cases b) auto
qed

lemma TrimSpace_ends:
  "TrimSpace s \<noteq> [] \<Longrightarrow> \<not> is_space (hd (TrimSpace s)) \<and> \<not> is_space (last (TrimSpace s))"
proof -
  assume ne: "TrimSpace s \<noteq> []"
  let ?D = "dropWhile is_space s"
  have last: "\<not> is_space (last (TrimSpace s))"
    using ne by (simp add: TrimSpace_def last_rev hd_dropWhile)
  obtain w where w: "?D = TrimSpace s @ w"
    by (metis TrimSpace_def rev_append rev_rev_ident takeWhile_dropWhile_id)
  with ne have "hd (TrimSpace s) = hd ?D" "?D \<noteq> []" by auto
  then have "\<not> is_space (hd (TrimSpace s))" by (simp add: hd_dropWhile)
  with last show ?thesis by simp
qed

lemma TrimSpace_id: "s = [] \<or> \<not> is_space (hd s) \<and> \<not> is_space (last s) \<Longrightarrow> TrimSpace s = s"
  by (auto simp: TrimSpace_def dropWhile_eq_self_iff [THEN iffD2] hd_rev)

lemma TrimSpace_idem [simp]: "TrimSpace (TrimSpace s) = TrimSpace s"
  by (rule TrimSpace_id) (use TrimSpace_ends in blast)

section \<open>Decimal numbers\<close>

text \<open>\<open>strconv.FormatInt(n, 10)\<close>.\<close>

fun format_nat :: "nat \<Rightarrow> string" where
  "format_nat n =
     (if n < 10 then [char_of (48 + n)]
      else format_nat (n div 10) @ [char_of (48 + n mod 10)])"

declare format_nat.simps [simp del]

definition FormatInt :: "int \<Rightarrow> string" where
  "FormatInt i = (if i < 0 then CHR ''-'' # format_nat (nat (- i)) else format_nat (nat i))"

definition read_dec :: "string \<Rightarrow> nat" where
  "read_dec s = foldl (\<lambda>n c. 10 * n + (of_char c - 48)) 0 s"

lemma read_dec_format_nat [simp]: "read_dec (format_nat n) = n"
proof (induction n rule: format_nat.induct)
  case (1 n)
  then show ?case
    by (subst format_nat.simps) (simp add: read_dec_def)
qed

lemma format_nat_digits: "c \<in> set (format_nat n) \<Longrightarrow> is_digit c"
proof (induction n rule: format_nat.induct)
  case (1 n)
  have "is_digit (char_of (48 + k))" if "k < 10" for k :: nat
    using that by (simp add: is_digit_def less_eq_char_def)
  with 1 show ?case
    by (subst (asm) format_nat.simps) (auto split: if_splits)
qed

lemma FormatInt_chars: "c \<in> set (FormatInt i) \<Longrightarrow> is_digit c \<or> c = CHR ''-''"
  by (auto simp: FormatInt_def dest: format_nat_digits split: if_splits)

lemma format_nat_no_minus: "format_nat n \<noteq> CHR ''-'' # s"
proof
  assume "format_nat n = CHR ''-'' # s"
  then have "is_digit (CHR ''-'')" using format_nat_digits by (metis list.set_intros(1))
  then show False by (simp add: is_digit_def less_eq_char_def)
qed

lemma FormatInt_inject: "FormatInt i = FormatInt j \<longleftrightarrow> i = j"
proof
  assume eq: "FormatInt i = FormatInt j"
  have inj: "m = n" if "format_nat m = format_nat n" for m n
    using that by (metis read_dec_format_nat)
  from eq show "i = j"
    by (auto simp: FormatInt_def format_nat_no_minus format_nat_no_minus [symmetric] dest!: inj
        split: if_splits)
qed simp

section \<open>Maps\<close>

type_synonym ('k, 'v) gomap = "('k \<times> 'v) list"

definition gomap_ok :: "('k, 'v) gomap \<Rightarrow> bool" where
  "gomap_ok m \<longleftrightarrow> distinct (map fst m)"

abbreviation (input) mget :: "('k, 'v) gomap \<Rightarrow> 'k \<Rightarrow> 'v option" where
  "mget m k \<equiv> map_of m k"

abbreviation (input) mset_at :: "'k \<Rightarrow> 'v \<Rightarrow> ('k, 'v) gomap \<Rightarrow> ('k, 'v) gomap" where
  "mset_at \<equiv> AList.update"

abbreviation (input) mdelete :: "'k \<Rightarrow> ('k, 'v) gomap \<Rightarrow> ('k, 'v) gomap" where
  "mdelete \<equiv> AList.delete"

lemma gomap_ok_Nil [simp]: "gomap_ok []"
  by (simp add: gomap_ok_def)

lemma gomap_ok_update [simp]: "gomap_ok m \<Longrightarrow> gomap_ok (AList.update k v m)"
  by (simp add: gomap_ok_def distinct_update)

lemma gomap_ok_delete [simp]: "gomap_ok m \<Longrightarrow> gomap_ok (AList.delete k m)"
  by (simp add: gomap_ok_def distinct_delete)

lemma gomap_ok_filter [simp]: "gomap_ok m \<Longrightarrow> gomap_ok (filter P m)"
  by (simp add: gomap_ok_def distinct_map_filter)

lemma gomap_ok_drop [simp]: "gomap_ok m \<Longrightarrow> gomap_ok (drop n m)"
  by (simp add: gomap_ok_def drop_map [symmetric])

lemma map_of_update [simp, go_map]:
  "map_of (AList.update k v m) k' = (if k' = k then Some v else map_of m k')"
  by (simp add: update_conv')

lemma map_of_delete [simp, go_map]:
  "map_of (AList.delete k m) k' = (if k' = k then None else map_of m k')"
  by (simp add: delete_conv')

lemma map_of_filter_ok [go_map]:
  assumes "gomap_ok m"
  shows "map_of (filter P m) k =
    (case map_of m k of Some v \<Rightarrow> if P (k, v) then Some v else None | None \<Rightarrow> None)"
  using assms
proof (induction m)
  case Nil
  then show ?case by simp
next
  case (Cons kv m)
  obtain k' v' where kv: "kv = (k', v')" by (cases kv)
  from Cons.prems have ok: "gomap_ok m" and fresh: "k' \<notin> fst ` set m"
    by (auto simp: gomap_ok_def kv)
  then have "map_of m k' = None" by (simp add: map_of_eq_None_iff)
  with Cons.IH [OF ok] show ?case
    by (auto simp: kv split: option.splits)
qed

lemma map_of_mem: "gomap_ok m \<Longrightarrow> map_of m k = Some v \<longleftrightarrow> (k, v) \<in> set m"
  by (simp add: gomap_ok_def)

lemma length_update:
  "length (AList.update k v m) = (if k \<in> fst ` set m then length m else Suc (length m))"
  by (induction m) auto

lemma length_delete_le: "length (AList.delete k m) \<le> length m"
  by (induction m) auto

lemma length_delete_ok:
  assumes "gomap_ok m" and "k \<in> fst ` set m"
  shows "Suc (length (AList.delete k m)) = length m"
  using assms
proof (induction m)
  case Nil
  then show ?case by simp
next
  case (Cons kv m)
  obtain k' v' where kv: "kv = (k', v')" by (cases kv)
  from Cons.prems have ok: "gomap_ok m" and fresh: "k' \<notin> fst ` set m"
    by (auto simp: gomap_ok_def kv)
  show ?case
  proof (cases "k = k'")
    case True
    with fresh have "AList.delete k m = m" by (simp add: delete_idem)
    with True show ?thesis by (simp add: kv)
  next
    case False
    with Cons.prems Cons.IH [OF ok] show ?thesis by (auto simp: kv)
  qed
qed

end
