(* ===== verification/Go_Url.thy ===== *)
theory Go_Url
  imports Go_Base
begin

text \<open>
  \<open>url.Parse\<close> of package \<open>net/url\<close> (Go 1.25, the version \<^verbatim>\<open>go.mod\<close> names), with its helpers
  \<open>getScheme\<close>, \<open>parseAuthority\<close>, \<open>parseHost\<close>, \<open>validOptionalPort\<close> and \<open>unescape\<close>. The fields
  kept are those the sources read: scheme, opaque part, whether there is user information,
  host, decoded path, raw query and decoded fragment. An error is \<open>None\<close>: every caller only
  tests whether there was one.
\<close>

record url =
  u_Scheme :: string
  u_Opaque :: string
  u_HasUser :: bool
  u_Host :: string
  u_Path :: string
  u_RawQuery :: string
  u_Fragment :: string

definition empty_url :: url where
  "empty_url = \<lparr>u_Scheme = [], u_Opaque = [], u_HasUser = False, u_Host = [],
                u_Path = [], u_RawQuery = [], u_Fragment = []\<rparr>"

datatype encoding =
    encodePath | encodeHost | encodeZone | encodeUserPassword | encodeFragment

definition is_alnum :: "char \<Rightarrow> bool" where
  "is_alnum c \<longleftrightarrow> is_lower c \<or> is_upper c \<or> is_digit c"

definition unhex :: "char \<Rightarrow> nat" where
  "unhex c =
     (if is_digit c then of_char c - 48
      else if CHR ''a'' \<le> c \<and> c \<le> CHR ''f'' then of_char c - 87
      else if CHR ''A'' \<le> c \<and> c \<le> CHR ''F'' then of_char c - 55
      else 0)"

text \<open>\<open>shouldEscape\<close> for the two modes in which \<open>unescape\<close> consults it.\<close>

definition hostShouldEscape :: "char \<Rightarrow> bool" where
  "hostShouldEscape c \<longleftrightarrow>
     \<not> (is_alnum c \<or> c \<in> set ''!$&'' \<or> c = CHR 0x27 \<or> c \<in> set ''()*+,;=:[]<>'' \<or> c = CHR 0x22
        \<or> c \<in> set ''-_.~'')"

fun unescape :: "encoding \<Rightarrow> string \<Rightarrow> string option" where
  "unescape mode [] = Some []"
| "unescape mode (c # cs) =
     (if c = CHR ''%'' then
        (case cs of
           h # l # rest \<Rightarrow>
             (if \<not> is_hex h \<or> \<not> is_hex l then None
              else
                let v = char_of (16 * unhex h + unhex l) in
                if mode = encodeHost \<and> unhex h < 8 \<and> [h, l] \<noteq> ''25'' then None
                else if mode = encodeZone \<and> [h, l] \<noteq> ''25'' \<and> v \<noteq> CHR '' '' \<and> hostShouldEscape v then None
                else map_option (\<lambda>t. v # t) (unescape mode rest))
         | _ \<Rightarrow> None)
      else if (mode = encodeHost \<or> mode = encodeZone) \<and> c < CHR 0x80 \<and> hostShouldEscape c then None
      else map_option (\<lambda>t. c # t) (unescape mode cs))"

text \<open>\<open>getScheme\<close>; the first argument collects the bytes already read, in reverse.\<close>

fun getScheme_loop :: "string \<Rightarrow> string \<Rightarrow> string \<Rightarrow> (string \<times> string) option" where
  "getScheme_loop seen [] raw = Some ([], raw)"
| "getScheme_loop seen (c # cs) raw =
     (if is_lower c \<or> is_upper c then getScheme_loop (c # seen) cs raw
      else if is_digit c \<or> c \<in> set ''+-.'' then
        (if seen = [] then Some ([], raw) else getScheme_loop (c # seen) cs raw)
      else if c = CHR '':'' then
        (if seen = [] then None else Some (rev seen, cs))
      else Some ([], raw))"

definition getScheme :: "string \<Rightarrow> (string \<times> string) option" where
  "getScheme raw = getScheme_loop [] raw raw"

definition validOptionalPort :: "string \<Rightarrow> bool" where
  "validOptionalPort port = (case port of [] \<Rightarrow> True | c # cs \<Rightarrow> c = CHR '':'' \<and> list_all is_digit cs)"

definition validUserinfo :: "string \<Rightarrow> bool" where
  "validUserinfo s \<longleftrightarrow>
     list_all (\<lambda>c. is_alnum c \<or> c \<in> set ''-._:~!$&()*+,;=%@'' \<or> c = CHR 0x27) s"

definition parseHost :: "string \<Rightarrow> string option" where
  "parseHost host =
     (if HasPrefix host ''['' then
        (case LastIndexByte host (CHR '']'') of
           None \<Rightarrow> None
         | Some i \<Rightarrow>
             if \<not> validOptionalPort (drop (Suc i) host) then None
             else
               (case Index (take i host) ''%25'' of
                  Some z \<Rightarrow>
                    (case (unescape encodeHost (take z host),
                           unescape encodeZone (drop z (take i host)),
                           unescape encodeHost (drop i host)) of
                       (Some h1, Some h2, Some h3) \<Rightarrow> Some (h1 @ h2 @ h3)
                     | _ \<Rightarrow> None)
                | None \<Rightarrow> unescape encodeHost host))
      else
        (case LastIndexByte host (CHR '':'') of
           Some i \<Rightarrow>
             if \<not> validOptionalPort (drop i host) then None else unescape encodeHost host
         | None \<Rightarrow> unescape encodeHost host))"

text \<open>\<open>parseAuthority\<close>: whether user information is present, and the host.\<close>

definition parseAuthority :: "string \<Rightarrow> (bool \<times> string) option" where
  "parseAuthority authority =
     (case LastIndexByte authority (CHR ''@'') of
        None \<Rightarrow> map_option (Pair False) (parseHost authority)
      | Some i \<Rightarrow>
          (case parseHost (drop (Suc i) authority) of
             None \<Rightarrow> None
           | Some host \<Rightarrow>
               let userinfo = take i authority in
               if \<not> validUserinfo userinfo then None
               else
                 (case Cut userinfo '':'' of
                    (name, password, _) \<Rightarrow>
                      if unescape encodeUserPassword name = None
                         \<or> unescape encodeUserPassword password = None
                      then None else Some (True, host))))"

definition count_char :: "char \<Rightarrow> string \<Rightarrow> nat" where
  "count_char c s = length (filter (\<lambda>d. d = c) s)"

definition cut_query :: "string \<Rightarrow> string \<times> string" where
  "cut_query rest =
     (if HasSuffix rest ''?'' \<and> count_char (CHR ''?'') rest = 1 then (butlast rest, [])
      else (case Cut rest ''?'' of (a, b, _) \<Rightarrow> (a, b)))"

definition url_parse_hierarchy :: "string \<Rightarrow> string \<Rightarrow> string \<Rightarrow> url option" where
  "url_parse_hierarchy scheme query rest =
     (let authority_form = (scheme \<noteq> [] \<or> \<not> HasPrefix rest ''///'') \<and> HasPrefix rest ''//'';
          after = drop 2 rest;
          split = (case Index after ''/'' of None \<Rightarrow> (after, []) | Some i \<Rightarrow> (take i after, drop i after))
      in case (if authority_form then parseAuthority (fst split) else Some (False, [])) of
           None \<Rightarrow> None
         | Some (user, host) \<Rightarrow>
             map_option
               (\<lambda>path. empty_url\<lparr>u_Scheme := scheme, u_HasUser := user, u_Host := host,
                                 u_Path := path, u_RawQuery := query\<rparr>)
               (unescape encodePath (if authority_form then snd split else rest)))"

definition url_parse :: "string \<Rightarrow> url option" where
  "url_parse raw =
     (if list_ex is_control raw then None
      else if raw = ''*'' then Some (empty_url\<lparr>u_Path := ''*''\<rparr>)
      else
        (case getScheme raw of
           None \<Rightarrow> None
         | Some (scheme0, rest0) \<Rightarrow>
             (let scheme = ToLower scheme0; (rest, query) = cut_query rest0 in
              if \<not> HasPrefix rest ''/'' \<and> scheme \<noteq> [] then
                Some (empty_url\<lparr>u_Scheme := scheme, u_Opaque := rest, u_RawQuery := query\<rparr>)
              else if \<not> HasPrefix rest ''/'' \<and> Contains (fst (Cut rest ''/'')) '':'' then None
              else url_parse_hierarchy scheme query rest)))"

definition url_Parse :: "string \<Rightarrow> url option" where
  "url_Parse raw =
     (case Cut raw ''#'' of
        (u, frag, _) \<Rightarrow>
          (case url_parse u of
             None \<Rightarrow> None
           | Some p \<Rightarrow>
               if frag = [] then Some p
               else map_option (\<lambda>f. p\<lparr>u_Fragment := f\<rparr>) (unescape encodeFragment frag)))"

end
