(* ===== verification/Go_Float.thy ===== *)
theory Go_Float
  imports Complex_Main Go_Base
begin

text \<open>
  \<open>float64\<close> arithmetic on non-negative numbers, as the sources use it for percentages: a value is
  the rational number it denotes, and each operation rounds its exact result to the nearest
  number with a 53-bit significand, ties to even. The results here stay far from overflow and
  underflow, so the exponent range is not bounded. Also \<open>%.1f\<close> and \<open>%.2f\<close> of package \<open>fmt\<close>, which
  round the exact value to decimals, ties to even.
\<close>

fun bitlen :: "nat \<Rightarrow> nat" where
  "bitlen n = (if n = 0 then 0 else Suc (bitlen (n div 2)))"

declare bitlen.simps [simp del]

definition round_half_even :: "rat \<Rightarrow> int" where
  "round_half_even q =
     (let f = floor q; r = q - of_int f in
      if r < 1 / 2 then f
      else if r > 1 / 2 then f + 1
      else if even f then f else f + 1)"

text \<open>The exponent \<open>e\<close> with \<open>2 ^ 52 \<le> q / 2 ^ e < 2 ^ 53\<close>, from the lengths of the numerator and
  denominator.\<close>

definition float_exponent :: "rat \<Rightarrow> int" where
  "float_exponent q =
     (let (n, d) = quotient_of q;
          k = int (bitlen (nat n)) - int (bitlen (nat d)) in
      if q \<ge> 2 powi k then k - 52 else k - 53)"

definition fl :: "rat \<Rightarrow> rat" where
  "fl q =
     (if q \<le> 0 then 0
      else let e = float_exponent q in of_int (round_half_even (q / 2 powi e)) * 2 powi e)"

definition float64_of_int :: "int \<Rightarrow> rat" where
  "float64_of_int i = fl (of_int i)"

text \<open>\<open>float64(a) / float64(b) * 100\<close>.\<close>

definition float_percentage :: "int \<Rightarrow> int \<Rightarrow> rat" where
  "float_percentage a b = fl (fl (float64_of_int a / float64_of_int b) * 100)"

definition format_fixed :: "nat \<Rightarrow> rat \<Rightarrow> string" where
  "format_fixed digits q =
     (let n = round_half_even (q * 10 ^ digits);
          whole = n div 10 ^ digits;
          frac = format_nat (nat (n mod 10 ^ digits))
      in FormatInt whole @ ''.'' @ replicate (digits - length frac) (CHR ''0'') @ frac)"

section \<open>Rounding\<close>

lemma bitlen_bounds: "0 < n \<Longrightarrow> 2 ^ (bitlen n - 1) \<le> n \<and> n < 2 ^ bitlen n \<and> 0 < bitlen n"
proof (induction n rule: bitlen.induct)
  case (1 n)
  show ?case
  proof (cases "n div 2 = 0")
    case True
    with 1 have "n = 1" by auto
    then show ?thesis by (simp add: bitlen.simps)
  next
    case False
    with 1 have IH: "2 ^ (bitlen (n div 2) - 1) \<le> n div 2" "n div 2 < 2 ^ bitlen (n div 2)" "0 < bitlen (n div 2)"
      by auto
    have b: "bitlen n = Suc (bitlen (n div 2))" using "1.prems" by (subst bitlen.simps) simp
    obtain m where m: "bitlen (n div 2) = Suc m" using IH(3) by (cases "bitlen (n div 2)") auto
    have "2 * 2 ^ m \<le> n" "n < 2 * 2 ^ Suc m" using IH m by auto
    then show ?thesis by (simp add: b m)
  qed
qed

lemma bitlen_powi:
  assumes "0 < n"
  shows "2 powi (int (bitlen n) - 1) \<le> (of_nat n :: rat)" and "(of_nat n :: rat) < 2 powi int (bitlen n)"
proof -
  obtain m where m: "bitlen n = Suc m" using bitlen_bounds [OF assms] by (cases "bitlen n") auto
  have "2 ^ m \<le> n" "n < 2 ^ Suc m" using bitlen_bounds [OF assms] by (auto simp: m)
  then have "of_nat (2 ^ m) \<le> (of_nat n :: rat)" "(of_nat n :: rat) < of_nat (2 ^ Suc m)"
    by (simp_all only: of_nat_le_iff of_nat_less_iff)
  then show "2 powi (int (bitlen n) - 1) \<le> (of_nat n :: rat)" and "(of_nat n :: rat) < 2 powi int (bitlen n)"
    by (simp_all add: m power_int_def nat_add_distrib)
qed

lemma float_exponent_bounds:
  assumes "0 < q"
  shows "2 powi (52 + float_exponent q) \<le> q" and "q < 2 powi (53 + float_exponent q)"
proof -
  obtain n d where nd: "quotient_of q = (n, d)" by (cases "quotient_of q")
  have d: "0 < d" and q: "q = of_int n / of_int d"
    using quotient_of_denom_pos [OF nd] quotient_of_div [OF nd] by simp_all
  with assms have n: "0 < n" by (simp add: zero_less_divide_iff)
  define a b where "a = bitlen (nat n)" and "b = bitlen (nat d)"
  define k where "k = int a - int b"
  have A: "2 ^ (a - 1) \<le> nat n" "nat n < 2 ^ a" "0 < a" using bitlen_bounds [of "nat n"] n by (auto simp: a_def)
  have B: "2 ^ (b - 1) \<le> nat d" "nat d < 2 ^ b" "0 < b" using bitlen_bounds [of "nat d"] d by (auto simp: b_def)
  have A': "2 powi (int a - 1) \<le> (of_int n :: rat)" "(of_int n :: rat) < 2 powi int a"
    using bitlen_powi [of "nat n"] n by (simp_all add: a_def)
  have B': "2 powi (int b - 1) \<le> (of_int d :: rat)" "(of_int d :: rat) < 2 powi int b"
    using bitlen_powi [of "nat d"] d by (simp_all add: b_def)
  have "2 powi (k - 1) * of_int d < 2 powi (k - 1) * (2 powi int b :: rat)" using B' by simp
  also have "\<dots> = 2 powi (k - 1 + int b)" by (subst power_int_add) simp_all
  also have "k - 1 + int b = int a - 1" by (simp add: k_def)
  finally have lo: "2 powi (k - 1) < q" using A' d by (simp add: q pos_less_divide_eq)
  have "int a = k + 1 + (int b - 1)" by (simp add: k_def)
  then have "2 powi int a = 2 powi (k + 1) * (2 powi (int b - 1) :: rat)"
    by (simp only:) (subst power_int_add, simp_all)
  also have "\<dots> \<le> 2 powi (k + 1) * of_int d" using B' by simp
  finally have "of_int n < 2 powi (k + 1) * (of_int d :: rat)" using A'(2) by linarith
  then have hi: "q < 2 powi (k + 1)" using d by (simp add: q pos_divide_less_eq)
  have e: "float_exponent q = (if q \<ge> 2 powi k then k - 52 else k - 53)"
    by (simp add: float_exponent_def nd a_def b_def k_def)
  show "2 powi (52 + float_exponent q) \<le> q" using lo by (simp add: e)
  show "q < 2 powi (53 + float_exponent q)" using hi by (simp add: e add.commute)
qed

text \<open>A number with a significand below \<open>2 ^ 53\<close> is not crossed by rounding.\<close>

lemma round_half_even_le: "q \<le> of_int m \<Longrightarrow> round_half_even q \<le> m"
proof -
  assume q: "q \<le> of_int m"
  show ?thesis
  proof (cases "q = of_int m")
    case True
    then show ?thesis by (simp add: round_half_even_def)
  next
    case False
    with q have "floor q < m" by (simp add: floor_less_iff)
    then show ?thesis by (simp add: round_half_even_def Let_def)
  qed
qed

lemma round_half_even_ge: "of_int m \<le> q \<Longrightarrow> m \<le> round_half_even q"
proof -
  assume "of_int m \<le> q"
  then have "m \<le> floor q" by (simp add: le_floor_iff)
  then show ?thesis by (simp add: round_half_even_def Let_def)
qed

lemma fl_le:
  assumes "0 < q" "q \<le> of_int m * 2 powi E" "m < 2 ^ 53"
  shows "fl q \<le> of_int m * 2 powi E"
proof -
  define e where "e = float_exponent q"
  have lo: "2 powi (52 + e) \<le> q" using float_exponent_bounds(1) [OF assms(1)] by (simp add: e_def)
  have "e \<le> E"
  proof (rule ccontr)
    assume "\<not> e \<le> E"
    then have "(2 :: rat) powi (53 + E) \<le> 2 powi (52 + e)" by (intro power_int_increasing) auto
    moreover have "of_int m * (2 :: rat) powi E < of_int (2 ^ 53) * 2 powi E"
      using assms(3) by (intro mult_strict_right_mono) (simp_all only: of_int_less_iff, simp)
    moreover have "(2 :: rat) powi (53 + E) = of_int (2 ^ 53) * 2 powi E" by (simp add: power_int_add)
    ultimately show False using lo assms(2) by linarith
  qed
  then obtain j where E: "E = e + int j" using zle_iff_zadd by blast
  have p: "(2 :: rat) powi E = 2 ^ j * 2 powi e" by (simp add: E power_int_add)
  have "q / 2 powi e \<le> of_int (m * 2 ^ j)" using assms(2) by (simp add: p pos_divide_le_eq mult_ac)
  then have "round_half_even (q / 2 powi e) \<le> m * 2 ^ j" by (rule round_half_even_le)
  then have "of_int (round_half_even (q / 2 powi e)) * 2 powi e \<le> of_int (m * 2 ^ j) * (2 :: rat) powi e"
    by (intro mult_right_mono) (simp_all only: of_int_le_iff, simp)
  then show ?thesis using assms(1) by (simp add: fl_def p mult_ac flip: e_def)
qed

lemma fl_ge:
  assumes "of_int m * 2 powi E \<le> q" "0 < m" "m < 2 ^ 53"
  shows "of_int m * 2 powi E \<le> fl q"
proof -
  have q: "0 < q" by (rule less_le_trans [OF _ assms(1)]) (simp add: assms(2) zero_less_mult_iff)
  define e where "e = float_exponent q"
  define r where "r = round_half_even (q / 2 powi e)"
  have fl: "fl q = of_int r * 2 powi e" using q by (simp add: fl_def r_def flip: e_def)
  show ?thesis
  proof (cases "e \<le> E")
    case True
    then obtain j where E: "E = e + int j" using zle_iff_zadd by blast
    have p: "(2 :: rat) powi E = 2 ^ j * 2 powi e" by (simp add: E power_int_add)
    have "of_int (m * 2 ^ j) \<le> q / 2 powi e" using assms(1) by (simp add: p pos_le_divide_eq mult_ac)
    then have "m * 2 ^ j \<le> r" unfolding r_def by (rule round_half_even_ge)
    then have "of_int (m * 2 ^ j) * (2 :: rat) powi e \<le> of_int r * 2 powi e"
      by (intro mult_right_mono) (simp_all only: of_int_le_iff, simp)
    then show ?thesis by (simp add: fl p mult_ac)
  next
    case False
    have "2 ^ 52 * 2 powi e \<le> q" using float_exponent_bounds(1) [OF q] by (simp add: e_def power_int_add)
    then have "of_int (2 ^ 52) \<le> q / 2 powi e" by (simp add: pos_le_divide_eq)
    then have "2 ^ 52 \<le> r" unfolding r_def by (rule round_half_even_ge)
    then have "of_int (2 ^ 52) * (2 :: rat) powi e \<le> of_int r * 2 powi e"
      by (intro mult_right_mono) (simp_all only: of_int_le_iff, simp)
    moreover have "of_int (2 ^ 52) * (2 :: rat) powi e = 2 powi (52 + e)" by (simp add: power_int_add)
    moreover have "(2 :: rat) powi (53 + E) \<le> 2 powi (52 + e)" using False by (intro power_int_increasing) auto
    moreover have "(2 :: rat) powi (53 + E) = of_int (2 ^ 53) * 2 powi E" by (simp add: power_int_add)
    moreover have "of_int m * (2 :: rat) powi E \<le> of_int (2 ^ 53) * 2 powi E"
      using assms(3) by (intro mult_right_mono) (simp_all only: of_int_le_iff, simp)
    ultimately show ?thesis by (simp only: fl)
  qed
qed

lemma fl_exact:
  assumes "0 < m" "m < 2 ^ 53"
  shows "fl (of_int m * 2 powi E) = of_int m * 2 powi E"
proof (rule antisym)
  show "fl (of_int m * 2 powi E) \<le> of_int m * 2 powi E"
    using assms by (intro fl_le) (simp_all add: zero_less_mult_iff)
  show "of_int m * 2 powi E \<le> fl (of_int m * 2 powi E)" using assms by (intro fl_ge) simp_all
qed

lemma float64_of_int_exact [simp]: "0 \<le> i \<Longrightarrow> i < 2 ^ 53 \<Longrightarrow> float64_of_int i = of_int i"
  using fl_exact [of i 0] by (cases "i = 0") (simp_all add: float64_of_int_def, simp add: fl_def)

lemma round_half_even_mono:
  assumes "x \<le> y" shows "round_half_even x \<le> round_half_even y"
proof (cases "floor x < floor y")
  case True
  then have "of_int (floor x + 1) \<le> y" by (subst le_floor_iff [symmetric]) simp
  then have "floor x + 1 \<le> round_half_even y" by (rule round_half_even_ge)
  moreover have "round_half_even x \<le> floor x + 1" by (simp add: round_half_even_def Let_def)
  ultimately show ?thesis by simp
next
  case False
  then have "floor x = floor y" using floor_mono [OF assms] by simp
  with assms show ?thesis by (auto simp: round_half_even_def Let_def)
qed

lemma fl_mono:
  assumes "x \<le> y" shows "fl x \<le> fl y"
proof (cases "0 < x")
  case False
  have "0 \<le> fl y"
  proof (cases "0 < y")
    case True
    then show ?thesis using round_half_even_ge [of 0 "y / 2 powi float_exponent y"] by (simp add: fl_def Let_def)
  qed (simp add: fl_def)
  with False show ?thesis by (simp add: fl_def)
next
  case True
  with assms have y: "0 < y" by simp
  define a b where "a = float_exponent x" and "b = float_exponent y"
  note xb = float_exponent_bounds [OF True, folded a_def] and yb = float_exponent_bounds [OF y, folded b_def]
  consider "a = b" | "a < b" | "b < a" by linarith
  then show ?thesis
  proof cases
    case 1
    have "x / 2 powi b \<le> y / 2 powi b" using assms by (intro divide_right_mono) simp_all
    from round_half_even_mono [OF this] 1 show ?thesis using True y
      by (simp add: fl_def a_def [symmetric] b_def [symmetric] mult_right_mono)
  next
    case 2
    have "fl x \<le> of_int 1 * 2 powi (53 + a)" using True xb by (intro fl_le) simp_all
    also have "\<dots> \<le> of_int 1 * 2 powi (52 + b)" using 2 by (simp add: power_int_increasing)
    also have "\<dots> \<le> fl y" using yb by (intro fl_ge) simp_all
    finally show ?thesis .
  next
    case 3
    then have "(2 :: rat) powi (53 + b) \<le> 2 powi (52 + a)" by (intro power_int_increasing) simp_all
    with xb yb assms show ?thesis by linarith
  qed
qed

text \<open>One more matching comparison does not lower the percentage.\<close>

lemma float_percentage_step:
  assumes "0 \<le> m" "m \<le> n" "0 < n" "n < 2 ^ 52"
  shows "float_percentage m n \<le> float_percentage (m + 1) (n + 1)"
proof -
  have "(of_int m :: rat) * (of_int n + 1) \<le> (of_int m + 1) * of_int n"
    using assms by (simp add: algebra_simps)
  then have "(of_int m :: rat) / of_int n \<le> (of_int m + 1) / (of_int n + 1)"
    using assms by (simp add: divide_simps)
  from fl_mono [OF this] have "fl (of_int m / of_int n) * 100 \<le> fl ((of_int m + 1) / (of_int n + 1)) * 100" by simp
  from fl_mono [OF this] assms show ?thesis by (simp add: float_percentage_def)
qed

text \<open>For counts a gate can reach, the computed percentage is exact at the top: it is 100 when all
  comparisons match and below 100 as soon as one does not.\<close>

lemma float_percentage_full: "0 < n \<Longrightarrow> n < 2 ^ 53 \<Longrightarrow> float_percentage n n = 100"
  using fl_exact [of 1 0] fl_exact [of 100 0] by (simp add: float_percentage_def)

lemma float_percentage_zero: "float_percentage 0 n = 0"
  by (simp add: float_percentage_def float64_of_int_def fl_def)

lemma float_percentage_below:
  assumes "0 \<le> m" "m < n" "n \<le> 2 ^ 52"
  shows "float_percentage m n < 100"
proof (cases "m = 0")
  case True
  then show ?thesis by (simp add: float_percentage_zero)
next
  case False
  have ex: "float64_of_int m = of_int m" "float64_of_int n = of_int n" using assms by auto
  have "m \<le> n - 1" using assms by simp
  then have mn: "of_int m \<le> (of_int n - 1 :: rat)" by (subst (asm) of_int_le_iff [where 'a = rat, symmetric]) simp
  have n: "(0 :: rat) < of_int n" using assms by simp
  have n': "of_int n \<le> (of_int (2 ^ 52) :: rat)" using assms by (simp only: of_int_le_iff)
  have "(of_int m :: rat) / of_int n \<le> (of_int n - 1) / of_int n" using mn n by (simp add: divide_right_mono)
  also have "\<dots> = 1 - 1 / of_int n" using n by (simp add: diff_divide_distrib)
  also have "\<dots> \<le> 1 - 1 / of_int (2 ^ 52)" using n n' by (intro diff_mono frac_le) simp_all
  also have "\<dots> = of_int (2 ^ 52 - 1) * 2 powi (- 52)" by (simp add: power_int_minus)
  finally have "of_int m / of_int n \<le> of_int (2 ^ 52 - 1) * (2 :: rat) powi (- 52)" .
  then have "fl (of_int m / of_int n) \<le> of_int (2 ^ 52 - 1) * 2 powi (- 52)"
    using False assms n by (intro fl_le) simp_all
  then have le: "fl (of_int m / of_int n) * 100 \<le> of_int (100 * 2 ^ 46 - 1) * 2 powi (- 46)"
    by (simp add: power_int_minus)
  show ?thesis
  proof (cases "0 < fl (of_int m / of_int n) * 100")
    case True
    then have "fl (fl (of_int m / of_int n) * 100) \<le> of_int (100 * 2 ^ 46 - 1) * 2 powi (- 46)"
      using le by (intro fl_le) simp_all
    also have "\<dots> < 100" by (simp add: power_int_minus)
    finally show ?thesis by (simp add: float_percentage_def ex)
  next
    case False
    then show ?thesis by (simp add: float_percentage_def ex fl_def)
  qed
qed

end
