(* ===== verification/Go_Text.thy ===== *)
theory Go_Text
  imports Go_Sha256
begin

text \<open>
  Text utilities of the standard library: \<open>strconv.Quote\<close> (on ASCII), the width of a UTF-8
  encoded rune as \<open>utf8.DecodeRuneInString\<close> gives it, and the part of package \<open>regexp\<close> the
  sources use: \<open>QuoteMeta\<close>, and the compilation and matching of anchored sequences of literal
  ASCII bytes, \<open>.\<close> and \<open>.*\<close>. A pattern outside this part does not compile here; the lemmas at the
  end show that the text built from a glob always lies inside it and matches as the glob does.
\<close>

definition quote_char :: "char \<Rightarrow> string" where
  "quote_char c =
     (let n = of_char c :: nat in
      if c = CHR 0x22 then [CHR 0x5C, CHR 0x22]
      else if c = CHR 0x5C then [CHR 0x5C, CHR 0x5C]
      else if n = 7 then [CHR 0x5C, CHR ''a'']
      else if n = 8 then [CHR 0x5C, CHR ''b'']
      else if n = 12 then [CHR 0x5C, CHR ''f'']
      else if n = 10 then [CHR 0x5C, CHR ''n'']
      else if n = 13 then [CHR 0x5C, CHR ''r'']
      else if n = 9 then [CHR 0x5C, CHR ''t'']
      else if n = 11 then [CHR 0x5C, CHR ''v'']
      else if n < 32 \<or> n = 127 then [CHR 0x5C, CHR ''x''] @ hex_byte n
      else [c])"

definition Quote :: "string \<Rightarrow> string" where
  "Quote s = CHR 0x22 # concat (map quote_char s) @ [CHR 0x22]"

section \<open>Runes\<close>

definition byte_at :: "string \<Rightarrow> nat \<Rightarrow> nat" where
  "byte_at s i = (if i < length s then of_char (s ! i) else 0)"

definition continuation :: "string \<Rightarrow> nat \<Rightarrow> bool" where
  "continuation s i \<longleftrightarrow> 128 \<le> byte_at s i \<and> byte_at s i < 192"

text \<open>The number of bytes of the first rune; an ill-formed start byte is a rune of one byte.\<close>

definition rune_width :: "string \<Rightarrow> nat" where
  "rune_width s =
     (let b0 = byte_at s 0; b1 = byte_at s 1 in
      if 194 \<le> b0 \<and> b0 \<le> 223 \<and> continuation s 1 then 2
      else if 224 \<le> b0 \<and> b0 \<le> 239 \<and> continuation s 1 \<and> continuation s 2
        \<and> (b0 = 224 \<longrightarrow> 160 \<le> b1) \<and> (b0 = 237 \<longrightarrow> b1 \<le> 159) then 3
      else if 240 \<le> b0 \<and> b0 \<le> 244 \<and> continuation s 1 \<and> continuation s 2 \<and> continuation s 3
        \<and> (b0 = 240 \<longrightarrow> 144 \<le> b1) \<and> (b0 = 244 \<longrightarrow> b1 \<le> 143) then 4
      else 1)"

lemma rune_width_pos [simp]: "0 < rune_width s"
  by (simp add: rune_width_def Let_def)

lemma drop_rune_less [simp]: "s \<noteq> [] \<Longrightarrow> length s - rune_width s < length s"
  by simp

declare conj_cong [fundef_cong]

definition newline :: char where
  "newline = CHR 0x0A"

section \<open>Regular expressions\<close>

definition meta_chars :: string where
  "meta_chars = CHR 0x5C # ''.+*?()|[]{}^$''"

definition QuoteMeta :: "string \<Rightarrow> string" where
  "QuoteMeta s = concat (map (\<lambda>c. if c \<in> set meta_chars then [CHR 0x5C, c] else [c]) s)"

text \<open>An element of a compiled expression; \<open>.\<close> matches any rune but a newline.\<close>

datatype re_item = ReLit char | ReDot | ReDotStar | ReBegin | ReEnd

fun re_Compile :: "string \<Rightarrow> re_item list option" where
  "re_Compile [] = Some []"
| "re_Compile (c # s) =
     (if c = CHR 0x5C then
        (case s of
           [] \<Rightarrow> None
         | d # s' \<Rightarrow> if d \<in> set meta_chars then map_option (Cons (ReLit d)) (re_Compile s') else None)
      else if c = CHR ''.'' then
        (case s of
           [] \<Rightarrow> Some [ReDot]
         | d # s' \<Rightarrow> if d = CHR ''*'' then map_option (Cons ReDotStar) (re_Compile s')
                    else map_option (Cons ReDot) (re_Compile s))
      else if c = CHR ''^'' then map_option (Cons ReBegin) (re_Compile s)
      else if c = CHR ''$'' then map_option (Cons ReEnd) (re_Compile s)
      else if c \<in> set meta_chars \<or> 128 \<le> (of_char c :: nat) then None
      else map_option (Cons (ReLit c)) (re_Compile s))"

text \<open>Whether the elements match at the current position; \<open>start\<close> says that it is the beginning
  of the text, and the match may end anywhere.\<close>

function re_here :: "re_item list \<Rightarrow> bool \<Rightarrow> string \<Rightarrow> bool" where
  "re_here [] start s = True"
| "re_here (ReLit c # r) start s = (s \<noteq> [] \<and> hd s = c \<and> re_here r False (tl s))"
| "re_here (ReDot # r) start s =
     (s \<noteq> [] \<and> hd s \<noteq> newline \<and> re_here r False (drop (rune_width s) s))"
| "re_here (ReDotStar # r) start s =
     (re_here r start s
      \<or> s \<noteq> [] \<and> hd s \<noteq> newline \<and> re_here (ReDotStar # r) False (drop (rune_width s) s))"
| "re_here (ReBegin # r) start s = (start \<and> re_here r start s)"
| "re_here (ReEnd # r) start s = (s = [] \<and> re_here r start s)"
  by pat_completeness auto
termination
  by (relation "measures [\<lambda>(r, b, s). length s, \<lambda>(r, b, s). length r]") auto

function re_search :: "re_item list \<Rightarrow> bool \<Rightarrow> string \<Rightarrow> bool" where
  "re_search r start s =
     (re_here r start s \<or> s \<noteq> [] \<and> re_search r False (drop (rune_width s) s))"
  by pat_completeness auto
termination
  by (relation "measure (\<lambda>(r, b, s). length s)") auto

declare re_search.simps [simp del]

definition re_MatchString :: "re_item list \<Rightarrow> string \<Rightarrow> bool" where
  "re_MatchString r s = re_search r True s"

section \<open>Globs\<close>

text \<open>The reference semantics of a glob: \<open>*\<close> stands for any runes and \<open>?\<close> for any one rune, none
  of them a newline; every other byte stands for itself.\<close>

function glob_match :: "string \<Rightarrow> string \<Rightarrow> bool" where
  "glob_match [] s = (s = [])"
| "glob_match (c # p) s =
     (if c = CHR ''*'' then
        glob_match p s \<or> s \<noteq> [] \<and> hd s \<noteq> newline \<and> glob_match (c # p) (drop (rune_width s) s)
      else if c = CHR ''?'' then s \<noteq> [] \<and> hd s \<noteq> newline \<and> glob_match p (drop (rune_width s) s)
      else s \<noteq> [] \<and> hd s = c \<and> glob_match p (tl s))"
  by pat_completeness auto
termination
  by (relation "measures [\<lambda>(p, s). length s, \<lambda>(p, s). length p]") auto

declare conj_cong [fundef_cong del]
declare re_here.simps(4) [simp del] and glob_match.simps(2) [simp del]

lemma glob_match_one [simp]:
  "glob_match (CHR ''?'' # p) s \<longleftrightarrow> s \<noteq> [] \<and> hd s \<noteq> newline \<and> glob_match p (drop (rune_width s) s)"
  by (simp add: glob_match.simps(2) [of "CHR ''?''"])

lemma glob_match_literal [simp]:
  "c \<noteq> CHR ''*'' \<Longrightarrow> c \<noteq> CHR ''?'' \<Longrightarrow> glob_match (c # p) s \<longleftrightarrow> s \<noteq> [] \<and> hd s = c \<and> glob_match p (tl s)"
  by (simp add: glob_match.simps(2) [of c])

definition glob_item :: "char \<Rightarrow> re_item" where
  "glob_item c = (if c = CHR ''*'' then ReDotStar else if c = CHR ''?'' then ReDot else ReLit c)"

definition glob_regex :: "string \<Rightarrow> string" where
  "glob_regex p = concat (map (\<lambda>c.
     if c = CHR ''*'' then ''.*'' else if c = CHR ''?'' then ''.''
     else if c \<in> set meta_chars then [CHR 0x5C, c] else [c]) p)"

text \<open>The two replacements on the quoted pattern turn exactly the wildcards into \<open>.*\<close> and \<open>.\<close>.\<close>

lemma ReplaceAll_Nil [simp]: "ReplaceAll [] old new = []"
  by (simp add: ReplaceAll.simps)

lemma ReplaceAll_hit: "old \<noteq> [] \<Longrightarrow> ReplaceAll (old @ s) old new = new @ ReplaceAll s old new"
  by (subst ReplaceAll.simps) auto

lemma ReplaceAll_miss: "c \<noteq> hd old \<Longrightarrow> old \<noteq> [] \<Longrightarrow> ReplaceAll (c # s) old new = c # ReplaceAll s old new"
  by (subst ReplaceAll.simps) (cases old, auto)

lemma ReplaceAll_miss2:
  "d \<noteq> y \<Longrightarrow> d \<noteq> x \<Longrightarrow> ReplaceAll (x # d # s) [x, y] new = x # d # ReplaceAll s [x, y] new"
  by (subst ReplaceAll.simps) (simp add: ReplaceAll_miss)

lemma glob_regex_replace:
  "CHR 0x5C \<notin> set p \<Longrightarrow>
   ReplaceAll (ReplaceAll (QuoteMeta p) [CHR 0x5C, CHR ''*''] ''.*'') [CHR 0x5C, CHR ''?''] ''.'' = glob_regex p"
proof -
  assume nb: "CHR 0x5C \<notin> set p"
  define step1 where "step1 = (\<lambda>c. if c = CHR ''*'' then ''.*'' else if c \<in> set meta_chars then [CHR 0x5C, c] else [c])"
  have "ReplaceAll (QuoteMeta p) [CHR 0x5C, CHR ''*''] ''.*'' = concat (map step1 p)"
    using nb
  proof (induction p)
    case (Cons c p)
    then show ?case
      using ReplaceAll_hit [of "[CHR 0x5C, CHR ''*'']" "QuoteMeta p" "''.*''"]
      by (auto simp: QuoteMeta_def step1_def meta_chars_def ReplaceAll_miss ReplaceAll_miss2)
  qed (simp add: QuoteMeta_def)
  moreover have "ReplaceAll (concat (map step1 p)) [CHR 0x5C, CHR ''?''] ''.'' = glob_regex p"
    using nb
  proof (induction p)
    case (Cons c p)
    then show ?case
      using ReplaceAll_hit [of "[CHR 0x5C, CHR ''?'']" "concat (map step1 p)" "''.''"]
      by (auto simp: glob_regex_def step1_def meta_chars_def ReplaceAll_miss ReplaceAll_miss2)
  qed (simp add: glob_regex_def)
  ultimately show ?thesis by simp
qed

lemma glob_regex_not_star: "glob_regex p @ ''$'' \<noteq> CHR ''*'' # s"
  by (cases p) (auto simp: glob_regex_def meta_chars_def)

lemma re_Compile_dot:
  "hd s \<noteq> CHR ''*'' \<Longrightarrow> s \<noteq> [] \<Longrightarrow> re_Compile (CHR ''.'' # s) = map_option (Cons ReDot) (re_Compile s)"
  by (cases s) auto

lemma re_Compile_glob:
  "\<forall>c\<in>set p. (of_char c :: nat) < 128 \<Longrightarrow>
   re_Compile (glob_regex p @ ''$'') = Some (map glob_item p @ [ReEnd])"
proof (induction p)
  case (Cons c p)
  have hd: "hd (glob_regex p @ ''$'') \<noteq> CHR ''*''"
    using glob_regex_not_star [of p] by (metis list.collapse append_is_Nil_conv not_Cons_self2)
  have step: "glob_regex (c # p) = (if c = CHR ''*'' then ''.*'' else if c = CHR ''?'' then ''.''
     else if c \<in> set meta_chars then [CHR 0x5C, c] else [c]) @ glob_regex p"
    by (simp add: glob_regex_def)
  consider (star) "c = CHR ''*''" | (dot) "c = CHR ''?''"
    | (meta) "c \<noteq> CHR ''*''" "c \<noteq> CHR ''?''" "c \<in> set meta_chars" | (lit) "c \<notin> set meta_chars"
    by blast
  then show ?case
  proof cases
    case dot
    with Cons hd show ?thesis unfolding step by (simp add: re_Compile_dot glob_item_def del: re_Compile.simps)
  next
    case lit
    then have "c \<noteq> CHR ''*''" "c \<noteq> CHR ''?''" "c \<noteq> CHR ''.''" "c \<noteq> CHR 0x5C" "c \<noteq> CHR ''^''" "c \<noteq> CHR ''$''"
      by (auto simp: meta_chars_def)
    with lit Cons show ?thesis unfolding step by (simp add: glob_item_def)
  next
    case star
    with Cons show ?thesis unfolding step by (simp add: glob_item_def)
  next
    case meta
    then have "re_Compile (CHR 0x5C # c # t) = map_option (Cons (ReLit c)) (re_Compile t)" for t by simp
    with meta Cons show ?thesis unfolding step by (simp add: glob_item_def del: re_Compile.simps)
  qed
qed (simp add: glob_regex_def)

lemma re_here_glob: "re_here (map glob_item p @ [ReEnd]) start s \<longleftrightarrow> glob_match p s"
proof (induction p s arbitrary: start rule: glob_match.induct)
  case (2 c p s)
  let ?r = "map glob_item p @ [ReEnd]" and ?t = "drop (rune_width s) s"
  consider (star) "c = CHR ''*''" | (dot) "c \<noteq> CHR ''*''" "c = CHR ''?''" | (lit) "c \<noteq> CHR ''*''" "c \<noteq> CHR ''?''"
    by blast
  then show ?case
  proof cases
    case star
    have eq: "map glob_item (c # p) @ [ReEnd] = ReDotStar # ?r" using star by (simp add: glob_item_def)
    have "re_here (ReDotStar # ?r) start s
      \<longleftrightarrow> re_here ?r start s \<or> s \<noteq> [] \<and> hd s \<noteq> newline \<and> re_here (ReDotStar # ?r) False ?t"
      by (rule re_here.simps)
    moreover have "re_here ?r start s \<longleftrightarrow> glob_match p s" using "2.IH"(1) star by blast
    moreover have "s \<noteq> [] \<Longrightarrow> hd s \<noteq> newline \<Longrightarrow> re_here (ReDotStar # ?r) False ?t \<longleftrightarrow> glob_match (c # p) ?t"
      using "2.IH"(2) star unfolding eq by blast
    ultimately have "re_here (ReDotStar # ?r) start s
      \<longleftrightarrow> glob_match p s \<or> s \<noteq> [] \<and> hd s \<noteq> newline \<and> glob_match (c # p) ?t" by blast
    moreover have "glob_match (c # p) s
      \<longleftrightarrow> glob_match p s \<or> s \<noteq> [] \<and> hd s \<noteq> newline \<and> glob_match (c # p) ?t"
      using glob_match.simps(2) [of c p s] by (simp only: star simp_thms if_True)
    ultimately show ?thesis unfolding eq by blast
  next
    case dot
    with "2.IH"(3) [OF dot] show ?thesis by (auto simp: glob_item_def)
  next
    case lit
    with "2.IH"(4) [OF lit] show ?thesis by (auto simp: glob_item_def)
  qed
qed simp

text \<open>An expression that begins with \<open>^\<close> is matched at the beginning of the text only.\<close>

lemma re_search_anchored: "\<not> re_search (ReBegin # r) False s"
proof (induction s rule: length_induct)
  case (1 s)
  then have "s \<noteq> [] \<Longrightarrow> \<not> re_search (ReBegin # r) False (drop (rune_width s) s)"
    using rune_width_pos [of s] by simp
  then show ?case by (subst re_search.simps) auto
qed

lemma re_MatchString_anchored: "re_MatchString (ReBegin # r) s \<longleftrightarrow> re_here r True s"
  by (simp add: re_MatchString_def re_search.simps [of _ True] re_search_anchored)

end
