(* ===== verification/Authz_Core.thy ===== *)
theory Authz_Core
  imports Go_Url Go_Sha256 "HOL-Library.Product_Lexorder" "HOL-Library.Multiset"
begin

text \<open>
  The data and the pure core of package \<open>internal/authz\<close>: the request and decision types
  (\<open>types.go\<close>), their validation (\<open>validation.go\<close>), the audit hashes (\<open>audit.go\<close>), the access
  modes of a method (\<open>builder.go\<close>), the normalisation of resource metadata
  (\<open>policy_input.go\<close>) and the shadow evaluator (\<open>evaluator.go\<close>).

  Go's string-typed enumerations (\<open>AccessMode\<close>, \<open>DecisionValue\<close>, \<open>ReasonCode\<close>) stay strings:
  a decoded request may hold any string there, and the validators exist to reject those.
\<close>

section \<open>Types\<close>

type_synonym AccessMode = string
type_synonym DecisionValue = string
type_synonym ReasonCode = string

definition SchemaVersion :: string where "SchemaVersion = ''authz.v1''"

definition AccessModeRead :: AccessMode where "AccessModeRead = ''read''"
definition AccessModeAppend :: AccessMode where "AccessModeAppend = ''append''"
definition AccessModeWrite :: AccessMode where "AccessModeWrite = ''write''"
definition AccessModeControl :: AccessMode where "AccessModeControl = ''control''"

lemmas AccessMode_defs =
  AccessModeRead_def AccessModeAppend_def AccessModeWrite_def AccessModeControl_def

definition DecisionAllow :: DecisionValue where "DecisionAllow = ''allow''"
definition DecisionDeny :: DecisionValue where "DecisionDeny = ''deny''"
definition DecisionAbstain :: DecisionValue where "DecisionAbstain = ''abstain''"

lemmas DecisionValue_defs = DecisionAllow_def DecisionDeny_def DecisionAbstain_def

lemma DecisionValue_distinct [simp]:
  "DecisionAllow \<noteq> DecisionDeny" "DecisionDeny \<noteq> DecisionAllow"
  "DecisionAllow \<noteq> DecisionAbstain" "DecisionAbstain \<noteq> DecisionAllow"
  "DecisionDeny \<noteq> DecisionAbstain" "DecisionAbstain \<noteq> DecisionDeny"
  by (simp_all add: DecisionValue_defs)

definition ReasonKernelAbstainShadowMode :: ReasonCode where
  "ReasonKernelAbstainShadowMode = ''kernel_abstain_shadow_mode''"
definition ReasonInvalidRequest :: ReasonCode where "ReasonInvalidRequest = ''invalid_request''"
definition ReasonUnsupportedSchema :: ReasonCode where
  "ReasonUnsupportedSchema = ''unsupported_schema_version''"
definition ReasonMissingRequestedModes :: ReasonCode where
  "ReasonMissingRequestedModes = ''missing_requested_modes''"
definition ReasonUnsafeResourceURI :: ReasonCode where
  "ReasonUnsafeResourceURI = ''unsafe_resource_uri''"
definition ReasonPolicyNotLoaded :: ReasonCode where "ReasonPolicyNotLoaded = ''policy_not_loaded''"
definition ReasonPolicyAllow :: ReasonCode where "ReasonPolicyAllow = ''policy_allow''"
definition ReasonPolicyDeny :: ReasonCode where "ReasonPolicyDeny = ''policy_deny''"
definition ReasonKernelError :: ReasonCode where "ReasonKernelError = ''kernel_error''"
definition ReasonCachedDecision :: ReasonCode where "ReasonCachedDecision = ''cached_decision''"

lemmas ReasonCode_defs =
  ReasonKernelAbstainShadowMode_def ReasonInvalidRequest_def ReasonUnsupportedSchema_def
  ReasonMissingRequestedModes_def ReasonUnsafeResourceURI_def ReasonPolicyNotLoaded_def
  ReasonPolicyAllow_def ReasonPolicyDeny_def ReasonKernelError_def ReasonCachedDecision_def

record PolicyDocument =
  pd_URI :: string
  pd_SHA256 :: string
  pd_ContentType :: string
  pd_Content :: string

record Request =
  rq_SchemaVersion :: string
  rq_RequestID :: string
  rq_Method :: string
  rq_ResourceURI :: string
  rq_AgentWebID :: string
  rq_ClientID :: string
  rq_Issuer :: string
  rq_Origin :: string
  rq_RequestedModes :: "AccessMode list"
  rq_ResourceVersion :: string
  rq_PolicyVersion :: string
  rq_ParserVersion :: string
  rq_EvaluatorVersion :: string
  rq_ResourceMetadata :: "(string, string) gomap"
  rq_PolicyDocuments :: "PolicyDocument list"
  rq_NowUnix :: int

record AuditFields =
  au_RequestHash :: string
  au_PolicyHash :: string

record Decision =
  dc_SchemaVersion :: string
  dc_RequestID :: string
  dc_Decision :: DecisionValue
  dc_ReasonCode :: ReasonCode
  dc_StatusHint :: int
  dc_CacheTTLSeconds :: int
  dc_PolicyVersion :: string
  dc_ResourceVersion :: string
  dc_Audit :: AuditFields
  dc_TraceID :: string
  dc_AuthorityMode :: string
  dc_EnforcementMode :: string
  dc_StrictMode :: bool
  dc_FallbackToCSS :: bool

text \<open>The Go zero value \<open>Decision{}\<close>.\<close>

definition zero_Decision :: Decision where
  "zero_Decision =
     \<lparr>dc_SchemaVersion = [], dc_RequestID = [], dc_Decision = [], dc_ReasonCode = [],
      dc_StatusHint = 0, dc_CacheTTLSeconds = 0, dc_PolicyVersion = [], dc_ResourceVersion = [],
      dc_Audit = \<lparr>au_RequestHash = [], au_PolicyHash = []\<rparr>, dc_TraceID = [],
      dc_AuthorityMode = [], dc_EnforcementMode = [], dc_StrictMode = False,
      dc_FallbackToCSS = False\<rparr>"

text \<open>\<open>ModesMatch\<close>: the set built from the granted modes is searched for each requested one.\<close>

fun ModesMatch_loop :: "AccessMode set \<Rightarrow> AccessMode list \<Rightarrow> bool" where
  "ModesMatch_loop grantedSet [] = True"
| "ModesMatch_loop grantedSet (m # ms) =
     (if m \<notin> grantedSet then False else ModesMatch_loop grantedSet ms)"

definition ModesMatch :: "AccessMode list \<Rightarrow> AccessMode list \<Rightarrow> bool" where
  "ModesMatch granted requested =
     (if length requested = 0 then True
      else ModesMatch_loop (foldl (\<lambda>grantedSet m. insert m grantedSet) {} granted) requested)"

section \<open>Methods\<close>

definition modesForMethod :: "string \<Rightarrow> AccessMode list result" where
  "modesForMethod method =
     (if method = ''GET'' \<or> method = ''HEAD'' \<or> method = ''OPTIONS'' then Inr [AccessModeRead]
      else if method = ''POST'' then Inr [AccessModeAppend]
      else if method = ''PUT'' \<or> method = ''PATCH'' then Inr [AccessModeWrite]
      else if method = ''DELETE'' then Inr [AccessModeWrite]
      else Inl (ErrorsNew ''unsupported authz method''))"

definition supportedMethod :: "string \<Rightarrow> bool" where
  "supportedMethod method = (case modesForMethod method of Inl _ \<Rightarrow> False | Inr _ \<Rightarrow> True)"

definition TrimRightByte :: "string \<Rightarrow> char \<Rightarrow> string" where
  "TrimRightByte s c = rev (dropWhile (\<lambda>d. d = c) (rev s))"

definition joinBaseAndRequestPath :: "string \<Rightarrow> string \<Rightarrow> string" where
  "joinBaseAndRequestPath basePath0 requestPath =
     (let basePath = TrimRightByte basePath0 (CHR ''/'') in
      if basePath = [] then (if requestPath = [] then ''/'' else requestPath)
      else if requestPath = [] \<or> requestPath = ''/'' then basePath
      else basePath @ ''/'' @ dropWhile (\<lambda>d. d = CHR ''/'') requestPath)"

section \<open>Validation\<close>

definition ErrInvalidRequest :: goerror where
  "ErrInvalidRequest = ErrorsNew ''invalid authz request''"

definition ErrInvalidDecision :: goerror where
  "ErrInvalidDecision = ErrorsNew ''invalid authz decision''"

definition validToken :: "string \<Rightarrow> nat \<Rightarrow> bool" where
  "validToken value maxLen =
     (if value = [] \<or> length value > maxLen then False
      else list_all (\<lambda>r. \<not> (r < CHR 0x21 \<or> r > CHR 0x7E)) value)"

definition validAccessMode :: "AccessMode \<Rightarrow> bool" where
  "validAccessMode mode \<longleftrightarrow>
     mode = AccessModeRead \<or> mode = AccessModeAppend \<or> mode = AccessModeWrite
     \<or> mode = AccessModeControl"

definition validDecisionValue :: "DecisionValue \<Rightarrow> bool" where
  "validDecisionValue value \<longleftrightarrow>
     value = DecisionAllow \<or> value = DecisionDeny \<or> value = DecisionAbstain"

definition validReasonCode :: "ReasonCode \<Rightarrow> bool" where
  "validReasonCode value \<longleftrightarrow>
     value = ReasonKernelAbstainShadowMode \<or> value = ReasonInvalidRequest
     \<or> value = ReasonUnsupportedSchema \<or> value = ReasonMissingRequestedModes
     \<or> value = ReasonUnsafeResourceURI \<or> value = ReasonPolicyNotLoaded
     \<or> value = ReasonPolicyAllow \<or> value = ReasonPolicyDeny \<or> value = ReasonKernelError"

definition validSHA256Hex :: "string \<Rightarrow> bool" where
  "validSHA256Hex value = (if length value \<noteq> 64 then False else list_all is_hex value)"

definition validResourceURI :: "string \<Rightarrow> bool" where
  "validResourceURI value =
     (if value = [] \<or> length value > 4096 then False
      else if ContainsAny value [CHR 0x5C, CHR ''#''] then False
      else if list_ex is_control value then False
      else
        (case url_Parse value of
           None \<Rightarrow> False
         | Some parsed \<Rightarrow>
             (u_Scheme parsed = ''http'' \<or> u_Scheme parsed = ''https'') \<and> u_Host parsed \<noteq> []))"

definition validatePolicyDocument :: "PolicyDocument \<Rightarrow> goerr" where
  "validatePolicyDocument d =
     (if \<not> validResourceURI (pd_URI d) then
        Some (wrapf ErrInvalidRequest ''invalid policy document uri'')
      else if \<not> validSHA256Hex (pd_SHA256 d) then
        Some (wrapf ErrInvalidRequest ''invalid policy document hash'')
      else if TrimSpace (pd_ContentType d) = [] then
        Some (wrapf ErrInvalidRequest ''policy document content type is required'')
      else None)"

fun validate_requested_modes :: "AccessMode set \<Rightarrow> AccessMode list \<Rightarrow> goerr" where
  "validate_requested_modes seenModes [] = None"
| "validate_requested_modes seenModes (mode # modes) =
     (if \<not> validAccessMode mode then Some (wrapf ErrInvalidRequest ''invalid requested mode'')
      else if mode \<in> seenModes then Some (wrapf ErrInvalidRequest ''duplicate requested mode'')
      else validate_requested_modes (insert mode seenModes) modes)"

fun validate_policy_documents :: "PolicyDocument list \<Rightarrow> goerr" where
  "validate_policy_documents [] = None"
| "validate_policy_documents (d # ds) =
     (case validatePolicyDocument d of
        Some err \<Rightarrow> Some err
      | None \<Rightarrow> validate_policy_documents ds)"

definition ValidateRequest :: "Request \<Rightarrow> goerr" where
  "ValidateRequest request =
     (if rq_SchemaVersion request \<noteq> SchemaVersion then
        Some (wrapf ErrInvalidRequest ''unsupported schema version'')
      else if \<not> validToken (rq_RequestID request) 128 then
        Some (wrapf ErrInvalidRequest ''invalid request id'')
      else if \<not> supportedMethod (rq_Method request) then
        Some (wrapf ErrInvalidRequest ''unsupported method'')
      else if \<not> validResourceURI (rq_ResourceURI request) then
        Some (wrapf ErrInvalidRequest ''invalid resource uri'')
      else if length (rq_RequestedModes request) = 0 then
        Some (wrapf ErrInvalidRequest ''requested modes are required'')
      else
        (case validate_requested_modes {} (rq_RequestedModes request) of
           Some err \<Rightarrow> Some err
         | None \<Rightarrow>
             if rq_NowUnix request < 0 then
               Some (wrapf ErrInvalidRequest ''now_unix must be non-negative'')
             else validate_policy_documents (rq_PolicyDocuments request)))"

definition ValidateDecision :: "Decision \<Rightarrow> goerr" where
  "ValidateDecision decision =
     (if dc_SchemaVersion decision \<noteq> SchemaVersion then
        Some (wrapf ErrInvalidDecision ''unsupported schema version'')
      else if \<not> validToken (dc_RequestID decision) 128 then
        Some (wrapf ErrInvalidDecision ''invalid request id'')
      else if \<not> validDecisionValue (dc_Decision decision) then
        Some (wrapf ErrInvalidDecision ''invalid decision'')
      else if \<not> validReasonCode (dc_ReasonCode decision) then
        Some (wrapf ErrInvalidDecision ''invalid reason code'')
      else if dc_StatusHint decision \<noteq> 0
              \<and> (dc_StatusHint decision < 100 \<or> dc_StatusHint decision > 599) then
        Some (wrapf ErrInvalidDecision ''invalid status hint'')
      else if dc_CacheTTLSeconds decision < 0 \<or> dc_CacheTTLSeconds decision > 300 then
        Some (wrapf ErrInvalidDecision ''invalid cache ttl'')
      else if \<not> validSHA256Hex (au_RequestHash (dc_Audit decision)) then
        Some (wrapf ErrInvalidDecision ''invalid request hash'')
      else if \<not> validSHA256Hex (au_PolicyHash (dc_Audit decision)) then
        Some (wrapf ErrInvalidDecision ''invalid policy hash'')
      else None)"

section \<open>Audit hashes\<close>

definition sha256Hex :: "string \<Rightarrow> string" where
  "sha256Hex value = hex_EncodeToString (Sum256 value)"

definition pushField :: "string \<Rightarrow> string \<Rightarrow> string \<Rightarrow> string" where
  "pushField output name value = output @ name @ [CHR 0x1F] @ value @ [CHR 0x1E]"

definition pushOptionalField :: "string \<Rightarrow> string \<Rightarrow> string \<Rightarrow> string" where
  "pushOptionalField output name value =
     (if value \<noteq> [] then pushField output name value else output)"

definition accessModeRank :: "AccessMode \<Rightarrow> int" where
  "accessModeRank mode =
     (if mode = AccessModeRead then 0
      else if mode = AccessModeAppend then 1
      else if mode = AccessModeWrite then 2
      else if mode = AccessModeControl then 3
      else 99)"

text \<open>
  \<open>sort.Slice\<close> is a sort by a key; among elements of the same key Go promises no order, and the
  model keeps theirs, as Go's insertion sort for short slices does.
\<close>

definition pushModes :: "string \<Rightarrow> AccessMode list \<Rightarrow> string" where
  "pushModes output modes =
     foldl (\<lambda>out mode. pushField out ''requested_mode'' mode) output (sort_key accessModeRank modes)"

text \<open>Metadata keys come from the map itself, so the lookup of a key never misses.\<close>

definition pushMetadata :: "string \<Rightarrow> (string, string) gomap \<Rightarrow> string" where
  "pushMetadata output metadata =
     foldl (\<lambda>out key.
              pushField (pushField out ''resource_metadata_key'' key) ''resource_metadata_value''
                (case mget metadata key of Some v \<Rightarrow> v | None \<Rightarrow> []))
       output (sort (map fst metadata))"

definition canonicalRequest :: "Request \<Rightarrow> string" where
  "canonicalRequest request =
     (let out = pushField [] ''schema_version'' (rq_SchemaVersion request);
          out = pushField out ''request_id'' (rq_RequestID request);
          out = pushField out ''method'' (rq_Method request);
          out = pushField out ''resource_uri'' (rq_ResourceURI request);
          out = pushOptionalField out ''agent_webid'' (rq_AgentWebID request);
          out = pushOptionalField out ''client_id'' (rq_ClientID request);
          out = pushOptionalField out ''issuer'' (rq_Issuer request);
          out = pushOptionalField out ''origin'' (rq_Origin request);
          out = pushModes out (rq_RequestedModes request);
          out = pushOptionalField out ''resource_version'' (rq_ResourceVersion request);
          out = pushOptionalField out ''policy_version'' (rq_PolicyVersion request);
          out = pushMetadata out (rq_ResourceMetadata request)
      in pushField out ''now_unix'' (FormatInt (rq_NowUnix request)))"

definition policyDocumentKey :: "PolicyDocument \<Rightarrow> string \<times> string \<times> string" where
  "policyDocumentKey d = (pd_URI d, pd_SHA256 d, pd_ContentType d)"

definition canonicalPolicyDocuments :: "PolicyDocument list \<Rightarrow> string" where
  "canonicalPolicyDocuments policyDocuments =
     foldl (\<lambda>out d.
              pushField
                (pushField (pushField out ''policy_uri'' (pd_URI d)) ''policy_sha256'' (pd_SHA256 d))
                ''policy_content_type'' (pd_ContentType d))
       [] (sort_key policyDocumentKey policyDocuments)"

definition AuditForRequest :: "Request \<Rightarrow> AuditFields" where
  "AuditForRequest request =
     \<lparr>au_RequestHash = sha256Hex (canonicalRequest request),
      au_PolicyHash = sha256Hex (canonicalPolicyDocuments (rq_PolicyDocuments request))\<rparr>"

section \<open>Resource metadata\<close>

definition ErrInvalidPolicyInput :: goerror where
  "ErrInvalidPolicyInput = ErrorsNew ''invalid authz policy input''"

definition containsControlRune :: "string \<Rightarrow> bool" where
  "containsControlRune value = list_ex is_control value"

fun NormalizeResourceMetadata_loop ::
  "(string, string) gomap \<Rightarrow> (string, string) gomap \<Rightarrow> (string, string) gomap result" where
  "NormalizeResourceMetadata_loop out [] = Inr out"
| "NormalizeResourceMetadata_loop out ((key0, value0) # rest) =
     (let key = TrimSpace key0; value = TrimSpace value0 in
      if key = [] \<or> length key > 128 \<or> containsControlRune key then
        Inl (wrapf ErrInvalidPolicyInput ''invalid resource metadata key'')
      else if length value > 1024 \<or> containsControlRune value then
        Inl (wrapf ErrInvalidPolicyInput ''invalid resource metadata value'')
      else NormalizeResourceMetadata_loop (mset_at key value out) rest)"

definition NormalizeResourceMetadata ::
  "(string, string) gomap \<Rightarrow> (string, string) gomap result" where
  "NormalizeResourceMetadata input =
     (if length input = 0 then Inr [] else NormalizeResourceMetadata_loop [] input)"

section \<open>The shadow evaluator\<close>

definition httpBadRequestStatus :: int where "httpBadRequestStatus = 400"

definition decisionRequestID :: "Request \<Rightarrow> AuditFields \<Rightarrow> string" where
  "decisionRequestID request audit =
     (if validToken (rq_RequestID request) 128 then rq_RequestID request
      else
        let prefix = au_RequestHash audit;
            prefix = (if length prefix > 32 then take 32 prefix else prefix)
        in ''invalid-request-'' @ prefix)"

definition shadowDecision ::
  "Request \<Rightarrow> AuditFields \<Rightarrow> DecisionValue \<Rightarrow> ReasonCode \<Rightarrow> int \<Rightarrow> Decision" where
  "shadowDecision request audit decision reason statusHint =
     zero_Decision
       \<lparr>dc_SchemaVersion := SchemaVersion,
        dc_RequestID := decisionRequestID request audit,
        dc_Decision := decision,
        dc_ReasonCode := reason,
        dc_StatusHint := statusHint,
        dc_CacheTTLSeconds := 0,
        dc_PolicyVersion := rq_PolicyVersion request,
        dc_ResourceVersion := rq_ResourceVersion request,
        dc_Audit := audit\<rparr>"

text \<open>The first argument is what \<open>ctx.Err()\<close> returns when the call starts.\<close>

definition Shadow_Evaluate :: "goerr \<Rightarrow> Request \<Rightarrow> Decision result" where
  "Shadow_Evaluate ctxErr request =
     (case ctxErr of
        Some err \<Rightarrow> Inl err
      | None \<Rightarrow>
          let audit = AuditForRequest request in
          if rq_SchemaVersion request \<noteq> SchemaVersion then
            Inr (shadowDecision request audit DecisionDeny ReasonUnsupportedSchema httpBadRequestStatus)
          else if \<not> validToken (rq_RequestID request) 128 \<or> \<not> supportedMethod (rq_Method request) then
            Inr (shadowDecision request audit DecisionDeny ReasonInvalidRequest httpBadRequestStatus)
          else if length (rq_RequestedModes request) = 0 then
            Inr (shadowDecision request audit DecisionDeny ReasonMissingRequestedModes httpBadRequestStatus)
          else if \<not> validResourceURI (rq_ResourceURI request) then
            Inr (shadowDecision request audit DecisionDeny ReasonUnsafeResourceURI httpBadRequestStatus)
          else if ValidateRequest request \<noteq> None then
            Inr (shadowDecision request audit DecisionDeny ReasonInvalidRequest httpBadRequestStatus)
          else
            Inr (shadowDecision request audit DecisionAbstain ReasonKernelAbstainShadowMode 0))"

definition ShouldContinueToCSS :: "Decision \<Rightarrow> bool" where
  "ShouldContinueToCSS decision \<longleftrightarrow> dc_Decision decision = [] \<or> dc_Decision decision = DecisionAbstain"

section \<open>Facts about validation\<close>

definition metadata_entry_ok :: "string \<Rightarrow> string \<Rightarrow> bool" where
  "metadata_entry_ok k v \<longleftrightarrow>
     TrimSpace k = k \<and> k \<noteq> [] \<and> length k \<le> 128 \<and> \<not> containsControlRune k
     \<and> TrimSpace v = v \<and> length v \<le> 1024 \<and> \<not> containsControlRune v"

lemma ModesMatch_conv: "ModesMatch granted requested \<longleftrightarrow> set requested \<subseteq> set granted"
proof -
  have fold: "foldl (\<lambda>S m. insert m S) S granted = S \<union> set granted" for S :: "string set"
    by (induction granted arbitrary: S) auto
  have loop: "ModesMatch_loop S requested \<longleftrightarrow> set requested \<subseteq> S" for S
    by (induction requested) auto
  show ?thesis by (auto simp: ModesMatch_def fold loop)
qed

lemma supportedMethod_conv:
  "supportedMethod m \<longleftrightarrow>
     m \<in> {''GET'', ''HEAD'', ''OPTIONS'', ''POST'', ''PUT'', ''PATCH'', ''DELETE''}"
  by (simp add: supportedMethod_def modesForMethod_def)

lemma validate_requested_modes_None:
  "validate_requested_modes seen modes = None \<longleftrightarrow>
     (\<forall>m\<in>set modes. validAccessMode m) \<and> distinct modes \<and> set modes \<inter> seen = {}"
  by (induction modes arbitrary: seen) auto

lemma validate_requested_modes_Some:
  "validate_requested_modes seen modes = Some e \<Longrightarrow> errors_Is e ErrInvalidRequest"
  by (induction modes arbitrary: seen) (auto split: if_splits)

lemma validatePolicyDocument_Some:
  "validatePolicyDocument d = Some e \<Longrightarrow> errors_Is e ErrInvalidRequest"
  by (auto simp: validatePolicyDocument_def split: if_splits)

lemma validate_policy_documents_None:
  "validate_policy_documents ds = None \<longleftrightarrow> (\<forall>d\<in>set ds. validatePolicyDocument d = None)"
  by (induction ds) (auto split: option.splits)

lemma validate_policy_documents_Some:
  "validate_policy_documents ds = Some e \<Longrightarrow> errors_Is e ErrInvalidRequest"
  by (induction ds) (auto split: option.splits dest: validatePolicyDocument_Some)

lemma ValidateRequest_Some:
  "ValidateRequest r = Some e \<Longrightarrow> errors_Is e ErrInvalidRequest"
  by (auto simp: ValidateRequest_def split: if_splits option.splits
      dest: validate_requested_modes_Some validate_policy_documents_Some)

lemma ValidateRequest_None:
  "ValidateRequest r = None \<longleftrightarrow>
     rq_SchemaVersion r = SchemaVersion \<and> validToken (rq_RequestID r) 128
     \<and> supportedMethod (rq_Method r) \<and> validResourceURI (rq_ResourceURI r)
     \<and> rq_RequestedModes r \<noteq> [] \<and> (\<forall>m\<in>set (rq_RequestedModes r). validAccessMode m)
     \<and> distinct (rq_RequestedModes r) \<and> 0 \<le> rq_NowUnix r
     \<and> (\<forall>d\<in>set (rq_PolicyDocuments r). validatePolicyDocument d = None)"
proof -
  have "ValidateRequest r = None \<longleftrightarrow>
     rq_SchemaVersion r = SchemaVersion \<and> validToken (rq_RequestID r) 128
     \<and> supportedMethod (rq_Method r) \<and> validResourceURI (rq_ResourceURI r)
     \<and> rq_RequestedModes r \<noteq> []
     \<and> validate_requested_modes {} (rq_RequestedModes r) = None \<and> 0 \<le> rq_NowUnix r
     \<and> validate_policy_documents (rq_PolicyDocuments r) = None"
    by (auto simp: ValidateRequest_def split: option.splits)
  then show ?thesis
    by (simp add: validate_requested_modes_None validate_policy_documents_None)
qed

lemma validResourceURI_no_fragment:
  "validResourceURI u \<Longrightarrow> CHR ''#'' \<notin> set u \<and> \<not> list_ex is_control u"
  by (auto simp: validResourceURI_def ContainsAny_conv split: if_splits)

lemma ValidateDecision_None:
  "ValidateDecision d = None \<longleftrightarrow>
     dc_SchemaVersion d = SchemaVersion \<and> validToken (dc_RequestID d) 128
     \<and> validDecisionValue (dc_Decision d) \<and> validReasonCode (dc_ReasonCode d)
     \<and> (dc_StatusHint d = 0 \<or> 100 \<le> dc_StatusHint d \<and> dc_StatusHint d \<le> 599)
     \<and> 0 \<le> dc_CacheTTLSeconds d \<and> dc_CacheTTLSeconds d \<le> 300
     \<and> validSHA256Hex (au_RequestHash (dc_Audit d)) \<and> validSHA256Hex (au_PolicyHash (dc_Audit d))"
  by (auto simp: ValidateDecision_def)

lemma length_sha256Hex [simp]: "length (sha256Hex v) = 64"
  by (simp add: sha256Hex_def length_hex_EncodeToString length_Sum256)

lemma sha256Hex_valid [simp]: "validSHA256Hex (sha256Hex v)"
  using hex_EncodeToString_is_hex Sum256_bound
  by (fastforce simp: validSHA256Hex_def list_all_iff sha256Hex_def length_hex_EncodeToString length_Sum256)

lemma AuditForRequest_valid [simp]:
  "validSHA256Hex (au_RequestHash (AuditForRequest r))"
  "validSHA256Hex (au_PolicyHash (AuditForRequest r))"
  by (simp_all add: AuditForRequest_def)

lemma is_hex_token: "is_hex c \<Longrightarrow> \<not> (c < CHR 0x21 \<or> c > CHR 0x7E)"
  by (auto simp: is_hex_def is_digit_def less_char_def less_eq_char_def)

lemma decisionRequestID_valid [simp]:
  "validToken (decisionRequestID r (AuditForRequest r)) 128"
proof (cases "validToken (rq_RequestID r) 128")
  case False
  have hex: "list_all is_hex (take 32 (au_RequestHash (AuditForRequest r)))"
    using AuditForRequest_valid(1) [of r]
    by (auto simp: validSHA256Hex_def list_all_iff dest: in_set_takeD split: if_splits)
  have len: "length (au_RequestHash (AuditForRequest r)) = 64"
    by (simp add: AuditForRequest_def)
  have "list_all (\<lambda>c. \<not> (c < CHR 0x21 \<or> c > CHR 0x7E)) ''invalid-request-''"
    by (simp add: less_char_def)
  with False hex len show ?thesis
    by (auto simp: decisionRequestID_def validToken_def list_all_iff dest!: is_hex_token)
qed (simp add: decisionRequestID_def)


section \<open>Facts about the canonical form\<close>

text \<open>
  The canonical form is the concatenation of its fields; \<open>request_fields\<close> lists them. A field
  whose name holds no unit separator and whose value holds no record separator can be read back,
  so such field lists are determined by their concatenation.
\<close>

definition enc_field :: "string \<times> string \<Rightarrow> string" where
  "enc_field f = fst f @ CHR 0x1F # snd f @ [CHR 0x1E]"

definition opt_field :: "string \<Rightarrow> string \<Rightarrow> (string \<times> string) list" where
  "opt_field name value = (if value = [] then [] else [(name, value)])"

definition metadata_fields :: "(string, string) gomap \<Rightarrow> (string \<times> string) list" where
  "metadata_fields m =
     concat (map (\<lambda>k. [(''resource_metadata_key'', k),
                        (''resource_metadata_value'', case map_of m k of Some v \<Rightarrow> v | None \<Rightarrow> [])])
              (sort (map fst m)))"

definition request_fields :: "Request \<Rightarrow> (string \<times> string) list" where
  "request_fields r =
     [(''schema_version'', rq_SchemaVersion r), (''request_id'', rq_RequestID r),
      (''method'', rq_Method r), (''resource_uri'', rq_ResourceURI r)]
     @ opt_field ''agent_webid'' (rq_AgentWebID r) @ opt_field ''client_id'' (rq_ClientID r)
     @ opt_field ''issuer'' (rq_Issuer r) @ opt_field ''origin'' (rq_Origin r)
     @ map (Pair ''requested_mode'') (sort_key accessModeRank (rq_RequestedModes r))
     @ opt_field ''resource_version'' (rq_ResourceVersion r)
     @ opt_field ''policy_version'' (rq_PolicyVersion r)
     @ metadata_fields (rq_ResourceMetadata r)
     @ [(''now_unix'', FormatInt (rq_NowUnix r))]"

definition field_ok :: "string \<times> string \<Rightarrow> bool" where
  "field_ok f \<longleftrightarrow> CHR 0x1F \<notin> set (fst f) \<and> CHR 0x1E \<notin> set (snd f)"

lemma enc_field_append [simp]: "enc_field f @ t = fst f @ CHR 0x1F # snd f @ CHR 0x1E # t"
  by (simp add: enc_field_def)

lemma concat_enc_field_inject:
  assumes "list_all field_ok xs" and "list_all field_ok ys"
    and "concat (map enc_field xs) = concat (map enc_field ys)"
  shows "xs = ys"
  using assms
proof (induction xs arbitrary: ys)
  case Nil
  then show ?case by (cases ys) (simp_all add: enc_field_def)
next
  case (Cons x xs)
  from Cons.prems(3) obtain y ys' where ys: "ys = y # ys'"
    by (cases ys) (simp_all add: enc_field_def)
  let ?tail = "\<lambda>f fs. snd f @ CHR 0x1E # concat (map enc_field fs)"
  have ok: "field_ok x" "field_ok y" "list_all field_ok xs" "list_all field_ok ys'"
    using Cons.prems(1,2) ys by simp_all
  have "fst x @ CHR 0x1F # ?tail x xs = fst y @ CHR 0x1F # ?tail y ys'"
    using Cons.prems(3) ys by simp
  then have 1: "fst x = fst y" and tail: "?tail x xs = ?tail y ys'"
    using ok(1,2) by (simp_all add: field_ok_def split_at_unique)
  then have 2: "snd x = snd y" and "concat (map enc_field xs) = concat (map enc_field ys')"
    using ok(1,2) by (simp_all add: field_ok_def split_at_unique)
  with Cons.IH ok(3,4) have "xs = ys'" by simp
  with 1 2 ys show ?case by (simp add: prod_eq_iff)
qed

lemma pushModes_fields:
  "pushModes out ms = out @ concat (map enc_field (map (Pair ''requested_mode'') (sort_key accessModeRank ms)))"
proof -
  have "foldl (\<lambda>acc m. pushField acc ''requested_mode'' m) out xs
      = out @ concat (map enc_field (map (Pair ''requested_mode'') xs))" for xs
    by (induction xs arbitrary: out) (simp_all add: pushField_def enc_field_def)
  then show ?thesis by (simp only: pushModes_def)
qed

lemma pushMetadata_fields: "pushMetadata out m = out @ concat (map enc_field (metadata_fields m))"
proof -
  let ?v = "\<lambda>k. case map_of m k of Some v \<Rightarrow> v | None \<Rightarrow> []"
  have "foldl (\<lambda>out key. pushField (pushField out ''resource_metadata_key'' key)
                ''resource_metadata_value'' (?v key)) out xs
      = out @ concat (map enc_field (concat (map (\<lambda>k. [(''resource_metadata_key'', k),
                        (''resource_metadata_value'', ?v k)]) xs)))" for xs
    by (induction xs arbitrary: out) (simp_all add: pushField_def enc_field_def)
  then show ?thesis by (simp only: pushMetadata_def metadata_fields_def)
qed

lemma pushField_fields: "pushField out n v = out @ concat (map enc_field [(n, v)])"
  by (simp add: pushField_def enc_field_def)

lemma pushOptionalField_fields:
  "pushOptionalField out n v = out @ concat (map enc_field (opt_field n v))"
  by (simp add: pushOptionalField_def opt_field_def pushField_fields)

lemma canonicalRequest_fields: "canonicalRequest r = concat (map enc_field (request_fields r))"
  unfolding canonicalRequest_def Let_def request_fields_def pushField_fields pushOptionalField_fields
    pushModes_fields pushMetadata_fields
  by (simp del: enc_field_append map_map)

definition field_values :: "string \<Rightarrow> (string \<times> string) list \<Rightarrow> string list" where
  "field_values n fs = map snd (filter (\<lambda>f. fst f = n) fs)"

lemma field_values_append [simp]: "field_values n (xs @ ys) = field_values n xs @ field_values n ys"
  by (simp add: field_values_def)

lemma field_values_simps [simp]:
  "field_values n [] = []"
  "field_values n (f # fs) = (if fst f = n then snd f # field_values n fs else field_values n fs)"
  by (simp_all add: field_values_def)

lemma field_values_opt [simp]:
  "field_values n (opt_field m v) = (if m = n \<and> v \<noteq> [] then [v] else [])"
  by (simp add: opt_field_def)

lemma field_values_modes [simp]:
  "field_values n (map (Pair m) vs) = (if m = n then vs else [])"
  by (induction vs) auto

lemma field_values_metadata [simp]:
  "field_values n (metadata_fields m) =
    (if n = ''resource_metadata_key'' then sort (map fst m)
     else if n = ''resource_metadata_value''
     then map (\<lambda>k. case map_of m k of Some v \<Rightarrow> v | None \<Rightarrow> []) (sort (map fst m)) else [])"
proof -
  let ?f = "\<lambda>k. case map_of m k of Some v \<Rightarrow> v | None \<Rightarrow> []"
  have "field_values n (concat (map (\<lambda>k. [(''resource_metadata_key'', k), (''resource_metadata_value'', ?f k)]) ks)) =
    (if n = ''resource_metadata_key'' then ks else if n = ''resource_metadata_value'' then map ?f ks else [])" for ks
    by (induction ks) auto
  then show ?thesis by (simp only: metadata_fields_def)
qed

definition separator_free :: "Request \<Rightarrow> bool" where
  "separator_free r \<longleftrightarrow> list_all (\<lambda>v. CHR 0x1E \<notin> set v)
     ([rq_SchemaVersion r, rq_RequestID r, rq_Method r, rq_ResourceURI r, rq_AgentWebID r,
       rq_ClientID r, rq_Issuer r, rq_Origin r, rq_ResourceVersion r, rq_PolicyVersion r]
      @ rq_RequestedModes r @ map fst (rq_ResourceMetadata r) @ map snd (rq_ResourceMetadata r))"

lemma FormatInt_separator: "CHR 0x1E \<notin> set (FormatInt i)"
  using FormatInt_chars [of "CHR 0x1E" i] by (auto simp: is_digit_def less_eq_char_def)

lemma metadata_fields_ok:
  assumes "\<forall>kv\<in>set m. CHR 0x1E \<notin> set (fst kv) \<and> CHR 0x1E \<notin> set (snd kv)"
  shows "list_all field_ok (metadata_fields m)"
proof -
  have "CHR 0x1E \<notin> set k \<and> CHR 0x1E \<notin> set (case map_of m k of Some v \<Rightarrow> v | None \<Rightarrow> [])"
    if "k \<in> fst ` set m" for k
    using that assms by (cases "map_of m k") (fastforce dest: map_of_SomeD)+
  then show ?thesis
    by (fastforce simp: list_all_iff metadata_fields_def field_ok_def)
qed

lemma request_fields_ok:
  assumes "separator_free r"
  shows "list_all field_ok (request_fields r)"
proof -
  have "list_all field_ok (metadata_fields (rq_ResourceMetadata r))"
    using assms by (intro metadata_fields_ok) (auto simp: separator_free_def list_all_iff)
  with assms show ?thesis
    by (auto simp: separator_free_def request_fields_def field_ok_def opt_field_def
      list_all_iff FormatInt_separator)
qed

lemma sort_key_eq_mset: "sort_key f xs = sort_key f ys \<Longrightarrow> mset xs = mset ys"
  by (metis mset_sort)

lemma gomap_ext_sorted:
  assumes "gomap_ok m" "gomap_ok m'" "sort (map fst m) = sort (map fst m')"
    and "map (\<lambda>k. case map_of m k of Some v \<Rightarrow> v | None \<Rightarrow> []) (sort (map fst m))
       = map (\<lambda>k. case map_of m' k of Some v \<Rightarrow> v | None \<Rightarrow> []) (sort (map fst m'))"
  shows "map_of m = map_of m'"
proof
  fix k
  have dom: "fst ` set m = fst ` set m'"
    using arg_cong [OF assms(3), of set] by simp
  show "map_of m k = map_of m' k"
  proof (cases "k \<in> fst ` set m")
    case True
    with dom obtain v v' where v: "map_of m k = Some v" "map_of m' k = Some v'"
      by (metis map_of_eq_None_iff not_Some_eq)
    from True dom have "k \<in> set (sort (map fst m'))" by simp
    with assms(4) have
      "(case map_of m k of Some v \<Rightarrow> v | None \<Rightarrow> []) = (case map_of m' k of Some v \<Rightarrow> v | None \<Rightarrow> [])"
      unfolding assms(3) map_eq_conv by blast
    with v show ?thesis by simp
  next
    case False
    with dom show ?thesis by (metis map_of_eq_None_iff)
  qed
qed

text \<open>
  C4: The canonical form that the audit hash is taken of is unambiguous. Two requests whose
  fields hold no record separator (byte 0x1E) and that have the same canonical form agree in
  every field the form covers: schema, id, method, resource, agent, client, issuer, origin, the
  multiset of requested modes, both versions, the metadata map and the time.
\<close>

theorem canonicalRequest_injective:
  assumes "separator_free r" and "separator_free r'"
    and "gomap_ok (rq_ResourceMetadata r)" and "gomap_ok (rq_ResourceMetadata r')"
    and "canonicalRequest r = canonicalRequest r'"
  shows "rq_SchemaVersion r = rq_SchemaVersion r' \<and> rq_RequestID r = rq_RequestID r'
    \<and> rq_Method r = rq_Method r' \<and> rq_ResourceURI r = rq_ResourceURI r'
    \<and> rq_AgentWebID r = rq_AgentWebID r' \<and> rq_ClientID r = rq_ClientID r'
    \<and> rq_Issuer r = rq_Issuer r' \<and> rq_Origin r = rq_Origin r'
    \<and> mset (rq_RequestedModes r) = mset (rq_RequestedModes r')
    \<and> rq_ResourceVersion r = rq_ResourceVersion r' \<and> rq_PolicyVersion r = rq_PolicyVersion r'
    \<and> map_of (rq_ResourceMetadata r) = map_of (rq_ResourceMetadata r')
    \<and> rq_NowUnix r = rq_NowUnix r'"
proof -
  have eq: "request_fields r = request_fields r'"
    using assms by (intro concat_enc_field_inject request_fields_ok) (simp_all add: canonicalRequest_fields)
  have fv: "field_values n (request_fields r) = field_values n (request_fields r')" for n
    using eq by simp
  have "rq_SchemaVersion r = rq_SchemaVersion r'" "rq_RequestID r = rq_RequestID r'"
    "rq_Method r = rq_Method r'" "rq_ResourceURI r = rq_ResourceURI r'"
    using eq by (simp_all add: request_fields_def)
  moreover have "rq_AgentWebID r = rq_AgentWebID r'"
    using fv [of "''agent_webid''"] by (simp add: request_fields_def split: if_splits)
  moreover have "rq_ClientID r = rq_ClientID r'"
    using fv [of "''client_id''"] by (simp add: request_fields_def split: if_splits)
  moreover have "rq_Issuer r = rq_Issuer r'"
    using fv [of "''issuer''"] by (simp add: request_fields_def split: if_splits)
  moreover have "rq_Origin r = rq_Origin r'"
    using fv [of "''origin''"] by (simp add: request_fields_def split: if_splits)
  moreover have "rq_ResourceVersion r = rq_ResourceVersion r'"
    using fv [of "''resource_version''"] by (simp add: request_fields_def split: if_splits)
  moreover have "rq_PolicyVersion r = rq_PolicyVersion r'"
    using fv [of "''policy_version''"] by (simp add: request_fields_def split: if_splits)
  moreover have "rq_NowUnix r = rq_NowUnix r'"
    using fv [of "''now_unix''"] by (simp add: request_fields_def FormatInt_inject)
  moreover have "mset (rq_RequestedModes r) = mset (rq_RequestedModes r')"
    using fv [of "''requested_mode''"] by (intro sort_key_eq_mset) (simp add: request_fields_def)
  moreover have "map_of (rq_ResourceMetadata r) = map_of (rq_ResourceMetadata r')"
    using fv [of "''resource_metadata_key''"] fv [of "''resource_metadata_value''"] assms(3,4)
    by (intro gomap_ext_sorted) (simp_all add: request_fields_def)
  ultimately show ?thesis by blast
qed


lemma metadata_fields_cong:
  assumes "gomap_ok m" "gomap_ok m'" "map_of m = map_of m'"
  shows "metadata_fields m = metadata_fields m'"
proof -
  have "set (sort (map fst m)) = set (sort (map fst m'))"
    using assms(3) by (simp flip: dom_map_of_conv_image_fst)
  moreover have "distinct (sort (map fst m))" "distinct (sort (map fst m'))"
    using assms(1,2) by (simp_all add: gomap_ok_def)
  ultimately have "sort (map fst m) = sort (map fst m')"
    by (simp add: sorted_distinct_set_unique)
  with assms(3) show ?thesis by (simp add: metadata_fields_def)
qed

lemma accessModeRank_inj: "inj_on accessModeRank {m. validAccessMode m}"
  by (auto simp: inj_on_def validAccessMode_def accessModeRank_def AccessMode_defs)

lemma canonicalRequest_cong:
  assumes "\<forall>m\<in>set (rq_RequestedModes r). validAccessMode m"
    and "mset modes = mset (rq_RequestedModes r)"
    and "gomap_ok (rq_ResourceMetadata r)" and "gomap_ok metadata"
    and "map_of metadata = map_of (rq_ResourceMetadata r)"
  shows "canonicalRequest (r\<lparr>rq_RequestedModes := modes, rq_ResourceMetadata := metadata,
            rq_PolicyDocuments := docs\<rparr>) = canonicalRequest r"
proof -
  have "inj_on accessModeRank (set (rq_RequestedModes r))"
    using assms(1) by (auto intro: inj_on_subset [OF accessModeRank_inj])
  then have 1: "sort_key accessModeRank modes = sort_key accessModeRank (rq_RequestedModes r)"
    using assms(2) by (metis sort_key_inj_key_eq mset_sort sorted_sort_key)
  have 2: "metadata_fields metadata = metadata_fields (rq_ResourceMetadata r)"
    using assms(3-5) by (intro metadata_fields_cong) auto
  show ?thesis
    by (simp add: canonicalRequest_fields request_fields_def 1 2 del: map_map)
qed

lemma map_sort_key: "map f (sort_key f xs) = sort (map f xs)"
  by (rule properties_for_sort [symmetric]) simp_all

lemma canonicalPolicyDocuments_keys:
  "canonicalPolicyDocuments ds = concat (map (\<lambda>(u, h, c).
      enc_field (''policy_uri'', u) @ enc_field (''policy_sha256'', h) @ enc_field (''policy_content_type'', c))
      (sort (map policyDocumentKey ds)))"
proof -
  let ?e = "\<lambda>(u, h, c). enc_field (''policy_uri'', u) @ enc_field (''policy_sha256'', h)
              @ enc_field (''policy_content_type'', c)"
  have "foldl (\<lambda>out d. pushField (pushField (pushField out ''policy_uri'' (pd_URI d))
                ''policy_sha256'' (pd_SHA256 d)) ''policy_content_type'' (pd_ContentType d)) out xs
      = out @ concat (map ?e (map policyDocumentKey xs))" for out xs
    by (induction xs arbitrary: out) (simp_all add: pushField_def policyDocumentKey_def enc_field_def)
  then show ?thesis
    by (simp only: canonicalPolicyDocuments_def map_sort_key append_Nil)
qed


text \<open>
  C6: Unless its context is cancelled, the shadow evaluator answers every request with a decision
  that passes \<open>ValidateDecision\<close>, is never an allow, carries the audit hashes of the request and
  is not cacheable. It abstains, so that the request continues to the Community Solid Server,
  exactly when \<open>ValidateRequest\<close> accepts the request, and denies otherwise.
\<close>

theorem Shadow_Evaluate_total:
  "\<exists>d. Shadow_Evaluate None r = Inr d \<and> ValidateDecision d = None
     \<and> dc_Decision d \<noteq> DecisionAllow \<and> (ShouldContinueToCSS d \<longleftrightarrow> ValidateRequest r = None)
     \<and> (dc_Decision d = DecisionDeny \<longleftrightarrow> ValidateRequest r \<noteq> None)
     \<and> dc_CacheTTLSeconds d = 0 \<and> dc_Audit d = AuditForRequest r"
proof -
  have nonempty: "DecisionDeny \<noteq> []" by (simp add: DecisionDeny_def)
  note defs = Shadow_Evaluate_def Let_def ShouldContinueToCSS_def shadowDecision_def
    ValidateDecision_None zero_Decision_def validDecisionValue_def validReasonCode_def httpBadRequestStatus_def
  show ?thesis
  proof (cases "ValidateRequest r = None")
    case True
    then have "rq_SchemaVersion r = SchemaVersion" "validToken (rq_RequestID r) 128"
      "supportedMethod (rq_Method r)" "rq_RequestedModes r \<noteq> []" "validResourceURI (rq_ResourceURI r)"
      by (simp_all add: ValidateRequest_None)
    with True nonempty show ?thesis by (simp add: defs)
  next
    case False
    with nonempty show ?thesis by (simp add: defs)
  qed
qed

lemma NormalizeResourceMetadata_loop_ok:
  assumes "NormalizeResourceMetadata_loop out input = Inr res"
    and "gomap_ok out" and "\<forall>(k, v)\<in>set out. metadata_entry_ok k v"
  shows "gomap_ok res \<and> (\<forall>(k, v)\<in>set res. metadata_entry_ok k v)"
  using assms
proof (induction out input rule: NormalizeResourceMetadata_loop.induct)
  case (2 out key0 value0 rest)
  from "2.prems"(1) have e: "metadata_entry_ok (TrimSpace key0) (TrimSpace value0)"
    and rest: "NormalizeResourceMetadata_loop (AList.update (TrimSpace key0) (TrimSpace value0) out) rest = Inr res"
    by (auto simp: Let_def metadata_entry_ok_def split: if_splits)
  have "set (AList.update k v xs) \<subseteq> insert (k, v) (set xs)" for k v and xs :: "(string \<times> string) list"
    by (induction xs) auto
  then have "\<forall>(k, v)\<in>set (AList.update (TrimSpace key0) (TrimSpace value0) out). metadata_entry_ok k v"
    using e "2.prems"(3) by blast
  with 2 e rest show ?case
    by (auto simp: metadata_entry_ok_def Let_def split: if_splits)
qed simp

lemma NormalizeResourceMetadata_loop_id:
  assumes "gomap_ok (out @ input)" and "\<forall>(k, v)\<in>set input. metadata_entry_ok k v"
  shows "NormalizeResourceMetadata_loop out input = Inr (out @ input)"
  using assms
proof (induction input arbitrary: out)
  case (Cons kv input)
  obtain k v where kv: "kv = (k, v)" by (cases kv)
  have "k \<notin> fst ` set out" using Cons.prems(1) by (auto simp: gomap_ok_def kv)
  then have "AList.update k v out = out @ [kv]" by (induction out) (auto simp: kv)
  with Cons show ?case by (simp add: kv metadata_entry_ok_def Let_def)
qed simp

text \<open>
  C7: Normalised resource metadata is well formed (distinct keys; keys and values trimmed,
  within 128 and 1024 bytes and free of control characters; no empty key) and is a fixed point
  of the normalisation.
\<close>

theorem NormalizeResourceMetadata_idempotent:
  assumes "NormalizeResourceMetadata input = Inr out"
  shows "gomap_ok out \<and> (\<forall>(k, v)\<in>set out. metadata_entry_ok k v)
    \<and> NormalizeResourceMetadata out = Inr out"
proof -
  have ok: "gomap_ok out \<and> (\<forall>(k, v)\<in>set out. metadata_entry_ok k v)"
    using assms NormalizeResourceMetadata_loop_ok [of "[]" input out]
    by (auto simp: NormalizeResourceMetadata_def split: if_splits)
  with NormalizeResourceMetadata_loop_id [of "[]" out] show ?thesis
    by (simp add: NormalizeResourceMetadata_def)
qed


section \<open>Witnesses\<close>

definition sample_request :: Request where
  "sample_request =
     \<lparr>rq_SchemaVersion = SchemaVersion, rq_RequestID = ''r1'', rq_Method = ''PUT'',
      rq_ResourceURI = ''https://pod.example/a'', rq_AgentWebID = ''https://alice.example/#me'',
      rq_ClientID = [], rq_Issuer = [], rq_Origin = [],
      rq_RequestedModes = [AccessModeWrite, AccessModeRead], rq_ResourceVersion = [],
      rq_PolicyVersion = ''v1'', rq_ParserVersion = [], rq_EvaluatorVersion = [],
      rq_ResourceMetadata = [(''type'', ''rdf''), (''size'', ''7'')],
      rq_PolicyDocuments = [], rq_NowUnix = 42\<rparr>"

definition sample_modes :: "AccessMode list" where
  "sample_modes = [AccessModeRead, AccessModeWrite]"

definition sample_metadata :: "(string, string) gomap" where
  "sample_metadata = [(''size'', ''7''), (''type'', ''rdf'')]"

definition sample_request' :: Request where
  "sample_request' = sample_request\<lparr>rq_RequestedModes := sample_modes,
     rq_ResourceMetadata := sample_metadata, rq_PolicyDocuments := []\<rparr>"

lemma sample_facts:
  "\<forall>m\<in>set (rq_RequestedModes sample_request). validAccessMode m"
  "mset sample_modes = mset (rq_RequestedModes sample_request)"
  "gomap_ok (rq_ResourceMetadata sample_request)" "gomap_ok sample_metadata"
  "map_of sample_metadata = map_of (rq_ResourceMetadata sample_request)"
  by (auto simp: sample_request_def validAccessMode_def sample_modes_def sample_metadata_def
      fun_eq_iff gomap_ok_def)

theorem canonicalRequest_injective_witness:
  "canonicalRequest sample_request = canonicalRequest sample_request'
   \<and> mset (rq_RequestedModes sample_request) = mset (rq_RequestedModes sample_request')"
proof -
  have eq: "canonicalRequest sample_request = canonicalRequest sample_request'"
    unfolding sample_request'_def by (rule canonicalRequest_cong [OF sample_facts, symmetric])
  have "separator_free sample_request" by code_simp
  moreover have "separator_free sample_request'" by code_simp
  moreover have "gomap_ok (rq_ResourceMetadata sample_request')" by code_simp
  ultimately show ?thesis
    using eq sample_facts(3) canonicalRequest_injective [of sample_request sample_request'] by blast
qed


theorem NormalizeResourceMetadata_idempotent_witness:
  "NormalizeResourceMetadata [('' a'', ''1 ''), (''b'', ''2'')] = Inr [(''a'', ''1''), (''b'', ''2'')]
   \<and> NormalizeResourceMetadata [(''a'', ''1''), (''b'', ''2'')] = Inr [(''a'', ''1''), (''b'', ''2'')]"
proof -
  have "NormalizeResourceMetadata [('' a'', ''1 ''), (''b'', ''2'')] = Inr [(''a'', ''1''), (''b'', ''2'')]"
    by code_simp
  with NormalizeResourceMetadata_idempotent [of "[('' a'', ''1 ''), (''b'', ''2'')]" "[(''a'', ''1''), (''b'', ''2'')]"]
  show ?thesis by blast
qed

end
