(* ===== verification/Decision_Cache.thy ===== *)
theory Decision_Cache
  imports Authz_Core "HOL-Library.Monad_Syntax"
begin

text \<open>
  Package \<open>internal/authz/cache\<close> (\<open>cache.go\<close>): the in-memory cache of authorization decisions.

  The cache is a record passed and returned; each operation takes the value that \<open>time.Now()\<close>
  returns in it. A \<open>nil\<close> pointer argument is \<open>None\<close>. The critical sections of an operation are
  run as one step. The counters of \<open>MetricsSnapshot\<close> are unbounded. The eviction loop of \<open>Put\<close>
  may in principle run forever, so it is a partial function and \<open>Put\<close> returns \<open>None\<close> if it does;
  it is shown that it does not on a well-formed cache.

  The locale \<open>decision_cache\<close> is the contract of the interface \<open>cache.Cache\<close>; it is interpreted on
  \<open>MemoryCache\<close>, and the caching evaluator relies on its facts.
\<close>

section \<open>Data\<close>

record CacheDecision =
  cd_Allow :: bool
  cd_Reason :: string
  cd_Stale :: bool
  cd_EvaluatorVersion :: string
  cd_PolicyVersion :: string
  cd_ParserVersion :: string
  cd_CreatedAt :: gotime
  cd_ExpiresAt :: gotime

record CacheKey =
  ck_Agent :: string
  ck_DID :: string
  ck_Client :: string
  ck_Method :: string
  ck_Mode :: string
  ck_Resource :: string
  ck_PolicyVersion :: string
  ck_ParserVersion :: string
  ck_EvaluatorVersion :: string

text \<open>\<open>CacheKey.String\<close>: consecutive writes to the hash are one write of the concatenation.\<close>

definition CacheKey_String :: "CacheKey \<Rightarrow> string" where
  "CacheKey_String k = hex_EncodeToString (Sum256
     (ck_Agent k @ ''|'' @ ck_DID k @ ''|'' @ ck_Client k @ ''|'' @ ck_Method k @ ''|''
      @ ck_Mode k @ ''|'' @ ck_Resource k @ ''|'' @ ck_PolicyVersion k @ ''|''
      @ ck_ParserVersion k @ ''|'' @ ck_EvaluatorVersion k))"

definition ErrCacheKeyRequired :: goerror where
  "ErrCacheKeyRequired = ErrorsNew ''cache key is required''"
definition ErrDecisionRequired :: goerror where
  "ErrDecisionRequired = ErrorsNew ''decision is required''"
definition ErrCachePoisoning :: goerror where
  "ErrCachePoisoning = ErrorsNew ''cache poisoning detected''"

record CacheConfig =
  cc_TTL :: duration
  cc_MaxTTL :: duration
  cc_StaleTTL :: duration
  cc_MaxSize :: int
  cc_EnableNegativeCache :: bool
  cc_NegativeCacheTTL :: duration

definition DefaultCacheConfig :: CacheConfig where
  "DefaultCacheConfig =
     \<lparr>cc_TTL = 5 * minute, cc_MaxTTL = 1 * hour, cc_StaleTTL = 30 * second, cc_MaxSize = 10000,
      cc_EnableNegativeCache = False, cc_NegativeCacheTTL = 1 * minute\<rparr>"

definition CacheConfig_Validate :: "CacheConfig \<Rightarrow> goerr" where
  "CacheConfig_Validate cfg =
     (if cc_TTL cfg \<le> 0 then Some (ErrorsNew ''TTL must be positive'')
      else if cc_MaxTTL cfg \<le> 0 then Some (ErrorsNew ''MaxTTL must be positive'')
      else if cc_StaleTTL cfg < 0 then Some (ErrorsNew ''StaleTTL must be non-negative'')
      else if cc_StaleTTL cfg > cc_TTL cfg then Some (ErrorsNew ''StaleTTL cannot exceed TTL'')
      else if cc_MaxSize cfg \<le> 0 then Some (ErrorsNew ''MaxSize must be positive'')
      else if cc_EnableNegativeCache cfg \<and> cc_NegativeCacheTTL cfg \<le> 0 then
        Some (ErrorsNew ''NegativeCacheTTL must be positive when negative cache is enabled'')
      else if cc_EnableNegativeCache cfg \<and> cc_NegativeCacheTTL cfg > cc_TTL cfg then
        Some (ErrorsNew ''NegativeCacheTTL cannot exceed TTL'')
      else None)"

record MetricsSnapshot =
  ms_Hits :: int
  ms_Misses :: int
  ms_StaleHits :: int
  ms_Puts :: int
  ms_PutErrors :: int
  ms_Invalidations :: int
  ms_Evictions :: int
  ms_CurrentSize :: int

definition zero_MetricsSnapshot :: MetricsSnapshot where
  "zero_MetricsSnapshot =
     \<lparr>ms_Hits = 0, ms_Misses = 0, ms_StaleHits = 0, ms_Puts = 0, ms_PutErrors = 0,
      ms_Invalidations = 0, ms_Evictions = 0, ms_CurrentSize = 0\<rparr>"

record cacheEntry =
  ce_key :: CacheKey
  ce_decision :: CacheDecision
  ce_expiresAt :: gotime

record MemoryCache =
  mc_entries :: "(string, cacheEntry) gomap"
  mc_config :: CacheConfig
  mc_metrics :: MetricsSnapshot

section \<open>Operations\<close>

definition NewMemoryCache :: "CacheConfig \<Rightarrow> MemoryCache result" where
  "NewMemoryCache cfg =
     (case CacheConfig_Validate cfg of
        Some err \<Rightarrow> Inl (Errorf ''invalid cache config: '' err [])
      | None \<Rightarrow> Inr \<lparr>mc_entries = [], mc_config = cfg, mc_metrics = zero_MetricsSnapshot\<rparr>)"

definition inc_Hits :: "MemoryCache \<Rightarrow> MemoryCache" where
  "inc_Hits c = c\<lparr>mc_metrics := (mc_metrics c)\<lparr>ms_Hits := ms_Hits (mc_metrics c) + 1\<rparr>\<rparr>"
definition inc_Misses :: "MemoryCache \<Rightarrow> MemoryCache" where
  "inc_Misses c = c\<lparr>mc_metrics := (mc_metrics c)\<lparr>ms_Misses := ms_Misses (mc_metrics c) + 1\<rparr>\<rparr>"
definition inc_StaleHits :: "MemoryCache \<Rightarrow> MemoryCache" where
  "inc_StaleHits c = c\<lparr>mc_metrics := (mc_metrics c)\<lparr>ms_StaleHits := ms_StaleHits (mc_metrics c) + 1\<rparr>\<rparr>"
definition inc_Puts :: "MemoryCache \<Rightarrow> MemoryCache" where
  "inc_Puts c = c\<lparr>mc_metrics := (mc_metrics c)\<lparr>ms_Puts := ms_Puts (mc_metrics c) + 1\<rparr>\<rparr>"
definition inc_PutErrors :: "MemoryCache \<Rightarrow> MemoryCache" where
  "inc_PutErrors c = c\<lparr>mc_metrics := (mc_metrics c)\<lparr>ms_PutErrors := ms_PutErrors (mc_metrics c) + 1\<rparr>\<rparr>"
definition inc_Evictions :: "MemoryCache \<Rightarrow> MemoryCache" where
  "inc_Evictions c = c\<lparr>mc_metrics := (mc_metrics c)\<lparr>ms_Evictions := ms_Evictions (mc_metrics c) + 1\<rparr>\<rparr>"
definition add_Invalidations :: "nat \<Rightarrow> MemoryCache \<Rightarrow> MemoryCache" where
  "add_Invalidations n c =
     c\<lparr>mc_metrics := (mc_metrics c)\<lparr>ms_Invalidations := ms_Invalidations (mc_metrics c) + int n\<rparr>\<rparr>"

lemmas metric_defs = inc_Hits_def inc_Misses_def inc_StaleHits_def inc_Puts_def inc_PutErrors_def
  inc_Evictions_def add_Invalidations_def

definition MemoryCache_Get ::
  "gotime \<Rightarrow> CacheKey option \<Rightarrow> MemoryCache \<Rightarrow> CacheDecision option \<times> MemoryCache" where
  "MemoryCache_Get now key c =
     (case key of
        None \<Rightarrow> (None, inc_Misses c)
      | Some k \<Rightarrow>
          (let keyStr = CacheKey_String k in
           case mget (mc_entries c) keyStr of
             None \<Rightarrow> (None, inc_Misses c)
           | Some entry \<Rightarrow>
               if now > ce_expiresAt entry then
                 (None, inc_Misses (c\<lparr>mc_entries := mdelete keyStr (mc_entries c)\<rparr>))
               else
                 let stale = now > cd_ExpiresAt (ce_decision entry)
                             \<or> now > ce_expiresAt entry - cc_StaleTTL (mc_config c)
                 in (Some (ce_decision entry), if stale then inc_StaleHits c else inc_Hits c)))"

definition validateDecision :: "CacheDecision \<Rightarrow> goerr" where
  "validateDecision decision =
     (if IsZero (cd_CreatedAt decision) then
        Some (ErrorsNew ''decision must have a creation timestamp'')
      else if \<not> IsZero (cd_ExpiresAt decision) \<and> cd_ExpiresAt decision < cd_CreatedAt decision then
        Some (ErrorsNew ''expiration cannot be before creation'')
      else if length (cd_Reason decision) > 1024 then
        Some (ErrorsNew ''decision reason is too long'')
      else None)"

definition isCachePoisoningAttempt :: "CacheKey \<Rightarrow> CacheDecision \<Rightarrow> bool" where
  "isCachePoisoningAttempt key decision =
     (if ck_Agent key = [] \<and> ck_DID key = [] \<and> ck_Client key = [] then True
      else if ck_Resource key = [] then True
      else if ck_Method key = [] then True
      else if cd_ExpiresAt decision - cd_CreatedAt decision > 24 * hour then True
      else False)"

fun oldest_loop :: "(string, cacheEntry) gomap \<Rightarrow> bool \<Rightarrow> string \<Rightarrow> gotime \<Rightarrow> string" where
  "oldest_loop [] first oldestKey oldestTime = oldestKey"
| "oldest_loop ((k, entry) # rest) first oldestKey oldestTime =
     (if first \<or> ce_expiresAt entry < oldestTime
      then oldest_loop rest False k (ce_expiresAt entry)
      else oldest_loop rest first oldestKey oldestTime)"

partial_function (option) evictOldest ::
  "int \<Rightarrow> (string, cacheEntry) gomap \<Rightarrow> (string, cacheEntry) gomap option" where
  "evictOldest maxSize entries =
     (if int (length entries) \<ge> maxSize then
        let oldestKey = oldest_loop entries True [] zero_time in
        evictOldest maxSize (if oldestKey \<noteq> [] then mdelete oldestKey entries else entries)
      else Some entries)"

definition put_ttl :: "CacheConfig \<Rightarrow> CacheDecision \<Rightarrow> duration" where
  "put_ttl cfg decision =
     (let ttl = (if \<not> cd_Allow decision then cc_NegativeCacheTTL cfg else cc_TTL cfg) in
      if ttl > cc_MaxTTL cfg then cc_MaxTTL cfg else ttl)"

text \<open>\<open>Put\<close> writes the expiry into the decision it was given and stores that decision.\<close>

definition MemoryCache_Put ::
  "gotime \<Rightarrow> CacheKey option \<Rightarrow> CacheDecision option \<Rightarrow> MemoryCache \<Rightarrow> (goerr \<times> MemoryCache) option" where
  "MemoryCache_Put now key decision c =
     (case key of
        None \<Rightarrow> Some (Some ErrCacheKeyRequired, inc_PutErrors c)
      | Some k \<Rightarrow>
     (case decision of
        None \<Rightarrow> Some (Some ErrDecisionRequired, inc_PutErrors c)
      | Some d \<Rightarrow>
     (case validateDecision d of
        Some err \<Rightarrow> Some (Some (Errorf ''invalid decision: '' err []), inc_PutErrors c)
      | None \<Rightarrow>
     (if isCachePoisoningAttempt k d then Some (Some ErrCachePoisoning, inc_PutErrors c)
      else if \<not> cd_Allow d \<and> \<not> cc_EnableNegativeCache (mc_config c) then Some (None, c)
      else
        let expiresAt = now + put_ttl (mc_config c) d;
            entry = \<lparr>ce_key = k, ce_decision = d\<lparr>cd_ExpiresAt := expiresAt\<rparr>, ce_expiresAt = expiresAt\<rparr>;
            keyStr = CacheKey_String k
        in do {
             c1 \<leftarrow> (if int (length (mc_entries c)) \<ge> cc_MaxSize (mc_config c)
                    then map_option (\<lambda>es. inc_Evictions (c\<lparr>mc_entries := es\<rparr>))
                           (evictOldest (cc_MaxSize (mc_config c)) (mc_entries c))
                    else Some c);
             Some (None, inc_Puts (c1\<lparr>mc_entries := mset_at keyStr entry (mc_entries c1)\<rparr>))
           }))))"

text \<open>The three invalidations delete the entries that match and count them.\<close>

definition invalidate_where :: "(cacheEntry \<Rightarrow> bool) \<Rightarrow> MemoryCache \<Rightarrow> MemoryCache" where
  "invalidate_where matches c =
     add_Invalidations (length (filter (\<lambda>(_, e). matches e) (mc_entries c)))
       (c\<lparr>mc_entries := filter (\<lambda>(_, e). \<not> matches e) (mc_entries c)\<rparr>)"

definition MemoryCache_InvalidatePolicy :: "string \<Rightarrow> MemoryCache \<Rightarrow> MemoryCache" where
  "MemoryCache_InvalidatePolicy policyVersion =
     invalidate_where (\<lambda>e. ck_PolicyVersion (ce_key e) = policyVersion)"

definition MemoryCache_InvalidateResource :: "string \<Rightarrow> MemoryCache \<Rightarrow> MemoryCache" where
  "MemoryCache_InvalidateResource resource =
     invalidate_where (\<lambda>e. ck_Resource (ce_key e) = resource)"

definition MemoryCache_InvalidateAgent :: "string \<Rightarrow> MemoryCache \<Rightarrow> MemoryCache" where
  "MemoryCache_InvalidateAgent agent = invalidate_where (\<lambda>e. ck_Agent (ce_key e) = agent)"

definition MemoryCache_Clear :: "MemoryCache \<Rightarrow> MemoryCache" where
  "MemoryCache_Clear c = c\<lparr>mc_entries := []\<rparr>"

definition MemoryCache_Metrics :: "MemoryCache \<Rightarrow> MetricsSnapshot" where
  "MemoryCache_Metrics c = (mc_metrics c)\<lparr>ms_CurrentSize := int (length (mc_entries c))\<rparr>"

definition IsStale :: "CacheConfig \<Rightarrow> gotime \<Rightarrow> CacheDecision option \<Rightarrow> bool" where
  "IsStale cfg now decision =
     (case decision of
        None \<Rightarrow> True
      | Some d \<Rightarrow> now > cd_ExpiresAt d \<or> now > cd_CreatedAt d + cc_StaleTTL cfg)"

definition CanUseStale :: "CacheConfig \<Rightarrow> gotime \<Rightarrow> CacheDecision option \<Rightarrow> bool" where
  "CanUseStale cfg now decision =
     (case decision of
        None \<Rightarrow> False
      | Some d \<Rightarrow> now < cd_ExpiresAt d + cc_StaleTTL cfg)"

section \<open>The invariant\<close>

definition mc_inv :: "MemoryCache \<Rightarrow> bool" where
  "mc_inv c \<longleftrightarrow>
     gomap_ok (mc_entries c)
     \<and> (\<forall>(s, e)\<in>set (mc_entries c). s = CacheKey_String (ce_key e)
            \<and> cd_ExpiresAt (ce_decision e) = ce_expiresAt e)
     \<and> int (length (mc_entries c)) \<le> cc_MaxSize (mc_config c)
     \<and> CacheConfig_Validate (mc_config c) = None"

definition mc_lookup :: "MemoryCache \<Rightarrow> string \<Rightarrow> cacheEntry option" where
  "mc_lookup c = map_of (mc_entries c)"

definition mc_maxTTL :: "MemoryCache \<Rightarrow> duration" where
  "mc_maxTTL c = cc_MaxTTL (mc_config c)"

lemma metric_frame [simp]:
  "mc_entries (inc_Hits c) = mc_entries c" "mc_config (inc_Hits c) = mc_config c"
  "mc_entries (inc_Misses c) = mc_entries c" "mc_config (inc_Misses c) = mc_config c"
  "mc_entries (inc_StaleHits c) = mc_entries c" "mc_config (inc_StaleHits c) = mc_config c"
  "mc_entries (inc_Puts c) = mc_entries c" "mc_config (inc_Puts c) = mc_config c"
  "mc_entries (inc_PutErrors c) = mc_entries c" "mc_config (inc_PutErrors c) = mc_config c"
  "mc_entries (inc_Evictions c) = mc_entries c" "mc_config (inc_Evictions c) = mc_config c"
  "mc_entries (add_Invalidations n c) = mc_entries c" "mc_config (add_Invalidations n c) = mc_config c"
  by (simp_all add: metric_defs)

lemma mc_inv_metric [simp]:
  "mc_inv (inc_Hits c) = mc_inv c" "mc_inv (inc_Misses c) = mc_inv c"
  "mc_inv (inc_StaleHits c) = mc_inv c" "mc_inv (inc_Puts c) = mc_inv c"
  "mc_inv (inc_PutErrors c) = mc_inv c" "mc_inv (inc_Evictions c) = mc_inv c"
  "mc_inv (add_Invalidations n c) = mc_inv c"
  by (simp_all add: mc_inv_def)

lemma CacheKey_String_nonempty [simp]: "CacheKey_String k \<noteq> []"
proof -
  have "length (CacheKey_String k) = 64" by (simp add: CacheKey_String_def length_Sum256)
  then show ?thesis by auto
qed

lemma Validate_MaxSize: "CacheConfig_Validate cfg = None \<Longrightarrow> 0 < cc_MaxSize cfg"
  by (simp add: CacheConfig_Validate_def split: if_splits)

lemma mc_inv_MaxSize: "mc_inv c \<Longrightarrow> 0 < cc_MaxSize (mc_config c)"
  by (simp add: mc_inv_def Validate_MaxSize)

lemma mc_inv_subset:
  assumes "mc_inv c" and "set es \<subseteq> set (mc_entries c)" and "gomap_ok es"
    and "length es \<le> length (mc_entries c)"
  shows "mc_inv (c\<lparr>mc_entries := es\<rparr>)"
  using assms by (auto simp: mc_inv_def)

lemma set_delete_subset: "set (AList.delete k m) \<subseteq> set m"
  by (induction m) auto

lemma NewMemoryCache_inv: "NewMemoryCache cfg = Inr c \<Longrightarrow> mc_inv c \<and> mc_entries c = [] \<and> mc_config c = cfg"
  by (auto simp: NewMemoryCache_def mc_inv_def dest: Validate_MaxSize split: option.splits)

section \<open>Eviction\<close>

lemma oldest_loop_min:
  obtains t' where "(oldest_loop es False k t, t') \<in> insert (k, t) ((\<lambda>x. (fst x, ce_expiresAt (snd x))) ` set es)"
    and "t' \<le> t" and "\<forall>x\<in>set es. t' \<le> ce_expiresAt (snd x)"
proof (induction es arbitrary: k t thesis)
  case Nil
  show ?case by (rule Nil [of t]) simp_all
next
  case (Cons se es)
  obtain s e where se: "se = (s, e)" by (cases se)
  show ?case
  proof (cases "ce_expiresAt e < t")
    case True
    obtain t' where "(oldest_loop es False s (ce_expiresAt e), t')
        \<in> insert (s, ce_expiresAt e) ((\<lambda>x. (fst x, ce_expiresAt (snd x))) ` set es)"
      "t' \<le> ce_expiresAt e" "\<forall>x\<in>set es. t' \<le> ce_expiresAt (snd x)"
      by (rule Cons.IH)
    with True show ?thesis by (intro Cons.prems [of t']) (simp_all add: se)
  next
    case False
    obtain t' where "(oldest_loop es False k t, t')
        \<in> insert (k, t) ((\<lambda>x. (fst x, ce_expiresAt (snd x))) ` set es)"
      "t' \<le> t" "\<forall>x\<in>set es. t' \<le> ce_expiresAt (snd x)"
      by (rule Cons.IH)
    with False show ?thesis by (intro Cons.prems [of t']) (simp_all add: se, blast)
  qed
qed

lemma oldest_loop_oldest:
  assumes "es \<noteq> []"
  obtains e where "(oldest_loop es True [] 0, e) \<in> set es"
    and "\<forall>x\<in>set es. ce_expiresAt e \<le> ce_expiresAt (snd x)"
proof -
  obtain s e rest where es: "es = (s, e) # rest" using assms by (cases es) auto
  obtain t' where 1: "(oldest_loop rest False s (ce_expiresAt e), t')
      \<in> insert (s, ce_expiresAt e) ((\<lambda>x. (fst x, ce_expiresAt (snd x))) ` set rest)"
    and 2: "t' \<le> ce_expiresAt e" "\<forall>x\<in>set rest. t' \<le> ce_expiresAt (snd x)"
    by (rule oldest_loop_min)
  from 1 have "(oldest_loop es True [] 0, t') \<in> (\<lambda>x. (fst x, ce_expiresAt (snd x))) ` set es"
    by (simp add: es)
  then obtain e' where "(oldest_loop es True [] 0, e') \<in> set es" "t' = ce_expiresAt e'" by force
  with 2 es show ?thesis by (intro that [of e']) simp_all
qed

lemma evictOldest_done: "int (length es) < m \<Longrightarrow> evictOldest m es = Some es"
  by (subst evictOldest.simps) simp

text \<open>A full cache is one entry over the limit that eviction enforces: one round is enough.\<close>

lemma evictOldest_full:
  assumes ok: "gomap_ok es" and keys: "\<forall>k\<in>fst ` set es. k \<noteq> []"
    and full: "int (length es) = m" "0 < m"
  shows "evictOldest m es = Some (AList.delete (oldest_loop es True [] 0) es)"
proof -
  let ?k = "oldest_loop es True [] 0"
  from full have "es \<noteq> []" by auto
  then obtain e where "(?k, e) \<in> set es" by (rule oldest_loop_oldest)
  then have k: "?k \<in> fst ` set es" by force
  then have "Suc (length (AList.delete ?k es)) = length es"
    by (rule length_delete_ok [OF ok])
  with full have "evictOldest m (AList.delete ?k es) = Some (AList.delete ?k es)"
    by (intro evictOldest_done) linarith
  moreover have "?k \<noteq> []" using keys k by blast
  ultimately show ?thesis using full by (subst evictOldest.simps) (simp add: Let_def)
qed

section \<open>Correctness of the operations\<close>

definition cacheable :: "CacheConfig \<Rightarrow> CacheKey \<Rightarrow> CacheDecision \<Rightarrow> bool" where
  "cacheable cfg k d \<longleftrightarrow>
     validateDecision d = None \<and> \<not> isCachePoisoningAttempt k d
     \<and> (cd_Allow d \<or> cc_EnableNegativeCache cfg)"

definition new_entry :: "CacheConfig \<Rightarrow> gotime \<Rightarrow> CacheKey \<Rightarrow> CacheDecision \<Rightarrow> cacheEntry" where
  "new_entry cfg now k d =
     (let x = now + put_ttl cfg d in
      \<lparr>ce_key = k, ce_decision = d\<lparr>cd_ExpiresAt := x\<rparr>, ce_expiresAt = x\<rparr>)"

definition after_eviction :: "MemoryCache \<Rightarrow> (string, cacheEntry) gomap" where
  "after_eviction c =
     (if int (length (mc_entries c)) \<ge> cc_MaxSize (mc_config c)
      then AList.delete (oldest_loop (mc_entries c) True [] 0) (mc_entries c) else mc_entries c)"

text \<open>On a well-formed cache \<open>Put\<close> returns; an uncacheable decision leaves the entries alone.\<close>

lemma mc_inv_keys: "mc_inv c \<Longrightarrow> \<forall>k\<in>fst ` set (mc_entries c). k \<noteq> []"
  by (auto simp: mc_inv_def)

lemma mc_inv_full:
  assumes "mc_inv c" and "int (length (mc_entries c)) \<ge> cc_MaxSize (mc_config c)"
  shows "evictOldest (cc_MaxSize (mc_config c)) (mc_entries c)
       = Some (AList.delete (oldest_loop (mc_entries c) True [] 0) (mc_entries c))"
  using assms mc_inv_keys mc_inv_MaxSize
  by (intro evictOldest_full) (auto simp: mc_inv_def)

lemma Put_cacheable:
  assumes "mc_inv c" and "cacheable (mc_config c) k d"
  shows "\<exists>c'. MemoryCache_Put now (Some k) (Some d) c = Some (None, c')
     \<and> mc_entries c' = AList.update (CacheKey_String k) (new_entry (mc_config c) now k d) (after_eviction c)
     \<and> mc_config c' = mc_config c"
proof -
  have "\<not> (\<not> cd_Allow d \<and> \<not> cc_EnableNegativeCache (mc_config c))"
    and "validateDecision d = None" and "\<not> isCachePoisoningAttempt k d"
    using assms(2) by (auto simp: cacheable_def)
  with mc_inv_full [OF assms(1)] show ?thesis
    by (simp add: MemoryCache_Put_def after_eviction_def new_entry_def Let_def del: de_Morgan_conj)
qed

lemma Put_uncacheable:
  assumes "\<not> cacheable (mc_config c) k d"
  shows "\<exists>err c'. MemoryCache_Put now (Some k) (Some d) c = Some (err, c')
     \<and> mc_entries c' = mc_entries c \<and> mc_config c' = mc_config c"
proof (cases "validateDecision d")
  case None
  with assms have "isCachePoisoningAttempt k d \<or> (\<not> cd_Allow d \<and> \<not> cc_EnableNegativeCache (mc_config c))"
    by (auto simp: cacheable_def)
  with None show ?thesis by (elim disjE) (simp_all add: MemoryCache_Put_def)
qed (simp add: MemoryCache_Put_def)

lemma after_eviction_props:
  assumes "mc_inv c"
  shows "gomap_ok (after_eviction c)" and "set (after_eviction c) \<subseteq> set (mc_entries c)"
    and "int (length (after_eviction c)) < cc_MaxSize (mc_config c)"
proof -
  have ok: "gomap_ok (mc_entries c)" and le: "int (length (mc_entries c)) \<le> cc_MaxSize (mc_config c)"
    using assms by (simp_all add: mc_inv_def)
  show "gomap_ok (after_eviction c)" using ok by (simp add: after_eviction_def)
  show "set (after_eviction c) \<subseteq> set (mc_entries c)"
    using set_delete_subset [of _ "mc_entries c"] by (simp add: after_eviction_def)
  show "int (length (after_eviction c)) < cc_MaxSize (mc_config c)"
  proof (cases "int (length (mc_entries c)) \<ge> cc_MaxSize (mc_config c)")
    case True
    with mc_inv_MaxSize [OF assms] have "mc_entries c \<noteq> []" by auto
    then obtain e where "(oldest_loop (mc_entries c) True [] 0, e) \<in> set (mc_entries c)"
      by (rule oldest_loop_oldest)
    then have "oldest_loop (mc_entries c) True [] 0 \<in> fst ` set (mc_entries c)" by force
    from length_delete_ok [OF ok this] le True show ?thesis by (simp add: after_eviction_def)
  qed (simp add: after_eviction_def)
qed

lemma map_of_after_eviction: "mc_inv c \<Longrightarrow> map_of (after_eviction c) \<subseteq>\<^sub>m map_of (mc_entries c)"
  by (auto simp: after_eviction_def map_le_def)

lemma mc_inv_update:
  assumes "mc_inv c" and "mc_config c' = mc_config c"
    and "mc_entries c' = AList.update (CacheKey_String k) (new_entry (mc_config c) now k d) (after_eviction c)"
  shows "mc_inv c'"
proof -
  have sub: "set (AList.update s e m) \<subseteq> insert (s, e) (set m)" for s e and m :: "(string \<times> cacheEntry) list"
    by (induction m) auto
  have "int (length (mc_entries c')) \<le> cc_MaxSize (mc_config c)"
    using after_eviction_props(3) [OF assms(1)] by (simp add: assms(3) length_update)
  moreover have "\<forall>(s, e)\<in>set (mc_entries c'). s = CacheKey_String (ce_key e)
            \<and> cd_ExpiresAt (ce_decision e) = ce_expiresAt e"
  proof (clarify)
    fix s e assume "(s, e) \<in> set (mc_entries c')"
    then have "(s, e) = (CacheKey_String k, new_entry (mc_config c) now k d) \<or> (s, e) \<in> set (mc_entries c)"
      using sub after_eviction_props(2) [OF assms(1)] unfolding assms(3) by blast
    then show "s = CacheKey_String (ce_key e) \<and> cd_ExpiresAt (ce_decision e) = ce_expiresAt e"
      using assms(1) by (auto simp: mc_inv_def new_entry_def Let_def)
  qed
  ultimately show ?thesis
    using after_eviction_props(1) [OF assms(1)] assms by (simp add: mc_inv_def)
qed

lemma Put_cases:
  assumes "mc_inv c" and "MemoryCache_Put now (Some k) (Some d) c = Some (err, c')"
  shows "mc_config c' = mc_config c \<and>
    (if cacheable (mc_config c) k d
     then err = None \<and> mc_entries c' = AList.update (CacheKey_String k) (new_entry (mc_config c) now k d) (after_eviction c)
     else mc_entries c' = mc_entries c)"
proof (cases "cacheable (mc_config c) k d")
  case True
  from Put_cacheable [OF assms(1) True, of now] assms(2) True show ?thesis by force
next
  case False
  from Put_uncacheable [OF False, of now] assms(2) False show ?thesis by force
qed

lemma Put_None:
  "k = None \<or> d = None \<Longrightarrow> \<exists>err. MemoryCache_Put now k d c = Some (Some err, inc_PutErrors c)"
  by (cases k; cases d) (simp_all add: MemoryCache_Put_def)

lemma Put_inv:
  assumes "mc_inv c" and "MemoryCache_Put now k d c = Some (err, c')"
  shows "mc_inv c'" and "mc_config c' = mc_config c"
proof -
  have "mc_inv c' \<and> mc_config c' = mc_config c"
  proof (cases "k = None \<or> d = None")
    case True
    from Put_None [OF this, of now c] assms show ?thesis by force
  next
    case False
    then obtain key dec where kd: "k = Some key" "d = Some dec" by auto
    from Put_cases [OF assms(1) assms(2) [unfolded kd]]
    show ?thesis
      using mc_inv_update [OF assms(1), of c' key now dec] assms(1)
      by (cases "cacheable (mc_config c) key dec") (simp_all add: mc_inv_def)
  qed
  then show "mc_inv c'" and "mc_config c' = mc_config c" by simp_all
qed

lemma Put_lookup:
  assumes "mc_inv c" and "MemoryCache_Put now (Some k) (Some d) c = Some (err, c')"
    and "mc_lookup c' s = Some e"
  shows "if s = CacheKey_String k \<and> cacheable (mc_config c) k d
    then e = new_entry (mc_config c) now k d else mc_lookup c s = Some e"
proof (cases "cacheable (mc_config c) k d")
  case True
  with Put_cases [OF assms(1,2)] assms(3) show ?thesis
    using map_of_after_eviction [OF assms(1)]
    by (auto simp: mc_lookup_def map_le_def dom_def split: if_splits)
next
  case False
  with Put_cases [OF assms(1,2)] assms(3) show ?thesis by (simp add: mc_lookup_def)
qed

text \<open>A storing \<open>Put\<close> into a full cache drops one entry of minimal expiry.\<close>

lemma Put_full_lookup:
  assumes "mc_inv c" and full: "\<not> int (length (mc_entries c)) < cc_MaxSize (mc_config c)"
    and es: "mc_entries c' = AList.update (CacheKey_String k) e' (after_eviction c)"
  shows "\<exists>v old. mc_lookup c v = Some old
    \<and> (\<forall>s e. mc_lookup c s = Some e \<longrightarrow> ce_expiresAt old \<le> ce_expiresAt e)
    \<and> (\<forall>s. s \<noteq> CacheKey_String k \<longrightarrow> mc_lookup c' s = (if s = v then None else mc_lookup c s))"
proof -
  define v where "v = oldest_loop (mc_entries c) True [] 0"
  have ok: "gomap_ok (mc_entries c)" using assms by (simp add: mc_inv_def)
  from full mc_inv_MaxSize [OF assms(1)] have "mc_entries c \<noteq> []" by auto
  then obtain old where old: "(v, old) \<in> set (mc_entries c)"
    "\<forall>x\<in>set (mc_entries c). ce_expiresAt old \<le> ce_expiresAt (snd x)"
    unfolding v_def by (rule oldest_loop_oldest)
  have "mc_lookup c v = Some old" using old(1) ok by (simp add: mc_lookup_def map_of_mem)
  moreover have "\<forall>s e. mc_lookup c s = Some e \<longrightarrow> ce_expiresAt old \<le> ce_expiresAt e"
    using old(2) by (force simp: mc_lookup_def dest: map_of_SomeD)
  moreover have "\<forall>s. s \<noteq> CacheKey_String k \<longrightarrow> mc_lookup c' s = (if s = v then None else mc_lookup c s)"
    using full by (simp add: mc_lookup_def es after_eviction_def v_def)
  ultimately show ?thesis by blast
qed

lemma put_ttl_le: "put_ttl cfg d \<le> cc_MaxTTL cfg"
  by (simp add: put_ttl_def Let_def)

lemma invalidate_where_inv: "mc_inv c \<Longrightarrow> mc_inv (invalidate_where P c)"
  by (auto simp: invalidate_where_def intro!: mc_inv_subset) (simp add: mc_inv_def)

lemma invalidate_where_lookup:
  assumes "mc_inv c"
  shows "mc_lookup (invalidate_where P c) s =
    (case mc_lookup c s of Some e \<Rightarrow> if P e then None else Some e | None \<Rightarrow> None)"
proof -
  have "gomap_ok (mc_entries c)" using assms by (simp add: mc_inv_def)
  from map_of_filter_ok [OF this] show ?thesis
    by (simp add: invalidate_where_def mc_lookup_def split: option.splits)
qed

lemma invalidate_where_config [simp]: "mc_config (invalidate_where P c) = mc_config c"
  by (simp add: invalidate_where_def)

lemmas invalidate_defs = MemoryCache_InvalidatePolicy_def MemoryCache_InvalidateResource_def
  MemoryCache_InvalidateAgent_def

lemma Clear_inv: "mc_inv c \<Longrightarrow> mc_inv (MemoryCache_Clear c)"
  by (auto simp: MemoryCache_Clear_def intro!: mc_inv_subset)

lemma mc_inv_delete: "mc_inv c \<Longrightarrow> mc_inv (c\<lparr>mc_entries := AList.delete k (mc_entries c)\<rparr>)"
  by (rule mc_inv_subset) (simp_all add: set_delete_subset length_delete_le, simp add: mc_inv_def)

lemma Get_inv: "mc_inv c \<Longrightarrow> mc_inv (snd (MemoryCache_Get now k c))"
  by (simp add: MemoryCache_Get_def Let_def mc_inv_delete split: option.splits)

lemma Get_lookup: "mc_lookup (snd (MemoryCache_Get now k c)) \<subseteq>\<^sub>m mc_lookup c"
  by (auto simp: MemoryCache_Get_def Let_def mc_lookup_def map_le_def split: option.splits if_splits)

lemma Get_config: "mc_config (snd (MemoryCache_Get now k c)) = mc_config c"
  by (auto simp: MemoryCache_Get_def Let_def split: option.splits)

lemma Get_result:
  "fst (MemoryCache_Get now (Some k) c) =
     (case mc_lookup c (CacheKey_String k) of
        Some e \<Rightarrow> if now > ce_expiresAt e then None else Some (ce_decision e)
      | None \<Rightarrow> None)"
  by (simp add: MemoryCache_Get_def Let_def mc_lookup_def split: option.splits)

section \<open>The contract of the cache interface\<close>

text \<open>
  What \<open>cache.Cache\<close> promises its clients, over an invariant and a lookup function: a hit is an
  unexpired stored decision, a miss means that there is none; \<open>Put\<close> returns and adds at most the
  decision it was given, to live at most the maximal TTL; an invalidation removes exactly the
  entries it names.
\<close>

locale decision_cache =
  fixes inv :: "'c \<Rightarrow> bool"
    and lookup :: "'c \<Rightarrow> string \<Rightarrow> cacheEntry option"
    and maxTTL :: "'c \<Rightarrow> duration"
    and get :: "gotime \<Rightarrow> CacheKey option \<Rightarrow> 'c \<Rightarrow> CacheDecision option \<times> 'c"
    and put :: "gotime \<Rightarrow> CacheKey option \<Rightarrow> CacheDecision option \<Rightarrow> 'c \<Rightarrow> (goerr \<times> 'c) option"
    and invalidatePolicy invalidateResource invalidateAgent :: "string \<Rightarrow> 'c \<Rightarrow> 'c"
    and clear :: "'c \<Rightarrow> 'c"
  assumes get_inv: "inv c \<Longrightarrow> inv (snd (get now k c))"
    and get_maxTTL: "maxTTL (snd (get now k c)) = maxTTL c"
    and get_sub: "inv c \<Longrightarrow> lookup (snd (get now k c)) \<subseteq>\<^sub>m lookup c"
    and get_result: "inv c \<Longrightarrow> fst (get now (Some key) c) =
          (case lookup c (CacheKey_String key) of
             Some e \<Rightarrow> if now > ce_expiresAt e then None else Some (ce_decision e)
           | None \<Rightarrow> None)"
    and put_returns: "inv c \<Longrightarrow> \<exists>err c'. put now k d c = Some (err, c')"
    and put_inv: "inv c \<Longrightarrow> put now k d c = Some (err, c') \<Longrightarrow> inv c'"
    and put_maxTTL: "inv c \<Longrightarrow> put now k d c = Some (err, c') \<Longrightarrow> maxTTL c' = maxTTL c"
    and put_lookup: "inv c \<Longrightarrow> put now (Some key) (Some dec) c = Some (err, c') \<Longrightarrow>
          lookup c' s = Some e \<Longrightarrow>
          lookup c s = Some e
          \<or> s = CacheKey_String key \<and> ce_key e = key
            \<and> ce_decision e = dec\<lparr>cd_ExpiresAt := ce_expiresAt e\<rparr> \<and> ce_expiresAt e \<le> now + maxTTL c"
    and invalidate_inv: "inv c \<Longrightarrow> inv (invalidatePolicy v c)"
          "inv c \<Longrightarrow> inv (invalidateResource v c)" "inv c \<Longrightarrow> inv (invalidateAgent v c)"
    and invalidate_maxTTL: "maxTTL (invalidatePolicy v c) = maxTTL c"
          "maxTTL (invalidateResource v c) = maxTTL c" "maxTTL (invalidateAgent v c) = maxTTL c"
    and invalidatePolicy_lookup: "inv c \<Longrightarrow> lookup (invalidatePolicy v c) s =
          (case lookup c s of
             Some e \<Rightarrow> if ck_PolicyVersion (ce_key e) = v then None else Some e | None \<Rightarrow> None)"
    and invalidateResource_lookup: "inv c \<Longrightarrow> lookup (invalidateResource v c) s =
          (case lookup c s of
             Some e \<Rightarrow> if ck_Resource (ce_key e) = v then None else Some e | None \<Rightarrow> None)"
    and invalidateAgent_lookup: "inv c \<Longrightarrow> lookup (invalidateAgent v c) s =
          (case lookup c s of
             Some e \<Rightarrow> if ck_Agent (ce_key e) = v then None else Some e | None \<Rightarrow> None)"
    and clear_inv: "inv c \<Longrightarrow> inv (clear c)"
    and clear_maxTTL: "maxTTL (clear c) = maxTTL c"
    and clear_lookup: "lookup (clear c) s = None"
begin

text \<open>A property of all entries survives every operation if the stored decision has it.\<close>

definition all_entries :: "(string \<Rightarrow> cacheEntry \<Rightarrow> bool) \<Rightarrow> 'c \<Rightarrow> bool" where
  "all_entries P c \<longleftrightarrow> (\<forall>s e. lookup c s = Some e \<longrightarrow> P s e)"

lemma all_entries_get: "inv c \<Longrightarrow> all_entries P c \<Longrightarrow> all_entries P (snd (get now k c))"
  using get_sub [of c now k] unfolding all_entries_def map_le_def by (metis domI)

lemma all_entries_put:
  assumes "inv c" and "all_entries P c" and "put now (Some key) (Some dec) c = Some (err, c')"
    and "\<And>x. x \<le> now + maxTTL c \<Longrightarrow>
          P (CacheKey_String key) \<lparr>ce_key = key, ce_decision = dec\<lparr>cd_ExpiresAt := x\<rparr>, ce_expiresAt = x\<rparr>"
  shows "all_entries P c'"
  unfolding all_entries_def
proof (intro allI impI)
  fix s e assume "lookup c' s = Some e"
  from put_lookup [OF assms(1,3) this] show "P s e"
  proof
    assume "lookup c s = Some e"
    with assms(2) show ?thesis by (simp add: all_entries_def)
  next
    assume *: "s = CacheKey_String key \<and> ce_key e = key
      \<and> ce_decision e = dec\<lparr>cd_ExpiresAt := ce_expiresAt e\<rparr> \<and> ce_expiresAt e \<le> now + maxTTL c"
    then have "e = \<lparr>ce_key = key, ce_decision = dec\<lparr>cd_ExpiresAt := ce_expiresAt e\<rparr>, ce_expiresAt = ce_expiresAt e\<rparr>"
      by (cases e) simp
    with * assms(4) [of "ce_expiresAt e"] show ?thesis by simp
  qed
qed

lemma all_entries_invalidate:
  assumes "inv c" and "all_entries P c"
  shows "all_entries P (invalidatePolicy v c)" and "all_entries P (invalidateResource v c)"
    and "all_entries P (invalidateAgent v c)" and "all_entries P (clear c)"
  using assms
  by (auto simp: all_entries_def invalidatePolicy_lookup invalidateResource_lookup
      invalidateAgent_lookup clear_lookup split: option.splits if_splits)

lemma invalidated:
  assumes "inv c"
  shows "all_entries (\<lambda>s e. ck_PolicyVersion (ce_key e) \<noteq> v) (invalidatePolicy v c)"
    and "all_entries (\<lambda>s e. ck_Resource (ce_key e) \<noteq> v) (invalidateResource v c)"
    and "all_entries (\<lambda>s e. ck_Agent (ce_key e) \<noteq> v) (invalidateAgent v c)"
  using assms
  by (auto simp: all_entries_def invalidatePolicy_lookup invalidateResource_lookup
      invalidateAgent_lookup split: option.splits if_splits)

end

interpretation mc: decision_cache mc_inv mc_lookup mc_maxTTL MemoryCache_Get MemoryCache_Put
  MemoryCache_InvalidatePolicy MemoryCache_InvalidateResource MemoryCache_InvalidateAgent
  MemoryCache_Clear
proof (unfold_locales, goal_cases)
  case (1 c now k) then show ?case by (rule Get_inv)
next
  case (2 now k c) show ?case by (simp add: mc_maxTTL_def Get_config)
next
  case (3 c now k) show ?case by (rule Get_lookup)
next
  case (4 c now key) show ?case by (rule Get_result)
next
  case (5 c now k d)
  then show ?case
    using Put_None [of k d now c] Put_cacheable [of c "the k" "the d" now] Put_uncacheable [of c "the k" "the d" now]
    by (cases k; cases d) force+
next
  case (6 c now k d err c') then show ?case by (rule Put_inv)
next
  case (7 c now k d err c') then show ?case using Put_inv by (simp add: mc_maxTTL_def)
next
  case (8 c now key dec err c' s e)
  from Put_lookup [OF this] show ?case
    by (auto simp: new_entry_def Let_def mc_maxTTL_def put_ttl_le split: if_splits)
qed (simp_all add: invalidate_defs invalidate_where_inv invalidate_where_lookup mc_maxTTL_def
      Clear_inv, simp_all add: MemoryCache_Clear_def mc_lookup_def)

section \<open>Runs\<close>

text \<open>A run of a cache is a sequence of calls on a new cache.\<close>

datatype cache_op =
    OpGet gotime "CacheKey option"
  | OpPut gotime "CacheKey option" "CacheDecision option"
  | OpInvalidatePolicy string
  | OpInvalidateResource string
  | OpInvalidateAgent string
  | OpClear

fun exec_op :: "cache_op \<Rightarrow> MemoryCache \<Rightarrow> MemoryCache option" where
  "exec_op (OpGet now k) c = Some (snd (MemoryCache_Get now k c))"
| "exec_op (OpPut now k d) c = map_option snd (MemoryCache_Put now k d c)"
| "exec_op (OpInvalidatePolicy v) c = Some (MemoryCache_InvalidatePolicy v c)"
| "exec_op (OpInvalidateResource v) c = Some (MemoryCache_InvalidateResource v c)"
| "exec_op (OpInvalidateAgent v) c = Some (MemoryCache_InvalidateAgent v c)"
| "exec_op OpClear c = Some (MemoryCache_Clear c)"

inductive cache_run :: "CacheConfig \<Rightarrow> cache_op list \<Rightarrow> MemoryCache \<Rightarrow> bool" where
  run_new: "NewMemoryCache cfg = Inr c \<Longrightarrow> cache_run cfg [] c"
| run_op: "cache_run cfg ops c \<Longrightarrow> exec_op op c = Some c' \<Longrightarrow> cache_run cfg (ops @ [op]) c'"

fun invalidates :: "cache_op \<Rightarrow> CacheKey \<Rightarrow> bool" where
  "invalidates (OpInvalidatePolicy v) k = (ck_PolicyVersion k = v)"
| "invalidates (OpInvalidateResource v) k = (ck_Resource k = v)"
| "invalidates (OpInvalidateAgent v) k = (ck_Agent k = v)"
| "invalidates OpClear k = True"
| "invalidates _ k = False"

text \<open>\<open>op\<close> stores a new decision under the key string \<open>s\<close>.\<close>

fun stores :: "CacheConfig \<Rightarrow> cache_op \<Rightarrow> string \<Rightarrow> bool" where
  "stores cfg (OpPut t (Some k) (Some d)) s = (CacheKey_String k = s \<and> cacheable cfg k d)"
| "stores cfg _ s = False"

definition put_in_force :: "CacheConfig \<Rightarrow> cache_op list \<Rightarrow> string \<Rightarrow> cacheEntry \<Rightarrow> bool" where
  "put_in_force cfg ops s e \<longleftrightarrow>
     (\<exists>pre post t k d. ops = pre @ OpPut t (Some k) (Some d) # post
        \<and> s = CacheKey_String k \<and> e = new_entry cfg t k d \<and> cacheable cfg k d
        \<and> (\<forall>op\<in>set post. \<not> invalidates op k \<and> \<not> stores cfg op s))"

lemma put_in_force_new:
  "cacheable cfg k d \<Longrightarrow>
   put_in_force cfg (ops @ [OpPut t (Some k) (Some d)]) (CacheKey_String k) (new_entry cfg t k d)"
  unfolding put_in_force_def by (metis append_Nil2 empty_iff list.set(1))

lemma put_in_force_snoc:
  assumes "put_in_force cfg ops s e" and "\<not> invalidates op (ce_key e)" and "\<not> stores cfg op s"
  shows "put_in_force cfg (ops @ [op]) s e"
proof -
  from assms(1) obtain pre post t k d where
    "ops = pre @ OpPut t (Some k) (Some d) # post" "s = CacheKey_String k" "e = new_entry cfg t k d"
    "cacheable cfg k d" "\<forall>op\<in>set post. \<not> invalidates op k \<and> \<not> stores cfg op s"
    unfolding put_in_force_def by blast
  with assms(2,3) show ?thesis
    unfolding put_in_force_def
    by (intro exI [of _ pre] exI [of _ "post @ [op]"] exI [of _ t] exI [of _ k] exI [of _ d])
      (auto simp: new_entry_def Let_def)
qed

lemma exec_op_total: "mc_inv c \<Longrightarrow> \<exists>c'. exec_op op c = Some c'"
  using mc.put_returns by (cases op) force+

lemma exec_op_inv: "mc_inv c \<Longrightarrow> exec_op op c = Some c' \<Longrightarrow> mc_inv c' \<and> mc_config c' = mc_config c"
  by (cases op) (auto simp: Get_inv Get_config invalidate_defs invalidate_where_inv Clear_inv
      MemoryCache_Clear_def [THEN arg_cong [where f = mc_config]] dest: Put_inv)

lemma exec_op_lookup:
  assumes "mc_inv c" and "exec_op op c = Some c'" and "mc_lookup c' s = Some e"
  shows "(mc_lookup c s = Some e \<and> \<not> invalidates op (ce_key e) \<and> \<not> stores (mc_config c) op s)
    \<or> (\<exists>t k d. op = OpPut t (Some k) (Some d) \<and> s = CacheKey_String k
         \<and> cacheable (mc_config c) k d \<and> e = new_entry (mc_config c) t k d)"
proof (cases op)
  case (OpGet now k)
  with assms Get_lookup [of now k c] show ?thesis by (auto simp: map_le_def dom_def)
next
  case (OpPut t k d)
  show ?thesis
  proof (cases "k = None \<or> d = None")
    case True
    with OpPut Put_None [OF True, of t c] assms show ?thesis by (auto simp: mc_lookup_def)
  next
    case False
    then obtain key dec err where kd: "k = Some key" "d = Some dec"
      and put: "MemoryCache_Put t (Some key) (Some dec) c = Some (err, c')"
      using OpPut assms(2) by auto
    from Put_lookup [OF assms(1) put assms(3)] kd OpPut show ?thesis by (auto split: if_splits)
  qed
qed (use assms in \<open>auto simp: invalidate_defs invalidate_where_lookup mc.clear_lookup
       split: option.splits if_splits\<close>)

lemma cache_run_invariant:
  "cache_run cfg ops c \<Longrightarrow>
     mc_inv c \<and> mc_config c = cfg \<and> (\<forall>s e. mc_lookup c s = Some e \<longrightarrow> put_in_force cfg ops s e)"
proof (induction rule: cache_run.induct)
  case (run_new cfg c)
  then show ?case using NewMemoryCache_inv by (force simp: mc_lookup_def)
next
  case (run_op cfg ops c op c')
  then have inv: "mc_inv c" and cfg: "mc_config c = cfg" by simp_all
  have "put_in_force cfg (ops @ [op]) s e" if "mc_lookup c' s = Some e" for s e
    using exec_op_lookup [OF inv run_op.hyps(2) that] run_op.IH cfg
    by (auto intro: put_in_force_snoc put_in_force_new)
  with exec_op_inv [OF inv run_op.hyps(2)] cfg show ?case by simp
qed

section \<open>Properties\<close>

text \<open>
  C8: The cache serves nothing that was not put there and is still in force. In every run of a
  new cache, a hit at time \<open>now\<close> returns the decision of an earlier \<open>Put\<close> for a key with the same
  key string, at most \<open>MaxTTL\<close> after that \<open>Put\<close>; since then no invalidation by policy version,
  resource or agent of that key, no \<open>Clear\<close> and no other storing \<open>Put\<close> for the key string has
  happened. A deny is only served if the negative cache is enabled.
\<close>

theorem MemoryCache_Get_provenance:
  assumes "cache_run cfg ops c" and "fst (MemoryCache_Get now (Some k) c) = Some d"
  shows "\<exists>pre post t k' d'. ops = pre @ OpPut t (Some k') (Some d') # post
      \<and> CacheKey_String k' = CacheKey_String k
      \<and> d = d'\<lparr>cd_ExpiresAt := t + put_ttl cfg d'\<rparr>
      \<and> now \<le> t + put_ttl cfg d' \<and> put_ttl cfg d' \<le> cc_MaxTTL cfg
      \<and> (cd_Allow d \<or> cc_EnableNegativeCache cfg)
      \<and> (\<forall>op\<in>set post. \<not> invalidates op k' \<and> \<not> stores cfg op (CacheKey_String k))"
proof -
  from assms(2) obtain e where e: "mc_lookup c (CacheKey_String k) = Some e"
    "now \<le> ce_expiresAt e" "d = ce_decision e"
    by (auto simp: Get_result split: option.splits if_splits)
  with cache_run_invariant [OF assms(1)] have "put_in_force cfg ops (CacheKey_String k) e" by simp
  then obtain pre post t k' d' where
    *: "ops = pre @ OpPut t (Some k') (Some d') # post" "CacheKey_String k' = CacheKey_String k"
    and e': "e = new_entry cfg t k' d'" and c: "cacheable cfg k' d'"
    and **: "\<forall>op\<in>set post. \<not> invalidates op k' \<and> \<not> stores cfg op (CacheKey_String k)"
    unfolding put_in_force_def by metis
  have "d = d'\<lparr>cd_ExpiresAt := t + put_ttl cfg d'\<rparr>" "now \<le> t + put_ttl cfg d'"
    "cd_Allow d \<or> cc_EnableNegativeCache cfg"
    using e e' c by (simp_all add: new_entry_def Let_def cacheable_def)
  with * ** put_ttl_le show ?thesis by blast
qed

text \<open>
  C15: \<open>Put\<close> on a well-formed cache always returns. A decision that is valid, not suspected of
  poisoning and not an unwanted negative is stored: \<open>Get\<close> on the key returns it up to its
  expiry and nothing afterwards; the other entries are kept, except that a full cache loses one
  entry, which no entry precedes in expiry. Any other decision leaves the entries unchanged. The
  invariant, with the bound on the number of entries, is kept.
\<close>

theorem MemoryCache_Put_spec:
  assumes "mc_inv c"
  shows "\<exists>err c'. MemoryCache_Put now (Some k) (Some d) c = Some (err, c') \<and> mc_inv c'
    \<and> int (length (mc_entries c')) \<le> cc_MaxSize (mc_config c)
    \<and> (if cacheable (mc_config c) k d
       then err = None
         \<and> (\<forall>t. fst (MemoryCache_Get t (Some k) c') =
              (if t > now + put_ttl (mc_config c) d then None
               else Some (d\<lparr>cd_ExpiresAt := now + put_ttl (mc_config c) d\<rparr>)))
         \<and> (if int (length (mc_entries c)) < cc_MaxSize (mc_config c)
            then \<forall>s. s \<noteq> CacheKey_String k \<longrightarrow> mc_lookup c' s = mc_lookup c s
            else \<exists>v old. mc_lookup c v = Some old
              \<and> (\<forall>s e. mc_lookup c s = Some e \<longrightarrow> ce_expiresAt old \<le> ce_expiresAt e)
              \<and> (\<forall>s. s \<noteq> CacheKey_String k \<longrightarrow>
                    mc_lookup c' s = (if s = v then None else mc_lookup c s)))
       else mc_lookup c' = mc_lookup c)"
proof -
  from mc.put_returns [OF assms] obtain err c' where
    put: "MemoryCache_Put now (Some k) (Some d) c = Some (err, c')" by blast
  have inv: "mc_inv c'" and cfg: "mc_config c' = mc_config c" using Put_inv [OF assms put] by simp_all
  have size: "int (length (mc_entries c')) \<le> cc_MaxSize (mc_config c)"
    using inv cfg by (simp add: mc_inv_def)
  note cases = Put_cases [OF assms put]
  show ?thesis
  proof (cases "cacheable (mc_config c) k d")
    case False
    with put inv size cases show ?thesis by (simp add: mc_lookup_def)
  next
    case True
    with cases have err: "err = None"
      and es: "mc_entries c' = AList.update (CacheKey_String k) (new_entry (mc_config c) now k d) (after_eviction c)"
      by simp_all
    have get: "\<forall>t. fst (MemoryCache_Get t (Some k) c') =
              (if t > now + put_ttl (mc_config c) d then None
               else Some (d\<lparr>cd_ExpiresAt := now + put_ttl (mc_config c) d\<rparr>))"
      by (simp add: Get_result mc_lookup_def es new_entry_def Let_def)
    show ?thesis
    proof (cases "int (length (mc_entries c)) < cc_MaxSize (mc_config c)")
      case True
      then have "after_eviction c = mc_entries c" by (simp add: after_eviction_def)
      then have "\<forall>s. s \<noteq> CacheKey_String k \<longrightarrow> mc_lookup c' s = mc_lookup c s"
        by (simp add: mc_lookup_def es)
      with True \<open>cacheable (mc_config c) k d\<close> put inv size err get show ?thesis by simp
    next
      case False
      from Put_full_lookup [OF assms False es]
      have "\<exists>v old. mc_lookup c v = Some old
              \<and> (\<forall>s e. mc_lookup c s = Some e \<longrightarrow> ce_expiresAt old \<le> ce_expiresAt e)
              \<and> (\<forall>s. s \<noteq> CacheKey_String k \<longrightarrow> mc_lookup c' s = (if s = v then None else mc_lookup c s))" .
      with False \<open>cacheable (mc_config c) k d\<close> put inv size err get show ?thesis by simp
    qed
  qed
qed

text \<open>
  C17: No sequence of calls makes the cache hang or outgrow its limit: after any run of a new
  cache every further call returns, and the cache holds at most \<open>MaxSize\<close> entries, each under
  the string of its own key and with the expiry of its decision.
\<close>

theorem MemoryCache_never_stuck:
  assumes "cache_run cfg ops c"
  shows "(\<exists>c'. exec_op op c = Some c') \<and> int (length (mc_entries c)) \<le> cc_MaxSize cfg
    \<and> gomap_ok (mc_entries c)
    \<and> (\<forall>(s, e)\<in>set (mc_entries c). s = CacheKey_String (ce_key e)
          \<and> cd_ExpiresAt (ce_decision e) = ce_expiresAt e)"
proof -
  from cache_run_invariant [OF assms] have inv: "mc_inv c" and cfg: "mc_config c = cfg" by simp_all
  with exec_op_total [OF inv, of op] show ?thesis by (simp add: mc_inv_def)
qed

section \<open>Witnesses\<close>

definition sample_key :: CacheKey where
  "sample_key =
     \<lparr>ck_Agent = ''alice'', ck_DID = [], ck_Client = [], ck_Method = ''GET'', ck_Mode = ''read'',
      ck_Resource = ''https://pod.example/a'', ck_PolicyVersion = ''v1'', ck_ParserVersion = [],
      ck_EvaluatorVersion = []\<rparr>"

definition sample_decision :: CacheDecision where
  "sample_decision =
     \<lparr>cd_Allow = True, cd_Reason = ''policy_allow'', cd_Stale = False, cd_EvaluatorVersion = [],
      cd_PolicyVersion = ''v1'', cd_ParserVersion = [], cd_CreatedAt = 9, cd_ExpiresAt = 0\<rparr>"

definition sample_cache0 :: MemoryCache where
  "sample_cache0 =
     \<lparr>mc_entries = [], mc_config = DefaultCacheConfig, mc_metrics = zero_MetricsSnapshot\<rparr>"

definition sample_cache :: MemoryCache where
  "sample_cache = inc_Puts (sample_cache0\<lparr>mc_entries :=
     [(CacheKey_String sample_key, new_entry DefaultCacheConfig 10 sample_key sample_decision)]\<rparr>)"

lemma sample_run0: "cache_run DefaultCacheConfig [] sample_cache0"
  by (rule run_new) (simp add: NewMemoryCache_def CacheConfig_Validate_def DefaultCacheConfig_def sample_cache0_def)

lemma sample_put: "exec_op (OpPut 10 (Some sample_key) (Some sample_decision)) sample_cache0 = Some sample_cache"
  by (simp add: MemoryCache_Put_def validateDecision_def isCachePoisoningAttempt_def sample_key_def
      sample_decision_def sample_cache0_def sample_cache_def DefaultCacheConfig_def new_entry_def
      put_ttl_def Let_def)

lemma sample_run: "cache_run DefaultCacheConfig [OpPut 10 (Some sample_key) (Some sample_decision)] sample_cache"
  using run_op [OF sample_run0 sample_put] by simp

theorem MemoryCache_Get_provenance_witness:
  "cache_run DefaultCacheConfig [OpPut 10 (Some sample_key) (Some sample_decision)] sample_cache
   \<and> (\<exists>t k' d'. OpPut t (Some k') (Some d') \<in> {OpPut 10 (Some sample_key) (Some sample_decision)}
        \<and> CacheKey_String k' = CacheKey_String sample_key \<and> 20 \<le> t + put_ttl DefaultCacheConfig d')"
proof -
  have hit: "fst (MemoryCache_Get 20 (Some sample_key) sample_cache)
    = Some (sample_decision\<lparr>cd_ExpiresAt := 10 + put_ttl DefaultCacheConfig sample_decision\<rparr>)"
    by (simp add: Get_result mc_lookup_def sample_cache_def new_entry_def Let_def put_ttl_def
        DefaultCacheConfig_def sample_decision_def)
  from MemoryCache_Get_provenance [OF sample_run hit] sample_run show ?thesis
    by (auto simp: Cons_eq_append_conv)
qed

theorem MemoryCache_Put_spec_witness:
  "mc_inv sample_cache
   \<and> (\<exists>err c'. MemoryCache_Put 30 (Some sample_key) (Some sample_decision) sample_cache = Some (err, c')
        \<and> mc_inv c')"
proof -
  have inv: "mc_inv sample_cache" using cache_run_invariant [OF sample_run] by simp
  with MemoryCache_Put_spec [OF inv, of 30 sample_key sample_decision] show ?thesis by blast
qed

theorem MemoryCache_never_stuck_witness:
  "cache_run DefaultCacheConfig [OpPut 10 (Some sample_key) (Some sample_decision)] sample_cache
   \<and> (\<exists>c'. exec_op OpClear sample_cache = Some c')"
  using MemoryCache_never_stuck [OF sample_run, of OpClear] sample_run by blast

end
