(* ===== verification/Caching_Evaluator.thy ===== *)
theory Caching_Evaluator
  imports Decision_Cache
begin

text \<open>
  The caching evaluator of \<open>internal/authz/caching_evaluator.go\<close>: a decision cache in front of
  another evaluator.

  The wrapped \<open>Evaluator\<close> is an interface; what it answers during a call is an argument of the
  model, a function from requests to results. \<open>Evaluate\<close> reads the clock three times: in
  \<open>cache.Get\<close> (\<open>tg\<close>), in \<open>convertToCacheDecision\<close> (\<open>tc\<close>) and in \<open>cache.Put\<close> (\<open>tp\<close>). The background
  refresh that a stale hit starts is a separate operation; \<open>Evaluate\<close> reports whether it starts
  one. Logging is left out. As in the cache model, \<open>None\<close> stands for a call that never returns.
\<close>

section \<open>Data\<close>

definition ErrCachingEvaluatorNotConfigured :: goerror where
  "ErrCachingEvaluatorNotConfigured = ErrorsNew ''caching evaluator not properly configured''"

type_synonym PolicyChangeType = string

definition PolicyChangeTypeCreate :: PolicyChangeType where "PolicyChangeTypeCreate = ''create''"
definition PolicyChangeTypeUpdate :: PolicyChangeType where "PolicyChangeTypeUpdate = ''update''"
definition PolicyChangeTypeDelete :: PolicyChangeType where "PolicyChangeTypeDelete = ''delete''"

record PolicyChangeEvent =
  pc_ResourceURI :: string
  pc_PolicyURI :: string
  pc_PolicyVersion :: string
  pc_OldPolicyVersion :: string
  pc_ChangeType :: PolicyChangeType
  pc_Timestamp :: gotime

record CachingEvaluatorOptions =
  co_CacheConfig :: CacheConfig
  co_EnableCaching :: bool
  co_CacheTTL :: duration
  co_MaxCacheTTL :: duration
  co_EnableNegativeCache :: bool
  co_NegativeCacheTTL :: duration
  co_SmartInvalidationEnabled :: bool
  co_BackgroundInvalidationInterval :: duration

definition DefaultCachingEvaluatorOptions :: CachingEvaluatorOptions where
  "DefaultCachingEvaluatorOptions =
     \<lparr>co_CacheConfig = DefaultCacheConfig, co_EnableCaching = True, co_CacheTTL = 0,
      co_MaxCacheTTL = 0, co_EnableNegativeCache = False, co_NegativeCacheTTL = 1 * minute,
      co_SmartInvalidationEnabled = True, co_BackgroundInvalidationInterval = 1 * minute\<rparr>"

record CachingEvaluator =
  cv_decisionCache :: MemoryCache
  cv_options :: CachingEvaluatorOptions

section \<open>Operations\<close>

definition apply_cache_overrides :: "CachingEvaluatorOptions \<Rightarrow> CacheConfig" where
  "apply_cache_overrides options =
     (let cfg = co_CacheConfig options;
          cfg = (if co_CacheTTL options > 0 then cfg\<lparr>cc_TTL := co_CacheTTL options\<rparr> else cfg);
          cfg = (if co_MaxCacheTTL options > 0 then cfg\<lparr>cc_MaxTTL := co_MaxCacheTTL options\<rparr> else cfg)
      in cfg\<lparr>cc_EnableNegativeCache := co_EnableNegativeCache options,
             cc_NegativeCacheTTL := co_NegativeCacheTTL options\<rparr>)"

text \<open>The first argument says whether the evaluator to wrap is non-nil.\<close>

definition NewCachingEvaluator :: "bool \<Rightarrow> CachingEvaluatorOptions \<Rightarrow> CachingEvaluator result" where
  "NewCachingEvaluator evaluator options =
     (if \<not> evaluator then Inl (wrapf ErrCachingEvaluatorNotConfigured ''evaluator is required'')
      else
        (case NewMemoryCache (co_CacheConfig options) of
           Inl err \<Rightarrow> Inl (Errorf ''failed to create decision cache: '' err [])
         | Inr _ \<Rightarrow>
             (let options = options\<lparr>co_CacheConfig := apply_cache_overrides options\<rparr> in
              case NewMemoryCache (co_CacheConfig options) of
                Inl err \<Rightarrow> Inl (Errorf ''failed to create decision cache with updated config: '' err [])
              | Inr cacheImpl \<Rightarrow> Inr \<lparr>cv_decisionCache = cacheImpl, cv_options = options\<rparr>)))"

definition createCacheKey :: "Request \<Rightarrow> CacheKey" where
  "createCacheKey request =
     (let primaryMode = (case rq_RequestedModes request of [] \<Rightarrow> AccessModeRead | m # _ \<Rightarrow> m) in
      \<lparr>ck_Agent = rq_AgentWebID request, ck_DID = rq_Issuer request, ck_Client = rq_ClientID request,
       ck_Method = rq_Method request, ck_Mode = primaryMode, ck_Resource = rq_ResourceURI request,
       ck_PolicyVersion = rq_PolicyVersion request, ck_ParserVersion = rq_ParserVersion request,
       ck_EvaluatorVersion = rq_EvaluatorVersion request\<rparr>)"

definition convertFromCacheDecision :: "CacheDecision \<Rightarrow> Request \<Rightarrow> Decision" where
  "convertFromCacheDecision cacheDecision request =
     zero_Decision
       \<lparr>dc_SchemaVersion := SchemaVersion,
        dc_RequestID := rq_RequestID request,
        dc_Decision := (if cd_Allow cacheDecision then DecisionAllow else DecisionDeny),
        dc_ReasonCode := ReasonCachedDecision,
        dc_StatusHint := 0,
        dc_CacheTTLSeconds := truncated_seconds (cd_ExpiresAt cacheDecision - cd_CreatedAt cacheDecision),
        dc_PolicyVersion := cd_PolicyVersion cacheDecision,
        dc_ResourceVersion := rq_ResourceVersion request,
        dc_Audit := AuditForRequest request\<rparr>"

definition convertToCacheDecision ::
  "CachingEvaluator \<Rightarrow> gotime \<Rightarrow> Decision \<Rightarrow> CacheDecision" where
  "convertToCacheDecision e now decision =
     (let ttl = int64_wrap (dc_CacheTTLSeconds decision * second);
          ttl = (if ttl = 0 then cc_TTL (co_CacheConfig (cv_options e)) else ttl)
      in \<lparr>cd_Allow = (dc_Decision decision = DecisionAllow), cd_Reason = dc_ReasonCode decision,
          cd_Stale = False, cd_EvaluatorVersion = SchemaVersion,
          cd_PolicyVersion = dc_PolicyVersion decision, cd_ParserVersion = [],
          cd_CreatedAt = now, cd_ExpiresAt = now + ttl\<rparr>)"

definition cacheDecision ::
  "gotime \<Rightarrow> gotime \<Rightarrow> CacheKey \<Rightarrow> Decision \<Rightarrow> CachingEvaluator \<Rightarrow> (goerr \<times> CachingEvaluator) option" where
  "cacheDecision tc tp key decision e =
     map_option (\<lambda>(err, c). (err, e\<lparr>cv_decisionCache := c\<rparr>))
       (MemoryCache_Put tp (Some key) (Some (convertToCacheDecision e tc decision)) (cv_decisionCache e))"

text \<open>The result: the decision or error, whether a background refresh is started, the new state.\<close>

definition Caching_Evaluate ::
  "gotime \<Rightarrow> gotime \<Rightarrow> gotime \<Rightarrow> (Request \<Rightarrow> Decision result) \<Rightarrow> Request \<Rightarrow> CachingEvaluator
   \<Rightarrow> (Decision result \<times> bool \<times> CachingEvaluator) option" where
  "Caching_Evaluate tg tc tp evaluator request e =
     (if \<not> co_EnableCaching (cv_options e) then Some (evaluator request, False, e)
      else
        let cacheKey = createCacheKey request in
        (case MemoryCache_Get tg (Some cacheKey) (cv_decisionCache e) of
           (cachedDecision, c1) \<Rightarrow>
             let e1 = e\<lparr>cv_decisionCache := c1\<rparr> in
             (case cachedDecision of
                Some cached \<Rightarrow>
                  let decision = convertFromCacheDecision cached request in
                  if \<not> cd_Stale cached then Some (Inr decision, False, e1)
                  else Some (Inr decision, True, e1)
              | None \<Rightarrow>
                  (case evaluator request of
                     Inl err \<Rightarrow> Some (Inl (Errorf ''evaluation failed: '' err []), False, e1)
                   | Inr decision \<Rightarrow>
                       map_option (\<lambda>(_, e2). (Inr decision, False, e2))
                         (cacheDecision tc tp cacheKey decision e1)))))"

definition refreshCacheInBackground ::
  "gotime \<Rightarrow> gotime \<Rightarrow> (Request \<Rightarrow> Decision result) \<Rightarrow> Request \<Rightarrow> CacheKey \<Rightarrow> CachingEvaluator
   \<Rightarrow> CachingEvaluator option" where
  "refreshCacheInBackground tc tp evaluator request key e =
     (case evaluator request of
        Inl err \<Rightarrow> Some e
      | Inr decision \<Rightarrow> map_option snd (cacheDecision tc tp key decision e))"

definition Caching_InvalidatePolicy :: "string \<Rightarrow> CachingEvaluator \<Rightarrow> CachingEvaluator" where
  "Caching_InvalidatePolicy v e =
     e\<lparr>cv_decisionCache := MemoryCache_InvalidatePolicy v (cv_decisionCache e)\<rparr>"

definition Caching_InvalidateResource :: "string \<Rightarrow> CachingEvaluator \<Rightarrow> CachingEvaluator" where
  "Caching_InvalidateResource r e =
     e\<lparr>cv_decisionCache := MemoryCache_InvalidateResource r (cv_decisionCache e)\<rparr>"

definition Caching_InvalidateAgent :: "string \<Rightarrow> CachingEvaluator \<Rightarrow> CachingEvaluator" where
  "Caching_InvalidateAgent a e =
     e\<lparr>cv_decisionCache := MemoryCache_InvalidateAgent a (cv_decisionCache e)\<rparr>"

definition ClearCache :: "CachingEvaluator \<Rightarrow> CachingEvaluator" where
  "ClearCache e = e\<lparr>cv_decisionCache := MemoryCache_Clear (cv_decisionCache e)\<rparr>"

definition EnableCaching :: "bool \<Rightarrow> CachingEvaluator \<Rightarrow> CachingEvaluator" where
  "EnableCaching enabled e = e\<lparr>cv_options := (cv_options e)\<lparr>co_EnableCaching := enabled\<rparr>\<rparr>"

text \<open>The body of the loop in \<open>listenForPolicyChanges\<close>, for one event.\<close>

definition handlePolicyChange :: "PolicyChangeEvent \<Rightarrow> CachingEvaluator \<Rightarrow> CachingEvaluator" where
  "handlePolicyChange event e =
     (if pc_ChangeType event = PolicyChangeTypeCreate \<or> pc_ChangeType event = PolicyChangeTypeUpdate then
        let e = (if pc_OldPolicyVersion event \<noteq> []
                 then Caching_InvalidatePolicy (pc_OldPolicyVersion event) e else e)
        in if pc_ResourceURI event \<noteq> [] then Caching_InvalidateResource (pc_ResourceURI event) e else e
      else if pc_ChangeType event = PolicyChangeTypeDelete then
        let e = (if pc_PolicyVersion event \<noteq> []
                 then Caching_InvalidatePolicy (pc_PolicyVersion event) e else e)
        in if pc_ResourceURI event \<noteq> [] then Caching_InvalidateResource (pc_ResourceURI event) e else e
      else e)"

section \<open>Runs\<close>

text \<open>
  The calls and background activities of a caching evaluator. Each evaluation carries the
  behaviour of the wrapped evaluator during it; a refresh may run at any time.
\<close>

datatype ev_op =
    EvEvaluate gotime gotime gotime "Request \<Rightarrow> Decision result" Request
  | EvRefresh gotime gotime "Request \<Rightarrow> Decision result" Request
  | EvInvalidatePolicy string
  | EvInvalidateResource string
  | EvInvalidateAgent string
  | EvClear
  | EvEnableCaching bool
  | EvPolicyChange PolicyChangeEvent

fun exec_ev :: "ev_op \<Rightarrow> CachingEvaluator \<Rightarrow> CachingEvaluator option" where
  "exec_ev (EvEvaluate tg tc tp evaluator request) e =
     map_option (\<lambda>(_, _, e'). e') (Caching_Evaluate tg tc tp evaluator request e)"
| "exec_ev (EvRefresh tc tp evaluator request) e =
     refreshCacheInBackground tc tp evaluator request (createCacheKey request) e"
| "exec_ev (EvInvalidatePolicy v) e = Some (Caching_InvalidatePolicy v e)"
| "exec_ev (EvInvalidateResource v) e = Some (Caching_InvalidateResource v e)"
| "exec_ev (EvInvalidateAgent v) e = Some (Caching_InvalidateAgent v e)"
| "exec_ev EvClear e = Some (ClearCache e)"
| "exec_ev (EvEnableCaching b) e = Some (EnableCaching b e)"
| "exec_ev (EvPolicyChange event) e = Some (handlePolicyChange event e)"

inductive ev_run :: "CachingEvaluatorOptions \<Rightarrow> ev_op list \<Rightarrow> CachingEvaluator \<Rightarrow> bool" where
  ev_new: "NewCachingEvaluator True options = Inr e \<Longrightarrow> ev_run options [] e"
| ev_step: "ev_run options ops e \<Longrightarrow> exec_ev op e = Some e' \<Longrightarrow> ev_run options (ops @ [op]) e'"

definition change_invalidates :: "PolicyChangeEvent \<Rightarrow> CacheKey \<Rightarrow> bool" where
  "change_invalidates event k \<longleftrightarrow>
     (pc_ChangeType event \<in> {PolicyChangeTypeCreate, PolicyChangeTypeUpdate, PolicyChangeTypeDelete}
      \<and> pc_ResourceURI event \<noteq> [] \<and> ck_Resource k = pc_ResourceURI event)
     \<or> (pc_ChangeType event \<in> {PolicyChangeTypeCreate, PolicyChangeTypeUpdate}
      \<and> pc_OldPolicyVersion event \<noteq> [] \<and> ck_PolicyVersion k = pc_OldPolicyVersion event)
     \<or> (pc_ChangeType event = PolicyChangeTypeDelete
      \<and> pc_PolicyVersion event \<noteq> [] \<and> ck_PolicyVersion k = pc_PolicyVersion event)"

fun ev_invalidates :: "ev_op \<Rightarrow> CacheKey \<Rightarrow> bool" where
  "ev_invalidates (EvInvalidatePolicy v) k = (ck_PolicyVersion k = v)"
| "ev_invalidates (EvInvalidateResource v) k = (ck_Resource k = v)"
| "ev_invalidates (EvInvalidateAgent v) k = (ck_Agent k = v)"
| "ev_invalidates EvClear k = True"
| "ev_invalidates (EvPolicyChange event) k = change_invalidates event k"
| "ev_invalidates _ k = False"

text \<open>\<open>op\<close> evaluated \<open>request\<close> with the result \<open>d\<close> and stored it at time \<open>t\<close>.\<close>

fun ev_answered :: "ev_op \<Rightarrow> gotime \<Rightarrow> Request \<Rightarrow> Decision \<Rightarrow> bool" where
  "ev_answered (EvEvaluate tg tc tp evaluator r) t request d =
     (t = tp \<and> r = request \<and> evaluator r = Inr d)"
| "ev_answered (EvRefresh tc tp evaluator r) t request d =
     (t = tp \<and> r = request \<and> evaluator r = Inr d)"
| "ev_answered _ t request d = False"

definition justified :: "duration \<Rightarrow> ev_op list \<Rightarrow> string \<Rightarrow> cacheEntry \<Rightarrow> bool" where
  "justified maxTTL ops s e \<longleftrightarrow>
     \<not> cd_Stale (ce_decision e) \<and>
     (\<exists>pre post op t request d. ops = pre @ op # post \<and> ev_answered op t request d
        \<and> ce_key e = createCacheKey request \<and> s = CacheKey_String (ce_key e)
        \<and> cd_Allow (ce_decision e) = (dc_Decision d = DecisionAllow)
        \<and> ce_expiresAt e \<le> t + maxTTL
        \<and> (\<forall>op'\<in>set post. \<not> ev_invalidates op' (ce_key e)))"

lemma justified_snoc:
  assumes "justified m ops s e" and "\<not> ev_invalidates op (ce_key e)"
  shows "justified m (ops @ [op]) s e"
proof -
  from assms(1) obtain pre post op0 t request d where "ops = pre @ op0 # post"
    "ev_answered op0 t request d \<and> ce_key e = createCacheKey request \<and> s = CacheKey_String (ce_key e)
     \<and> cd_Allow (ce_decision e) = (dc_Decision d = DecisionAllow) \<and> ce_expiresAt e \<le> t + m"
    "\<forall>op'\<in>set post. \<not> ev_invalidates op' (ce_key e)" and "\<not> cd_Stale (ce_decision e)"
    unfolding justified_def by blast
  with assms(2) show ?thesis
    unfolding justified_def
    by (intro conjI exI [of _ pre] exI [of _ "post @ [op]"] exI [of _ op0] exI [of _ t]
        exI [of _ request] exI [of _ d]) simp_all
qed

lemma justified_new:
  assumes "ev_answered op t request d" and "ce_key e = createCacheKey request"
    and "s = CacheKey_String (ce_key e)" and "cd_Allow (ce_decision e) = (dc_Decision d = DecisionAllow)"
    and "ce_expiresAt e \<le> t + m" and "\<not> cd_Stale (ce_decision e)"
  shows "justified m (ops @ [op]) s e"
  using assms unfolding justified_def
  by (intro conjI exI [of _ ops] exI [of _ "[]"] exI [of _ op] exI [of _ t] exI [of _ request]
      exI [of _ d]) simp_all

section \<open>The invariant of runs\<close>

definition ev_inv :: "ev_op list \<Rightarrow> CachingEvaluator \<Rightarrow> bool" where
  "ev_inv ops e \<longleftrightarrow>
     mc_inv (cv_decisionCache e)
     \<and> mc.all_entries (justified (mc_maxTTL (cv_decisionCache e)) ops) (cv_decisionCache e)"

lemma all_entries_mono:
  "mc.all_entries P c \<Longrightarrow> (\<And>s e. mc_lookup c s = Some e \<Longrightarrow> P s e \<Longrightarrow> Q s e) \<Longrightarrow> mc.all_entries Q c"
  by (simp add: mc.all_entries_def)

lemma ev_inv_keep:
  assumes "ev_inv ops e" and "\<And>k. \<not> ev_invalidates op k"
  shows "ev_inv (ops @ [op]) e"
  using assms by (auto simp: ev_inv_def intro: all_entries_mono justified_snoc)

lemma ev_inv_cacheDecision:
  assumes inv: "ev_inv ops e" and ans: "ev_answered op tp request d" and "\<And>k. \<not> ev_invalidates op k"
    and put: "cacheDecision tc tp (createCacheKey request) d e = Some (err, e')"
  shows "ev_inv (ops @ [op]) e'"
proof -
  let ?c = "cv_decisionCache e" and ?d = "convertToCacheDecision e tc d"
  from put obtain c' where c': "MemoryCache_Put tp (Some (createCacheKey request)) (Some ?d) ?c = Some (err, c')"
    and e': "e' = e\<lparr>cv_decisionCache := c'\<rparr>"
    by (auto simp: cacheDecision_def)
  have "ev_inv (ops @ [op]) e" using ev_inv_keep inv assms(3) by blast
  then have c: "mc_inv ?c" "mc.all_entries (justified (mc_maxTTL ?c) (ops @ [op])) ?c"
    by (simp_all add: ev_inv_def)
  have "mc.all_entries (justified (mc_maxTTL ?c) (ops @ [op])) c'"
    using ans by (intro mc.all_entries_put [OF c c'] justified_new [of op tp request d])
      (simp_all add: convertToCacheDecision_def Let_def)
  with mc.put_inv [OF c(1) c'] mc.put_maxTTL [OF c(1) c'] show ?thesis
    by (simp add: ev_inv_def e')
qed

lemma ev_inv_get:
  assumes "ev_inv ops e"
  shows "ev_inv ops (e\<lparr>cv_decisionCache := snd (MemoryCache_Get t k (cv_decisionCache e))\<rparr>)"
  using assms by (simp add: ev_inv_def mc.get_inv mc.get_maxTTL mc.all_entries_get)

text \<open>The state after an evaluation: unchanged, after the lookup, or after storing the answer.\<close>

lemma Caching_Evaluate_state:
  assumes "Caching_Evaluate tg tc tp evaluator request e = Some (res, refresh, e')"
  obtains (off) "e' = e"
    | (hit) "e' = e\<lparr>cv_decisionCache := snd (MemoryCache_Get tg (Some (createCacheKey request)) (cv_decisionCache e))\<rparr>"
    | (stored) d err where "evaluator request = Inr d"
        "cacheDecision tc tp (createCacheKey request) d
           (e\<lparr>cv_decisionCache := snd (MemoryCache_Get tg (Some (createCacheKey request)) (cv_decisionCache e))\<rparr>)
         = Some (err, e')"
  using assms
  by (auto simp: Caching_Evaluate_def Let_def prod.case_eq_if split: if_splits option.splits sum.splits)

lemma ev_inv_evaluate:
  assumes "ev_inv ops e" and "Caching_Evaluate tg tc tp evaluator request e = Some (res, refresh, e')"
  shows "ev_inv (ops @ [EvEvaluate tg tc tp evaluator request]) e'"
  using assms(2)
proof (cases rule: Caching_Evaluate_state)
  case off
  with ev_inv_keep [OF assms(1), of "EvEvaluate tg tc tp evaluator request"] show ?thesis by simp
next
  case hit
  with ev_inv_keep [OF ev_inv_get [OF assms(1)], of "EvEvaluate tg tc tp evaluator request"]
  show ?thesis by simp
next
  case (stored d err)
  then show ?thesis
    using ev_inv_cacheDecision [OF ev_inv_get [OF assms(1)],
        of "EvEvaluate tg tc tp evaluator request" tp request d] by simp
qed

lemma ev_inv_filter:
  assumes "ev_inv ops e" and "mc_inv (cv_decisionCache e')"
    and "mc_maxTTL (cv_decisionCache e') = mc_maxTTL (cv_decisionCache e)"
    and "\<And>s en. mc_lookup (cv_decisionCache e') s = Some en \<Longrightarrow>
          mc_lookup (cv_decisionCache e) s = Some en \<and> \<not> ev_invalidates op (ce_key en)"
  shows "ev_inv (ops @ [op]) e'"
  using assms by (auto simp: ev_inv_def mc.all_entries_def intro: justified_snoc)

lemmas Caching_invalidate_defs = Caching_InvalidatePolicy_def Caching_InvalidateResource_def
  Caching_InvalidateAgent_def ClearCache_def

lemmas mc_invalidate = mc.invalidate_inv mc.invalidate_maxTTL mc.invalidatePolicy_lookup
  mc.invalidateResource_lookup mc.invalidateAgent_lookup mc.clear_inv mc.clear_maxTTL mc.clear_lookup

lemma PolicyChangeType_distinct [simp]:
  "PolicyChangeTypeCreate \<noteq> PolicyChangeTypeDelete" "PolicyChangeTypeDelete \<noteq> PolicyChangeTypeCreate"
  "PolicyChangeTypeUpdate \<noteq> PolicyChangeTypeDelete" "PolicyChangeTypeDelete \<noteq> PolicyChangeTypeUpdate"
  by (simp_all add: PolicyChangeTypeCreate_def PolicyChangeTypeUpdate_def PolicyChangeTypeDelete_def)

lemma handlePolicyChange_props:
  assumes "mc_inv (cv_decisionCache e)"
  shows "mc_inv (cv_decisionCache (handlePolicyChange event e))"
    and "mc_maxTTL (cv_decisionCache (handlePolicyChange event e)) = mc_maxTTL (cv_decisionCache e)"
    and "mc_lookup (cv_decisionCache (handlePolicyChange event e)) s =
      (case mc_lookup (cv_decisionCache e) s of
         Some en \<Rightarrow> if change_invalidates event (ce_key en) then None else Some en | None \<Rightarrow> None)"
    and "cv_options (handlePolicyChange event e) = cv_options e"
  using assms
  by (simp_all add: handlePolicyChange_def Let_def Caching_invalidate_defs mc_invalidate change_invalidates_def
      split: option.splits)

fun ev_evaluates :: "ev_op \<Rightarrow> bool" where
  "ev_evaluates (EvEvaluate tg tc tp evaluator request) = True"
| "ev_evaluates (EvRefresh tc tp evaluator request) = True"
| "ev_evaluates _ = False"

lemma exec_ev_other:
  assumes "mc_inv (cv_decisionCache e)" and "exec_ev op e = Some e'" and "\<not> ev_evaluates op"
  shows "mc_inv (cv_decisionCache e') \<and> mc_maxTTL (cv_decisionCache e') = mc_maxTTL (cv_decisionCache e)
    \<and> (\<forall>s en. mc_lookup (cv_decisionCache e') s = Some en \<longrightarrow>
         mc_lookup (cv_decisionCache e) s = Some en \<and> \<not> ev_invalidates op (ce_key en))"
  using assms
  by (cases op) (auto simp: Caching_invalidate_defs EnableCaching_def mc_invalidate
      handlePolicyChange_props split: option.splits if_splits)

lemma ev_inv_step:
  assumes "ev_inv ops e" and "exec_ev op e = Some e'"
  shows "ev_inv (ops @ [op]) e'"
proof (cases "ev_evaluates op")
  case False
  with assms exec_ev_other [of e op e'] ev_inv_filter [OF assms(1), of e' op]
  show ?thesis by (simp add: ev_inv_def)
next
  case True
  then consider (evaluate) tg tc tp evaluator request where "op = EvEvaluate tg tc tp evaluator request"
    | (refresh) tc tp evaluator request where "op = EvRefresh tc tp evaluator request"
    by (cases op) auto
  then show ?thesis
  proof cases
    case evaluate
    with assms(2) obtain res refresh where
      "Caching_Evaluate tg tc tp evaluator request e = Some (res, refresh, e')" by auto
    with assms(1) evaluate show ?thesis by (simp add: ev_inv_evaluate)
  next
    case refresh
    show ?thesis
    proof (cases "evaluator request")
      case (Inl err)
      with refresh assms show ?thesis by (auto simp: refreshCacheInBackground_def intro: ev_inv_keep)
    next
      case (Inr d)
      with refresh assms(2) obtain err where
        put: "cacheDecision tc tp (createCacheKey request) d e = Some (err, e')"
        by (auto simp: refreshCacheInBackground_def)
      from ev_inv_cacheDecision [OF assms(1) _ _ put, of op] refresh Inr show ?thesis by simp
    qed
  qed
qed

lemma NewCachingEvaluator_inv:
  assumes "NewCachingEvaluator True options = Inr e"
  shows "ev_inv [] e" and "mc_maxTTL (cv_decisionCache e) = cc_MaxTTL (apply_cache_overrides options)"
proof -
  have "NewMemoryCache (apply_cache_overrides options) = Inr (cv_decisionCache e)"
    using assms by (auto simp: NewCachingEvaluator_def Let_def split: sum.splits)
  from NewMemoryCache_inv [OF this]
  show "ev_inv [] e" and "mc_maxTTL (cv_decisionCache e) = cc_MaxTTL (apply_cache_overrides options)"
    by (simp_all add: ev_inv_def mc.all_entries_def mc_lookup_def mc_maxTTL_def)
qed

lemma cacheDecision_maxTTL:
  assumes "mc_inv (cv_decisionCache e)" and "cacheDecision tc tp k d e = Some (err, e')"
  shows "mc_maxTTL (cv_decisionCache e') = mc_maxTTL (cv_decisionCache e)"
proof -
  from assms(2) obtain c where "MemoryCache_Put tp (Some k) (Some (convertToCacheDecision e tc d)) (cv_decisionCache e) = Some (err, c)"
    "e' = e\<lparr>cv_decisionCache := c\<rparr>"
    by (auto simp: cacheDecision_def)
  with mc.put_maxTTL [OF assms(1)] show ?thesis by simp
qed

lemma Caching_Evaluate_maxTTL:
  assumes "mc_inv (cv_decisionCache e)" and "Caching_Evaluate tg tc tp evaluator request e = Some (res, refresh, e')"
  shows "mc_maxTTL (cv_decisionCache e') = mc_maxTTL (cv_decisionCache e)"
  using assms(2)
proof (cases rule: Caching_Evaluate_state)
  case (stored d err)
  from cacheDecision_maxTTL [OF _ stored(2)] assms(1) show ?thesis by (simp add: mc.get_inv mc.get_maxTTL)
qed (simp_all add: mc.get_maxTTL)

lemma exec_ev_maxTTL:
  assumes "mc_inv (cv_decisionCache e)" and "exec_ev op e = Some e'"
  shows "mc_maxTTL (cv_decisionCache e') = mc_maxTTL (cv_decisionCache e)"
proof (cases "ev_evaluates op")
  case False
  with exec_ev_other [OF assms] show ?thesis by simp
next
  case True
  then show ?thesis
  proof (cases op)
    case (EvEvaluate tg tc tp evaluator request)
    with assms(2) obtain res refresh where
      "Caching_Evaluate tg tc tp evaluator request e = Some (res, refresh, e')" by auto
    then show ?thesis by (rule Caching_Evaluate_maxTTL [OF assms(1)])
  next
    case (EvRefresh tc tp evaluator request)
    with assms(2) consider "e' = e"
      | d err where "cacheDecision tc tp (createCacheKey request) d e = Some (err, e')"
      by (auto simp: refreshCacheInBackground_def split: sum.splits)
    then show ?thesis
    proof cases
      case 2
      then show ?thesis by (rule cacheDecision_maxTTL [OF assms(1)])
    qed simp
  qed simp_all
qed

lemma ev_run_inv:
  "ev_run options ops e \<Longrightarrow>
     ev_inv ops e \<and> mc_maxTTL (cv_decisionCache e) = cc_MaxTTL (apply_cache_overrides options)"
proof (induction rule: ev_run.induct)
  case (ev_new options e)
  from NewCachingEvaluator_inv [OF this] show ?case by simp
next
  case (ev_step options ops e op e')
  then have inv: "ev_inv ops e" by simp
  with exec_ev_maxTTL [OF _ ev_step.hyps(2)] ev_inv_step [OF inv ev_step.hyps(2)] ev_step.IH
  show ?case by (simp add: ev_inv_def)
qed

lemma ev_run_entries:
  assumes "ev_run options ops e"
  shows "mc_inv (cv_decisionCache e)"
    and "mc.all_entries (justified (cc_MaxTTL (apply_cache_overrides options)) ops) (cv_decisionCache e)"
  using ev_run_inv [OF assms] by (auto simp: ev_inv_def)

section \<open>Properties\<close>

text \<open>
  C9: A cached allow is never older than \<open>MaxTTL\<close> and never survives an invalidation. If, in any
  run, the caching evaluator answers a request with allow, then either the wrapped evaluator has
  just answered so, or in this run an earlier evaluation of a request with the same cache key
  string was answered with allow by the wrapped evaluator, at most \<open>MaxTTL\<close> before, and since then
  neither a policy change event nor an invalidation for that key nor a clear has been processed.
\<close>

theorem Caching_Evaluate_allow_sound:
  assumes "ev_run options ops e"
    and "Caching_Evaluate tg tc tp evaluator request e = Some (Inr d, refresh, e')"
    and "dc_Decision d = DecisionAllow"
  shows "evaluator request = Inr d
    \<or> (\<exists>pre post op t request' d'. ops = pre @ op # post \<and> ev_answered op t request' d'
        \<and> dc_Decision d' = DecisionAllow
        \<and> CacheKey_String (createCacheKey request') = CacheKey_String (createCacheKey request)
        \<and> tg \<le> t + cc_MaxTTL (apply_cache_overrides options)
        \<and> (\<forall>op'\<in>set post. \<not> ev_invalidates op' (createCacheKey request')))"
proof (cases "evaluator request = Inr d")
  case False
  let ?k = "createCacheKey request"
  from False assms(2) obtain cached where
    get: "fst (MemoryCache_Get tg (Some ?k) (cv_decisionCache e)) = Some cached"
    and d: "d = convertFromCacheDecision cached request"
    by (auto simp: Caching_Evaluate_def Let_def prod.case_eq_if split: if_splits option.splits sum.splits)
  have allow: "cd_Allow cached"
    using assms(3) by (simp add: d convertFromCacheDecision_def zero_Decision_def split: if_splits)
  note inv = ev_run_entries(1) [OF assms(1)] and ent = ev_run_entries(2) [OF assms(1)]
  from get obtain en where en: "mc_lookup (cv_decisionCache e) (CacheKey_String ?k) = Some en"
    "tg \<le> ce_expiresAt en" "cached = ce_decision en"
    by (auto simp: mc.get_result [OF inv] split: option.splits if_splits)
  with ent have "justified (cc_MaxTTL (apply_cache_overrides options)) ops (CacheKey_String ?k) en"
    by (simp add: mc.all_entries_def)
  then obtain pre post op t request' d' where
    "ops = pre @ op # post" "ev_answered op t request' d'" "ce_key en = createCacheKey request'"
    "CacheKey_String ?k = CacheKey_String (ce_key en)"
    "cd_Allow (ce_decision en) = (dc_Decision d' = DecisionAllow)"
    "ce_expiresAt en \<le> t + cc_MaxTTL (apply_cache_overrides options)"
    "\<forall>op'\<in>set post. \<not> ev_invalidates op' (ce_key en)"
    unfolding justified_def by blast
  with en allow show ?thesis
    by (intro disjI2 exI [of _ pre] exI [of _ post] exI [of _ op] exI [of _ t] exI [of _ request']
        exI [of _ d']) simp
qed simp


text \<open>
  C18: No run of the evaluator ever starts a background refresh: every stored decision keeps
  \<open>Stale\<close> false, and \<open>Get\<close> does not set it.
\<close>

theorem Caching_Evaluate_never_refreshes:
  assumes "ev_run options ops e"
  shows "\<exists>res e'. Caching_Evaluate tg tc tp evaluator request e = Some (res, False, e')"
proof -
  let ?k = "createCacheKey request"
  note inv = ev_run_entries(1) [OF assms] and ent = ev_run_entries(2) [OF assms]
  have fresh: "\<not> cd_Stale c" if "fst (MemoryCache_Get tg (Some ?k) (cv_decisionCache e)) = Some c" for c
    using that ent by (auto simp: mc.get_result [OF inv] mc.all_entries_def justified_def
        split: option.splits if_splits)
  have "\<exists>err e2. cacheDecision tc tp ?k d (e\<lparr>cv_decisionCache := snd (MemoryCache_Get tg (Some ?k) (cv_decisionCache e))\<rparr>)
      = Some (err, e2)" for d
    using mc.put_returns [OF mc.get_inv [OF inv]] by (fastforce simp: cacheDecision_def)
  with fresh show ?thesis
    by (cases "fst (MemoryCache_Get tg (Some ?k) (cv_decisionCache e))"; cases "evaluator request")
      (fastforce simp: Caching_Evaluate_def Let_def prod.case_eq_if)+
qed

section \<open>Divergences\<close>

text \<open>
  The cache only keeps whether a decision was an allow, so a stored abstain comes back as a
  deny.
\<close>

lemma cached_abstain_is_deny:
  "dc_Decision d = DecisionAbstain \<Longrightarrow>
   dc_Decision (convertFromCacheDecision (convertToCacheDecision e t d) request) = DecisionDeny"
  by (simp add: convertFromCacheDecision_def convertToCacheDecision_def Let_def zero_Decision_def)

text \<open>The key holds only the first requested mode: these two requests share their key.\<close>

lemma cache_key_first_mode_only:
  "createCacheKey (r\<lparr>rq_RequestedModes := [AccessModeRead]\<rparr>)
   = createCacheKey (r\<lparr>rq_RequestedModes := [AccessModeRead, AccessModeWrite]\<rparr>)"
  by (simp add: createCacheKey_def)

text \<open>A decision taken from the cache is rejected by \<open>ValidateDecision\<close>.\<close>

lemma cached_decision_not_valid: "ValidateDecision (convertFromCacheDecision c request) \<noteq> None"
  by (simp add: ValidateDecision_None convertFromCacheDecision_def validReasonCode_def ReasonCode_defs
      zero_Decision_def)

section \<open>Witnesses\<close>

definition allow_all :: "Request \<Rightarrow> Decision result" where
  "allow_all r = Inr (zero_Decision\<lparr>dc_Decision := DecisionAllow, dc_ReasonCode := ReasonPolicyAllow\<rparr>)"

definition deny_all :: "Request \<Rightarrow> Decision result" where
  "deny_all r = Inr (zero_Decision\<lparr>dc_Decision := DecisionDeny, dc_ReasonCode := ReasonPolicyDeny\<rparr>)"

definition sample_ev0 :: CachingEvaluator where
  "sample_ev0 = \<lparr>cv_decisionCache = sample_cache0, cv_options = DefaultCachingEvaluatorOptions\<rparr>"

definition sample_ev1 :: CachingEvaluator where
  "sample_ev1 = sample_ev0\<lparr>cv_decisionCache := inc_Puts ((inc_Misses sample_cache0)\<lparr>mc_entries :=
     [(CacheKey_String (createCacheKey sample_request),
       new_entry DefaultCacheConfig 12 (createCacheKey sample_request)
         (convertToCacheDecision sample_ev0 11 (projr (allow_all sample_request))))]\<rparr>)\<rparr>"

lemma default_overrides: "apply_cache_overrides DefaultCachingEvaluatorOptions = DefaultCacheConfig"
  by (simp add: apply_cache_overrides_def DefaultCachingEvaluatorOptions_def DefaultCacheConfig_def)

lemma sample_ev_run0: "ev_run DefaultCachingEvaluatorOptions [] sample_ev0"
proof (rule ev_new)
  have "NewMemoryCache DefaultCacheConfig = Inr sample_cache0"
    by (simp add: NewMemoryCache_def CacheConfig_Validate_def DefaultCacheConfig_def sample_cache0_def)
  moreover have "co_CacheConfig DefaultCachingEvaluatorOptions = DefaultCacheConfig"
    "DefaultCachingEvaluatorOptions\<lparr>co_CacheConfig := DefaultCacheConfig\<rparr> = DefaultCachingEvaluatorOptions"
    by (simp_all add: DefaultCachingEvaluatorOptions_def)
  ultimately show "NewCachingEvaluator True DefaultCachingEvaluatorOptions = Inr sample_ev0"
    by (simp add: NewCachingEvaluator_def Let_def default_overrides sample_ev0_def)
qed

lemma sample_ev_step: "exec_ev (EvEvaluate 10 11 12 allow_all sample_request) sample_ev0 = Some sample_ev1"
  by (simp add: Caching_Evaluate_def Let_def MemoryCache_Get_def cacheDecision_def MemoryCache_Put_def
      sample_ev0_def sample_ev1_def sample_cache0_def DefaultCachingEvaluatorOptions_def allow_all_def
      DefaultCacheConfig_def convertToCacheDecision_def validateDecision_def isCachePoisoningAttempt_def
      createCacheKey_def sample_request_def put_ttl_def new_entry_def zero_Decision_def ReasonCode_defs
      int64_wrap_def)

lemma sample_ev_run:
  "ev_run DefaultCachingEvaluatorOptions [EvEvaluate 10 11 12 allow_all sample_request] sample_ev1"
  using ev_step [OF sample_ev_run0 sample_ev_step] by simp

lemma sample_hit:
  "\<exists>d e'. Caching_Evaluate 20 21 22 deny_all sample_request sample_ev1 = Some (Inr d, False, e')
     \<and> dc_Decision d = DecisionAllow"
  by (simp add: Caching_Evaluate_def Let_def MemoryCache_Get_def sample_ev0_def sample_ev1_def
      sample_cache0_def DefaultCachingEvaluatorOptions_def DefaultCacheConfig_def new_entry_def
      convertToCacheDecision_def put_ttl_def convertFromCacheDecision_def allow_all_def zero_Decision_def)

theorem Caching_Evaluate_allow_sound_witness:
  "\<exists>pre post op t request' d'. [EvEvaluate 10 11 12 allow_all sample_request] = pre @ op # post
     \<and> ev_answered op t request' d' \<and> dc_Decision d' = DecisionAllow
     \<and> 20 \<le> t + cc_MaxTTL (apply_cache_overrides DefaultCachingEvaluatorOptions)"
proof -
  from sample_hit obtain d e' where
    hit: "Caching_Evaluate 20 21 22 deny_all sample_request sample_ev1 = Some (Inr d, False, e')"
    and allow: "dc_Decision d = DecisionAllow" by blast
  have "deny_all sample_request \<noteq> Inr d" using allow by (auto simp: deny_all_def)
  with Caching_Evaluate_allow_sound [OF sample_ev_run hit allow] show ?thesis by blast
qed

definition sample_change :: PolicyChangeEvent where
  "sample_change =
     \<lparr>pc_ResourceURI = rq_ResourceURI sample_request, pc_PolicyURI = [], pc_PolicyVersion = ''v2'',
      pc_OldPolicyVersion = ''v1'', pc_ChangeType = PolicyChangeTypeUpdate, pc_Timestamp = 15\<rparr>"


theorem Caching_Evaluate_never_refreshes_witness:
  "\<exists>res e'. Caching_Evaluate 20 21 22 deny_all sample_request sample_ev1 = Some (res, False, e')"
  by (rule Caching_Evaluate_never_refreshes [OF sample_ev_run])

end
