(* ===== verification/Rate_Limiter.thy ===== *)
theory Rate_Limiter
  imports Go_Base "HOL-Library.Multiset"
begin

text \<open>
  Package \<open>internal/ratelimit\<close> (\<open>limiter.go\<close>): the fixed-window request limiter and its HTTP
  middleware. \<open>Allow\<close> takes the clock reading; the zero \<open>entry\<close> that Go's map lookup returns for
  a missing key has the zero reset time. The middleware is given the request path and the
  value of \<open>audit.RemoteIP\<close>; its response is either a pass to the next handler or a rejection,
  with the headers set on the way.
\<close>

section \<open>Data and operations\<close>

record limiter_entry =
  le_count :: int
  le_reset :: gotime

record Limiter =
  lm_entries :: "(string, limiter_entry) gomap"
  lm_max :: int
  lm_window :: duration

definition Limiter_New :: "int \<Rightarrow> duration \<Rightarrow> Limiter" where
  "Limiter_New m w = \<lparr>lm_entries = [], lm_max = m, lm_window = w\<rparr>"

definition limiter_key :: "string \<Rightarrow> string" where
  "limiter_key key = (if key = [] then ''unknown'' else key)"

definition current_entry :: "gotime \<Rightarrow> string \<Rightarrow> Limiter \<Rightarrow> limiter_entry" where
  "current_entry now key l =
     (let current = (case mget (lm_entries l) key of
                       Some e \<Rightarrow> e | None \<Rightarrow> \<lparr>le_count = 0, le_reset = zero_time\<rparr>) in
      if IsZero (le_reset current) \<or> \<not> now < le_reset current
      then \<lparr>le_count = 0, le_reset = now + lm_window l\<rparr> else current)"

definition Limiter_Allow :: "gotime \<Rightarrow> string \<Rightarrow> Limiter \<Rightarrow> (bool \<times> int \<times> gotime) \<times> Limiter" where
  "Limiter_Allow now key0 l =
     (let key = limiter_key key0;
          current = current_entry now key l in
      if le_count current \<ge> lm_max l then
        ((False, 0, le_reset current), l\<lparr>lm_entries := mset_at key current (lm_entries l)\<rparr>)
      else
        let current = current\<lparr>le_count := le_count current + 1\<rparr> in
        ((True, lm_max l - le_count current, le_reset current),
         l\<lparr>lm_entries := mset_at key current (lm_entries l)\<rparr>))"

datatype limiter_response =
    Next "(string \<times> string) list"
  | Rejected "(string \<times> string) list" int string

text \<open>
  \<open>reset.Unix()\<close> counts seconds from 1970, 62135596800 seconds after Go's zero time;
  \<open>time.Until\<close> reads the clock again (\<open>now'\<close>).
\<close>

definition unix_seconds :: "gotime \<Rightarrow> int" where
  "unix_seconds t = t div second - 62135596800"

definition maxInt64 :: "int \<Rightarrow> int \<Rightarrow> int" where
  "maxInt64 a b = (if a > b then a else b)"

definition Limiter_Middleware ::
  "gotime \<Rightarrow> gotime \<Rightarrow> string \<Rightarrow> string \<Rightarrow> Limiter option \<Rightarrow> limiter_response \<times> Limiter option" where
  "Limiter_Middleware now now' path remoteIP limiter =
     (case limiter of
        None \<Rightarrow> (Next [], None)
      | Some l \<Rightarrow>
          if path = ''/healthz'' \<or> path = ''/readyz'' then (Next [], Some l)
          else
            (case Limiter_Allow now remoteIP l of
               ((allowed, remaining, reset), l') \<Rightarrow>
                 let headers = [(''RateLimit-Limit'', FormatInt (lm_max l)),
                                (''RateLimit-Remaining'', FormatInt remaining),
                                (''RateLimit-Reset'', FormatInt (unix_seconds reset))] in
                 if \<not> allowed then
                   (Rejected
                      (headers @ [(''Retry-After'',
                         FormatInt (maxInt64 1 (truncated_seconds (reset - now'))))])
                      429 ''rate limit exceeded'', Some l')
                 else (Next headers, Some l')))"

section \<open>Runs\<close>

text \<open>
  A run is a sequence of calls; the log of a key records, for each call on it, the time,
  whether it was allowed, and the reset time reported.
\<close>

fun limiter_run :: "(gotime \<times> string) list \<Rightarrow> Limiter \<Rightarrow> (gotime \<times> string \<times> bool \<times> gotime) list \<times> Limiter" where
  "limiter_run [] l = ([], l)"
| "limiter_run ((now, key) # calls) l =
     (case Limiter_Allow now key l of
        ((allowed, _, reset), l1) \<Rightarrow>
          (case limiter_run calls l1 of
             (log, l2) \<Rightarrow> ((now, limiter_key key, allowed, reset) # log, l2)))"

text \<open>Allowed calls of a key that were charged to the window ending at \<open>r\<close>.\<close>

definition charged :: "string \<Rightarrow> gotime \<Rightarrow> (gotime \<times> string \<times> bool \<times> gotime) list \<Rightarrow> nat" where
  "charged k r log = length (filter (\<lambda>(t, k', a, r'). k' = k \<and> a \<and> r' = r) log)"

definition allowed_between ::
  "string \<Rightarrow> gotime \<Rightarrow> gotime \<Rightarrow> (gotime \<times> string \<times> bool \<times> gotime) list \<Rightarrow> nat" where
  "allowed_between k from until log =
     length (filter (\<lambda>(t, k', a, r). k' = k \<and> a \<and> from \<le> t \<and> t < until) log)"

section \<open>The invariant of runs\<close>

lemma charged_append [simp]:
  "charged k r (log @ [(t, k', a, r')]) = charged k r log + (if k' = k \<and> a \<and> r' = r then 1 else 0)"
  by (simp add: charged_def)

lemma charged_Nil [simp]: "charged k r [] = 0"
  by (simp add: charged_def)

definition entry_inv :: "string \<Rightarrow> gotime \<Rightarrow> (gotime \<times> string \<times> bool \<times> gotime) list \<Rightarrow> Limiter \<Rightarrow> bool" where
  "entry_inv k now log l \<longleftrightarrow>
     (case map_of (lm_entries l) k of
        None \<Rightarrow> \<forall>r. charged k r log = 0
      | Some e \<Rightarrow>
          0 < le_reset e \<and> le_reset e \<le> now + lm_window l
          \<and> le_count e = int (charged k (le_reset e) log) \<and> le_count e \<le> max 0 (lm_max l)
          \<and> (\<forall>r. 0 < charged k r log \<longrightarrow> r = le_reset e \<or> r + lm_window l \<le> le_reset e))"

definition log_inv :: "string \<Rightarrow> gotime \<Rightarrow> (gotime \<times> string \<times> bool \<times> gotime) list \<Rightarrow> Limiter \<Rightarrow> bool" where
  "log_inv k now log l \<longleftrightarrow>
     (\<forall>r. int (charged k r log) \<le> max 0 (lm_max l))
     \<and> (\<forall>r r'. 0 < charged k r log \<longrightarrow> 0 < charged k r' log \<longrightarrow> r < r' \<longrightarrow> r + lm_window l \<le> r')
     \<and> (\<forall>t r. (t, k, True, r) \<in> set log \<longrightarrow> r - lm_window l \<le> t \<and> t < r)"

definition limiter_inv :: "string \<Rightarrow> gotime \<Rightarrow> (gotime \<times> string \<times> bool \<times> gotime) list \<Rightarrow> Limiter \<Rightarrow> bool" where
  "limiter_inv k now log l \<longleftrightarrow> 0 \<le> now \<and> 0 < lm_window l \<and> entry_inv k now log l \<and> log_inv k now log l"

lemma entry_invD:
  assumes "limiter_inv k now log l" and "map_of (lm_entries l) k = Some e" and "0 < charged k r log"
  shows "r = le_reset e \<or> r + lm_window l \<le> le_reset e" and "r \<le> le_reset e"
proof -
  have "0 < lm_window l" and "\<forall>r. 0 < charged k r log \<longrightarrow> r = le_reset e \<or> r + lm_window l \<le> le_reset e"
    using assms(1,2) by (simp_all add: limiter_inv_def entry_inv_def)
  with assms(3) have "0 < lm_window l" "r = le_reset e \<or> r + lm_window l \<le> le_reset e" by blast+
  then show "r = le_reset e \<or> r + lm_window l \<le> le_reset e" and "r \<le> le_reset e"
    by (simp_all, linarith)
qed

text \<open>The window that a call is charged to.\<close>

lemma current_entry_inv:
  assumes "limiter_inv k now log l" and "now \<le> now'"
  shows "now' < le_reset (current_entry now' k l)"
    and "le_reset (current_entry now' k l) \<le> now' + lm_window l"
    and "le_count (current_entry now' k l) = int (charged k (le_reset (current_entry now' k l)) log)"
    and "le_count (current_entry now' k l) \<le> max 0 (lm_max l)"
    and "0 < charged k r log \<Longrightarrow>
          r = le_reset (current_entry now' k l) \<or> r + lm_window l \<le> le_reset (current_entry now' k l)"
proof -
  have pos: "0 \<le> now'" "0 < lm_window l" using assms by (simp_all add: limiter_inv_def)
  have old: "r \<le> now'" if "0 < charged k r log"
    and "map_of (lm_entries l) k = None \<or> (\<exists>e. map_of (lm_entries l) k = Some e \<and> le_reset e \<le> now')" for r
    using that(2)
  proof
    assume "map_of (lm_entries l) k = None"
    with assms(1) that(1) show ?thesis by (simp add: limiter_inv_def entry_inv_def)
  next
    assume "\<exists>e. map_of (lm_entries l) k = Some e \<and> le_reset e \<le> now'"
    with entry_invD(2) [OF assms(1) _ that(1)] show ?thesis by fastforce
  qed
  consider (keep) e where "map_of (lm_entries l) k = Some e" "current_entry now' k l = e" "now' < le_reset e"
    | (fresh) "current_entry now' k l = \<lparr>le_count = 0, le_reset = now' + lm_window l\<rparr>"
      "map_of (lm_entries l) k = None \<or> (\<exists>e. map_of (lm_entries l) k = Some e \<and> le_reset e \<le> now')"
  proof (cases "map_of (lm_entries l) k")
    case None
    then show ?thesis by (intro fresh) (simp_all add: current_entry_def)
  next
    case (Some e)
    with assms have "0 < le_reset e" by (simp add: limiter_inv_def entry_inv_def)
    with Some show ?thesis
      by (cases "now' < le_reset e") (auto simp: current_entry_def intro: keep fresh)
  qed
  note cases = this
  show "now' < le_reset (current_entry now' k l)"
    using cases pos by (cases rule: cases) simp_all
  show "le_reset (current_entry now' k l) \<le> now' + lm_window l"
    by (cases rule: cases) (use assms in \<open>auto simp: limiter_inv_def entry_inv_def\<close>)
  show "le_count (current_entry now' k l) = int (charged k (le_reset (current_entry now' k l)) log)"
  proof (cases rule: cases)
    case fresh
    with old [of "now' + lm_window l"] pos show ?thesis by fastforce
  qed (use assms in \<open>auto simp: limiter_inv_def entry_inv_def\<close>)
  show "le_count (current_entry now' k l) \<le> max 0 (lm_max l)"
    by (cases rule: cases) (use assms in \<open>auto simp: limiter_inv_def entry_inv_def\<close>)
  show "r = le_reset (current_entry now' k l) \<or> r + lm_window l \<le> le_reset (current_entry now' k l)"
    if "0 < charged k r log"
  proof (cases rule: cases)
    case fresh
    with old [OF that] show ?thesis by simp
  next
    case (keep e)
    with entry_invD(1) [OF assms(1) _ that] show ?thesis by simp
  qed
qed

lemma limiter_inv_other:
  assumes "limiter_inv k now log l" and "now \<le> now'" and "k' \<noteq> k" and "limiter_key key = k'"
    and "Limiter_Allow now' key l = ((a, rem, r), l')"
  shows "limiter_inv k now' (log @ [(now', k', a, r)]) l'"
proof -
  obtain e where l': "l' = l\<lparr>lm_entries := AList.update k' e (lm_entries l)\<rparr>"
    using assms(4,5) by (auto simp: Limiter_Allow_def Let_def split: if_splits)
  have "entry_inv k now' (log @ [(now', k', a, r)]) l'"
  proof (cases "map_of (lm_entries l) k")
    case (Some en)
    then have "0 < le_reset en" "le_reset en \<le> now + lm_window l" "le_count en = int (charged k (le_reset en) log)"
      "le_count en \<le> max 0 (lm_max l)"
      using assms(1) by (simp_all add: limiter_inv_def entry_inv_def)
    with Some entry_invD(1) [OF assms(1) Some] assms(2,3) show ?thesis by (simp add: entry_inv_def l')
  qed (use assms in \<open>simp add: limiter_inv_def entry_inv_def l'\<close>)
  moreover have "log_inv k now' (log @ [(now', k', a, r)]) l'"
    using assms(1,3) by (auto simp: limiter_inv_def log_inv_def l')
  ultimately show ?thesis using assms(1,2) by (simp add: limiter_inv_def l')
qed

lemma limiter_inv_same:
  assumes inv: "limiter_inv k now log l" and "now \<le> now'" and key: "limiter_key key = k"
    and allow: "Limiter_Allow now' key l = ((a, rem, r), l')"
  shows "limiter_inv k now' (log @ [(now', k, a, r)]) l'"
proof -
  define c where "c = current_entry now' k l"
  note c = current_entry_inv [OF inv assms(2), folded c_def]
  have r: "r = le_reset c" and a: "a \<longleftrightarrow> le_count c < lm_max l"
    and l': "l' = l\<lparr>lm_entries := AList.update k (if a then c\<lparr>le_count := le_count c + 1\<rparr> else c) (lm_entries l)\<rparr>"
    using allow key by (auto simp: Limiter_Allow_def Let_def c_def split: if_splits)
  have pos: "0 \<le> now'" "0 < lm_window l" using inv assms(2) by (simp_all add: limiter_inv_def)
  have "entry_inv k now' (log @ [(now', k, a, r)]) l'"
    using c pos by (auto simp: entry_inv_def l' r a)
  moreover have "log_inv k now' (log @ [(now', k, a, r)]) l'"
  proof -
    have old: "int (charged k x log) \<le> max 0 (lm_max l)"
      "0 < charged k x log \<Longrightarrow> 0 < charged k y log \<Longrightarrow> x < y \<Longrightarrow> x + lm_window l \<le> y"
      "(t, k, True, x) \<in> set log \<Longrightarrow> x - lm_window l \<le> t \<and> t < x" for x y t
      using inv by (simp_all add: limiter_inv_def log_inv_def)
    have le: "x \<le> le_reset c" if "0 < charged k x log" for x using c(5) [OF that] pos by linarith
    have "int (charged k x (log @ [(now', k, a, r)])) \<le> max 0 (lm_max l)" for x
      using old(1) [of x] c(3) by (auto simp: r a)
    moreover have "x + lm_window l \<le> y"
      if "0 < charged k x (log @ [(now', k, a, r)])" "0 < charged k y (log @ [(now', k, a, r)])" "x < y" for x y
      using that c(5) [of x] le [of y] old(2) [of x y] by (auto simp: r split: if_splits)
    moreover have "x - lm_window l \<le> t \<and> t < x" if "(t, k, True, x) \<in> set (log @ [(now', k, a, r)])" for t x
      using that c(1,2) old(3) [of t x] by (auto simp: r)
    ultimately show ?thesis by (simp add: log_inv_def l' del: charged_append)
  qed
  ultimately show ?thesis using pos by (simp add: limiter_inv_def l')
qed

lemma limiter_run_inv:
  assumes "limiter_inv k now log l" and "sorted (now # map fst calls)"
    and "limiter_run calls l = (log', l')"
  shows "limiter_inv k (last (now # map fst calls)) (log @ log') l'
    \<and> lm_max l' = lm_max l \<and> lm_window l' = lm_window l"
  using assms
proof (induction calls arbitrary: now log l log' l')
  case Nil
  then show ?case by auto
next
  case (Cons call calls)
  obtain t key where call: "call = (t, key)" by (cases call)
  obtain a rem r l1 where allow: "Limiter_Allow t key l = ((a, rem, r), l1)" by (metis surj_pair)
  obtain log2 where run: "limiter_run calls l1 = (log2, l')" and log': "log' = (t, limiter_key key, a, r) # log2"
    using Cons.prems(3) allow by (auto simp: call split: prod.splits)
  have "limiter_inv k t (log @ [(t, limiter_key key, a, r)]) l1"
    using limiter_inv_other [OF Cons.prems(1) _ _ refl allow] limiter_inv_same [OF Cons.prems(1) _ _ allow]
      Cons.prems(2) by (cases "limiter_key key = k") (auto simp: call)
  from Cons.IH [OF this _ run] Cons.prems(2)
  have "limiter_inv k (last (t # map fst calls)) ((log @ [(t, limiter_key key, a, r)]) @ log2) l'
      \<and> lm_max l' = lm_max l1 \<and> lm_window l' = lm_window l1" by (simp add: call)
  moreover have "lm_max l1 = lm_max l" "lm_window l1 = lm_window l"
    using allow by (auto simp: Limiter_Allow_def Let_def split: if_splits)
  ultimately show ?case by (simp add: log' call)
qed

lemma limiter_new_inv:
  "0 \<le> now \<Longrightarrow> 0 < w \<Longrightarrow> limiter_inv k now [] (Limiter_New m w)"
  by (simp add: limiter_inv_def entry_inv_def log_inv_def Limiter_New_def)

lemma length_filter_cover:
  "\<forall>x\<in>set xs. P x \<longrightarrow> Q x \<or> R x \<Longrightarrow> length (filter P xs) \<le> length (filter Q xs) + length (filter R xs)"
  by (induction xs) auto

text \<open>Windows are at least one window length apart, so an interval of that length meets two.\<close>

lemma log_inv_interval:
  assumes "log_inv k now log l" and "0 < lm_window l"
  shows "int (allowed_between k a (a + lm_window l) log) \<le> 2 * max 0 (lm_max l)"
proof -
  let ?w = "lm_window l"
  define R where "R = {r. \<exists>t. (t, k, True, r) \<in> set log \<and> a \<le> t \<and> t < a + ?w}"
  have pos: "0 < charged k r log" if "(t, k, True, r) \<in> set log" for t r
    using that by (force simp: charged_def filter_empty_conv)
  have bounds: "a < r \<and> r < a + 2 * ?w" if "r \<in> R" for r
    using that assms(1) by (force simp: R_def log_inv_def)
  have apart: "r + ?w \<le> r'" if "r \<in> R" "r' \<in> R" "r < r'" for r r'
    using that assms(1) pos unfolding R_def log_inv_def by blast
  have fin: "finite R"
    by (rule finite_subset [of _ "(\<lambda>(t, k, a, r). r) ` set log"]) (force simp: R_def)+
  have two: "r = Min R \<or> r = Max R" if "r \<in> R" for r
  proof (rule ccontr)
    assume "\<not> (r = Min R \<or> r = Max R)"
    with that fin have "Min R < r" "r < Max R" "Min R \<in> R" "Max R \<in> R"
      by (metis Min_le Max_ge Min_in Max_in empty_iff order_le_less)+
    with that apart [of "Min R" r] apart [of r "Max R"] bounds [of "Min R"] bounds [of "Max R"]
    show False by linarith
  qed
  have "allowed_between k a (a + ?w) log \<le> charged k (Min R) log + charged k (Max R) log"
    unfolding allowed_between_def charged_def
  proof (rule length_filter_cover, intro ballI impI)
    fix x assume x: "x \<in> set log" "case x of (t, k', b, r) \<Rightarrow> k' = k \<and> b \<and> a \<le> t \<and> t < a + ?w"
    obtain t r where tr: "x = (t, k, True, r)" "a \<le> t" "t < a + ?w" using x(2) by (cases x) auto
    then have "r \<in> R" using x(1) unfolding R_def by blast
    with tr two [of r] show "(case x of (t, k', b, r) \<Rightarrow> k' = k \<and> b \<and> r = Min R)
        \<or> (case x of (t, k', b, r) \<Rightarrow> k' = k \<and> b \<and> r = Max R)" by auto
  qed
  moreover have "int (charged k r log) \<le> max 0 (lm_max l)" for r
    using assms(1) by (simp add: log_inv_def)
  from this [of "Min R"] this [of "Max R"]
  have "int (charged k (Min R) log) + int (charged k (Max R) log) \<le> 2 * max 0 (lm_max l)" by linarith
  ultimately show ?thesis by linarith
qed

section \<open>Properties\<close>

text \<open>
  C25: The limiter limits. In any run of calls at non-decreasing times on a new limiter, the
  calls of one client that are allowed within one and the same window are at most \<open>max\<close>, and
  within any interval of one window length at most twice \<open>max\<close>.
\<close>

theorem Limiter_bounds_rate:
  assumes "0 < w" and "sorted (0 # map fst calls)" and "limiter_run calls (Limiter_New m w) = (log, l)"
  shows "int (charged k r log) \<le> max 0 m \<and> int (allowed_between k a (a + w) log) \<le> 2 * max 0 m"
proof -
  from limiter_run_inv [OF limiter_new_inv assms(2,3), of k] assms(1)
  have inv: "log_inv k (last (0 # map fst calls)) log l" and l: "lm_max l = m" "lm_window l = w"
    by (auto simp: Limiter_New_def limiter_inv_def)
  from log_inv_interval [OF inv, of a] inv assms(1) l show ?thesis by (auto simp: log_inv_def)
qed

text \<open>
  The limiter does not reject early. A call is rejected only if the client has already been
  allowed \<open>max\<close> calls in the window that is current at that time; in a run at non-decreasing times
  an allowed call reports what is left of the quota and a reset time at most one window ahead.
\<close>

theorem Limiter_Allow_exact:
  assumes "0 < w" and "sorted (0 # map fst calls @ [now])"
    and "limiter_run calls (Limiter_New m w) = (log, l)"
    and "Limiter_Allow now key l = ((allowed, remaining, reset), l')"
  shows "now < reset \<and> reset \<le> now + w
    \<and> (allowed \<longleftrightarrow> int (charged (limiter_key key) reset log) < m)
    \<and> remaining = (if allowed then m - int (charged (limiter_key key) reset log) - 1 else 0)"
proof -
  have sorted: "sorted (0 # map fst calls)" using assms(2) by (simp add: sorted_append)
  from limiter_run_inv [OF limiter_new_inv sorted assms(3), of "limiter_key key"] assms(1)
  have inv: "limiter_inv (limiter_key key) (last (0 # map fst calls)) log l"
    and l: "lm_max l = m" "lm_window l = w"
    by (auto simp: Limiter_New_def)
  have "last (0 # map fst calls) \<le> now"
    using assms(2) by (cases calls rule: rev_cases) (auto simp: sorted_append)
  note current_entry_inv(1-3) [OF inv this]
  with assms(4) l show ?thesis by (auto simp: Limiter_Allow_def Let_def split: if_splits)
qed

section \<open>Witnesses\<close>

definition sample_calls :: "(gotime \<times> string) list" where
  "sample_calls = [(1, ''a''), (2, ''a''), (3, ''a''), (4, ''b''), (12, ''a'')]"

definition sample_log :: "(gotime \<times> string \<times> bool \<times> gotime) list" where
  "sample_log = [(1, ''a'', True, 11), (2, ''a'', True, 11), (3, ''a'', False, 11), (4, ''b'', True, 14), (12, ''a'', True, 22)]"

lemma sample_limiter_run:
  "\<exists>l. limiter_run sample_calls (Limiter_New 2 10) = (sample_log, l)"
  by (simp add: sample_calls_def sample_log_def Limiter_New_def Limiter_Allow_def current_entry_def
      limiter_key_def Let_def)

theorem Limiter_bounds_rate_witness:
  "(\<exists>l. limiter_run sample_calls (Limiter_New 2 10) = (sample_log, l))
   \<and> int (charged ''a'' 11 sample_log) \<le> 2 \<and> int (allowed_between ''a'' 2 12 sample_log) \<le> 4"
proof -
  from sample_limiter_run obtain l where run: "limiter_run sample_calls (Limiter_New 2 10) = (sample_log, l)" ..
  have "sorted (0 # map fst sample_calls)" by (simp add: sample_calls_def)
  from Limiter_bounds_rate [OF _ this run, of "''a''" 11 2] run show ?thesis by auto
qed

theorem Limiter_Allow_exact_witness:
  "\<exists>l l'. limiter_run sample_calls (Limiter_New 2 10) = (sample_log, l)
     \<and> Limiter_Allow 13 ''a'' l = ((True, 0, 22), l')"
proof -
  from sample_limiter_run obtain l where run: "limiter_run sample_calls (Limiter_New 2 10) = (sample_log, l)" ..
  obtain allowed remaining reset l' where
    allow: "Limiter_Allow 13 ''a'' l = ((allowed, remaining, reset), l')" by (metis surj_pair)
  have sorted: "sorted (0 # map fst sample_calls @ [13])" by (simp add: sample_calls_def)
  have reset: "reset = 22"
    using run allow by (auto simp: sample_calls_def sample_log_def Limiter_New_def Limiter_Allow_def
        current_entry_def limiter_key_def Let_def split: if_splits)
  from Limiter_Allow_exact [OF _ sorted run allow] reset run allow show ?thesis
    by (auto simp: charged_def sample_log_def limiter_key_def)
qed

end
