(* ===== verification/Backoff_Evaluator.thy ===== *)
theory Backoff_Evaluator
  imports Authz_Core
begin

text \<open>
  The backoff evaluator of \<open>internal/authz/backoff_evaluator.go\<close>: after consecutive failures of
  the wrapped evaluator it refuses to call it for a growing time. As for the caching evaluator,
  what the wrapped evaluator answers is a function argument. \<open>ta\<close> and \<open>tf\<close> are the readings of
  \<open>e.now()\<close> in \<open>allowAttempt\<close> and \<open>recordFailure\<close>. The failure counter is unbounded; a counter
  above 31 is treated like 32.
\<close>

section \<open>Data and operations\<close>

definition DefaultBackoffEvaluatorBaseDelay :: duration where
  "DefaultBackoffEvaluatorBaseDelay = 500 * millisecond"
definition DefaultBackoffEvaluatorMaxDelay :: duration where
  "DefaultBackoffEvaluatorMaxDelay = 30 * second"

definition ErrEvaluatorBackoffActive :: goerror where
  "ErrEvaluatorBackoffActive = ErrorsNew ''authz evaluator backoff active''"

record BackoffEvaluator =
  bo_baseDelay :: duration
  bo_maxDelay :: duration
  bo_failures :: int
  bo_nextAllowed :: gotime

definition NewBackoffEvaluator :: "bool \<Rightarrow> duration \<Rightarrow> duration \<Rightarrow> BackoffEvaluator result" where
  "NewBackoffEvaluator evaluator BaseDelay MaxDelay =
     (if \<not> evaluator then Inl (ErrorsNew ''authz backoff evaluator requires evaluator'')
      else
        let baseDelay = (if BaseDelay = 0 then DefaultBackoffEvaluatorBaseDelay else BaseDelay);
            maxDelay = (if MaxDelay = 0 then DefaultBackoffEvaluatorMaxDelay else MaxDelay) in
        if baseDelay \<le> 0 \<or> maxDelay \<le> 0 \<or> baseDelay > maxDelay then
          Inl (ErrorsNew ''authz backoff evaluator delays must be positive and ordered'')
        else
          Inr \<lparr>bo_baseDelay = baseDelay, bo_maxDelay = maxDelay, bo_failures = 0,
               bo_nextAllowed = zero_time\<rparr>)"

definition allowAttempt :: "gotime \<Rightarrow> BackoffEvaluator \<Rightarrow> bool" where
  "allowAttempt now e \<longleftrightarrow> IsZero (bo_nextAllowed e) \<or> \<not> now < bo_nextAllowed e"

definition recordSuccess :: "BackoffEvaluator \<Rightarrow> BackoffEvaluator" where
  "recordSuccess e = e\<lparr>bo_failures := 0, bo_nextAllowed := zero_time\<rparr>"

text \<open>The loop of \<open>delayForFailuresLocked\<close>; the first argument counts the iterations left.\<close>

primrec delay_loop :: "nat \<Rightarrow> duration \<Rightarrow> duration \<Rightarrow> duration" where
  "delay_loop 0 maxDelay delay = (if delay > maxDelay then maxDelay else delay)"
| "delay_loop (Suc n) maxDelay delay =
     (if delay \<ge> maxDelay div 2 then maxDelay else delay_loop n maxDelay (int64_wrap (delay * 2)))"

definition delayForFailuresLocked :: "BackoffEvaluator \<Rightarrow> duration" where
  "delayForFailuresLocked e =
     (let shift = bo_failures e - 1 in
      if shift > 30 then bo_maxDelay e
      else delay_loop (nat shift) (bo_maxDelay e) (bo_baseDelay e))"

definition recordFailure :: "gotime \<Rightarrow> BackoffEvaluator \<Rightarrow> BackoffEvaluator" where
  "recordFailure now e =
     (let e = e\<lparr>bo_failures := bo_failures e + 1\<rparr> in
      e\<lparr>bo_nextAllowed := now + delayForFailuresLocked e\<rparr>)"

text \<open>The second result says whether the wrapped evaluator was called.\<close>

definition Backoff_Evaluate ::
  "goerr \<Rightarrow> gotime \<Rightarrow> gotime \<Rightarrow> (Request \<Rightarrow> Decision result) \<Rightarrow> Request \<Rightarrow> BackoffEvaluator
   \<Rightarrow> Decision result \<times> bool \<times> BackoffEvaluator" where
  "Backoff_Evaluate ctxErr ta tf evaluator request e =
     (case ctxErr of
        Some err \<Rightarrow> (Inl err, False, e)
      | None \<Rightarrow>
          if \<not> allowAttempt ta e then (Inl ErrEvaluatorBackoffActive, False, e)
          else
            (case evaluator request of
               Inl err \<Rightarrow> (Inl err, True, recordFailure tf e)
             | Inr decision \<Rightarrow> (Inr decision, True, recordSuccess e)))"

section \<open>Bounds of the delay\<close>

definition bo_ok :: "BackoffEvaluator \<Rightarrow> bool" where
  "bo_ok e \<longleftrightarrow> 0 < bo_baseDelay e \<and> bo_baseDelay e \<le> bo_maxDelay e \<and> bo_maxDelay e \<le> int64_max
     \<and> 0 \<le> bo_failures e"

text \<open>
  Doubling never exceeds the maximum, so it never overflows; the loop is the capped power,
  except that a delay within one of half the maximum is rounded up to the maximum.
\<close>

lemma delay_loop_spec:
  assumes "0 < d" and "d \<le> m" and "m \<le> int64_max"
  shows "d \<le> delay_loop n m d \<and> delay_loop n m d \<le> m
    \<and> min m (d * 2 ^ n) \<le> delay_loop n m d \<and> delay_loop n m d \<le> d * 2 ^ n + 1"
  using assms
proof (induction n arbitrary: d)
  case (Suc n)
  show ?case
  proof (cases "d \<ge> m div 2")
    case True
    have "m \<le> d * 2 + 1" using True by linarith
    also have "d * 2 + 1 \<le> d * 2 ^ Suc n + 1"
      using Suc.prems(1) by simp
    finally show ?thesis using True Suc.prems by simp
  next
    case False
    then have le: "d * 2 \<le> m" by linarith
    then have wrap: "int64_wrap (d * 2) = d * 2"
      using Suc.prems by (intro int64_wrap_id) (simp add: int64_ok_def)
    from Suc.IH [of "d * 2"] le Suc.prems
    have "d * 2 \<le> delay_loop n m (d * 2) \<and> delay_loop n m (d * 2) \<le> m
      \<and> min m (d * 2 * 2 ^ n) \<le> delay_loop n m (d * 2) \<and> delay_loop n m (d * 2) \<le> d * 2 * 2 ^ n + 1"
      by simp
    with False wrap Suc.prems(1) show ?thesis by (simp add: mult.assoc)
  qed
qed simp

lemma delay_loop_mono:
  assumes "0 < d" and "d \<le> m" and "m \<le> int64_max" and "k \<le> n"
  shows "delay_loop k m d \<le> delay_loop n m d"
  using assms
proof (induction k arbitrary: n d)
  case 0
  with delay_loop_spec [of d m n] show ?case by simp
next
  case (Suc k)
  then obtain n' where n: "n = Suc n'" "k \<le> n'" by (cases n) auto
  show ?case
  proof (cases "d \<ge> m div 2")
    case False
    then have le: "d * 2 \<le> m" by linarith
    then have "int64_wrap (d * 2) = d * 2"
      using Suc.prems by (intro int64_wrap_id) (simp add: int64_ok_def)
    with False Suc.IH [of "d * 2" n'] le n Suc.prems show ?thesis by simp
  qed (simp add: n)
qed

lemma delay_bounds:
  assumes "bo_ok e"
  shows "bo_baseDelay e \<le> delayForFailuresLocked e" and "delayForFailuresLocked e \<le> bo_maxDelay e"
  using assms delay_loop_spec [of "bo_baseDelay e" "bo_maxDelay e" "nat (bo_failures e - 1)"]
  by (auto simp: delayForFailuresLocked_def Let_def bo_ok_def)

section \<open>Runs\<close>

text \<open>A call: the context error, the clock readings, the evaluator's behaviour and the request.\<close>

type_synonym backoff_call = "goerr \<times> gotime \<times> gotime \<times> (Request \<Rightarrow> Decision result) \<times> Request"

fun backoff_run :: "backoff_call list \<Rightarrow> BackoffEvaluator \<Rightarrow> BackoffEvaluator" where
  "backoff_run [] e = e"
| "backoff_run ((ctx, ta, tf, ev, req) # calls) e =
     backoff_run calls (snd (snd (Backoff_Evaluate ctx ta tf ev req e)))"

lemma Backoff_Evaluate_ok:
  assumes "bo_ok e"
  shows "bo_ok (snd (snd (Backoff_Evaluate ctx ta tf ev req e)))"
  using assms
  by (auto simp: Backoff_Evaluate_def recordFailure_def recordSuccess_def bo_ok_def Let_def
      split: option.splits sum.splits)

lemma backoff_run_ok: "bo_ok e \<Longrightarrow> bo_ok (backoff_run calls e)"
  by (induction calls e rule: backoff_run.induct) (simp_all add: Backoff_Evaluate_ok)

lemma NewBackoffEvaluator_ok:
  "NewBackoffEvaluator True b m = Inr e \<Longrightarrow> m \<le> int64_max \<Longrightarrow> bo_ok e"
  by (auto simp: NewBackoffEvaluator_def bo_ok_def Let_def DefaultBackoffEvaluatorMaxDelay_def int64_max_def
      split: if_splits)

lemma suppressed:
  assumes "ta < bo_nextAllowed e" and "bo_nextAllowed e \<noteq> 0"
  shows "\<exists>err. Backoff_Evaluate ctx ta tf ev req e = (Inl err, False, e)"
  using assms by (simp add: Backoff_Evaluate_def allowAttempt_def split: option.split)

section \<open>Properties\<close>

text \<open>
  The delay after the \<open>n\<close>-th consecutive failure is the base delay doubled \<open>n - 1\<close> times and
  capped at the maximum (up to one nanosecond of rounding); it never leaves the interval from
  base to maximal delay, never overflows, and never shrinks as failures accumulate.
\<close>

theorem delayForFailures_exponential:
  assumes "bo_ok e" and "1 \<le> n" and "n \<le> n'"
  shows "bo_baseDelay e \<le> delayForFailuresLocked (e\<lparr>bo_failures := n\<rparr>)
    \<and> delayForFailuresLocked (e\<lparr>bo_failures := n\<rparr>) \<le> bo_maxDelay e
    \<and> (n \<le> 31 \<longrightarrow>
        min (bo_maxDelay e) (bo_baseDelay e * 2 ^ nat (n - 1)) \<le> delayForFailuresLocked (e\<lparr>bo_failures := n\<rparr>)
        \<and> delayForFailuresLocked (e\<lparr>bo_failures := n\<rparr>) \<le> bo_baseDelay e * 2 ^ nat (n - 1) + 1)
    \<and> delayForFailuresLocked (e\<lparr>bo_failures := n\<rparr>) \<le> delayForFailuresLocked (e\<lparr>bo_failures := n'\<rparr>)"
proof -
  have ok: "0 < bo_baseDelay e" "bo_baseDelay e \<le> bo_maxDelay e" "bo_maxDelay e \<le> int64_max"
    using assms(1) by (simp_all add: bo_ok_def)
  have "nat (n - 1) \<le> nat (n' - 1)" using assms(3) by simp
  from delay_loop_mono [OF ok this] delay_loop_spec [OF ok, of "nat (n - 1)"] assms(2,3) ok(2)
  show ?thesis by (simp add: delayForFailuresLocked_def Let_def)
qed

text \<open>
  C27: After a failure the wrapped evaluator is left alone for the whole delay: every later call
  that asks before the delay is over fails without calling it and changes nothing, and the
  first call at or after that time is let through. The delay is at least the base delay and at
  most the maximal one.
\<close>

theorem Backoff_Evaluate_suppresses:
  assumes "bo_ok e" and "0 \<le> tf" and "Backoff_Evaluate None ta tf ev req e = (Inl err, True, e1)"
    and "\<forall>(ctx, ta', tf', ev', req')\<in>set calls. ta' < bo_nextAllowed e1"
  shows "tf + bo_baseDelay e \<le> bo_nextAllowed e1 \<and> bo_nextAllowed e1 \<le> tf + bo_maxDelay e
    \<and> backoff_run calls e1 = e1
    \<and> (\<forall>(ctx, ta', tf', ev', req')\<in>set calls. \<exists>err. Backoff_Evaluate ctx ta' tf' ev' req' e1 = (Inl err, False, e1))
    \<and> (\<forall>ta'. bo_nextAllowed e1 \<le> ta' \<longrightarrow> allowAttempt ta' e1)"
proof -
  let ?e = "e\<lparr>bo_failures := bo_failures e + 1\<rparr>"
  have next_: "bo_nextAllowed e1 = tf + delayForFailuresLocked ?e"
    using assms(3) by (auto simp: Backoff_Evaluate_def recordFailure_def Let_def split: if_splits sum.splits)
  have "bo_ok ?e" using assms(1) by (simp add: bo_ok_def)
  from delay_bounds [OF this] have delay: "bo_baseDelay e \<le> delayForFailuresLocked ?e"
    "delayForFailuresLocked ?e \<le> bo_maxDelay e" by simp_all
  then have nz: "bo_nextAllowed e1 \<noteq> 0" using assms(1,2) by (simp add: next_ bo_ok_def)
  have each: "\<exists>err. Backoff_Evaluate ctx ta' tf' ev' req' e1 = (Inl err, False, e1)"
    if "(ctx, ta', tf', ev', req') \<in> set calls" for ctx ta' tf' ev' req'
    using that assms(4) nz by (intro suppressed) auto
  have "backoff_run calls e1 = e1"
    using each
  proof (induction calls)
    case (Cons call calls)
    obtain ctx ta' tf' ev' req' where call: "call = (ctx, ta', tf', ev', req')" by (cases call)
    with Cons.prems [of ctx ta' tf' ev' req'] have "snd (snd (Backoff_Evaluate ctx ta' tf' ev' req' e1)) = e1" by auto
    with Cons call show ?case by simp
  qed simp
  with each delay show ?thesis by (auto simp: next_ allowAttempt_def)
qed

section \<open>Witnesses\<close>

definition sample_backoff :: BackoffEvaluator where
  "sample_backoff = \<lparr>bo_baseDelay = 500 * millisecond, bo_maxDelay = 30 * second, bo_failures = 2,
     bo_nextAllowed = 5\<rparr>"

definition failing :: "Request \<Rightarrow> Decision result" where
  "failing r = Inl (ErrorsNew ''down'')"

theorem delayForFailures_exponential_witness:
  "bo_ok sample_backoff
   \<and> delayForFailuresLocked (sample_backoff\<lparr>bo_failures := 3\<rparr>) \<le> delayForFailuresLocked (sample_backoff\<lparr>bo_failures := 40\<rparr>)
   \<and> delayForFailuresLocked (sample_backoff\<lparr>bo_failures := 3\<rparr>) = 2000 * millisecond"
proof -
  have ok: "bo_ok sample_backoff" by (simp add: bo_ok_def sample_backoff_def int64_max_def)
  have "delayForFailuresLocked (sample_backoff\<lparr>bo_failures := 3\<rparr>) = 2000 * millisecond" by code_simp
  with ok delayForFailures_exponential [OF ok, of 3 40] show ?thesis by simp
qed

theorem Backoff_Evaluate_suppresses_witness:
  "\<exists>e1. Backoff_Evaluate None 10 20 failing sample_request sample_backoff = (Inl (ErrorsNew ''down''), True, e1)
     \<and> bo_nextAllowed e1 \<le> 20 + 30 * second
     \<and> backoff_run [(None, 30, 31, failing, sample_request)] e1 = e1"
proof -
  have ok: "bo_ok sample_backoff" by (simp add: bo_ok_def sample_backoff_def int64_max_def)
  obtain e1 where e1: "Backoff_Evaluate None 10 20 failing sample_request sample_backoff
      = (Inl (ErrorsNew ''down''), True, e1)"
    by (simp add: Backoff_Evaluate_def allowAttempt_def sample_backoff_def failing_def)
  have "bo_nextAllowed e1 = 20 + delayForFailuresLocked (sample_backoff\<lparr>bo_failures := 3\<rparr>)"
    using e1 by (auto simp: Backoff_Evaluate_def allowAttempt_def sample_backoff_def failing_def
        recordFailure_def Let_def)
  moreover have "delayForFailuresLocked (sample_backoff\<lparr>bo_failures := 3\<rparr>) = 2000 * millisecond" by code_simp
  ultimately have "\<forall>(ctx, ta', tf', ev', req')\<in>set [(None, 30, 31, failing, sample_request)]. ta' < bo_nextAllowed e1"
    by simp
  from Backoff_Evaluate_suppresses [OF ok _ e1 this] e1 show ?thesis by (auto simp: sample_backoff_def)
qed

end
