(* ===== verification/Replay_Cache.thy ===== *)
theory Replay_Cache
  imports Go_Sha256
begin

text \<open>
  The replay cache of \<open>internal/authn/replay_cache.go\<close> and the freshness checks of DPoP proofs
  that use it (\<open>dpop.go\<close>).

  \<open>Store\<close> deletes entries while it ranges over its map when the cache is full. Go leaves the order
  of that loop open and may choose another one in every call, so the order is an argument of the
  operation: a function \<open>range_order\<close> that lists the entries of the map. Nothing is assumed of it
  beyond that it permutes them.
\<close>

section \<open>Data and operations\<close>

definition DefaultReplayCacheMaxEntries :: int where
  "DefaultReplayCacheMaxEntries = 10000"

record ReplayCache =
  rc_entries :: "(string, gotime) gomap"
  rc_MaxEntries :: int

definition NewReplayCacheWithConfig :: "int \<Rightarrow> ReplayCache" where
  "NewReplayCacheWithConfig maxEntries =
     \<lparr>rc_entries = [],
      rc_MaxEntries = (if maxEntries \<le> 0 then DefaultReplayCacheMaxEntries else maxEntries)\<rparr>"

definition NewReplayCache :: ReplayCache where
  "NewReplayCache = NewReplayCacheWithConfig DefaultReplayCacheMaxEntries"

type_synonym range_order = "(string, gotime) gomap \<Rightarrow> (string, gotime) gomap"

text \<open>The loop that deletes entries until \<open>count\<close> reaches \<open>numToEvict\<close>; it deletes at least one.\<close>

fun evict_loop :: "(string, gotime) gomap \<Rightarrow> int \<Rightarrow> int \<Rightarrow> (string, gotime) gomap \<Rightarrow> (string, gotime) gomap" where
  "evict_loop [] count numToEvict entries = entries"
| "evict_loop ((k, _) # rest) count numToEvict entries =
     (let entries = mdelete k entries; count = count + 1 in
      if count \<ge> numToEvict then entries else evict_loop rest count numToEvict entries)"

definition make_room :: "range_order \<Rightarrow> gotime \<Rightarrow> int \<Rightarrow> (string, gotime) gomap \<Rightarrow> (string, gotime) gomap" where
  "make_room order now maxEntries entries =
     (let numToEvict = (maxEntries + 9) div 10;
          numToEvict = (if numToEvict < 1 then 1 else numToEvict);
          expiredKeys = map fst (filter (\<lambda>(k, expires). \<not> expires > now) (order entries));
          (entries, numToEvict) =
            (if expiredKeys \<noteq> [] then
               let entries = fold mdelete expiredKeys entries in
               if int (length entries) < maxEntries then (entries, numToEvict)
               else
                 let n = maxEntries - int (length entries) in
                 (entries, if n < 1 then 1 else n)
             else (entries, numToEvict))
      in if int (length entries) \<ge> maxEntries
         then evict_loop (order entries) 0 numToEvict entries else entries)"

definition purge_expired :: "gotime \<Rightarrow> (string, gotime) gomap \<Rightarrow> (string, gotime) gomap" where
  "purge_expired now entries = filter (\<lambda>(k, expires). expires > now) entries"

definition effective_expiry :: "gotime \<Rightarrow> gotime \<Rightarrow> gotime" where
  "effective_expiry now expiresAt = (if \<not> expiresAt > now then now + minute else expiresAt)"

definition ReplayCache_Store ::
  "range_order \<Rightarrow> gotime \<Rightarrow> string \<Rightarrow> gotime \<Rightarrow> ReplayCache \<Rightarrow> bool \<times> ReplayCache" where
  "ReplayCache_Store order now key expiresAt c =
     (if key = [] then (False, c)
      else
        let entries = purge_expired now (rc_entries c) in
        if (case mget entries key of Some expires \<Rightarrow> expires > now | None \<Rightarrow> False)
        then (False, c\<lparr>rc_entries := entries\<rparr>)
        else
          let expiresAt = effective_expiry now expiresAt;
              maxEntries = rc_MaxEntries c;
              entries = (if maxEntries > 0 \<and> int (length entries) \<ge> maxEntries
                         then make_room order now maxEntries entries else entries)
          in (True, c\<lparr>rc_entries := mset_at key expiresAt entries\<rparr>))"

definition ReplayCache_Size :: "ReplayCache \<Rightarrow> int" where
  "ReplayCache_Size c = int (length (rc_entries c))"

definition ReplayCache_Cleanup :: "gotime \<Rightarrow> ReplayCache \<Rightarrow> int \<times> ReplayCache" where
  "ReplayCache_Cleanup now c =
     (int (length (filter (\<lambda>(k, expires). \<not> expires > now) (rc_entries c))),
      c\<lparr>rc_entries := purge_expired now (rc_entries c)\<rparr>)"

section \<open>DPoP freshness\<close>

text \<open>\<open>base64.RawURLEncoding.EncodeToString\<close>.\<close>

definition base64url_char :: "nat \<Rightarrow> char" where
  "base64url_char n =
     (if n < 26 then char_of (65 + n)
      else if n < 52 then char_of (71 + n)
      else if n < 62 then char_of (n - 4)
      else if n = 62 then CHR ''-'' else CHR ''_'')"

fun base64url :: "nat list \<Rightarrow> string" where
  "base64url [] = []"
| "base64url [a] = [base64url_char (a div 4), base64url_char (a mod 4 * 16)]"
| "base64url [a, b] =
     [base64url_char (a div 4), base64url_char (a mod 4 * 16 + b div 16), base64url_char (b mod 16 * 4)]"
| "base64url (a # b # c # rest) =
     base64url_char (a div 4) # base64url_char (a mod 4 * 16 + b div 16)
     # base64url_char (b mod 16 * 4 + c div 64) # base64url_char (c mod 64) # base64url rest"

definition accessTokenHash :: "string \<Rightarrow> string" where
  "accessTokenHash accessToken = base64url (Sum256 accessToken)"

text \<open>The replay key of a proof, from the raw JWK of its header and its \<open>jti\<close>.\<close>

definition replayKey :: "string \<Rightarrow> string \<Rightarrow> string" where
  "replayKey headerJWK jti = base64url (Sum256 headerJWK) @ '':'' @ jti"

record FreshnessConfig =
  fc_ReplayWindow :: duration
  fc_MaxClockSkew :: duration

definition unix_time :: "int \<Rightarrow> gotime" where
  "unix_time s = (s + 62135596800) * second"

text \<open>
  The part of \<open>VerifyRequest\<close> that decides on freshness and replay, after the signature, method,
  target and token checks have passed. \<open>now\<close> is the reading in \<open>VerifyRequest\<close>, \<open>now'\<close> the one in
  \<open>Store\<close>.
\<close>

definition verify_freshness ::
  "FreshnessConfig \<Rightarrow> range_order \<Rightarrow> gotime \<Rightarrow> gotime \<Rightarrow> string \<Rightarrow> string \<Rightarrow> int \<Rightarrow> ReplayCache
   \<Rightarrow> goerr \<times> ReplayCache" where
  "verify_freshness cfg order now now' headerJWK jti iat cache =
     (if jti = [] \<or> length jti > 512 then
        (Some (ErrorsNew ''DPoP jti is required and must be bounded''), cache)
      else
        let issuedAt = unix_time iat in
        if issuedAt > now + fc_MaxClockSkew cfg then
          (Some (ErrorsNew ''DPoP iat is in the future''), cache)
        else if issuedAt < now + (- fc_ReplayWindow cfg - fc_MaxClockSkew cfg) then
          (Some (ErrorsNew ''DPoP proof is too old''), cache)
        else
          (case ReplayCache_Store order now' (replayKey headerJWK jti) (issuedAt + fc_ReplayWindow cfg) cache of
             (ok, cache') \<Rightarrow>
               if \<not> ok then (Some (ErrorsNew ''DPoP proof replay detected''), cache')
               else (None, cache')))"

section \<open>Runs\<close>

datatype replay_op =
    RStore range_order gotime string gotime
  | RCleanup gotime

fun replay_exec :: "replay_op \<Rightarrow> ReplayCache \<Rightarrow> ReplayCache" where
  "replay_exec (RStore order now key expiresAt) c = snd (ReplayCache_Store order now key expiresAt c)"
| "replay_exec (RCleanup now) c = snd (ReplayCache_Cleanup now c)"

fun replay_time :: "replay_op \<Rightarrow> gotime" where
  "replay_time (RStore order now key expiresAt) = now"
| "replay_time (RCleanup now) = now"

definition permutes_entries :: "range_order \<Rightarrow> bool" where
  "permutes_entries order \<longleftrightarrow> (\<forall>m. set (order m) = set m)"

fun replay_op_ok :: "replay_op \<Rightarrow> bool" where
  "replay_op_ok (RStore order now key expiresAt) = permutes_entries order"
| "replay_op_ok (RCleanup now) = True"

definition rc_inv :: "ReplayCache \<Rightarrow> bool" where
  "rc_inv c \<longleftrightarrow> gomap_ok (rc_entries c) \<and> 0 < rc_MaxEntries c
     \<and> int (length (rc_entries c)) \<le> rc_MaxEntries c"

section \<open>The invariant\<close>

lemma purge_ok [simp]: "gomap_ok m \<Longrightarrow> gomap_ok (purge_expired now m)"
  by (simp add: purge_expired_def)

lemma length_purge_le: "length (purge_expired now m) \<le> length m"
  by (simp add: purge_expired_def)

lemma map_of_purge:
  "gomap_ok m \<Longrightarrow> map_of (purge_expired now m) k =
     (case map_of m k of Some x \<Rightarrow> if now < x then Some x else None | None \<Rightarrow> None)"
  unfolding purge_expired_def by (subst map_of_filter_ok) (auto split: option.splits)

text \<open>Right after the purge nothing is expired, so making room evicts live entries.\<close>

lemma make_room_purged:
  assumes "permutes_entries order"
  shows "make_room order now n (purge_expired now m) =
    (if int (length (purge_expired now m)) \<ge> n
     then evict_loop (order (purge_expired now m)) 0 (max 1 ((n + 9) div 10)) (purge_expired now m)
     else purge_expired now m)"
proof -
  have "filter (\<lambda>(k, expires). \<not> now < expires) (order (purge_expired now m)) = []"
    using assms by (auto simp: filter_empty_conv permutes_entries_def purge_expired_def)
  then show ?thesis by (simp add: make_room_def Let_def max_def)
qed

lemma evict_loop_ok: "gomap_ok m \<Longrightarrow> gomap_ok (evict_loop xs c n m)"
  by (induction xs c n m rule: evict_loop.induct) (auto simp: Let_def)

lemma evict_loop_length_le: "length (evict_loop xs c n m) \<le> length m"
  by (induction xs c n m rule: evict_loop.induct)
    (auto simp: Let_def length_delete_le intro: order_trans [OF _ length_delete_le])

lemma evict_loop_length_less:
  assumes "gomap_ok m" and "xs \<noteq> []" and "set xs \<subseteq> set m"
  shows "length (evict_loop xs c n m) < length m"
proof -
  obtain k x rest where xs: "xs = (k, x) # rest" using assms(2) by (cases xs) auto
  then have "k \<in> fst ` set m" using assms(3) by force
  then have "Suc (length (AList.delete k m)) = length m" by (rule length_delete_ok [OF assms(1)])
  with evict_loop_length_le [of rest "c + 1" n "AList.delete k m"] show ?thesis
    by (auto simp: xs Let_def)
qed

lemma Store_inv:
  assumes "rc_inv c" and "permutes_entries order"
  shows "rc_inv (snd (ReplayCache_Store order now key x c))"
proof -
  let ?m = "purge_expired now (rc_entries c)" and ?n = "rc_MaxEntries c"
  have ok: "gomap_ok ?m" and n: "0 < ?n" and le: "int (length ?m) \<le> ?n"
    using assms(1) length_purge_le [of now "rc_entries c"] by (auto simp: rc_inv_def)
  define es where "es = (if int (length ?m) \<ge> ?n then make_room order now ?n ?m else ?m)"
  have "gomap_ok es \<and> int (length es) < ?n"
  proof (cases "int (length ?m) \<ge> ?n")
    case True
    with n have "set ?m \<noteq> {}" by auto
    then have "set (order ?m) \<noteq> {}" using assms(2) by (simp add: permutes_entries_def)
    then have "order ?m \<noteq> []" by auto
    then have "length (evict_loop (order ?m) 0 (max 1 ((?n + 9) div 10)) ?m) < length ?m"
      using assms(2) by (intro evict_loop_length_less [OF ok]) (auto simp: permutes_entries_def)
    with True le ok show ?thesis
      by (simp add: es_def make_room_purged [OF assms(2)] evict_loop_ok)
  qed (use ok in \<open>simp add: es_def\<close>)
  then have "gomap_ok (AList.update key y es) \<and> int (length (AList.update key y es)) \<le> ?n" for y
    by (simp add: length_update)
  then show ?thesis
    using assms(1) ok n le by (simp add: ReplayCache_Store_def Let_def rc_inv_def es_def)
qed

lemma replay_exec_inv: "rc_inv c \<Longrightarrow> replay_op_ok op \<Longrightarrow> rc_inv (replay_exec op c)"
proof (cases op)
  case (RCleanup now)
  assume "rc_inv c"
  with RCleanup length_purge_le [of now "rc_entries c"] show ?thesis
    by (simp add: ReplayCache_Cleanup_def rc_inv_def)
qed (simp add: Store_inv)

lemma replay_run_inv: "rc_inv c \<Longrightarrow> \<forall>op\<in>set ops. replay_op_ok op \<Longrightarrow> rc_inv (fold replay_exec ops c)"
  by (induction ops arbitrary: c) (simp_all add: replay_exec_inv)

lemma NewReplayCache_inv: "rc_inv (NewReplayCacheWithConfig n)"
  by (simp add: rc_inv_def NewReplayCacheWithConfig_def DefaultReplayCacheMaxEntries_def)

section \<open>Remembered keys\<close>

lemma Store_MaxEntries [simp]: "rc_MaxEntries (snd (ReplayCache_Store order now key x c)) = rc_MaxEntries c"
  by (simp add: ReplayCache_Store_def Let_def)

lemma replay_exec_MaxEntries [simp]: "rc_MaxEntries (replay_exec op c) = rc_MaxEntries c"
  by (cases op) (simp_all add: ReplayCache_Cleanup_def)

lemma Store_accepted:
  assumes "ReplayCache_Store order now key x c = (True, c')"
  shows "key \<noteq> [] \<and> map_of (rc_entries c') key = Some (effective_expiry now x)"
  using assms by (auto simp: ReplayCache_Store_def Let_def split: if_splits)

text \<open>While there is room, an entry is kept until it expires, and at most one is added.\<close>

lemma replay_exec_keeps:
  assumes "gomap_ok (rc_entries c)" and "map_of (rc_entries c) key = Some x" and "replay_time op < x"
    and "int (length (rc_entries c)) < rc_MaxEntries c"
  shows "gomap_ok (rc_entries (replay_exec op c)) \<and> map_of (rc_entries (replay_exec op c)) key = Some x
    \<and> length (rc_entries (replay_exec op c)) \<le> Suc (length (rc_entries c))"
proof (cases op)
  case (RStore order now k y)
  have len: "length (purge_expired now (rc_entries c)) \<le> length (rc_entries c)" by (rule length_purge_le)
  with assms(4) have room: "\<not> int (length (purge_expired now (rc_entries c))) \<ge> rc_MaxEntries c" by linarith
  have key: "map_of (purge_expired now (rc_entries c)) key = Some x"
    using assms(1-3) RStore by (simp add: map_of_purge)
  show ?thesis
    using assms(1-3) room key len RStore
    by (auto simp: ReplayCache_Store_def Let_def length_update split: option.splits)
next
  case (RCleanup now)
  then show ?thesis
    using assms length_purge_le [of now "rc_entries c"] by (simp add: ReplayCache_Cleanup_def map_of_purge)
qed

lemma replay_run_keeps:
  assumes "gomap_ok (rc_entries c)" and "map_of (rc_entries c) key = Some x"
    and "\<forall>op\<in>set ops. replay_time op < x"
    and "int (length (rc_entries c)) + int (length ops) \<le> rc_MaxEntries c"
  shows "gomap_ok (rc_entries (fold replay_exec ops c))
    \<and> map_of (rc_entries (fold replay_exec ops c)) key = Some x"
  using assms
proof (induction ops arbitrary: c)
  case (Cons op ops)
  have "int (length (rc_entries c)) < rc_MaxEntries c" using Cons.prems(4) by simp
  with replay_exec_keeps [OF Cons.prems(1,2), of op] Cons.prems(3)
  have "gomap_ok (rc_entries (replay_exec op c)) \<and> map_of (rc_entries (replay_exec op c)) key = Some x
    \<and> length (rc_entries (replay_exec op c)) \<le> Suc (length (rc_entries c))" by simp
  with Cons show ?case by simp
qed simp

lemma Store_rejects:
  assumes "gomap_ok (rc_entries c)" and "map_of (rc_entries c) key = Some x" and "now < x"
  shows "fst (ReplayCache_Store order now key y c) = False"
  using assms by (simp add: ReplayCache_Store_def Let_def map_of_purge)

section \<open>Replay keys\<close>

lemma base64url_char_nat:
  "n < 64 \<Longrightarrow> of_char (base64url_char n) =
     (if n < 26 then 65 + n else if n < 52 then 71 + n else if n < 62 then n - 4
      else if n = 62 then 45 else (95 :: nat))"
  by (simp add: base64url_char_def)

lemma base64url_char_inject:
  assumes "m < 64" and "n < 64" and "base64url_char m = base64url_char n"
  shows "m = n"
proof -
  have "of_char (base64url_char m) = (of_char (base64url_char n) :: nat)" using assms(3) by simp
  with assms(1,2) show ?thesis by (simp add: base64url_char_nat split: if_splits)
qed

lemma base64url_char_not_colon: "n < 64 \<Longrightarrow> base64url_char n \<noteq> CHR '':''"
proof
  assume "n < 64" and "base64url_char n = CHR '':''"
  then have "of_char (base64url_char n) = (58 :: nat)" by simp
  with \<open>n < 64\<close> show False by (simp add: base64url_char_nat split: if_splits)
qed

lemma base64url_chars: "\<forall>b\<in>set bs. b < 256 \<Longrightarrow> set (base64url bs) \<subseteq> base64url_char ` {..<64}"
proof (induction bs rule: base64url.induct)
  case (2 a)
  then have "a div 4 < 64" "a mod 4 * 16 < 64" by auto
  then show ?case by (simp del: mult_eq_if)
next
  case (3 a b)
  then have "a div 4 < 64" "a mod 4 * 16 + b div 16 < 64" "b mod 16 * 4 < 64" by auto
  then show ?case by simp
next
  case (4 a b c rest)
  have "a div 4 < 64" "a mod 4 * 16 + b div 16 < 64" "b mod 16 * 4 + c div 64 < 64" "c mod 64 < 64"
    using "4.prems" by auto
  moreover have "set (base64url rest) \<subseteq> base64url_char ` {..<64}" using 4 by simp
  ultimately show ?case by simp
qed simp

lemma base64url_no_colon: "\<forall>b\<in>set bs. b < 256 \<Longrightarrow> CHR '':'' \<notin> set (base64url bs)"
  using base64url_chars [of bs] base64url_char_not_colon by fastforce

text \<open>The four digits of a group determine its three bytes.\<close>

lemma base64_group_inject:
  fixes a b c :: nat
  assumes "a < 256" "b < 256" "c < 256" "a' < 256" "b' < 256" "c' < 256"
    and "a div 4 = a' div 4" and "a mod 4 * 16 + b div 16 = a' mod 4 * 16 + b' div 16"
    and "b mod 16 * 4 + c div 64 = b' mod 16 * 4 + c' div 64" and "c mod 64 = c' mod 64"
  shows "a = a' \<and> b = b' \<and> c = c'"
proof -
  have split: "x = y \<and> u = v" if "x * n + u = y * n + v" "u < n" "v < n" for x y u v n :: nat
    using that by (metis add.commute div_mult_self3 div_less less_zeroE add_right_imp_eq add_0 gr_implies_not0)
  have lt: "b div 16 < 16" "b' div 16 < 16" "c div 64 < 4" "c' div 64 < 4" using assms(1-6) by auto
  note 1 = split [OF assms(8) lt(1,2)] and 2 = split [OF assms(9) lt(3,4)]
  show ?thesis using assms(7,10) 1 2 by (metis div_mult_mod_eq)
qed

text \<open>The digits are in range, so equal characters are equal digits.\<close>

lemma base64_digits:
  assumes "a < 256" "b < 256" "c < (256 :: nat)"
  shows "a div 4 < 64" "a mod 4 * 16 < 64" "a mod 4 * 16 + b div 16 < 64" "b mod 16 * 4 < 64"
    "b mod 16 * 4 + c div 64 < 64" "c mod 64 < 64"
  using assms by auto

lemma base64url_inject:
  "length xs = length ys \<Longrightarrow> \<forall>b\<in>set xs \<union> set ys. b < 256 \<Longrightarrow> base64url xs = base64url ys \<Longrightarrow> xs = ys"
proof (induction xs arbitrary: ys rule: base64url.induct)
  case 1
  then show ?case by simp
next
  case (2 a)
  then obtain a' where ys: "ys = [a']" by (cases ys) auto
  have lt: "a < 256" "a' < 256" and "base64url_char (a div 4) = base64url_char (a' div 4)"
    "base64url_char (a mod 4 * 16) = base64url_char (a' mod 4 * 16)" using 2 ys by simp_all
  then have "a div 4 = a' div 4" "a mod 4 * 16 = a' mod 4 * 16"
    using base64_digits [OF lt(1,1,1)] base64_digits [OF lt(2,2,2)] by (blast intro: base64url_char_inject)+
  with base64_group_inject [of a 0 0 a' 0 0] 2 ys show ?case by simp
next
  case (3 a b)
  then obtain a' b' where ys: "ys = [a', b']" by (cases ys; cases "tl ys") auto
  have lt: "a < 256" "b < 256" "a' < 256" "b' < 256"
    and "base64url_char (a div 4) = base64url_char (a' div 4)"
    "base64url_char (a mod 4 * 16 + b div 16) = base64url_char (a' mod 4 * 16 + b' div 16)"
    "base64url_char (b mod 16 * 4) = base64url_char (b' mod 16 * 4)" using 3 ys by simp_all
  then have "a div 4 = a' div 4" "a mod 4 * 16 + b div 16 = a' mod 4 * 16 + b' div 16" "b mod 16 * 4 = b' mod 16 * 4"
    using base64_digits [OF lt(1,2,2)] base64_digits [OF lt(3,4,4)] by (blast intro: base64url_char_inject)+
  with base64_group_inject [of a b 0 a' b' 0] 3 ys show ?case by simp
next
  case (4 a b c rest)
  from "4.prems"(1) obtain a' b' c' rest' where ys: "ys = a' # b' # c' # rest'" and len: "length rest = length rest'"
    by (cases ys; cases "tl ys"; cases "tl (tl ys)") auto
  have lt: "a < 256" "b < 256" "c < 256" "a' < 256" "b' < 256" "c' < 256"
    and "base64url_char (a div 4) = base64url_char (a' div 4)"
    "base64url_char (a mod 4 * 16 + b div 16) = base64url_char (a' mod 4 * 16 + b' div 16)"
    "base64url_char (b mod 16 * 4 + c div 64) = base64url_char (b' mod 16 * 4 + c' div 64)"
    "base64url_char (c mod 64) = base64url_char (c' mod 64)" using "4.prems" ys by simp_all
  then have "a div 4 = a' div 4" "a mod 4 * 16 + b div 16 = a' mod 4 * 16 + b' div 16"
    "b mod 16 * 4 + c div 64 = b' mod 16 * 4 + c' div 64" "c mod 64 = c' mod 64"
    using base64_digits [OF lt(1-3)] base64_digits [OF lt(4-6)] by (blast intro: base64url_char_inject)+
  with base64_group_inject [of a b c a' b' c'] "4.prems" ys have "a = a' \<and> b = b' \<and> c = c'" by simp
  with "4.IH" [OF len] "4.prems" ys show ?case by simp
qed

section \<open>Properties\<close>

text \<open>
  Two proofs have the same replay key exactly if the SHA-256 digests of their keys and
  their \<open>jti\<close> claims are the same: no choice of \<open>jti\<close> lets a proof pass for that of another key.
\<close>

theorem replayKey_injective:
  "replayKey jwk jti = replayKey jwk' jti' \<longleftrightarrow> Sum256 jwk = Sum256 jwk' \<and> jti = jti'"
proof
  assume eq: "replayKey jwk jti = replayKey jwk' jti'"
  have nc: "CHR '':'' \<notin> set (base64url (Sum256 j))" for j
    using Sum256_bound by (intro base64url_no_colon) blast
  have "base64url (Sum256 jwk) = base64url (Sum256 jwk') \<and> jti = jti'"
    using eq nc by (simp add: replayKey_def split_at_unique)
  moreover have "\<forall>b\<in>set (Sum256 jwk) \<union> set (Sum256 jwk'). b < 256" using Sum256_bound by blast
  ultimately show "Sum256 jwk = Sum256 jwk' \<and> jti = jti'"
    using base64url_inject [of "Sum256 jwk" "Sum256 jwk'"] by (simp add: length_Sum256)
qed (simp add: replayKey_def)


text \<open>
  C26: A proof is not accepted twice before its replay entry expires. If a proof was accepted,
  at most as many cache operations follow as the cache has room for, and the same proof is
  accepted again, then the second acceptance happens no earlier than the end of the replay
  window of the proof (or a minute after the first, if the window was already over then).
\<close>

theorem verify_freshness_no_replay:
  assumes "rc_inv c" and "permutes_entries order"
    and "verify_freshness cfg order t1 t1' jwk jti iat c = (None, c1)"
    and "ReplayCache_Size c1 + int (length ops) \<le> rc_MaxEntries c1"
    and "\<forall>op\<in>set ops. replay_time op \<le> t2'"
    and "verify_freshness cfg order' t2 t2' jwk jti iat (fold replay_exec ops c1) = (None, c2)"
  shows "effective_expiry t1' (unix_time iat + fc_ReplayWindow cfg) \<le> t2'"
proof (rule ccontr)
  let ?k = "replayKey jwk jti" and ?x = "effective_expiry t1' (unix_time iat + fc_ReplayWindow cfg)"
  assume "\<not> ?x \<le> t2'"
  have store: "ReplayCache_Store order t1' ?k (unix_time iat + fc_ReplayWindow cfg) c = (True, c1)"
    using assms(3) by (auto simp: verify_freshness_def Let_def split: if_splits prod.splits)
  have "gomap_ok (rc_entries c1)" using Store_inv [OF assms(1,2), of t1' ?k "unix_time iat + fc_ReplayWindow cfg"] store
    by (simp add: rc_inv_def)
  moreover have "map_of (rc_entries c1) ?k = Some ?x" using Store_accepted [OF store] by simp
  moreover have "\<forall>op\<in>set ops. replay_time op < ?x" using assms(5) \<open>\<not> ?x \<le> t2'\<close> by force
  ultimately have "gomap_ok (rc_entries (fold replay_exec ops c1))
      \<and> map_of (rc_entries (fold replay_exec ops c1)) ?k = Some ?x"
    using assms(4) by (intro replay_run_keeps) (simp_all add: ReplayCache_Size_def)
  with Store_rejects [of "fold replay_exec ops c1" ?k ?x t2'] \<open>\<not> ?x \<le> t2'\<close>
  have "fst (ReplayCache_Store order' t2' ?k (unix_time iat + fc_ReplayWindow cfg) (fold replay_exec ops c1)) = False"
    by simp
  with assms(6) show False
    by (auto simp: verify_freshness_def Let_def split: if_splits prod.splits)
qed

text \<open>
  The age check and the replay window do not match: a proof stays acceptable for
  \<open>MaxClockSkew\<close> longer than it is remembered. Here the same proof is accepted twice, 10 and 70
  seconds after it was issued, with a window of 60 and a skew of 30 seconds.
\<close>

lemma verify_freshness_skew_gap:
  "\<exists>c1 c2. verify_freshness \<lparr>fc_ReplayWindow = 60 * second, fc_MaxClockSkew = 30 * second\<rparr> id
       (unix_time 10) (unix_time 10) ''jwk'' ''j1'' 0 NewReplayCache = (None, c1)
     \<and> verify_freshness \<lparr>fc_ReplayWindow = 60 * second, fc_MaxClockSkew = 30 * second\<rparr> id
       (unix_time 70) (unix_time 70) ''jwk'' ''j1'' 0 c1 = (None, c2)"
  by (simp add: verify_freshness_def ReplayCache_Store_def purge_expired_def effective_expiry_def
      NewReplayCache_def NewReplayCacheWithConfig_def DefaultReplayCacheMaxEntries_def Let_def
      unix_time_def replayKey_def)

section \<open>Witnesses\<close>

definition sample_freshness :: FreshnessConfig where
  "sample_freshness = \<lparr>fc_ReplayWindow = 60 * second, fc_MaxClockSkew = 30 * second\<rparr>"

definition sample_replay :: ReplayCache where
  "sample_replay = NewReplayCache\<lparr>rc_entries := [(replayKey ''jwk'' ''j1'', unix_time 60)]\<rparr>"

definition sample_replay2 :: ReplayCache where
  "sample_replay2 = NewReplayCache\<lparr>rc_entries := [(replayKey ''jwk'' ''j1'', unix_time 70 + minute)]\<rparr>"

lemma sample_first: "verify_freshness sample_freshness id (unix_time 10) (unix_time 10) ''jwk'' ''j1'' 0 NewReplayCache
    = (None, sample_replay)"
  by (simp add: verify_freshness_def ReplayCache_Store_def purge_expired_def effective_expiry_def
      NewReplayCache_def NewReplayCacheWithConfig_def DefaultReplayCacheMaxEntries_def Let_def
      unix_time_def replayKey_def sample_freshness_def sample_replay_def)

lemma sample_second: "verify_freshness sample_freshness id (unix_time 70) (unix_time 70) ''jwk'' ''j1'' 0 sample_replay
    = (None, sample_replay2)"
  by (simp add: verify_freshness_def ReplayCache_Store_def purge_expired_def effective_expiry_def
      NewReplayCache_def NewReplayCacheWithConfig_def DefaultReplayCacheMaxEntries_def Let_def
      unix_time_def replayKey_def sample_freshness_def sample_replay_def sample_replay2_def)

theorem verify_freshness_no_replay_witness:
  "effective_expiry (unix_time 10) (unix_time 0 + fc_ReplayWindow sample_freshness) \<le> unix_time 70"
proof (rule verify_freshness_no_replay [of NewReplayCache id sample_freshness "unix_time 10" _ "''jwk''" "''j1''" 0 sample_replay "[]" _ id "unix_time 70" sample_replay2])
  show "rc_inv NewReplayCache" by (simp add: NewReplayCache_def NewReplayCache_inv)
  show "permutes_entries id" by (simp add: permutes_entries_def)
  show "ReplayCache_Size sample_replay + int (length []) \<le> rc_MaxEntries sample_replay"
    by (simp add: ReplayCache_Size_def sample_replay_def NewReplayCache_def NewReplayCacheWithConfig_def
        DefaultReplayCacheMaxEntries_def)
qed (simp_all add: sample_first sample_second)


end
