(* ===== verification/Enforcement_Gate.thy ===== *)
theory Enforcement_Gate
  imports Go_Url Go_Text Go_Float Authz_Core
begin

text \<open>
  The enforcement gate (\<open>internal/authz/enforcement_gate.go\<close>): the state machine that decides
  whether the sidecar only observes (shadow mode) or enforces its decisions.

  The gate is a record, each method a function on it that returns the result and the new gate.
  \<open>time.Now()\<close> is an argument of the methods that read it. Of the loggers only their presence is
  modelled, with the audit trail as a list of messages in the state, because the presence of one
  decides whether the other is written. Counters are unbounded integers. A request is given by
  the parts the gate reads; \<open>Header.Get\<close> is a function from header names to values.

  Comparison percentages are computed in \<open>float64\<close>, as in the code (theory \<open>Go_Float\<close>), and
  allowlist globs go through a regular expression (theory \<open>Go_Text\<close>).
\<close>

definition ErrEnforcementNotAllowed :: goerror where
  "ErrEnforcementNotAllowed = ErrorsNew ''enforcement not allowed''"

definition ErrEnforcementGateClosed :: goerror where
  "ErrEnforcementGateClosed = ErrorsNew ''enforcement gate is closed''"

definition ErrInvalidAllowlistPattern :: goerror where
  "ErrInvalidAllowlistPattern = ErrorsNew ''invalid allowlist pattern''"

type_synonym EnforcementMode = string

definition EnforcementModeShadow :: EnforcementMode where
  "EnforcementModeShadow = ''shadow''"

definition EnforcementModeEnforce :: EnforcementMode where
  "EnforcementModeEnforce = ''enforce''"

definition EnforcementModeDryRun :: EnforcementMode where
  "EnforcementModeDryRun = ''dry-run''"

definition EnforcementModeCanary :: EnforcementMode where
  "EnforcementModeCanary = ''enforce_canary''"

type_synonym CanaryMode = string

definition CanaryModePercentage :: CanaryMode where
  "CanaryModePercentage = ''percentage''"

definition CanaryModeHeader :: CanaryMode where
  "CanaryModeHeader = ''header''"

definition CanaryModePath :: CanaryMode where
  "CanaryModePath = ''path''"

record CanaryConfig =
  cc_Enabled :: bool
  cc_Mode :: CanaryMode
  cc_Percentage :: int
  cc_HeaderName :: string
  cc_HeaderValue :: string
  cc_PathPatterns :: "string list"

record EnforcementGateOptions =
  eo_InitialMode :: EnforcementMode
  eo_AllowEnforcement :: bool
  eo_EmergencyBypassEnabled :: bool
  eo_EmergencyBypassToken :: string
  eo_MaxEnforcementDuration :: duration
  eo_ResourceAllowlist :: "string list"
  eo_StorageAllowlist :: "string list"
  eo_MethodAllowlist :: "string list"
  eo_AutoDisableOnMismatchThreshold :: int
  eo_CanaryConfig :: CanaryConfig
  eo_RequireMultipleAuthors :: bool
  eo_RequireComparisonThreshold :: bool
  eo_ComparisonThresholdPercentage :: int
  eo_ComparisonThresholdCount :: int
  eo_HasAuditLogger :: bool
  eo_HasLogger :: bool

definition generateEmergencyBypassToken :: "gotime \<Rightarrow> string" where
  "generateEmergencyBypassToken now =
     hex_EncodeToString (take 16 (Sum256 (''emergency-bypass-'' @ FormatInt (UnixNano now))))"

definition DefaultEnforcementGateOptions :: "gotime \<Rightarrow> EnforcementGateOptions" where
  "DefaultEnforcementGateOptions now =
     \<lparr>eo_InitialMode = EnforcementModeShadow, eo_AllowEnforcement = False,
      eo_EmergencyBypassEnabled = True, eo_EmergencyBypassToken = generateEmergencyBypassToken now,
      eo_MaxEnforcementDuration = 0, eo_ResourceAllowlist = [], eo_StorageAllowlist = [],
      eo_MethodAllowlist = [''GET'', ''HEAD''], eo_AutoDisableOnMismatchThreshold = 0,
      eo_CanaryConfig = \<lparr>cc_Enabled = False, cc_Mode = CanaryModePercentage, cc_Percentage = 1,
                         cc_HeaderName = [], cc_HeaderValue = [], cc_PathPatterns = []\<rparr>,
      eo_RequireMultipleAuthors = True, eo_RequireComparisonThreshold = False,
      eo_ComparisonThresholdPercentage = 100, eo_ComparisonThresholdCount = 0,
      eo_HasAuditLogger = False, eo_HasLogger = False\<rparr>"

section \<open>Metrics\<close>

record EnforcementGateMetrics =
  gm_ModeChanges :: int
  gm_DecisionsEnforced :: int
  gm_DecisionsShadowed :: int
  gm_DecisionsAllow :: int
  gm_DecisionsDeny :: int
  gm_AllowlistHits :: int
  gm_AllowlistMisses :: int
  gm_CanaryRequestsEnforced :: int
  gm_CanaryRequestsShadowed :: int
  gm_MismatchCount :: int
  gm_MismatchLastTime :: gotime
  gm_AutoDisableEvents :: int
  gm_EmergencyBypassActivated :: int
  gm_AuditEvents :: int

definition zero_GateMetrics :: EnforcementGateMetrics where
  "zero_GateMetrics =
     \<lparr>gm_ModeChanges = 0, gm_DecisionsEnforced = 0, gm_DecisionsShadowed = 0, gm_DecisionsAllow = 0,
      gm_DecisionsDeny = 0, gm_AllowlistHits = 0, gm_AllowlistMisses = 0, gm_CanaryRequestsEnforced = 0,
      gm_CanaryRequestsShadowed = 0, gm_MismatchCount = 0, gm_MismatchLastTime = zero_time,
      gm_AutoDisableEvents = 0, gm_EmergencyBypassActivated = 0, gm_AuditEvents = 0\<rparr>"

definition RecordModeChange :: "EnforcementGateMetrics \<Rightarrow> EnforcementGateMetrics" where
  "RecordModeChange m = m\<lparr>gm_ModeChanges := gm_ModeChanges m + 1\<rparr>"

definition RecordDecisionEnforced :: "bool \<Rightarrow> EnforcementGateMetrics \<Rightarrow> EnforcementGateMetrics" where
  "RecordDecisionEnforced allowed m =
     (let m = m\<lparr>gm_DecisionsEnforced := gm_DecisionsEnforced m + 1\<rparr> in
      if allowed then m\<lparr>gm_DecisionsAllow := gm_DecisionsAllow m + 1\<rparr>
      else m\<lparr>gm_DecisionsDeny := gm_DecisionsDeny m + 1\<rparr>)"

definition RecordDecisionShadowed :: "EnforcementGateMetrics \<Rightarrow> EnforcementGateMetrics" where
  "RecordDecisionShadowed m = m\<lparr>gm_DecisionsShadowed := gm_DecisionsShadowed m + 1\<rparr>"

definition RecordAllowlistHit :: "EnforcementGateMetrics \<Rightarrow> EnforcementGateMetrics" where
  "RecordAllowlistHit m = m\<lparr>gm_AllowlistHits := gm_AllowlistHits m + 1\<rparr>"

definition RecordAllowlistMiss :: "EnforcementGateMetrics \<Rightarrow> EnforcementGateMetrics" where
  "RecordAllowlistMiss m = m\<lparr>gm_AllowlistMisses := gm_AllowlistMisses m + 1\<rparr>"

definition RecordCanaryEnforced :: "EnforcementGateMetrics \<Rightarrow> EnforcementGateMetrics" where
  "RecordCanaryEnforced m = m\<lparr>gm_CanaryRequestsEnforced := gm_CanaryRequestsEnforced m + 1\<rparr>"

definition RecordCanaryShadowed :: "EnforcementGateMetrics \<Rightarrow> EnforcementGateMetrics" where
  "RecordCanaryShadowed m = m\<lparr>gm_CanaryRequestsShadowed := gm_CanaryRequestsShadowed m + 1\<rparr>"

definition Metrics_RecordMismatch :: "gotime \<Rightarrow> EnforcementGateMetrics \<Rightarrow> EnforcementGateMetrics" where
  "Metrics_RecordMismatch now m =
     m\<lparr>gm_MismatchCount := gm_MismatchCount m + 1, gm_MismatchLastTime := now\<rparr>"

definition RecordAutoDisable :: "EnforcementGateMetrics \<Rightarrow> EnforcementGateMetrics" where
  "RecordAutoDisable m = m\<lparr>gm_AutoDisableEvents := gm_AutoDisableEvents m + 1\<rparr>"

definition RecordEmergencyBypass :: "EnforcementGateMetrics \<Rightarrow> EnforcementGateMetrics" where
  "RecordEmergencyBypass m = m\<lparr>gm_EmergencyBypassActivated := gm_EmergencyBypassActivated m + 1\<rparr>"

definition RecordAuditEvent :: "EnforcementGateMetrics \<Rightarrow> EnforcementGateMetrics" where
  "RecordAuditEvent m = m\<lparr>gm_AuditEvents := gm_AuditEvents m + 1\<rparr>"

definition GetMismatchRate :: "EnforcementGateMetrics \<Rightarrow> rat" where
  "GetMismatchRate m =
     (let totalDecisions = gm_DecisionsEnforced m + gm_DecisionsShadowed m in
      if totalDecisions = 0 then 0 else float_percentage (gm_MismatchCount m) totalDecisions)"

section \<open>The gate\<close>

record EnforcementGate =
  eg_options :: EnforcementGateOptions
  eg_mode :: EnforcementMode
  eg_enabledAt :: gotime
  eg_bypassSet :: "(string, unit) gomap"
  eg_closed :: bool
  eg_closeReason :: string
  eg_mismatchCount :: int
  eg_mismatchThreshold :: int
  eg_lastMismatchTime :: gotime
  eg_autoDisabled :: bool
  eg_autoDisableReason :: string
  eg_canaryRequestCount :: int
  eg_comparisonTotalCount :: int
  eg_comparisonMatchCount :: int
  eg_consecutiveMatchCount :: int
  eg_thresholdMet :: bool
  eg_thresholdMetAt :: gotime
  eg_metrics :: EnforcementGateMetrics
  eg_auditTrail :: "(string \<times> string) list"

text \<open>The character class of \<open>validatePattern\<close>: every rune outside it is a match of the
  negated class, also an ill-formed byte.\<close>

definition pattern_char :: "char \<Rightarrow> bool" where
  "pattern_char c \<longleftrightarrow> is_lower c \<or> is_upper c \<or> is_digit c \<or> c \<in> set ''-_./*?''"

definition validatePattern :: "string \<Rightarrow> goerr" where
  "validatePattern pattern =
     (if list_ex (\<lambda>c. \<not> pattern_char c) pattern then Some ErrInvalidAllowlistPattern else None)"

primrec validatePatterns :: "string \<Rightarrow> string list \<Rightarrow> goerr" where
  "validatePatterns what [] = None"
| "validatePatterns what (pattern # ps) =
     (case validatePattern pattern of
        Some err \<Rightarrow> Some (Errorf (''invalid '' @ what @ '' pattern '' @ Quote pattern @ '': '') err [])
      | None \<Rightarrow> validatePatterns what ps)"

definition validateGateOptions :: "EnforcementGateOptions \<Rightarrow> goerr" where
  "validateGateOptions options =
     (case validatePatterns ''resource allowlist'' (eo_ResourceAllowlist options) of Some err \<Rightarrow> Some err | None \<Rightarrow>
      case validatePatterns ''storage allowlist'' (eo_StorageAllowlist options) of Some err \<Rightarrow> Some err | None \<Rightarrow>
      case validatePatterns ''canary path'' (cc_PathPatterns (eo_CanaryConfig options)) of Some err \<Rightarrow> Some err | None \<Rightarrow>
      let canary = eo_CanaryConfig options in
      if cc_Enabled canary \<and> (cc_Percentage canary < 0 \<or> cc_Percentage canary > 100) then
        Some (ErrorsNew ''canary percentage must be between 0 and 100'')
      else if cc_Enabled canary \<and> cc_Mode canary = CanaryModeHeader \<and> cc_HeaderName canary = [] then
        Some (ErrorsNew ''canary header name is required for header mode'')
      else if eo_AutoDisableOnMismatchThreshold options < 0 \<or> eo_AutoDisableOnMismatchThreshold options > 100 then
        Some (ErrorsNew ''auto-disable mismatch threshold must be between 0 and 100'')
      else if eo_ComparisonThresholdPercentage options < 0 \<or> eo_ComparisonThresholdPercentage options > 100 then
        Some (ErrorsNew ''comparison threshold percentage must be between 0 and 100'')
      else if eo_ComparisonThresholdCount options < 0 then
        Some (ErrorsNew ''comparison threshold count must be non-negative'')
      else None)"

definition NewEnforcementGate :: "gotime \<Rightarrow> EnforcementGateOptions \<Rightarrow> EnforcementGate result" where
  "NewEnforcementGate now options =
     (case validateGateOptions options of
        Some err \<Rightarrow> Inl err
      | None \<Rightarrow>
          let options = (if eo_InitialMode options = [] then options\<lparr>eo_InitialMode := EnforcementModeShadow\<rparr> else options);
              options = (if eo_EmergencyBypassToken options = []
                         then options\<lparr>eo_EmergencyBypassToken := generateEmergencyBypassToken now\<rparr> else options)
          in Inr \<lparr>eg_options = options, eg_mode = eo_InitialMode options, eg_enabledAt = zero_time,
                  eg_bypassSet = [], eg_closed = False, eg_closeReason = [], eg_mismatchCount = 0,
                  eg_mismatchThreshold = eo_AutoDisableOnMismatchThreshold options,
                  eg_lastMismatchTime = zero_time, eg_autoDisabled = False, eg_autoDisableReason = [],
                  eg_canaryRequestCount = 0, eg_comparisonTotalCount = 0, eg_comparisonMatchCount = 0,
                  eg_consecutiveMatchCount = 0, eg_thresholdMet = False, eg_thresholdMetAt = zero_time,
                  eg_metrics = zero_GateMetrics, eg_auditTrail = []\<rparr>)"

text \<open>The log helpers: nothing happens without the operational logger; with it an audit event is
  counted, and written if there is an audit logger.\<close>

definition upd_metrics :: "(EnforcementGateMetrics \<Rightarrow> EnforcementGateMetrics) \<Rightarrow> EnforcementGate \<Rightarrow> EnforcementGate" where
  "upd_metrics f g = g\<lparr>eg_metrics := f (eg_metrics g)\<rparr>"

definition log_audit :: "string \<Rightarrow> string \<Rightarrow> EnforcementGate \<Rightarrow> EnforcementGate" where
  "log_audit msg detail g =
     (if \<not> eo_HasLogger (eg_options g) then g
      else let g = upd_metrics RecordAuditEvent g in
           if eo_HasAuditLogger (eg_options g) then g\<lparr>eg_auditTrail := eg_auditTrail g @ [(msg, detail)]\<rparr> else g)"

definition logModeChange :: "EnforcementMode \<Rightarrow> EnforcementGate \<Rightarrow> EnforcementGate" where
  "logModeChange mode = log_audit ''AUDIT: Enforcement mode changed'' mode"

definition logEmergencyBypass :: "EnforcementGate \<Rightarrow> EnforcementGate" where
  "logEmergencyBypass = log_audit ''AUDIT: Emergency bypass activated'' []"

definition logGateClosed :: "string \<Rightarrow> EnforcementGate \<Rightarrow> EnforcementGate" where
  "logGateClosed reason = log_audit ''AUDIT: Enforcement gate closed'' reason"

definition logGateReopened :: "EnforcementGate \<Rightarrow> EnforcementGate" where
  "logGateReopened = log_audit ''AUDIT: Enforcement gate reopened'' []"

definition logAutoRevert :: "EnforcementGate \<Rightarrow> EnforcementGate" where
  "logAutoRevert = log_audit ''AUDIT: Auto-reverted to shadow mode'' ''duration limit exceeded''"

definition logAutoDisable :: "string \<Rightarrow> EnforcementGate \<Rightarrow> EnforcementGate" where
  "logAutoDisable reason = log_audit ''AUDIT: Enforcement auto-disabled'' reason"

definition logAutoDisableCleared :: "EnforcementGate \<Rightarrow> EnforcementGate" where
  "logAutoDisableCleared = log_audit ''AUDIT: Enforcement auto-disable cleared'' []"

definition IsEnforceMode :: "EnforcementGate \<Rightarrow> bool" where
  "IsEnforceMode g \<longleftrightarrow> eg_mode g = EnforcementModeEnforce \<or> eg_mode g = EnforcementModeDryRun
     \<or> eg_mode g = EnforcementModeCanary"

definition enforcing_mode :: "EnforcementMode \<Rightarrow> bool" where
  "enforcing_mode mode \<longleftrightarrow> mode = EnforcementModeEnforce \<or> mode = EnforcementModeDryRun
     \<or> mode = EnforcementModeCanary"

definition IsEmergencyBypassActive :: "EnforcementGate \<Rightarrow> bool" where
  "IsEmergencyBypassActive g \<longleftrightarrow> length (eg_bypassSet g) > 0"

text \<open>The \<open>%.1f\<close> of a match percentage; without comparisons the quotient is not a number.\<close>

definition match_percentage_text :: "int \<Rightarrow> int \<Rightarrow> string" where
  "match_percentage_text matches n =
     (if n = 0 then if matches = 0 then ''NaN'' else ''+Inf''
      else format_fixed 1 (float_percentage matches n))"

definition SetMode :: "gotime \<Rightarrow> EnforcementMode \<Rightarrow> EnforcementGate \<Rightarrow> goerr \<times> EnforcementGate" where
  "SetMode now mode g =
     (if eg_closed g then (Some (wrapf ErrEnforcementGateClosed (eg_closeReason g)), g)
      else if enforcing_mode mode \<and> \<not> eo_AllowEnforcement (eg_options g) then
        (Some (wrapf ErrEnforcementNotAllowed ''enforcement mode not configured as allowed''), g)
      else if enforcing_mode mode \<and> eo_RequireComparisonThreshold (eg_options g) \<and> \<not> eg_thresholdMet g then
        (Some (ErrorsNew (''enforcement mode requires CSS comparison thresholds to be met first. Current: ''
           @ FormatInt (eg_comparisonMatchCount g) @ ''/'' @ FormatInt (eg_comparisonTotalCount g) @ '' matches (''
           @ match_percentage_text (eg_comparisonMatchCount g) (eg_comparisonTotalCount g) @ ''%)'')), g)
      else
        let g = (if enforcing_mode mode then
                   let g = logModeChange mode (g\<lparr>eg_enabledAt := now\<rparr>) in
                   upd_metrics RecordModeChange (g\<lparr>eg_autoDisabled := False, eg_autoDisableReason := []\<rparr>)
                 else g);
            g = (if mode = EnforcementModeShadow then
                   let g = logModeChange mode (g\<lparr>eg_autoDisabled := False, eg_autoDisableReason := []\<rparr>) in
                   upd_metrics RecordModeChange g
                 else g)
        in (None, g\<lparr>eg_mode := mode\<rparr>))"

definition EnableEnforcement :: "gotime \<Rightarrow> EnforcementGate \<Rightarrow> goerr \<times> EnforcementGate" where
  "EnableEnforcement now = SetMode now EnforcementModeEnforce"

definition EnableDryRun :: "gotime \<Rightarrow> EnforcementGate \<Rightarrow> goerr \<times> EnforcementGate" where
  "EnableDryRun now = SetMode now EnforcementModeDryRun"

definition EnableCanary :: "gotime \<Rightarrow> EnforcementGate \<Rightarrow> goerr \<times> EnforcementGate" where
  "EnableCanary now = SetMode now EnforcementModeCanary"

definition DisableEnforcement :: "EnforcementGate \<Rightarrow> EnforcementGate" where
  "DisableEnforcement g =
     (let g = g\<lparr>eg_mode := EnforcementModeShadow, eg_autoDisabled := False, eg_autoDisableReason := []\<rparr> in
      upd_metrics RecordModeChange (logModeChange EnforcementModeShadow g))"

definition EmergencyBypass :: "string \<Rightarrow> EnforcementGate \<Rightarrow> bool \<times> EnforcementGate" where
  "EmergencyBypass token g =
     (if \<not> eo_EmergencyBypassEnabled (eg_options g) then (False, g)
      else if token = eo_EmergencyBypassToken (eg_options g) then
        let g = logEmergencyBypass (g\<lparr>eg_bypassSet := mset_at token () (eg_bypassSet g)\<rparr>) in
        (True, upd_metrics RecordEmergencyBypass g)
      else (False, g))"

definition ClearEmergencyBypass :: "string \<Rightarrow> EnforcementGate \<Rightarrow> EnforcementGate" where
  "ClearEmergencyBypass token g = g\<lparr>eg_bypassSet := mdelete token (eg_bypassSet g)\<rparr>"

definition Gate_Close :: "string \<Rightarrow> EnforcementGate \<Rightarrow> EnforcementGate" where
  "Gate_Close reason g = logGateClosed reason (g\<lparr>eg_closed := True, eg_closeReason := reason\<rparr>)"

definition Reopen :: "EnforcementGate \<Rightarrow> EnforcementGate" where
  "Reopen g = logGateReopened (g\<lparr>eg_closed := False, eg_closeReason := []\<rparr>)"

definition CheckEnforcementDuration :: "gotime \<Rightarrow> EnforcementGate \<Rightarrow> bool" where
  "CheckEnforcementDuration now g \<longleftrightarrow>
     eo_MaxEnforcementDuration (eg_options g) \<noteq> 0 \<and> enforcing_mode (eg_mode g)
     \<and> now - eg_enabledAt g > eo_MaxEnforcementDuration (eg_options g)"

definition AutoRevertIfNeeded :: "gotime \<Rightarrow> EnforcementGate \<Rightarrow> EnforcementGate" where
  "AutoRevertIfNeeded now g =
     (if eo_MaxEnforcementDuration (eg_options g) = 0 then g
      else if \<not> enforcing_mode (eg_mode g) then g
      else if now - eg_enabledAt g > eo_MaxEnforcementDuration (eg_options g) then
        upd_metrics RecordModeChange (logAutoRevert (g\<lparr>eg_mode := EnforcementModeShadow\<rparr>))
      else g)"

definition ShouldEnforce :: "EnforcementGate \<Rightarrow> bool" where
  "ShouldEnforce g =
     (if eg_closed g then False
      else if eg_autoDisabled g then False
      else if IsEmergencyBypassActive g then False
      else enforcing_mode (eg_mode g))"

section \<open>Requests\<close>

text \<open>The parts of \<open>*http.Request\<close> the gate reads: \<open>Method\<close>, \<open>URL.String()\<close>, \<open>URL.Host\<close>, \<open>URL.Path\<close> and
  \<open>Header.Get\<close>.\<close>

record gate_request =
  gq_Method :: string
  gq_URLString :: string
  gq_URLHost :: string
  gq_URLPath :: string
  gq_Header :: "string \<Rightarrow> string"

definition matchPattern :: "string \<Rightarrow> string \<Rightarrow> bool" where
  "matchPattern pattern s =
     (let regexPattern = QuoteMeta pattern;
          regexPattern = ReplaceAll regexPattern [CHR 0x5C, CHR ''*''] ''.*'';
          regexPattern = ReplaceAll regexPattern [CHR 0x5C, CHR ''?''] ''.'';
          regexPattern = ''^'' @ regexPattern @ ''$''
      in case re_Compile regexPattern of None \<Rightarrow> False | Some re \<Rightarrow> re_MatchString re s)"

definition isMethodAllowlisted :: "EnforcementGate \<Rightarrow> string \<Rightarrow> bool" where
  "isMethodAllowlisted g method \<longleftrightarrow>
     eo_MethodAllowlist (eg_options g) = []
     \<or> list_ex (\<lambda>allowed. ToUpper allowed = ToUpper method) (eo_MethodAllowlist (eg_options g))"

definition isResourceAllowlisted :: "EnforcementGate \<Rightarrow> string \<Rightarrow> bool" where
  "isResourceAllowlisted g resource =
     (if eo_ResourceAllowlist (eg_options g) = [] then True
      else case url_Parse resource of
        None \<Rightarrow> False
      | Some parsed \<Rightarrow> list_ex (\<lambda>pattern. matchPattern pattern (u_Path parsed)) (eo_ResourceAllowlist (eg_options g)))"

definition isStorageAllowlisted :: "EnforcementGate \<Rightarrow> string \<Rightarrow> bool" where
  "isStorageAllowlisted g host \<longleftrightarrow>
     eo_StorageAllowlist (eg_options g) = []
     \<or> list_ex (\<lambda>pattern. matchPattern pattern host) (eo_StorageAllowlist (eg_options g))"

definition isCanaryRequest :: "gate_request \<Rightarrow> EnforcementGate \<Rightarrow> bool \<times> EnforcementGate" where
  "isCanaryRequest req g =
     (let canary = eo_CanaryConfig (eg_options g) in
      if \<not> cc_Enabled canary then (False, g)
      else if cc_Mode canary = CanaryModePercentage then
        let count = eg_canaryRequestCount g + 1;
            g = g\<lparr>eg_canaryRequestCount := count\<rparr> in
        if count mod 100 < cc_Percentage canary then (True, upd_metrics RecordCanaryEnforced g)
        else (False, upd_metrics RecordCanaryShadowed g)
      else if cc_Mode canary = CanaryModeHeader then
        (cc_HeaderName canary \<noteq> [] \<and> gq_Header req (cc_HeaderName canary) = cc_HeaderValue canary, g)
      else if cc_Mode canary = CanaryModePath then
        (list_ex (\<lambda>pattern. matchPattern pattern (gq_URLPath req)) (cc_PathPatterns canary), g)
      else (False, g))"

definition ShouldEnforceForRequest :: "gate_request \<Rightarrow> EnforcementGate \<Rightarrow> bool \<times> EnforcementGate" where
  "ShouldEnforceForRequest req g =
     (if \<not> ShouldEnforce g then (False, g)
      else if eg_mode g = EnforcementModeCanary then isCanaryRequest req g
      else if \<not> isMethodAllowlisted g (gq_Method req) then (False, upd_metrics RecordAllowlistMiss g)
      else if \<not> isResourceAllowlisted g (gq_URLString req) then (False, upd_metrics RecordAllowlistMiss g)
      else if \<not> isStorageAllowlisted g (gq_URLHost req) then (False, upd_metrics RecordAllowlistMiss g)
      else (True, upd_metrics RecordAllowlistHit g))"

section \<open>Mismatches and comparisons\<close>

text \<open>\<open>RecordMismatch\<close> reads the clock twice, for the gate and for its metrics.\<close>

definition Gate_RecordMismatch :: "gotime \<Rightarrow> gotime \<Rightarrow> EnforcementGate \<Rightarrow> EnforcementGate" where
  "Gate_RecordMismatch now now' g =
     (let g = upd_metrics (Metrics_RecordMismatch now')
                (g\<lparr>eg_mismatchCount := eg_mismatchCount g + 1, eg_lastMismatchTime := now\<rparr>);
          threshold = eo_AutoDisableOnMismatchThreshold (eg_options g);
          totalRequests = gm_DecisionsEnforced (eg_metrics g) + gm_DecisionsShadowed (eg_metrics g);
          mismatchRate = float_percentage (eg_mismatchCount g) totalRequests
      in if threshold > 0 \<and> totalRequests > 0 \<and> mismatchRate > of_int threshold then
           let reason = ''mismatch rate '' @ format_fixed 2 mismatchRate @ ''% exceeded threshold ''
                 @ FormatInt threshold @ ''%'';
               g = g\<lparr>eg_autoDisabled := True, eg_autoDisableReason := reason\<rparr>
           in logAutoDisable reason (upd_metrics RecordAutoDisable g)
         else g)"

definition ClearMismatches :: "EnforcementGate \<Rightarrow> EnforcementGate" where
  "ClearMismatches g =
     (let g = g\<lparr>eg_mismatchCount := 0, eg_lastMismatchTime := zero_time\<rparr> in
      if eg_autoDisabled g then logAutoDisableCleared (g\<lparr>eg_autoDisabled := False, eg_autoDisableReason := []\<rparr>)
      else g)"

definition DecorateDecision :: "EnforcementGate \<Rightarrow> Decision \<Rightarrow> Decision" where
  "DecorateDecision g decision = decision"

definition ShouldAddDryRunHeader :: "EnforcementGate \<Rightarrow> bool" where
  "ShouldAddDryRunHeader g \<longleftrightarrow> eg_mode g = EnforcementModeDryRun \<and> \<not> eg_closed g"

definition ShouldAddCanaryHeader :: "EnforcementGate \<Rightarrow> bool" where
  "ShouldAddCanaryHeader g \<longleftrightarrow> eg_mode g = EnforcementModeCanary \<and> \<not> eg_closed g"

definition setThresholdMet :: "gotime \<Rightarrow> EnforcementGate \<Rightarrow> EnforcementGate" where
  "setThresholdMet now g =
     (if eg_thresholdMet g then g
      else let g = upd_metrics RecordAuditEvent (g\<lparr>eg_thresholdMet := True, eg_thresholdMetAt := now\<rparr>) in
           if eo_HasAuditLogger (eg_options g)
           then g\<lparr>eg_auditTrail := eg_auditTrail g @ [(''AUDIT: CSS comparison thresholds met'', [])]\<rparr>
           else g)"

definition RecordComparisonResult :: "gotime \<Rightarrow> bool \<Rightarrow> EnforcementGate \<Rightarrow> EnforcementGate" where
  "RecordComparisonResult now match g =
     (let g = g\<lparr>eg_comparisonTotalCount := eg_comparisonTotalCount g + 1\<rparr>; options = eg_options g in
      if match then
        let g = g\<lparr>eg_comparisonMatchCount := eg_comparisonMatchCount g + 1,
                  eg_consecutiveMatchCount := eg_consecutiveMatchCount g + 1\<rparr>;
            consecutiveMet = (if eo_ComparisonThresholdCount options > 0
                              then eg_consecutiveMatchCount g \<ge> eo_ComparisonThresholdCount options else True);
            percentageMet = (if eo_ComparisonThresholdPercentage options > 0 \<and> eg_comparisonTotalCount g > 0
                             then float_percentage (eg_comparisonMatchCount g) (eg_comparisonTotalCount g)
                                  \<ge> of_int (eo_ComparisonThresholdPercentage options)
                             else True)
        in if consecutiveMet \<and> percentageMet then setThresholdMet now g else g
      else
        let g = g\<lparr>eg_consecutiveMatchCount := 0\<rparr> in
        if eg_thresholdMet g then g\<lparr>eg_thresholdMet := False, eg_thresholdMetAt := zero_time\<rparr> else g)"

definition ResetComparisonResults :: "EnforcementGate \<Rightarrow> EnforcementGate" where
  "ResetComparisonResults g =
     g\<lparr>eg_comparisonTotalCount := 0, eg_comparisonMatchCount := 0, eg_consecutiveMatchCount := 0,
       eg_thresholdMet := False, eg_thresholdMetAt := zero_time\<rparr>"

definition GetComparisonStats :: "EnforcementGate \<Rightarrow> int \<times> int \<times> int \<times> bool" where
  "GetComparisonStats g =
     (eg_comparisonTotalCount g, eg_comparisonMatchCount g, eg_consecutiveMatchCount g, eg_thresholdMet g)"

definition GetMatchPercentage :: "EnforcementGate \<Rightarrow> rat" where
  "GetMatchPercentage g =
     (if eg_comparisonTotalCount g = 0 then 0
      else float_percentage (eg_comparisonMatchCount g) (eg_comparisonTotalCount g))"

text \<open>The middleware: the headers it sets, and the gate as the handler behind it finds it.\<close>

definition EnforcementGateMiddleware ::
  "gotime \<Rightarrow> EnforcementGate \<Rightarrow> (string \<times> string) list \<times> EnforcementGate" where
  "EnforcementGateMiddleware now gate =
     ((''X-Authz-Enforcement-Mode'', eg_mode gate)
      # (if ShouldAddDryRunHeader gate then [(''X-Authz-Mode'', ''dry-run'')] else [])
      @ (if ShouldAddCanaryHeader gate then [(''X-Authz-Canary'', ''true'')] else []),
      AutoRevertIfNeeded now gate)"

section \<open>Runs of the gate\<close>

datatype gate_op =
    OpSetMode gotime EnforcementMode
  | OpDisable
  | OpBypass string
  | OpClearBypass string
  | OpClose string
  | OpReopen
  | OpMiddleware gotime
  | OpRequest gate_request
  | OpDecision "bool option"
  | OpMismatch gotime gotime
  | OpClearMismatches
  | OpComparison gotime bool
  | OpResetComparisons

text \<open>\<open>OpDecision (Some allowed)\<close> is \<open>RecordDecisionEnforced(allowed)\<close> on the gate's metrics,
  \<open>OpDecision None\<close> is \<open>RecordDecisionShadowed()\<close>.\<close>

fun gate_exec :: "gate_op \<Rightarrow> EnforcementGate \<Rightarrow> EnforcementGate" where
  "gate_exec (OpSetMode now mode) g = snd (SetMode now mode g)"
| "gate_exec OpDisable g = DisableEnforcement g"
| "gate_exec (OpBypass token) g = snd (EmergencyBypass token g)"
| "gate_exec (OpClearBypass token) g = ClearEmergencyBypass token g"
| "gate_exec (OpClose reason) g = Gate_Close reason g"
| "gate_exec OpReopen g = Reopen g"
| "gate_exec (OpMiddleware now) g = snd (EnforcementGateMiddleware now g)"
| "gate_exec (OpRequest req) g = snd (ShouldEnforceForRequest req g)"
| "gate_exec (OpDecision None) g = upd_metrics RecordDecisionShadowed g"
| "gate_exec (OpDecision (Some allowed)) g = upd_metrics (RecordDecisionEnforced allowed) g"
| "gate_exec (OpMismatch now now') g = Gate_RecordMismatch now now' g"
| "gate_exec OpClearMismatches g = ClearMismatches g"
| "gate_exec (OpComparison now match) g = RecordComparisonResult now match g"
| "gate_exec OpResetComparisons g = ResetComparisonResults g"

inductive gate_run :: "EnforcementGate \<Rightarrow> gate_op list \<Rightarrow> EnforcementGate \<Rightarrow> bool" for g0 where
  gate_start: "gate_run g0 [] g0"
| gate_step: "gate_run g0 ops g \<Longrightarrow> gate_run g0 (ops @ [op]) (gate_exec op g)"

code_pred gate_run .

text \<open>The comparison results recorded since the last reset.\<close>

fun comparison_results :: "gate_op list \<Rightarrow> bool list" where
  "comparison_results ops =
     fold (\<lambda>op rs. case op of OpComparison _ b \<Rightarrow> rs @ [b] | OpResetComparisons \<Rightarrow> [] | _ \<Rightarrow> rs) ops []"

section \<open>What the operations leave alone\<close>

lemma upd_metrics_frame [simp]:
  "eg_options (upd_metrics f g) = eg_options g" "eg_mode (upd_metrics f g) = eg_mode g"
  "eg_enabledAt (upd_metrics f g) = eg_enabledAt g" "eg_bypassSet (upd_metrics f g) = eg_bypassSet g"
  "eg_closed (upd_metrics f g) = eg_closed g" "eg_closeReason (upd_metrics f g) = eg_closeReason g"
  "eg_autoDisabled (upd_metrics f g) = eg_autoDisabled g"
  "eg_canaryRequestCount (upd_metrics f g) = eg_canaryRequestCount g"
  "eg_mismatchCount (upd_metrics f g) = eg_mismatchCount g"
  "eg_comparisonTotalCount (upd_metrics f g) = eg_comparisonTotalCount g"
  "eg_comparisonMatchCount (upd_metrics f g) = eg_comparisonMatchCount g"
  "eg_consecutiveMatchCount (upd_metrics f g) = eg_consecutiveMatchCount g"
  "eg_thresholdMet (upd_metrics f g) = eg_thresholdMet g"
  "eg_auditTrail (upd_metrics f g) = eg_auditTrail g"
  "eg_metrics (upd_metrics f g) = f (eg_metrics g)"
  by (simp_all add: upd_metrics_def)

lemma log_audit_frame [simp]:
  "eg_options (log_audit msg d g) = eg_options g" "eg_mode (log_audit msg d g) = eg_mode g"
  "eg_enabledAt (log_audit msg d g) = eg_enabledAt g" "eg_bypassSet (log_audit msg d g) = eg_bypassSet g"
  "eg_closed (log_audit msg d g) = eg_closed g" "eg_closeReason (log_audit msg d g) = eg_closeReason g"
  "eg_autoDisabled (log_audit msg d g) = eg_autoDisabled g"
  "eg_canaryRequestCount (log_audit msg d g) = eg_canaryRequestCount g"
  "eg_mismatchCount (log_audit msg d g) = eg_mismatchCount g"
  "eg_comparisonTotalCount (log_audit msg d g) = eg_comparisonTotalCount g"
  "eg_comparisonMatchCount (log_audit msg d g) = eg_comparisonMatchCount g"
  "eg_consecutiveMatchCount (log_audit msg d g) = eg_consecutiveMatchCount g"
  "eg_thresholdMet (log_audit msg d g) = eg_thresholdMet g"
  "gm_DecisionsEnforced (eg_metrics (log_audit msg d g)) = gm_DecisionsEnforced (eg_metrics g)"
  "gm_DecisionsShadowed (eg_metrics (log_audit msg d g)) = gm_DecisionsShadowed (eg_metrics g)"
  by (simp_all add: log_audit_def Let_def RecordAuditEvent_def)

lemmas gate_logs = logModeChange_def logEmergencyBypass_def logGateClosed_def logGateReopened_def
  logAutoRevert_def logAutoDisable_def logAutoDisableCleared_def

lemmas gate_ops = SetMode_def DisableEnforcement_def EmergencyBypass_def ClearEmergencyBypass_def
  Gate_Close_def Reopen_def EnforcementGateMiddleware_def AutoRevertIfNeeded_def ShouldEnforceForRequest_def
  isCanaryRequest_def Gate_RecordMismatch_def ClearMismatches_def RecordComparisonResult_def setThresholdMet_def
  ResetComparisonResults_def Let_def gate_logs

lemma exec_options [simp]: "eg_options (gate_exec op g) = eg_options g"
  by (cases "(op, g)" rule: gate_exec.cases)
    (simp_all add: gate_ops if_distrib [of snd] if_distrib [of eg_options] if_distrib [of "\<lambda>g. eg_options g"] del: if_split cong: if_cong)

text \<open>Only \<open>SetMode\<close> brings the gate into an enforcing mode, and only past its guards.\<close>

lemma exec_enforcing:
  assumes "enforcing_mode (eg_mode (gate_exec op g))"
  obtains (kept) "enforcing_mode (eg_mode g)" "eg_enabledAt (gate_exec op g) = eg_enabledAt g"
    | (set) now mode where "op = OpSetMode now mode" "\<not> eg_closed g" "enforcing_mode mode"
        "eo_AllowEnforcement (eg_options g)" "eo_RequireComparisonThreshold (eg_options g) \<longrightarrow> eg_thresholdMet g"
        "eg_mode (gate_exec op g) = mode" "eg_enabledAt (gate_exec op g) = now"
proof -
  have shadow: "\<not> enforcing_mode EnforcementModeShadow"
    by (simp add: enforcing_mode_def EnforcementModeShadow_def EnforcementModeEnforce_def
        EnforcementModeDryRun_def EnforcementModeCanary_def)
  show thesis
  proof (cases "\<exists>now mode. op = OpSetMode now mode")
    case True
    then obtain now mode where op: "op = OpSetMode now mode" by blast
    show thesis
    proof (cases "fst (SetMode now mode g) = None \<and> enforcing_mode mode")
      case True
      with shadow have "mode \<noteq> EnforcementModeShadow" by auto
      with True assms op show thesis
        by (intro set) (auto simp: SetMode_def Let_def logModeChange_def split: if_splits)
    next
      case False
      with assms op shadow show thesis
        by (intro kept) (auto simp: SetMode_def Let_def logModeChange_def split: if_splits)
    qed
  next
    case False
    then have "(eg_mode (gate_exec op g) = eg_mode g \<or> eg_mode (gate_exec op g) = EnforcementModeShadow)
        \<and> eg_enabledAt (gate_exec op g) = eg_enabledAt g"
      by (cases "(op, g)" rule: gate_exec.cases) (simp_all add: gate_ops)
    with assms shadow kept show thesis by auto
  qed
qed

section \<open>Comparison thresholds\<close>

lemma comparison_results_snoc:
  "comparison_results (ops @ [op]) =
     (case op of OpComparison _ b \<Rightarrow> comparison_results ops @ [b] | OpResetComparisons \<Rightarrow> [] | _ \<Rightarrow> comparison_results ops)"
  by (simp split: gate_op.split)

lemma comparison_results_Nil: "comparison_results [] = []"
  by simp

declare comparison_results.simps [simp del]

lemma comparison_results_length: "length (comparison_results ops) \<le> length ops"
  by (induction ops rule: rev_induct)
    (auto simp: comparison_results_snoc comparison_results_Nil split: gate_op.split)

text \<open>What the thresholds ask of the results recorded since the last reset.\<close>

definition trailing_matches :: "bool list \<Rightarrow> nat" where
  "trailing_matches rs = length (takeWhile id (rev rs))"

definition threshold_evidence :: "EnforcementGateOptions \<Rightarrow> bool list \<Rightarrow> bool" where
  "threshold_evidence options rs \<longleftrightarrow>
     rs \<noteq> [] \<and> last rs
     \<and> eo_ComparisonThresholdCount options \<le> int (trailing_matches rs)
     \<and> (eo_ComparisonThresholdPercentage options > 0 \<longrightarrow>
          of_int (eo_ComparisonThresholdPercentage options)
            \<le> float_percentage (int (length (filter id rs))) (int (length rs)))"

definition comparison_inv :: "gate_op list \<Rightarrow> EnforcementGate \<Rightarrow> bool" where
  "comparison_inv ops g \<longleftrightarrow>
     (let rs = comparison_results ops in
      eg_comparisonTotalCount g = int (length rs)
      \<and> eg_comparisonMatchCount g = int (length (filter id rs))
      \<and> eg_consecutiveMatchCount g = int (trailing_matches rs)
      \<and> (eg_thresholdMet g \<longrightarrow> threshold_evidence (eg_options g) rs))"

lemma exec_comparison_frame:
  assumes "\<nexists>now b. op = OpComparison now b" and "op \<noteq> OpResetComparisons"
  shows "eg_comparisonTotalCount (gate_exec op g) = eg_comparisonTotalCount g"
    "eg_comparisonMatchCount (gate_exec op g) = eg_comparisonMatchCount g"
    "eg_consecutiveMatchCount (gate_exec op g) = eg_consecutiveMatchCount g"
    "eg_thresholdMet (gate_exec op g) = eg_thresholdMet g"
  using assms
  by (cases "(op, g)" rule: gate_exec.cases; simp add: gate_ops if_distrib [of snd] if_distrib [of eg_comparisonTotalCount]
      if_distrib [of eg_comparisonMatchCount] if_distrib [of eg_consecutiveMatchCount] if_distrib [of eg_thresholdMet] del: if_split cong: if_cong)+

lemma comparison_results_other:
  "\<nexists>now b. op = OpComparison now b \<Longrightarrow> op \<noteq> OpResetComparisons \<Longrightarrow>
   comparison_results (ops @ [op]) = comparison_results ops"
  by (cases op) (auto simp: comparison_results_snoc)

lemma record_comparison_fields:
  "eg_comparisonTotalCount (RecordComparisonResult now b g) = eg_comparisonTotalCount g + 1"
  "eg_comparisonMatchCount (RecordComparisonResult now b g) = eg_comparisonMatchCount g + (if b then 1 else 0)"
  "eg_consecutiveMatchCount (RecordComparisonResult now b g) = (if b then eg_consecutiveMatchCount g + 1 else 0)"
  "eg_thresholdMet (RecordComparisonResult now b g) \<longleftrightarrow>
     b \<and> (eg_thresholdMet g
        \<or> (eo_ComparisonThresholdCount (eg_options g) > 0 \<longrightarrow> eo_ComparisonThresholdCount (eg_options g) \<le> eg_consecutiveMatchCount g + 1)
          \<and> (eo_ComparisonThresholdPercentage (eg_options g) > 0 \<and> eg_comparisonTotalCount g + 1 > 0 \<longrightarrow>
               of_int (eo_ComparisonThresholdPercentage (eg_options g))
                 \<le> float_percentage (eg_comparisonMatchCount g + 1) (eg_comparisonTotalCount g + 1)))"
  by (auto simp: RecordComparisonResult_def setThresholdMet_def Let_def)

lemma trailing_matches_snoc:
  "trailing_matches (rs @ [b]) = (if b then Suc (trailing_matches rs) else 0)"
  by (simp add: trailing_matches_def)

lemma comparison_inv_step:
  assumes inv: "comparison_inv ops g" and ok: "0 \<le> eo_ComparisonThresholdCount (eg_options g)"
    and len: "length ops < 2 ^ 52"
  shows "comparison_inv (ops @ [op]) (gate_exec op g)"
proof -
  let ?rs = "comparison_results ops"
  note I = inv [unfolded comparison_inv_def Let_def]
  consider (cmp) now b where "op = OpComparison now b" | (reset) "op = OpResetComparisons"
    | (other) "\<nexists>now b. op = OpComparison now b" "op \<noteq> OpResetComparisons" by blast
  then show ?thesis
  proof cases
    case cmp
    have rs: "comparison_results (ops @ [op]) = ?rs @ [b]" by (simp add: comparison_results_snoc cmp)
    have ev: "threshold_evidence (eg_options g) (?rs @ [b])" if met: "eg_thresholdMet (RecordComparisonResult now b g)"
    proof -
      have b: "b" using met by (simp add: record_comparison_fields)
      show ?thesis
      proof (cases "eg_thresholdMet g")
        case True
        then have old: "threshold_evidence (eg_options g) ?rs" using I by simp
        have "length ?rs < 2 ^ 52" using len comparison_results_length [of ops] by linarith
        then have "int (length ?rs) < int (2 ^ 52)" by (simp only: of_nat_less_iff)
        then have "float_percentage (int (length (filter id ?rs))) (int (length ?rs))
            \<le> float_percentage (int (length (filter id ?rs)) + 1) (int (length ?rs) + 1)"
          using old by (intro float_percentage_step) (auto simp: threshold_evidence_def)
        with old b show ?thesis
          by (auto simp: threshold_evidence_def trailing_matches_snoc add.commute)
      next
        case False
        with met b I ok show ?thesis
          by (auto simp: record_comparison_fields threshold_evidence_def trailing_matches_snoc add.commute)
      qed
    qed
    have "eg_options (RecordComparisonResult now b g) = eg_options g"
      using exec_options [of "OpComparison now b" g] by simp
    with I ev show ?thesis unfolding comparison_inv_def rs Let_def
      by (simp add: cmp record_comparison_fields(1-3) trailing_matches_snoc)
  next
    case reset
    then show ?thesis
      by (simp add: comparison_inv_def Let_def comparison_results_snoc ResetComparisonResults_def trailing_matches_def)
  next
    case other
    with I show ?thesis by (simp add: comparison_inv_def Let_def exec_comparison_frame comparison_results_other)
  qed
qed

text \<open>An enforcing gate was switched on by a \<open>SetMode\<close> that found the thresholds met.\<close>

definition enabled_by :: "EnforcementGateOptions \<Rightarrow> gate_op list \<Rightarrow> gotime \<Rightarrow> bool" where
  "enabled_by options ops t \<longleftrightarrow>
     (\<exists>pre mode post. ops = pre @ OpSetMode t mode # post \<and> enforcing_mode mode
        \<and> (eo_RequireComparisonThreshold options \<longrightarrow> threshold_evidence options (comparison_results pre)))"

lemma enabled_by_snoc: "enabled_by options ops t \<Longrightarrow> enabled_by options (ops @ [op]) t"
  unfolding enabled_by_def by (metis append.assoc append_Cons)

lemma gate_run_inv:
  assumes "gate_run g0 ops g" and "0 \<le> eo_ComparisonThresholdCount (eg_options g0)" and "length ops \<le> 2 ^ 52"
    and "comparison_inv [] g0" and "\<not> enforcing_mode (eg_mode g0)"
  shows "comparison_inv ops g \<and> eg_options g = eg_options g0
    \<and> (enforcing_mode (eg_mode g) \<longrightarrow> eo_AllowEnforcement (eg_options g0) \<and> enabled_by (eg_options g0) ops (eg_enabledAt g))"
  using assms
proof (induction rule: gate_run.induct)
  case (gate_step ops g op)
  then have IH: "comparison_inv ops g" "eg_options g = eg_options g0"
    "enforcing_mode (eg_mode g) \<Longrightarrow> eo_AllowEnforcement (eg_options g0) \<and> enabled_by (eg_options g0) ops (eg_enabledAt g)"
    by auto
  have "comparison_inv (ops @ [op]) (gate_exec op g)"
    using gate_step.prems IH by (intro comparison_inv_step) auto
  moreover have "eo_AllowEnforcement (eg_options g0) \<and> enabled_by (eg_options g0) (ops @ [op]) (eg_enabledAt (gate_exec op g))"
    if "enforcing_mode (eg_mode (gate_exec op g))"
    using that
  proof (cases rule: exec_enforcing)
    case kept
    with IH(3) show ?thesis by (simp add: enabled_by_snoc)
  next
    case (set now mode)
    have "enabled_by (eg_options g0) (ops @ [op]) now"
      unfolding enabled_by_def using set IH(1,2)
      by (intro exI [of _ ops] exI [of _ mode] exI [of _ "[]"]) (auto simp: comparison_inv_def Let_def)
    with set IH(2) show ?thesis by simp
  qed
  ultimately show ?case using IH(2) by simp
qed simp

lemma all_matched:
  assumes "threshold_evidence options rs" and "eo_ComparisonThresholdPercentage options = 100" and "length rs \<le> 2 ^ 52"
  shows "\<forall>r\<in>set rs. r"
proof (rule ccontr)
  assume "\<not> (\<forall>r\<in>set rs. r)"
  then have "length (filter id rs) < length rs" by (auto intro: length_filter_less)
  then have "int (length (filter id rs)) < int (length rs)" by simp
  moreover have "int (length rs) \<le> int (2 ^ 52)" using assms(3) by (simp only: of_nat_le_iff)
  ultimately have "float_percentage (int (length (filter id rs))) (int (length rs)) < 100"
    by (intro float_percentage_below) auto
  with assms(1,2) show False by (simp add: threshold_evidence_def)
qed

section \<open>Properties\<close>

lemma NewEnforcementGate_fields:
  assumes "NewEnforcementGate now options = Inr g0"
  shows "validateGateOptions options = None" "comparison_inv [] g0" "eg_closed g0 = False"
    "eg_mode g0 = (if eo_InitialMode options = [] then EnforcementModeShadow else eo_InitialMode options)"
    "eo_AllowEnforcement (eg_options g0) = eo_AllowEnforcement options"
    "eo_MaxEnforcementDuration (eg_options g0) = eo_MaxEnforcementDuration options"
    "eo_ResourceAllowlist (eg_options g0) = eo_ResourceAllowlist options"
    "eo_StorageAllowlist (eg_options g0) = eo_StorageAllowlist options"
    "eo_MethodAllowlist (eg_options g0) = eo_MethodAllowlist options"
    "eo_CanaryConfig (eg_options g0) = eo_CanaryConfig options"
    "eo_RequireComparisonThreshold (eg_options g0) = eo_RequireComparisonThreshold options"
    "eo_ComparisonThresholdCount (eg_options g0) = eo_ComparisonThresholdCount options"
    "eo_ComparisonThresholdPercentage (eg_options g0) = eo_ComparisonThresholdPercentage options"
    "gm_DecisionsEnforced (eg_metrics g0) = 0" "gm_DecisionsShadowed (eg_metrics g0) = 0" "\<not> eg_autoDisabled g0"
  using assms
  by (auto simp: NewEnforcementGate_def Let_def comparison_inv_def comparison_results_Nil trailing_matches_def
      zero_GateMetrics_def split: option.splits if_splits)

lemma validateGateOptions_None:
  assumes "validateGateOptions options = None"
  shows "0 \<le> eo_ComparisonThresholdCount options"
    "\<forall>p\<in>set (eo_ResourceAllowlist options) \<union> set (eo_StorageAllowlist options) \<union> set (cc_PathPatterns (eo_CanaryConfig options)).
       validatePattern p = None"
    "cc_Enabled (eo_CanaryConfig options) \<Longrightarrow> 0 \<le> cc_Percentage (eo_CanaryConfig options) \<and> cc_Percentage (eo_CanaryConfig options) \<le> 100"
proof -
  have ps: "validatePatterns what ps = None \<Longrightarrow> \<forall>p\<in>set ps. validatePattern p = None" for what ps
    by (induction ps) (auto split: option.splits)
  from assms have v: "validatePatterns ''resource allowlist'' (eo_ResourceAllowlist options) = None"
    "validatePatterns ''storage allowlist'' (eo_StorageAllowlist options) = None"
    "validatePatterns ''canary path'' (cc_PathPatterns (eo_CanaryConfig options)) = None"
    by (auto simp: validateGateOptions_def split: option.splits)
  from assms v show "0 \<le> eo_ComparisonThresholdCount options"
    by (auto simp: validateGateOptions_def Let_def split: if_splits)
  from assms v show "cc_Enabled (eo_CanaryConfig options) \<Longrightarrow>
      0 \<le> cc_Percentage (eo_CanaryConfig options) \<and> cc_Percentage (eo_CanaryConfig options) \<le> 100"
    by (auto simp: validateGateOptions_def Let_def split: if_splits)
  from ps [OF v(1)] ps [OF v(2)] ps [OF v(3)]
  show "\<forall>p\<in>set (eo_ResourceAllowlist options) \<union> set (eo_StorageAllowlist options) \<union> set (cc_PathPatterns (eo_CanaryConfig options)).
       validatePattern p = None" by blast
qed

lemma shadow_not_enforcing [simp]: "\<not> enforcing_mode EnforcementModeShadow"
  by (simp add: enforcing_mode_def EnforcementModeShadow_def EnforcementModeEnforce_def
      EnforcementModeDryRun_def EnforcementModeCanary_def)


text \<open>The gate the gateway creates (\<open>internal/gateway/server.go\<close>).\<close>

definition server_gate_options :: EnforcementGateOptions where
  "server_gate_options =
     \<lparr>eo_InitialMode = EnforcementModeShadow, eo_AllowEnforcement = False,
      eo_EmergencyBypassEnabled = True, eo_EmergencyBypassToken = [],
      eo_MaxEnforcementDuration = 0, eo_ResourceAllowlist = [], eo_StorageAllowlist = [],
      eo_MethodAllowlist = [''GET'', ''HEAD''], eo_AutoDisableOnMismatchThreshold = 0,
      eo_CanaryConfig = \<lparr>cc_Enabled = False, cc_Mode = [], cc_Percentage = 0,
                         cc_HeaderName = [], cc_HeaderValue = [], cc_PathPatterns = []\<rparr>,
      eo_RequireMultipleAuthors = False, eo_RequireComparisonThreshold = False,
      eo_ComparisonThresholdPercentage = 0, eo_ComparisonThresholdCount = 0,
      eo_HasAuditLogger = True, eo_HasLogger = True\<rparr>"

lemma not_allowed_never_enforcing:
  assumes "gate_run g0 ops g" and "\<not> eo_AllowEnforcement (eg_options g0)" and "\<not> enforcing_mode (eg_mode g0)"
  shows "eg_options g = eg_options g0 \<and> \<not> enforcing_mode (eg_mode g)"
  using assms
proof (induction rule: gate_run.induct)
  case (gate_step ops g op)
  then have IH: "eg_options g = eg_options g0" "\<not> enforcing_mode (eg_mode g)" by auto
  have "\<not> enforcing_mode (eg_mode (gate_exec op g))"
  proof
    assume "enforcing_mode (eg_mode (gate_exec op g))"
    then show False using IH gate_step.prems by (cases rule: exec_enforcing) auto
  qed
  with IH show ?case by simp
qed simp

text \<open>
  C2: The gateway never enforces. The server creates its gate successfully, and whatever
  operations are then performed on it, no request is ever enforced and every attempt to switch to
  an enforcing mode is an error that leaves the gate as it is.
\<close>

theorem gateway_never_enforces:
  "\<exists>g0. NewEnforcementGate now server_gate_options = Inr g0
     \<and> (\<forall>ops g. gate_run g0 ops g \<longrightarrow>
          (\<forall>req. ShouldEnforceForRequest req g = (False, g))
          \<and> (\<forall>t mode. enforcing_mode mode \<longrightarrow> (\<exists>err. SetMode t mode g = (Some err, g))))"
proof -
  have "validateGateOptions server_gate_options = None"
    by (simp add: validateGateOptions_def server_gate_options_def)
  then obtain g0 where g0: "NewEnforcementGate now server_gate_options = Inr g0"
    by (auto simp: NewEnforcementGate_def Let_def)
  note new = NewEnforcementGate_fields [OF g0]
  have "\<not> eo_AllowEnforcement (eg_options g0)" "\<not> enforcing_mode (eg_mode g0)"
    by (simp_all add: new) (simp_all add: server_gate_options_def)
  then have "\<not> eo_AllowEnforcement (eg_options g) \<and> \<not> enforcing_mode (eg_mode g)" if "gate_run g0 ops g" for ops g
    using not_allowed_never_enforcing [OF that] by auto
  then show ?thesis using g0
    by (auto simp: ShouldEnforceForRequest_def ShouldEnforce_def SetMode_def)
qed

section \<open>Kill switches\<close>

lemma exec_closed:
  assumes "op \<noteq> OpReopen" and "eg_closed g"
  shows "eg_closed (gate_exec op g)"
  using assms by (cases "(op, g)" rule: gate_exec.cases)
    (simp_all add: gate_ops if_distrib [of snd] if_distrib [of eg_closed] del: if_split cong: if_cong)

lemma exec_bypass:
  assumes "op \<noteq> OpClearBypass token" and "map_of (eg_bypassSet g) token \<noteq> None"
  shows "map_of (eg_bypassSet (gate_exec op g)) token \<noteq> None"
proof (cases "\<exists>t. op = OpBypass t \<or> op = OpClearBypass t")
  case True
  then show ?thesis using assms
    by (auto simp: EmergencyBypass_def ClearEmergencyBypass_def Let_def logEmergencyBypass_def split: if_splits)
next
  case False
  then have "eg_bypassSet (gate_exec op g) = eg_bypassSet g"
    by (cases "(op, g)" rule: gate_exec.cases)
      (simp_all add: gate_ops if_distrib [of snd] if_distrib [of eg_bypassSet] del: if_split cong: if_cong)
  with assms show ?thesis by simp
qed

lemma run_closed:
  "gate_run g0 ops g \<Longrightarrow> OpReopen \<notin> set ops \<Longrightarrow> eg_closed g0 \<Longrightarrow> eg_closed g"
  by (induction rule: gate_run.induct) (auto intro: exec_closed)

lemma run_bypass:
  "gate_run g0 ops g \<Longrightarrow> OpClearBypass token \<notin> set ops \<Longrightarrow> map_of (eg_bypassSet g0) token \<noteq> None
   \<Longrightarrow> map_of (eg_bypassSet g) token \<noteq> None"
proof (induction rule: gate_run.induct)
  case (gate_step ops g op)
  then show ?case using exec_bypass [of op token g] by auto
qed simp


section \<open>Which requests are enforced\<close>

lemma validatePattern_chars:
  assumes "validatePattern p = None" and "c \<in> set p"
  shows "c \<noteq> CHR 0x5C" "(of_char c :: nat) < 128"
proof -
  from assms have "pattern_char c" by (auto simp: validatePattern_def list_ex_iff split: if_splits)
  then show "c \<noteq> CHR 0x5C" "(of_char c :: nat) < 128"
    by (auto simp: pattern_char_def is_lower_def is_upper_def is_digit_def less_eq_char_def)
qed

lemma matchPattern_conv:
  assumes "validatePattern pattern = None"
  shows "matchPattern pattern s \<longleftrightarrow> glob_match pattern s"
proof -
  note chars = validatePattern_chars [OF assms]
  have "ReplaceAll (ReplaceAll (QuoteMeta pattern) [CHR 0x5C, CHR ''*''] ''.*'') [CHR 0x5C, CHR ''?''] ''.'' = glob_regex pattern"
    using chars(1) by (intro glob_regex_replace) blast
  moreover have "re_Compile (''^'' @ glob_regex pattern @ ''$'') = Some (ReBegin # map glob_item pattern @ [ReEnd])"
    using re_Compile_glob [of pattern] chars(2) by simp
  ultimately show ?thesis
    by (simp add: matchPattern_def Let_def re_MatchString_anchored re_here_glob del: re_Compile.simps)
qed

text \<open>
  The detour through regular expressions is right: for a pattern the gate accepts, the
  text \<open>matchPattern\<close> builds always compiles, and it matches exactly the strings the glob stands
  for, on whole strings, with \<open>*\<close> and \<open>?\<close> the only special characters.
\<close>

theorem matchPattern_glob:
  assumes "validatePattern pattern = None"
  shows "matchPattern pattern s \<longleftrightarrow> glob_match pattern s"
  using assms by (rule matchPattern_conv)

lemma run_options: "gate_run g0 ops g \<Longrightarrow> eg_options g = eg_options g0"
  by (induction rule: gate_run.induct) simp_all

text \<open>What a request must satisfy, in terms of globs.\<close>

definition canary_selects :: "CanaryConfig \<Rightarrow> int \<Rightarrow> gate_request \<Rightarrow> bool" where
  "canary_selects canary n req \<longleftrightarrow>
     cc_Enabled canary
     \<and> (cc_Mode canary = CanaryModePercentage \<and> (n + 1) mod 100 < cc_Percentage canary
        \<or> cc_Mode canary = CanaryModeHeader \<and> gq_Header req (cc_HeaderName canary) = cc_HeaderValue canary
        \<or> cc_Mode canary = CanaryModePath \<and> (\<exists>p\<in>set (cc_PathPatterns canary). glob_match p (gq_URLPath req)))"

definition allowlists_select :: "EnforcementGateOptions \<Rightarrow> gate_request \<Rightarrow> bool" where
  "allowlists_select options req \<longleftrightarrow>
     (eo_MethodAllowlist options = [] \<or> (\<exists>m\<in>set (eo_MethodAllowlist options). ToUpper m = ToUpper (gq_Method req)))
     \<and> (eo_ResourceAllowlist options = []
        \<or> (\<exists>u. url_Parse (gq_URLString req) = Some u
             \<and> (\<exists>p\<in>set (eo_ResourceAllowlist options). glob_match p (u_Path u))))
     \<and> (eo_StorageAllowlist options = [] \<or> (\<exists>p\<in>set (eo_StorageAllowlist options). glob_match p (gq_URLHost req)))"

lemma canary_modes [simp]:
  "CanaryModeHeader \<noteq> CanaryModePercentage" "CanaryModePath \<noteq> CanaryModePercentage" "CanaryModePath \<noteq> CanaryModeHeader"
  "CanaryModePercentage \<noteq> CanaryModeHeader" "CanaryModePercentage \<noteq> CanaryModePath" "CanaryModeHeader \<noteq> CanaryModePath"
  by (simp_all add: CanaryModeHeader_def CanaryModePercentage_def CanaryModePath_def)

text \<open>
  C3: Which requests are enforced. A gate that was created from accepted options and has gone
  through any operations enforces a request exactly if it enforces at all and either, in canary
  mode, the canary strategy selects the request, or, in the other modes, its method, resource
  path and host are each in the corresponding allowlist or that list is empty. Apart from metrics
  and the canary counter, the decision changes nothing.
\<close>

theorem ShouldEnforceForRequest_spec:
  assumes "NewEnforcementGate now options = Inr g0" and "gate_run g0 ops g"
    and "ShouldEnforceForRequest req g = (enforce, g')"
  shows "(enforce \<longleftrightarrow> ShouldEnforce g
      \<and> (if eg_mode g = EnforcementModeCanary then canary_selects (eo_CanaryConfig options) (eg_canaryRequestCount g) req
         else allowlists_select options req))
    \<and> g' = g\<lparr>eg_metrics := eg_metrics g', eg_canaryRequestCount := eg_canaryRequestCount g'\<rparr>"
proof -
  note new = NewEnforcementGate_fields [OF assms(1)]
  note valid = validateGateOptions_None [OF new(1)]
  note opts = run_options [OF assms(2)]
  have hdr: "cc_Enabled (eo_CanaryConfig options) \<Longrightarrow> cc_Mode (eo_CanaryConfig options) = CanaryModeHeader
      \<Longrightarrow> cc_HeaderName (eo_CanaryConfig options) \<noteq> []"
    using new(1) by (auto simp: validateGateOptions_def Let_def split: option.splits if_splits)
  have "(\<exists>p\<in>set (eo_ResourceAllowlist options). matchPattern p s) \<longleftrightarrow> (\<exists>p\<in>set (eo_ResourceAllowlist options). glob_match p s)"
    "(\<exists>p\<in>set (eo_StorageAllowlist options). matchPattern p s) \<longleftrightarrow> (\<exists>p\<in>set (eo_StorageAllowlist options). glob_match p s)"
    "(\<exists>p\<in>set (cc_PathPatterns (eo_CanaryConfig options)). matchPattern p s)
       \<longleftrightarrow> (\<exists>p\<in>set (cc_PathPatterns (eo_CanaryConfig options)). glob_match p s)" for s
    using valid(2) by (auto simp: matchPattern_conv)
  note globs = this
  have canary: "isCanaryRequest req g = (c, h) \<Longrightarrow>
      (c \<longleftrightarrow> canary_selects (eo_CanaryConfig options) (eg_canaryRequestCount g) req)
      \<and> h = g\<lparr>eg_metrics := eg_metrics h, eg_canaryRequestCount := eg_canaryRequestCount h\<rparr>" for c h
    using hdr by (auto simp: isCanaryRequest_def Let_def canary_selects_def opts new globs list_ex_iff upd_metrics_def split: if_splits)
  have lists: "isMethodAllowlisted g (gq_Method req) \<and> isResourceAllowlisted g (gq_URLString req)
      \<and> isStorageAllowlisted g (gq_URLHost req) \<longleftrightarrow> allowlists_select options req"
    by (auto simp: isMethodAllowlisted_def isResourceAllowlisted_def isStorageAllowlisted_def allowlists_select_def
        opts new globs list_ex_iff split: option.splits)
  show ?thesis
  proof (cases "ShouldEnforce g \<and> eg_mode g = EnforcementModeCanary")
    case True
    with assms(3) canary [of enforce g'] show ?thesis by (simp add: ShouldEnforceForRequest_def)
  next
    case False
    with assms(3) lists show ?thesis
      by (auto simp: ShouldEnforceForRequest_def upd_metrics_def split: if_splits)
  qed
qed

section \<open>Canary percentage\<close>

fun serve :: "gate_request list \<Rightarrow> EnforcementGate \<Rightarrow> bool list \<times> EnforcementGate" where
  "serve [] g = ([], g)"
| "serve (req # reqs) g =
     (let (b, g') = ShouldEnforceForRequest req g; (bs, g'') = serve reqs g' in (b # bs, g''))"

lemma serve_canary:
  assumes "ShouldEnforce g" "eg_mode g = EnforcementModeCanary" "cc_Enabled (eo_CanaryConfig (eg_options g))"
    "cc_Mode (eo_CanaryConfig (eg_options g)) = CanaryModePercentage"
  shows "fst (serve reqs g) = map (\<lambda>i. (eg_canaryRequestCount g + 1 + int i) mod 100 < cc_Percentage (eo_CanaryConfig (eg_options g)))
    [0..<length reqs]"
  using assms
proof (induction reqs arbitrary: g)
  case (Cons req reqs)
  let ?p = "cc_Percentage (eo_CanaryConfig (eg_options g))"
  obtain b g' where step: "ShouldEnforceForRequest req g = (b, g')" by (cases "ShouldEnforceForRequest req g")
  with Cons.prems have b: "b \<longleftrightarrow> (eg_canaryRequestCount g + 1) mod 100 < ?p"
    and g': "eg_canaryRequestCount g' = eg_canaryRequestCount g + 1" "eg_options g' = eg_options g" "eg_mode g' = eg_mode g"
      "ShouldEnforce g'"
    by (auto simp: ShouldEnforceForRequest_def isCanaryRequest_def Let_def ShouldEnforce_def IsEmergencyBypassActive_def split: if_splits)
  have split: "map f [0..<length (req # reqs)] = f 0 # map (\<lambda>i. f (Suc i)) [0..<length reqs]" for f :: "nat \<Rightarrow> bool"
    by (simp add: upt_conv_Cons map_Suc_upt [symmetric] del: upt_Suc)
  have "fst (serve reqs g') = map (\<lambda>i. (eg_canaryRequestCount g + 1 + int (Suc i)) mod 100 < ?p) [0..<length reqs]"
    using Cons.IH [of g'] Cons.prems g' by (simp add: add.assoc)
  then show ?case using b step by (simp only: split) (simp add: split_beta Let_def)
qed simp

lemma count_residues:
  assumes "0 \<le> p" "p \<le> 100"
  shows "length (filter id (map (\<lambda>i. (c + int i) mod 100 < p) [0..<100])) = nat p"
proof -
  let ?A = "{i. i < 100 \<and> (c + int i) mod 100 < p}" and ?h = "\<lambda>i. nat ((c + int i) mod 100)"
  have "bij_betw ?h ?A {..<nat p}"
  proof (rule bij_betwI')
    fix i j assume "i \<in> ?A" "j \<in> ?A"
    then have ij: "int i < 100" "int j < 100" by auto
    have "i = j" if "?h i = ?h j"
    proof -
      from that have "(c + int i) mod 100 = (c + int j) mod 100" by (simp add: eq_nat_nat_iff)
      then have "100 dvd int i - int j" by (simp add: mod_eq_dvd_iff)
      then obtain k where k: "int i - int j = 100 * k" by (elim dvdE)
      with ij have "- 1 < k" "k < 1" by linarith+
      with k show ?thesis by simp
    qed
    then show "(?h i = ?h j) = (i = j)" by auto
  next
    fix r assume "r \<in> {..<nat p}"
    then have r: "int r < p" "int r < 100" using assms by auto
    let ?i = "nat ((int r - c) mod 100)"
    have "(c + int ?i) mod 100 = int r" using r by (simp add: mod_add_right_eq)
    then show "\<exists>i\<in>?A. r = ?h i" using r by (intro bexI [of _ ?i]) auto
  qed auto
  then have "card ?A = nat p" by (simp add: bij_betw_same_card)
  moreover have "length (filter id (map (\<lambda>i. (c + int i) mod 100 < p) [0..<100])) = card ?A"
    by (simp add: length_filter_conv_card) (rule arg_cong [of _ _ card], auto)
  ultimately show ?thesis by simp
qed

text \<open>
  C34: The canary percentage is exact. In canary mode with the percentage strategy, of any hundred
  consecutive requests exactly the configured number is enforced, wherever the counter stands.
\<close>

theorem canary_percentage_exact:
  assumes "NewEnforcementGate now options = Inr g0" and "gate_run g0 ops g" and "ShouldEnforce g"
    and "eg_mode g = EnforcementModeCanary" and "cc_Enabled (eo_CanaryConfig options)"
    and "cc_Mode (eo_CanaryConfig options) = CanaryModePercentage" and "length reqs = 100"
  shows "int (length (filter id (fst (serve reqs g)))) = cc_Percentage (eo_CanaryConfig options)"
proof -
  note new = NewEnforcementGate_fields [OF assms(1)]
  note valid = validateGateOptions_None(3) [OF new(1) assms(5)]
  note opts = run_options [OF assms(2)]
  have "fst (serve reqs g) = map (\<lambda>i. (eg_canaryRequestCount g + 1 + int i) mod 100 < cc_Percentage (eo_CanaryConfig options)) [0..<100]"
    using serve_canary [of g reqs] assms by (simp add: opts new)
  then show ?thesis using count_residues [of "cc_Percentage (eo_CanaryConfig options)" "eg_canaryRequestCount g + 1"] valid
    by simp
qed

section \<open>Expiry of enforcement\<close>

lemma run_enabled:
  assumes "gate_run g0 ops g" and "\<not> enforcing_mode (eg_mode g0)" and "enforcing_mode (eg_mode g)"
  shows "\<exists>mode. OpSetMode (eg_enabledAt g) mode \<in> set ops \<and> enforcing_mode mode"
  using assms
proof (induction rule: gate_run.induct)
  case (gate_step ops g op)
  from gate_step.prems(2) show ?case
    using gate_step.IH gate_step.prems(1) by (cases rule: exec_enforcing) auto
qed simp


section \<open>Deviations from the stated intent\<close>

text \<open>The startup guardrail is not applied to the initial mode.\<close>

lemma initial_mode_skips_guardrail:
  "\<exists>g0. NewEnforcementGate now (server_gate_options\<lparr>eo_InitialMode := EnforcementModeEnforce\<rparr>) = Inr g0 \<and> ShouldEnforce g0"
  by (simp add: NewEnforcementGate_def validateGateOptions_def server_gate_options_def Let_def EnforcementModeEnforce_def
      ShouldEnforce_def enforcing_mode_def IsEmergencyBypassActive_def)

text \<open>\<open>SetMode\<close> accepts any string as a mode.\<close>

lemma SetMode_any_string:
  "\<not> eg_closed g \<Longrightarrow> \<not> enforcing_mode mode \<Longrightarrow> fst (SetMode now mode g) = None \<and> eg_mode (snd (SetMode now mode g)) = mode"
  by (simp add: SetMode_def Let_def)

text \<open>Without an operational logger the audit logger is not written either.\<close>

lemma audit_needs_logger:
  "\<not> eo_HasLogger (eg_options g) \<Longrightarrow> eg_auditTrail (snd (SetMode now mode g)) = eg_auditTrail g"
  by (simp add: SetMode_def Let_def logModeChange_def log_audit_def)

text \<open>The mismatch rate is relative to the decisions recorded in the metrics, which only tests
  record: a gate with none never disables itself, whatever mismatches are reported.\<close>

lemma exec_no_decision:
  assumes "\<forall>d. op \<noteq> OpDecision d"
    and "gm_DecisionsEnforced (eg_metrics g) = 0" "gm_DecisionsShadowed (eg_metrics g) = 0" "\<not> eg_autoDisabled g"
  shows "gm_DecisionsEnforced (eg_metrics (gate_exec op g)) = 0 \<and> gm_DecisionsShadowed (eg_metrics (gate_exec op g)) = 0
    \<and> \<not> eg_autoDisabled (gate_exec op g)"
  using assms
  by (cases "(op, g)" rule: gate_exec.cases)
    (simp_all add: gate_ops RecordModeChange_def RecordEmergencyBypass_def RecordAllowlistMiss_def RecordAllowlistHit_def
      RecordCanaryEnforced_def RecordCanaryShadowed_def Metrics_RecordMismatch_def RecordAuditEvent_def
      if_distrib [of snd] if_distrib [of eg_metrics] if_distrib [of eg_autoDisabled]
      if_distrib [of gm_DecisionsEnforced] if_distrib [of gm_DecisionsShadowed] del: if_split cong: if_cong)

lemma no_decisions_no_auto_disable:
  assumes "gate_run g0 ops g" "NewEnforcementGate now options = Inr g0" "\<forall>d. OpDecision d \<notin> set ops"
  shows "gm_DecisionsEnforced (eg_metrics g) = 0 \<and> gm_DecisionsShadowed (eg_metrics g) = 0 \<and> \<not> eg_autoDisabled g"
  using assms
proof (induction rule: gate_run.induct)
  case (gate_step ops g op)
  then show ?case using exec_no_decision [of op g] by auto
qed (simp add: NewEnforcementGate_fields)

section \<open>Witnesses\<close>

lemma gate_run_fold: "gate_run g0 ops (fold gate_exec ops g0)"
proof (induction ops rule: rev_induct)
  case (snoc op ops)
  then show ?case using gate_run.gate_step [OF snoc, of op] by simp
qed (simp add: gate_run.gate_start)

definition sample_gate_options :: EnforcementGateOptions where
  "sample_gate_options = server_gate_options
     \<lparr>eo_AllowEnforcement := True, eo_EmergencyBypassToken := ''tok'', eo_MaxEnforcementDuration := hour,
      eo_ResourceAllowlist := [''/a/*''], eo_RequireComparisonThreshold := True,
      eo_ComparisonThresholdPercentage := 100, eo_ComparisonThresholdCount := 2,
      eo_CanaryConfig := \<lparr>cc_Enabled = True, cc_Mode = CanaryModePercentage, cc_Percentage = 7,
                          cc_HeaderName = [], cc_HeaderValue = [], cc_PathPatterns = []\<rparr>\<rparr>"

definition sample_gate :: EnforcementGate where
  "sample_gate = projr (NewEnforcementGate 0 sample_gate_options)"

definition sample_gate_ops :: "EnforcementMode \<Rightarrow> gate_op list" where
  "sample_gate_ops mode = [OpComparison 1 True, OpComparison 2 True, OpSetMode 3 mode]"

definition sample_gate_request :: gate_request where
  "sample_gate_request = \<lparr>gq_Method = ''GET'', gq_URLString = ''/a/b'', gq_URLHost = [], gq_URLPath = ''/a/b'',
     gq_Header = (\<lambda>_. [])\<rparr>"

lemma sample_gate_valid: "validateGateOptions sample_gate_options = None"
  by code_simp

lemma sample_gate_new: "NewEnforcementGate 0 sample_gate_options = Inr sample_gate"
  by (simp add: sample_gate_def NewEnforcementGate_def Let_def sample_gate_valid)

lemma sample_gate_fields:
  "eg_options sample_gate = sample_gate_options" "\<not> eg_closed sample_gate" "eg_bypassSet sample_gate = []"
  "\<not> eg_autoDisabled sample_gate" "eg_comparisonTotalCount sample_gate = 0" "eg_comparisonMatchCount sample_gate = 0"
  "eg_consecutiveMatchCount sample_gate = 0"
proof -
  have "eo_InitialMode sample_gate_options \<noteq> []" "eo_EmergencyBypassToken sample_gate_options \<noteq> []"
    by (simp_all add: sample_gate_options_def server_gate_options_def EnforcementModeShadow_def)
  then show "eg_options sample_gate = sample_gate_options" "\<not> eg_closed sample_gate" "eg_bypassSet sample_gate = []"
    "\<not> eg_autoDisabled sample_gate" "eg_comparisonTotalCount sample_gate = 0" "eg_comparisonMatchCount sample_gate = 0"
    "eg_consecutiveMatchCount sample_gate = 0"
    by (simp_all add: sample_gate_def NewEnforcementGate_def Let_def sample_gate_valid)
qed

lemma sample_gate_run:
  assumes "enforcing_mode mode" and "g = fold gate_exec (sample_gate_ops mode) sample_gate"
  shows "gate_run sample_gate (sample_gate_ops mode) g" and "ShouldEnforce g" and "eg_mode g = mode" and "eg_enabledAt g = 3"
proof -
  let ?g2 = "RecordComparisonResult 2 True (RecordComparisonResult 1 True sample_gate)"
  have frame: "eg_options (RecordComparisonResult t b h) = eg_options h" "eg_closed (RecordComparisonResult t b h) = eg_closed h"
    "eg_bypassSet (RecordComparisonResult t b h) = eg_bypassSet h" for t b h
    by (simp_all add: RecordComparisonResult_def setThresholdMet_def Let_def)
  have g2: "eg_thresholdMet ?g2" "eg_options ?g2 = sample_gate_options" "\<not> eg_closed ?g2" "eg_bypassSet ?g2 = []"
    by (simp_all add: record_comparison_fields frame sample_gate_fields float_percentage_full)
      (simp add: sample_gate_options_def)
  have "g = snd (SetMode 3 mode ?g2)" using assms(2) by (simp add: sample_gate_ops_def)
  moreover have "mode \<noteq> EnforcementModeShadow" using assms(1) by auto
  moreover have "eo_AllowEnforcement sample_gate_options" by (simp add: sample_gate_options_def)
  ultimately show "ShouldEnforce g" "eg_mode g = mode" "eg_enabledAt g = 3"
    using assms(1) g2
    by (simp_all add: SetMode_def Let_def logModeChange_def ShouldEnforce_def IsEmergencyBypassActive_def)
  show "gate_run sample_gate (sample_gate_ops mode) g" unfolding assms(2) by (rule gate_run_fold)
qed

lemma enforce_modes [simp]: "enforcing_mode EnforcementModeEnforce" "enforcing_mode EnforcementModeCanary"
  by (simp_all add: enforcing_mode_def)

lemma sample_options_fields:
  "eo_InitialMode sample_gate_options = EnforcementModeShadow" "eo_MaxEnforcementDuration sample_gate_options = hour"
  "cc_Enabled (eo_CanaryConfig sample_gate_options)" "cc_Mode (eo_CanaryConfig sample_gate_options) = CanaryModePercentage"
  "cc_Percentage (eo_CanaryConfig sample_gate_options) = 7"
  by (simp_all add: sample_gate_options_def server_gate_options_def)



theorem matchPattern_glob_witness:
  "validatePattern ''/a/*.t?l'' = None \<and> matchPattern ''/a/*.t?l'' ''/a/b/c.ttl'' \<and> \<not> matchPattern ''/a/*.t?l'' ''/b/c.ttl''"
proof -
  have v: "validatePattern ''/a/*.t?l'' = None" by code_simp
  have "glob_match ''/a/*.t?l'' ''/a/b/c.ttl''" "\<not> glob_match ''/a/*.t?l'' ''/b/c.ttl''" by code_simp+
  with v matchPattern_glob [OF v] show ?thesis by blast
qed

theorem ShouldEnforceForRequest_spec_witness:
  "\<exists>g. gate_run sample_gate (sample_gate_ops EnforcementModeEnforce) g
     \<and> fst (ShouldEnforceForRequest sample_gate_request g)"
proof -
  define g where "g = fold gate_exec (sample_gate_ops EnforcementModeEnforce) sample_gate"
  note run = sample_gate_run [OF enforce_modes(1) g_def]
  obtain b g' where step: "ShouldEnforceForRequest sample_gate_request g = (b, g')"
    by (cases "ShouldEnforceForRequest sample_gate_request g")
  have "allowlists_select sample_gate_options sample_gate_request"
  proof -
    have "url_Parse ''/a/b'' = Some (empty_url\<lparr>u_Path := ''/a/b''\<rparr>)" "glob_match ''/a/*'' ''/a/b''" by code_simp+
    then show ?thesis
      by (simp add: allowlists_select_def sample_gate_options_def server_gate_options_def sample_gate_request_def)
  qed
  moreover have "eg_mode g \<noteq> EnforcementModeCanary"
    by (simp add: run EnforcementModeEnforce_def EnforcementModeCanary_def)
  ultimately have b using ShouldEnforceForRequest_spec [OF sample_gate_new run(1) step] run(2) by simp
  with run(1) step show ?thesis by auto
qed

theorem canary_percentage_exact_witness:
  "\<exists>g. gate_run sample_gate (sample_gate_ops EnforcementModeCanary) g
     \<and> int (length (filter id (fst (serve (replicate 100 sample_gate_request) g)))) = 7"
proof -
  define g where "g = fold gate_exec (sample_gate_ops EnforcementModeCanary) sample_gate"
  note run = sample_gate_run [OF enforce_modes(2) g_def]
  from canary_percentage_exact [OF sample_gate_new run(1-3) sample_options_fields(3,4), of "replicate 100 sample_gate_request"]
    run(1) sample_options_fields(5) show ?thesis by auto
qed


theorem gateway_never_enforces_witness:
  "\<exists>g0. NewEnforcementGate 0 server_gate_options = Inr g0
     \<and> ShouldEnforceForRequest sample_gate_request (fold gate_exec [OpSetMode 1 EnforcementModeEnforce] g0)
       = (False, fold gate_exec [OpSetMode 1 EnforcementModeEnforce] g0)"
  using gateway_never_enforces [of 0] gate_run_fold by blast

end
