(* ===== verification/Rdf_Parser.thy ===== *)
theory Rdf_Parser
  imports Authz_Core
begin

text \<open>
  The RDF parser registry (\<open>internal/authz/rdf_parser.go\<close>): size limits, content type policy, the
  choice of a parser and the checks on what it returns. A registered parser is a record of its two
  interface methods; what it does with its context is part of the function it is.
\<close>

definition ErrRDFParseFailed :: goerror where
  "ErrRDFParseFailed = ErrorsNew ''RDF parsing failed''"

definition ErrRDFParserNotFound :: goerror where
  "ErrRDFParserNotFound = ErrorsNew ''no RDF parser found for content type''"

definition ErrRDFContentTypeNotSupported :: goerror where
  "ErrRDFContentTypeNotSupported = ErrorsNew ''RDF content type not supported''"

definition ErrRDFInputTooLarge :: goerror where
  "ErrRDFInputTooLarge = ErrorsNew ''RDF input too large''"

type_synonym RDFTermType = string

record RDFTriple =
  tr_Subject :: string
  tr_Predicate :: string
  tr_Object :: string
  tr_ObjectType :: RDFTermType
  tr_Language :: string
  tr_Datatype :: string

record RDFParseResult =
  rp_Triples :: "RDFTriple list"
  rp_NamedGraphs :: "(string, RDFTriple list) gomap"
  rp_BaseURI :: string
  rp_ContentType :: string
  rp_SHA256 :: string

record RDFParser =
  ps_Parse :: "string \<Rightarrow> string \<Rightarrow> RDFParseResult result"
  ps_SupportedContentTypes :: "string list"

record RDFParserOptions =
  ro_MaxInputSize :: int
  ro_Timeout :: duration
  ro_AllowedContentTypes :: "string list"
  ro_DisallowedContentTypes :: "string list"

definition DefaultRDFParserOptions :: RDFParserOptions where
  "DefaultRDFParserOptions =
     \<lparr>ro_MaxInputSize = 1048576, ro_Timeout = 30 * second,
      ro_AllowedContentTypes = [''text/turtle'', ''application/ld+json'', ''application/n-triples'',
        ''application/rdf+xml'', ''application/sparql-results+json''],
      ro_DisallowedContentTypes = [''text/html'', ''text/javascript'', ''application/javascript'',
        ''application/x-javascript'', ''application/ecmascript'']\<rparr>"

record RDFParserRegistry =
  rr_options :: RDFParserOptions
  rr_parsers :: "RDFParser list"
  rr_contentTypeMap :: "(string, RDFParser) gomap"

text \<open>The defaults are set on the local copy of the options, after the registry has been built
  from it.\<close>

definition NewRDFParserRegistry :: "RDFParserOptions \<Rightarrow> RDFParserRegistry" where
  "NewRDFParserRegistry options =
     (let registry = \<lparr>rr_options = options, rr_parsers = [], rr_contentTypeMap = []\<rparr>;
          options = (if ro_MaxInputSize options = 0 then options\<lparr>ro_MaxInputSize := 1048576\<rparr> else options);
          options = (if ro_Timeout options = 0 then options\<lparr>ro_Timeout := 30 * second\<rparr> else options)
      in registry)"

definition norm_content_type :: "string \<Rightarrow> string" where
  "norm_content_type s = ToLower (TrimSpace s)"

definition Registry_Register :: "RDFParser \<Rightarrow> RDFParserRegistry \<Rightarrow> RDFParserRegistry" where
  "Registry_Register parser r =
     r\<lparr>rr_parsers := rr_parsers r @ [parser],
       rr_contentTypeMap :=
         fold (\<lambda>contentType m. mset_at (norm_content_type contentType) parser m)
           (ps_SupportedContentTypes parser) (rr_contentTypeMap r)\<rparr>"

definition isAllowedContentType :: "RDFParserRegistry \<Rightarrow> string \<Rightarrow> bool" where
  "isAllowedContentType r contentType \<longleftrightarrow>
     list_ex (\<lambda>allowed. norm_content_type allowed = norm_content_type contentType) (ro_AllowedContentTypes (rr_options r))"

definition isDisallowedContentType :: "RDFParserRegistry \<Rightarrow> string \<Rightarrow> bool" where
  "isDisallowedContentType r contentType \<longleftrightarrow>
     list_ex (\<lambda>disallowed. norm_content_type disallowed = norm_content_type contentType) (ro_DisallowedContentTypes (rr_options r))"

definition triple_has_control :: "RDFTriple \<Rightarrow> bool" where
  "triple_has_control t \<longleftrightarrow>
     containsControlRune (tr_Subject t) \<or> containsControlRune (tr_Predicate t) \<or> containsControlRune (tr_Object t)"

primrec validate_triples :: "RDFTriple list \<Rightarrow> goerr" where
  "validate_triples [] = None"
| "validate_triples (t # ts) =
     (if triple_has_control t then Some (ErrorsNew ''RDF triple contains control characters'')
      else if tr_Subject t = [] \<or> tr_Predicate t = [] \<or> tr_Object t = [] then
        Some (ErrorsNew ''RDF triple has empty components'')
      else validate_triples ts)"

fun validate_named_graphs :: "(string, RDFTriple list) gomap \<Rightarrow> goerr" where
  "validate_named_graphs [] = None"
| "validate_named_graphs ((graphURI, triples) # gs) =
     (if containsControlRune graphURI then Some (ErrorsNew ''named graph URI contains control characters'')
      else if list_ex triple_has_control triples then
        Some (ErrorsNew ''named graph triple contains control characters'')
      else validate_named_graphs gs)"

definition validateParseResult :: "RDFParseResult \<Rightarrow> goerr" where
  "validateParseResult result =
     (case validate_triples (rp_Triples result) of
        Some err \<Rightarrow> Some err
      | None \<Rightarrow> validate_named_graphs (rp_NamedGraphs result))"

definition detectRDFContentType :: "string \<Rightarrow> string" where
  "detectRDFContentType content =
     (if content = [] then []
      else if Contains content ''@context'' \<and> (Contains content ''{'' \<or> Contains content ''}'') then ''application/ld+json''
      else if Contains content ''@prefix'' \<or> Contains content ''@base'' then ''text/turtle''
      else if Contains content ''<rdf:RDF'' then ''application/rdf+xml''
      else if Contains content ''<'' \<and> Contains content ''>'' \<and> Contains content '' .'' then ''application/n-triples''
      else [])"

definition effective_content_type :: "string \<Rightarrow> string \<Rightarrow> string" where
  "effective_content_type content contentType =
     (let contentType = norm_content_type contentType in
      if contentType = [] \<or> contentType = ''application/octet-stream'' then
        let detectedType = detectRDFContentType content in
        if detectedType \<noteq> [] then detectedType else contentType
      else contentType)"

definition Registry_Parse :: "RDFParserRegistry \<Rightarrow> string \<Rightarrow> string \<Rightarrow> RDFParseResult result" where
  "Registry_Parse r content contentType =
     (if int (length content) > ro_MaxInputSize (rr_options r) then
        Inl (wrapf ErrRDFInputTooLarge (''input size '' @ FormatInt (int (length content)) @ '' exceeds limit ''
          @ FormatInt (ro_MaxInputSize (rr_options r))))
      else
        let contentType = effective_content_type content contentType in
        if isDisallowedContentType r contentType then Inl (wrapf ErrRDFContentTypeNotSupported contentType)
        else if ro_AllowedContentTypes (rr_options r) \<noteq> [] \<and> \<not> isAllowedContentType r contentType then
          Inl (wrapf ErrRDFContentTypeNotSupported contentType)
        else case mget (rr_contentTypeMap r) contentType of
          None \<Rightarrow> Inl (wrapf ErrRDFParserNotFound contentType)
        | Some parser \<Rightarrow>
            case ps_Parse parser content contentType of
              Inl err \<Rightarrow> Inl (wrap2 ErrRDFParseFailed err)
            | Inr result \<Rightarrow>
                case validateParseResult result of
                  Some err \<Rightarrow> Inl (wrap2 ErrRDFParseFailed err)
                | None \<Rightarrow> Inr result)"

definition maxRDFInputSize :: int where
  "maxRDFInputSize = 10485760"

definition ValidateRDFInputSize :: "string \<Rightarrow> goerr" where
  "ValidateRDFInputSize content =
     (if int (length content) > maxRDFInputSize then
        Some (wrapf ErrRDFInputTooLarge (''input size '' @ FormatInt (int (length content))
          @ '' exceeds absolute limit '' @ FormatInt maxRDFInputSize))
      else None)"

definition CopyRDFContent :: "string \<Rightarrow> string result" where
  "CopyRDFContent content =
     (case ValidateRDFInputSize content of Some err \<Rightarrow> Inl err | None \<Rightarrow> Inr content)"

definition NewStreamRDFParser :: "RDFParser \<Rightarrow> int \<Rightarrow> RDFParser" where
  "NewStreamRDFParser parser maxSize =
     (let maxSize = (if maxSize = 0 then 1048576 else maxSize) in
      \<lparr>ps_Parse = (\<lambda>content contentType.
         if int (length content) > maxSize then
           Inl (wrapf ErrRDFInputTooLarge (''input size '' @ FormatInt (int (length content))
             @ '' exceeds stream limit '' @ FormatInt maxSize))
         else ps_Parse parser content contentType),
       ps_SupportedContentTypes = ps_SupportedContentTypes parser\<rparr>)"

section \<open>Facts\<close>

lemma validate_triples_None:
  "validate_triples ts = None \<longleftrightarrow>
   (\<forall>t\<in>set ts. \<not> triple_has_control t \<and> tr_Subject t \<noteq> [] \<and> tr_Predicate t \<noteq> [] \<and> tr_Object t \<noteq> [])"
  by (induction ts) auto

lemma validate_named_graphs_None:
  "validate_named_graphs gs = None \<longleftrightarrow>
   (\<forall>(g, ts)\<in>set gs. \<not> containsControlRune g \<and> (\<forall>t\<in>set ts. \<not> triple_has_control t))"
  by (induction gs rule: validate_named_graphs.induct) (auto simp: list_ex_iff)

lemma Register_lookup:
  "map_of (rr_contentTypeMap (Registry_Register p r)) ct =
     (if ct \<in> norm_content_type ` set (ps_SupportedContentTypes p) then Some p else map_of (rr_contentTypeMap r) ct)"
proof -
  have "map_of (fold (\<lambda>c m. AList.update (norm_content_type c) p m) cs m) ct
      = (if ct \<in> norm_content_type ` set cs then Some p else map_of m ct)" for cs and m :: "(string, RDFParser) gomap"
    by (induction cs arbitrary: m) (auto simp: update_conv')
  then show ?thesis by (simp add: Registry_Register_def)
qed

lemma New_options [simp]: "rr_options (NewRDFParserRegistry options) = options"
  by (simp add: NewRDFParserRegistry_def Let_def)

lemma Register_options [simp]: "rr_options (Registry_Register p r) = rr_options r"
  by (simp add: Registry_Register_def)

lemma fold_Register_options [simp]: "rr_options (fold Registry_Register ps r) = rr_options r"
  by (induction ps arbitrary: r) simp_all

text \<open>A content type belongs to the parser registered last among those that support it.\<close>

lemma fold_Register_lookup:
  "map_of (rr_contentTypeMap (fold Registry_Register ps (NewRDFParserRegistry options))) ct =
     find (\<lambda>p. ct \<in> norm_content_type ` set (ps_SupportedContentTypes p)) (rev ps)"
proof (induction ps rule: rev_induct)
  case (snoc p ps)
  then show ?case by (simp add: Register_lookup)
qed (simp add: NewRDFParserRegistry_def Let_def)

lemma lower_char_idem: "lower_char (lower_char c) = lower_char c"
  by (auto simp: lower_char_def is_upper_def less_eq_char_def)

lemma is_space_lower [simp]: "is_space (lower_char c) = is_space c"
  by (auto simp: lower_char_def is_space_def is_upper_def less_eq_char_def
      dest!: arg_cong [where f = "of_char :: char \<Rightarrow> nat"])

lemma norm_content_type_idem [simp]: "norm_content_type (norm_content_type s) = norm_content_type s"
proof -
  have "ToLower (TrimSpace s) = [] \<or> \<not> is_space (hd (ToLower (TrimSpace s))) \<and> \<not> is_space (last (ToLower (TrimSpace s)))"
    using TrimSpace_ends [of s] by (auto simp: ToLower_def hd_map last_map)
  then have "TrimSpace (ToLower (TrimSpace s)) = ToLower (TrimSpace s)" by (rule TrimSpace_id)
  then show ?thesis by (simp add: norm_content_type_def) (simp add: ToLower_def lower_char_idem)
qed

lemma detect_norm: "norm_content_type (detectRDFContentType content) = detectRDFContentType content"
proof -
  have "norm_content_type ''application/ld+json'' = ''application/ld+json''" "norm_content_type ''text/turtle'' = ''text/turtle''"
    "norm_content_type ''application/rdf+xml'' = ''application/rdf+xml''"
    "norm_content_type ''application/n-triples'' = ''application/n-triples''" "norm_content_type [] = []"
    by code_simp+
  then show ?thesis by (simp add: detectRDFContentType_def)
qed

lemma effective_norm [simp]: "norm_content_type (effective_content_type content ct) = effective_content_type content ct"
proof -
  have "norm_content_type [] = []" "norm_content_type ''application/octet-stream'' = ''application/octet-stream''"
    by code_simp+
  then show ?thesis by (auto simp: effective_content_type_def Let_def detect_norm)
qed

section \<open>Properties\<close>

text \<open>
  C40: What the registry lets through. A successful parse comes from the parser registered last
  for the (detected or given) content type, on content within the size limit, with a content type
  that is allowed and not disallowed; its triples have no empty component and no control
  characters, also in named graphs. Conversely the registry adds no failures of its own: such an
  input is returned as the parser produced it.
\<close>

theorem Registry_Parse_spec:
  "Registry_Parse (fold Registry_Register ps (NewRDFParserRegistry options)) content contentType = Inr result \<longleftrightarrow>
    (let ct = effective_content_type content contentType in
     int (length content) \<le> ro_MaxInputSize options
     \<and> ct \<notin> norm_content_type ` set (ro_DisallowedContentTypes options)
     \<and> (ro_AllowedContentTypes options \<noteq> [] \<longrightarrow> ct \<in> norm_content_type ` set (ro_AllowedContentTypes options))
     \<and> (\<exists>p. find (\<lambda>p. ct \<in> norm_content_type ` set (ps_SupportedContentTypes p)) (rev ps) = Some p
            \<and> ps_Parse p content ct = Inr result)
     \<and> (\<forall>t\<in>set (rp_Triples result). \<not> triple_has_control t \<and> tr_Subject t \<noteq> [] \<and> tr_Predicate t \<noteq> [] \<and> tr_Object t \<noteq> [])
     \<and> (\<forall>(g, ts)\<in>set (rp_NamedGraphs result). \<not> containsControlRune g \<and> (\<forall>t\<in>set ts. \<not> triple_has_control t)))"
proof -
  let ?r = "fold Registry_Register ps (NewRDFParserRegistry options)" and ?ct = "effective_content_type content contentType"
  have dis: "isDisallowedContentType ?r ?ct \<longleftrightarrow> ?ct \<in> norm_content_type ` set (ro_DisallowedContentTypes options)"
    unfolding isDisallowedContentType_def list_ex_iff by simp (metis image_iff)
  have all: "isAllowedContentType ?r ?ct \<longleftrightarrow> ?ct \<in> norm_content_type ` set (ro_AllowedContentTypes options)"
    unfolding isAllowedContentType_def list_ex_iff by simp (metis image_iff)
  have val: "validateParseResult result = None \<longleftrightarrow>
     (\<forall>t\<in>set (rp_Triples result). \<not> triple_has_control t \<and> tr_Subject t \<noteq> [] \<and> tr_Predicate t \<noteq> [] \<and> tr_Object t \<noteq> [])
     \<and> (\<forall>(g, ts)\<in>set (rp_NamedGraphs result). \<not> containsControlRune g \<and> (\<forall>t\<in>set ts. \<not> triple_has_control t))" for result
    by (simp add: validateParseResult_def validate_triples_None [symmetric] validate_named_graphs_None split: option.split)
  have "Registry_Parse ?r content contentType = Inr result \<longleftrightarrow>
      int (length content) \<le> ro_MaxInputSize options \<and> \<not> isDisallowedContentType ?r ?ct
      \<and> (ro_AllowedContentTypes options \<noteq> [] \<longrightarrow> isAllowedContentType ?r ?ct)
      \<and> (\<exists>p. map_of (rr_contentTypeMap ?r) ?ct = Some p \<and> ps_Parse p content ?ct = Inr result)
      \<and> validateParseResult result = None"
    by (auto simp: Registry_Parse_def Let_def split: option.splits sum.splits if_splits)
  then show ?thesis unfolding dis all val fold_Register_lookup Let_def by blast
qed

text \<open>A registry created with a zero size limit rejects everything but empty content, although
  zero is meant to select the default limit.\<close>

lemma zero_limit_rejects_everything:
  "ro_MaxInputSize options = 0 \<Longrightarrow> content \<noteq> [] \<Longrightarrow>
   \<exists>err. Registry_Parse (fold Registry_Register ps (NewRDFParserRegistry options)) content ct = Inl err
     \<and> errors_Is err ErrRDFInputTooLarge"
  by (simp add: Registry_Parse_def)

section \<open>Witness\<close>

definition sample_triple :: RDFTriple where
  "sample_triple = \<lparr>tr_Subject = ''https://p.example/.acl#o'', tr_Predicate = ''acl:mode'', tr_Object = ''acl:Read'',
     tr_ObjectType = ''IRI'', tr_Language = [], tr_Datatype = []\<rparr>"

definition sample_rdf_result :: RDFParseResult where
  "sample_rdf_result = \<lparr>rp_Triples = [sample_triple], rp_NamedGraphs = [], rp_BaseURI = [], rp_ContentType = ''text/turtle'',
     rp_SHA256 = []\<rparr>"

definition sample_rdf_parser :: RDFParser where
  "sample_rdf_parser = \<lparr>ps_Parse = (\<lambda>c ct. Inr sample_rdf_result), ps_SupportedContentTypes = [''Text/Turtle '']\<rparr>"

theorem Registry_Parse_spec_witness:
  "Registry_Parse (fold Registry_Register [sample_rdf_parser] (NewRDFParserRegistry DefaultRDFParserOptions))
     ''@prefix acl: <http://www.w3.org/ns/auth/acl#> .'' [] = Inr sample_rdf_result"
proof -
  have ct: "effective_content_type ''@prefix acl: <http://www.w3.org/ns/auth/acl#> .'' [] = ''text/turtle''" by code_simp
  have "''text/turtle'' \<notin> norm_content_type ` set (ro_DisallowedContentTypes DefaultRDFParserOptions)"
    "''text/turtle'' \<in> norm_content_type ` set (ro_AllowedContentTypes DefaultRDFParserOptions)"
    "norm_content_type ''Text/Turtle '' = ''text/turtle''"
    "\<not> triple_has_control sample_triple" by code_simp+
  then show ?thesis
    unfolding Registry_Parse_spec ct
    by (simp add: Let_def sample_rdf_parser_def sample_rdf_result_def)
      (simp add: sample_triple_def DefaultRDFParserOptions_def)
qed

end
