(* ===== verification/Policy_Evaluation.thy ===== *)
theory Policy_Evaluation
  imports Rdf_Parser
begin

text \<open>
  What the WAC and the ACP side share.

  \<^item> Reading the last segment of a mode IRI (both parsers carry the same code for it), and the URI
    check both use.
  \<^item> The locale \<open>rule_decision\<close>: the contract of a decision procedure over a list of rules. Inside
    it the consequences are proved once: the order and multiplicity of rules do not matter, more
    rules never withdraw an allow, and an allow needs a rule that matches and allows.
  \<^item> The locale \<open>policy_evaluator\<close>, which extends it to a whole evaluator: what is answered before the
    policies are looked at, and what is then made of the decision over the rules. Inside it: every
    decision is well-formed, shadow mode never allows, and the exact decision.

  Both locales are interpreted on the definitions of \<open>wac_evaluator.go\<close> and \<open>acp_evaluator.go\<close>.
\<close>

definition after_last :: "char \<Rightarrow> string \<Rightarrow> string" where
  "after_last c s = (case LastIndexByte s c of None \<Rightarrow> s | Some i \<Rightarrow> drop (i + 1) s)"

definition last_segment :: "string \<Rightarrow> string" where
  "last_segment modeStr =
     (let modeStr = ToLower (TrimSpace modeStr);
          modeStr = (if HasPrefix modeStr ''<'' \<and> HasSuffix modeStr ''>''
                     then take (length modeStr - 2) (drop 1 modeStr) else modeStr);
          modeStr = after_last (CHR ''#'') modeStr;
          modeStr = after_last (CHR ''/'') modeStr
      in if \<not> Contains modeStr ''/'' \<and> Contains modeStr '':'' then after_last (CHR '':'') modeStr else modeStr)"

definition validWACResourceURI :: "string \<Rightarrow> bool" where
  "validWACResourceURI value =
     (if value = [] \<or> length value > 4096 then False
      else if Contains value [CHR 0x5C] then False
      else if list_ex (\<lambda>c. c < CHR 0x20 \<or> c = CHR 0x7F) value then False
      else case url_Parse value of
        None \<Rightarrow> False
      | Some parsed \<Rightarrow> (u_Scheme parsed = ''http'' \<or> u_Scheme parsed = ''https'') \<and> u_Host parsed \<noteq> [])"

section \<open>The checks every evaluator starts with\<close>

definition precheck :: "Request \<Rightarrow> ReasonCode option" where
  "precheck request =
     (if rq_SchemaVersion request \<noteq> SchemaVersion then Some ReasonUnsupportedSchema
      else if \<not> validToken (rq_RequestID request) 128 \<or> \<not> supportedMethod (rq_Method request) then Some ReasonInvalidRequest
      else if length (rq_RequestedModes request) = 0 then Some ReasonMissingRequestedModes
      else if \<not> validResourceURI (rq_ResourceURI request) then Some ReasonUnsafeResourceURI
      else if ValidateRequest request \<noteq> None then Some ReasonInvalidRequest
      else None)"

lemma precheck_None: "precheck request = None \<longleftrightarrow> ValidateRequest request = None"
proof (cases "ValidateRequest request = None")
  case True
  then have "rq_SchemaVersion request = SchemaVersion" "validToken (rq_RequestID request) 128"
    "supportedMethod (rq_Method request)" "rq_RequestedModes request \<noteq> []" "validResourceURI (rq_ResourceURI request)"
    by (simp_all add: ValidateRequest_None)
  with True show ?thesis by (simp add: precheck_def)
qed (simp add: precheck_def)

lemma precheck_reason: "precheck request = Some rc \<Longrightarrow> validReasonCode rc"
  by (auto simp: precheck_def validReasonCode_def split: if_splits)

lemma shadowDecision_valid:
  "validDecisionValue d \<Longrightarrow> validReasonCode rc \<Longrightarrow> st = 0 \<or> 100 \<le> st \<and> st \<le> 599 \<Longrightarrow>
   ValidateDecision (shadowDecision request (AuditForRequest request) d rc st) = None"
  by (simp add: ValidateDecision_None shadowDecision_def zero_Decision_def)

section \<open>Deciding over rules\<close>

type_synonym verdict = "DecisionValue \<times> ReasonCode \<times> int"

abbreviation (input) no_policy :: verdict where
  "no_policy \<equiv> (DecisionAbstain, ReasonPolicyNotLoaded, 0)"

locale rule_decision =
  fixes rule_matches :: "'r \<Rightarrow> Request \<Rightarrow> bool"
    and rule_allows :: "'r \<Rightarrow> AccessMode list \<Rightarrow> bool"
    and decide :: "Request \<Rightarrow> 'r list \<Rightarrow> verdict"
  assumes decide_nothing: "rules = [] \<or> rq_AgentWebID q = [] \<Longrightarrow> decide q rules = no_policy"
    and decide_allow: "rq_AgentWebID q \<noteq> [] \<Longrightarrow> r \<in> set rules \<Longrightarrow> rule_matches r q \<Longrightarrow>
          rule_allows r (rq_RequestedModes q) \<Longrightarrow> decide q rules = (DecisionAllow, ReasonPolicyAllow, 200)"
    and decide_deny: "rules \<noteq> [] \<Longrightarrow> rq_AgentWebID q \<noteq> [] \<Longrightarrow>
          \<forall>r\<in>set rules. \<not> (rule_matches r q \<and> rule_allows r (rq_RequestedModes q)) \<Longrightarrow>
          decide q rules = (DecisionDeny, ReasonPolicyDeny, 403)"
begin

definition granted :: "Request \<Rightarrow> 'r set \<Rightarrow> bool" where
  "granted q R \<longleftrightarrow> (\<exists>r\<in>R. rule_matches r q \<and> rule_allows r (rq_RequestedModes q))"

lemma decide_eq:
  "decide q rules =
     (if rules = [] \<or> rq_AgentWebID q = [] then no_policy
      else if granted q (set rules) then (DecisionAllow, ReasonPolicyAllow, 200)
      else (DecisionDeny, ReasonPolicyDeny, 403))"
proof (cases "rules = [] \<or> rq_AgentWebID q = []")
  case True
  then show ?thesis by (simp add: decide_nothing)
next
  case False
  then show ?thesis
    using decide_allow [of q _ rules] decide_deny [of rules q] by (cases "granted q (set rules)") (auto simp: granted_def)
qed

lemma decide_set: "set rules = set rules' \<Longrightarrow> decide q rules = decide q rules'"
  by (cases "rules = []") (auto simp: decide_eq)

lemma decide_more_rules:
  "fst (decide q rules) = DecisionAllow \<Longrightarrow> set rules \<subseteq> set rules' \<Longrightarrow> fst (decide q rules') = DecisionAllow"
  unfolding decide_eq by (auto simp: granted_def split: if_splits)

lemma decide_valid:
  "decide q rules = (d, rc, st) \<Longrightarrow> validDecisionValue d \<and> validReasonCode rc \<and> (st = 0 \<or> 100 \<le> st \<and> st \<le> 599)"
  unfolding decide_eq by (auto simp: validDecisionValue_def validReasonCode_def split: if_splits)

end

text \<open>What an evaluator over policy documents should answer: \<open>doc_rules\<close> are the rules of one
  document (none for a document that is skipped).\<close>

definition answer :: "Request \<Rightarrow> verdict \<Rightarrow> Decision" where
  "answer q v = (case v of (d, rc, st) \<Rightarrow> shadowDecision q (AuditForRequest q) d rc st)"

definition evaluation ::
  "(Request \<Rightarrow> 'r list \<Rightarrow> verdict) \<Rightarrow> (PolicyDocument \<Rightarrow> 'r list) \<Rightarrow> int \<Rightarrow> bool \<Rightarrow> Request \<Rightarrow> verdict" where
  "evaluation decide doc_rules max_policies shadow q =
     (case precheck q of
        Some rc \<Rightarrow> (DecisionDeny, rc, httpBadRequestStatus)
      | None \<Rightarrow>
          if rq_PolicyDocuments q = [] \<or> int (length (rq_PolicyDocuments q)) > max_policies then no_policy
          else if shadow then (DecisionAbstain, ReasonKernelAbstainShadowMode, 0)
          else decide q (concat (map doc_rules (rq_PolicyDocuments q))))"

locale policy_evaluator = rule_decision rule_matches rule_allows decide
  for rule_matches :: "'r \<Rightarrow> Request \<Rightarrow> bool"
    and rule_allows :: "'r \<Rightarrow> AccessMode list \<Rightarrow> bool"
    and decide :: "Request \<Rightarrow> 'r list \<Rightarrow> verdict" +
  fixes doc_rules :: "PolicyDocument \<Rightarrow> 'r list"
    and max_policies :: "'e \<Rightarrow> int" and shadow :: "'e \<Rightarrow> bool" and timeout :: "'e \<Rightarrow> duration"
    and evaluate :: "goerr \<Rightarrow> 'e \<Rightarrow> Request \<Rightarrow> Decision result"
  assumes evaluate_cancelled: "timeout e > 0 \<Longrightarrow> evaluate (Some err) e q = Inl err"
    and evaluate_runs: "timeout e \<le> 0 \<or> ctx = None \<Longrightarrow>
      evaluate ctx e q = Inr (answer q (evaluation decide doc_rules (max_policies e) (shadow e) q))"
begin

lemma answer_fields [simp]:
  "dc_Decision (answer q v) = fst v" "dc_ReasonCode (answer q v) = fst (snd v)" "dc_Audit (answer q v) = AuditForRequest q"
  "dc_CacheTTLSeconds (answer q v) = 0"
  by (cases v, simp add: answer_def shadowDecision_def zero_Decision_def)+

lemma evaluation_valid:
  "ValidateDecision (answer q (evaluation decide doc_rules m s q)) = None"
proof -
  obtain d rc st where v: "evaluation decide doc_rules m s q = (d, rc, st)" by (cases "evaluation decide doc_rules m s q")
  then have "validDecisionValue d \<and> validReasonCode rc \<and> (st = 0 \<or> 100 \<le> st \<and> st \<le> 599)"
    using decide_valid [of q "concat (map doc_rules (rq_PolicyDocuments q))" d rc st] precheck_reason [of q]
    by (auto simp: evaluation_def validDecisionValue_def validReasonCode_def httpBadRequestStatus_def
        split: option.splits if_splits)
  then show ?thesis by (simp add: v answer_def shadowDecision_valid)
qed

text \<open>The decision in every case.\<close>

lemma evaluate_decision:
  assumes "evaluate ctx e q = Inr d"
  shows "ValidateDecision d = None" and "dc_Audit d = AuditForRequest q"
    and "dc_Decision d = DecisionAllow \<longleftrightarrow>
      ValidateRequest q = None \<and> int (length (rq_PolicyDocuments q)) \<le> max_policies e \<and> \<not> shadow e
      \<and> rq_AgentWebID q \<noteq> [] \<and> granted q (\<Union>doc\<in>set (rq_PolicyDocuments q). set (doc_rules doc))"
    and "dc_Decision d = DecisionDeny \<longleftrightarrow>
      ValidateRequest q \<noteq> None
      \<or> int (length (rq_PolicyDocuments q)) \<le> max_policies e \<and> \<not> shadow e \<and> rq_AgentWebID q \<noteq> []
        \<and> (\<exists>doc\<in>set (rq_PolicyDocuments q). doc_rules doc \<noteq> [])
        \<and> \<not> granted q (\<Union>doc\<in>set (rq_PolicyDocuments q). set (doc_rules doc))"
proof -
  have "timeout e \<le> 0 \<or> ctx = None" using assms evaluate_cancelled [of e _ q] by (cases ctx) force+
  from evaluate_runs [OF this, of q] assms
  have d: "d = answer q (evaluation decide doc_rules (max_policies e) (shadow e) q)" by simp
  show "ValidateDecision d = None" "dc_Audit d = AuditForRequest q" by (simp_all add: d evaluation_valid)
  have pre: "precheck q = None \<longleftrightarrow> ValidateRequest q = None" by (rule precheck_None)
  show "dc_Decision d = DecisionAllow \<longleftrightarrow>
      ValidateRequest q = None \<and> int (length (rq_PolicyDocuments q)) \<le> max_policies e \<and> \<not> shadow e
      \<and> rq_AgentWebID q \<noteq> [] \<and> granted q (\<Union>doc\<in>set (rq_PolicyDocuments q). set (doc_rules doc))"
    by (auto simp: d evaluation_def decide_eq granted_def pre [symmetric] split: option.splits)
  show "dc_Decision d = DecisionDeny \<longleftrightarrow>
      ValidateRequest q \<noteq> None
      \<or> int (length (rq_PolicyDocuments q)) \<le> max_policies e \<and> \<not> shadow e \<and> rq_AgentWebID q \<noteq> []
        \<and> (\<exists>doc\<in>set (rq_PolicyDocuments q). doc_rules doc \<noteq> [])
        \<and> \<not> granted q (\<Union>doc\<in>set (rq_PolicyDocuments q). set (doc_rules doc))"
    by (auto simp: d evaluation_def decide_eq granted_def pre [symmetric] split: option.splits)
qed

lemma shadow_never_grants:
  "evaluate ctx e q = Inr d \<Longrightarrow> shadow e \<Longrightarrow>
   dc_Decision d \<noteq> DecisionAllow \<and> (dc_Decision d = DecisionDeny \<longleftrightarrow> ValidateRequest q \<noteq> None)"
  by (simp add: evaluate_decision)

end

section \<open>Last segments\<close>

lemma LastIndexByte_append: "c \<notin> set t \<Longrightarrow> LastIndexByte (s @ c # t) c = Some (length s)"
proof -
  assume c: "c \<notin> set t"
  have "Index (rev t @ c # rev s) [c] = Some (length t)"
    using c by (induction t rule: rev_induct) (auto simp: HasPrefix_def)
  then show ?thesis by (simp add: LastIndexByte_def)
qed

lemma LastIndexByte_None: "c \<notin> set s \<Longrightarrow> LastIndexByte s c = None"
proof -
  assume c: "c \<notin> set s"
  have "Index (rev s) [c] = None"
    using c by (induction s rule: rev_induct) (auto simp: HasPrefix_def)
  then show ?thesis by (simp add: LastIndexByte_def)
qed

lemma after_last_append [simp]: "c \<notin> set t \<Longrightarrow> after_last c (s @ c # t) = t"
  by (simp add: after_last_def LastIndexByte_append)

lemma after_last_none [simp]: "c \<notin> set s \<Longrightarrow> after_last c s = s"
  by (simp add: after_last_def LastIndexByte_None)

end
