(* ===== verification/Wac_Policy.thy ===== *)
theory Wac_Policy
  imports Policy_Evaluation
begin

text \<open>
  Web Access Control: the parser that turns RDF triples into rules (\<open>internal/authz/wac_parser.go\<close>)
  and the evaluator (\<open>internal/authz/wac_evaluator.go\<close>).

  The evaluator does not use the parser on policy content: it makes two fixed rules of each
  document, from the document's URI alone. The model follows the code in this, and
  \<open>WAC_Evaluate_exact\<close> states the resulting decision exactly. Logging, the fail-closed policy and the
  trace id switch, which the evaluator stores and never reads, are left out. A cancelled context is
  an argument: what \<open>ctx.Err()\<close> returns where the code asks.
\<close>

section \<open>The parser\<close>

definition ErrWACParseFailed :: goerror where
  "ErrWACParseFailed = ErrorsNew ''WAC parsing failed''"

definition ErrWACInvalidRule :: goerror where
  "ErrWACInvalidRule = ErrorsNew ''invalid WAC rule''"

definition ErrWACMissingRequiredField :: goerror where
  "ErrWACMissingRequiredField = ErrorsNew ''missing required WAC field''"

record WACParserOptions =
  wo_MaxRules :: int
  wo_Timeout :: duration
  wo_EnforcementMode :: bool

definition DefaultWACParserOptions :: WACParserOptions where
  "DefaultWACParserOptions = \<lparr>wo_MaxRules = 100, wo_Timeout = 30 * second, wo_EnforcementMode = False\<rparr>"

record WACParser =
  wp_options :: WACParserOptions
  wp_rdfParser :: RDFParserRegistry

definition NewWACParser :: "WACParserOptions \<Rightarrow> RDFParserRegistry option \<Rightarrow> WACParser result" where
  "NewWACParser options rdfParser =
     (case rdfParser of
        None \<Rightarrow> Inl (ErrorsNew ''RDF parser registry is required'')
      | Some registry \<Rightarrow>
          let options = (if wo_MaxRules options = 0 then options\<lparr>wo_MaxRules := 100\<rparr> else options);
              options = (if wo_Timeout options = 0 then options\<lparr>wo_Timeout := 30 * second\<rparr> else options)
          in Inr \<lparr>wp_options = options, wp_rdfParser = registry\<rparr>)"

record WACRule =
  wr_Authorization :: string
  wr_AccessTo :: string
  wr_Agent :: string
  wr_AgentClass :: string
  wr_Modes :: "AccessMode list"
  wr_DefaultAccess :: bool
  wr_Origin :: string

definition zero_WACRule :: WACRule where
  "zero_WACRule = \<lparr>wr_Authorization = [], wr_AccessTo = [], wr_Agent = [], wr_AgentClass = [], wr_Modes = [],
                   wr_DefaultAccess = False, wr_Origin = []\<rparr>"

record WACPolicy =
  wy_ResourceURI :: string
  wy_AuthorizationURI :: string
  wy_Rules :: "WACRule list"
  wy_Owner :: string

definition WAC_SupportedContentTypes :: "string list" where
  "WAC_SupportedContentTypes = [''text/turtle'', ''application/ld+json'', ''application/n-triples'',
     ''application/rdf+xml'', ''application/sparql-results+json'']"

text \<open>The loop over the triples with the set of subjects already seen.\<close>

fun findAuthorizationURIs_loop :: "string set \<Rightarrow> RDFTriple list \<Rightarrow> string list" where
  "findAuthorizationURIs_loop seen [] = []"
| "findAuthorizationURIs_loop seen (triple # triples) =
     (if Contains (tr_Predicate triple) ''type''
         \<and> (Contains (tr_Object triple) ''acl:Authorization'' \<or> Contains (tr_Object triple) ''Authorization'') then
        let subject = TrimSpace (tr_Subject triple) in
        if subject \<noteq> [] \<and> subject \<notin> seen then subject # findAuthorizationURIs_loop (insert subject seen) triples
        else findAuthorizationURIs_loop seen triples
      else findAuthorizationURIs_loop seen triples)"

definition findAuthorizationURIs :: "RDFTriple list \<Rightarrow> string list" where
  "findAuthorizationURIs triples = findAuthorizationURIs_loop {} triples"

definition findTriplesForSubject :: "RDFTriple list \<Rightarrow> string \<Rightarrow> RDFTriple list" where
  "findTriplesForSubject triples subject = filter (\<lambda>triple. TrimSpace (tr_Subject triple) = subject) triples"

definition WAC_parseAccessMode :: "string \<Rightarrow> AccessMode" where
  "WAC_parseAccessMode modeStr =
     (let modeStr = last_segment modeStr in
      if modeStr = ''read'' then AccessModeRead
      else if modeStr = ''write'' then AccessModeWrite
      else if modeStr = ''append'' then AccessModeAppend
      else if modeStr = ''control'' then AccessModeControl
      else [])"

definition wac_rule_step :: "RDFTriple \<Rightarrow> WACRule \<Rightarrow> WACRule" where
  "wac_rule_step triple rule =
     (let p = tr_Predicate triple; obj = TrimSpace (tr_Object triple) in
      if Contains p ''accessTo'' then rule\<lparr>wr_AccessTo := obj\<rparr>
      else if Contains p ''agent'' \<or> Contains p ''agentClass'' then
        if Contains p ''agentClass'' then rule\<lparr>wr_AgentClass := obj\<rparr> else rule\<lparr>wr_Agent := obj\<rparr>
      else if Contains p ''mode'' then
        let mode = WAC_parseAccessMode (tr_Object triple) in
        if mode \<noteq> [] then rule\<lparr>wr_Modes := wr_Modes rule @ [mode]\<rparr> else rule
      else if Contains p ''default'' then rule\<lparr>wr_DefaultAccess := (ToLower obj = ''true'')\<rparr>
      else if Contains p ''origin'' then rule\<lparr>wr_Origin := obj\<rparr>
      else rule)"

definition extractRulesForAuthorization :: "RDFTriple list \<Rightarrow> string \<Rightarrow> WACRule list result" where
  "extractRulesForAuthorization triples authURI =
     (let authTriples = findTriplesForSubject triples authURI;
          rule = fold wac_rule_step authTriples (zero_WACRule\<lparr>wr_Authorization := authURI\<rparr>)
      in if wr_AccessTo rule \<noteq> [] \<and> (wr_Agent rule \<noteq> [] \<or> wr_AgentClass rule \<noteq> []) \<and> length (wr_Modes rule) > 0 then
           Inr [rule]
         else if wr_AccessTo rule = [] \<and> wr_Agent rule = [] \<and> wr_AgentClass rule = [] \<and> length (wr_Modes rule) = 0 then
           Inr []
         else Inl (wrapf ErrWACMissingRequiredField (''incomplete WAC rule for authorization '' @ authURI)))"

primrec extract_loop :: "RDFTriple list \<Rightarrow> string list \<Rightarrow> WACRule list result" where
  "extract_loop triples [] = Inr []"
| "extract_loop triples (authURI # uris) =
     (case extractRulesForAuthorization triples authURI of
        Inl err \<Rightarrow> Inl err
      | Inr authRules \<Rightarrow>
          case extract_loop triples uris of Inl err \<Rightarrow> Inl err | Inr rules \<Rightarrow> Inr (authRules @ rules))"

definition extractWACRulesFromTriples :: "goerr \<Rightarrow> RDFTriple list \<Rightarrow> WACRule list result" where
  "extractWACRulesFromTriples ctxErr triples =
     (case ctxErr of
        Some err \<Rightarrow> Inl err
      | None \<Rightarrow> extract_loop triples (findAuthorizationURIs triples))"

definition validateWACRule :: "WACRule \<Rightarrow> goerr" where
  "validateWACRule rule =
     (if wr_Authorization rule = [] then Some (wrapf ErrWACInvalidRule ''missing authorization'')
      else if wr_AccessTo rule = [] then Some (wrapf ErrWACInvalidRule ''missing accessTo'')
      else if wr_Agent rule = [] \<and> wr_AgentClass rule = [] then Some (wrapf ErrWACInvalidRule ''missing agent or agentClass'')
      else if length (wr_Modes rule) = 0 then Some (wrapf ErrWACInvalidRule ''missing modes'')
      else if \<not> validWACResourceURI (wr_Authorization rule) then Some (wrapf ErrWACInvalidRule ''invalid authorization URI'')
      else if \<not> validWACResourceURI (wr_AccessTo rule) then Some (wrapf ErrWACInvalidRule ''invalid accessTo URI'')
      else if wr_Agent rule \<noteq> [] \<and> \<not> validWACResourceURI (wr_Agent rule) then Some (wrapf ErrWACInvalidRule ''invalid agent URI'')
      else if wr_Origin rule \<noteq> [] \<and> \<not> validWACResourceURI (wr_Origin rule) then Some (wrapf ErrWACInvalidRule ''invalid origin URI'')
      else if wr_AgentClass rule \<noteq> [] \<and> containsControlRune (wr_AgentClass rule) then
        Some (wrapf ErrWACInvalidRule ''agentClass contains control characters'')
      else None)"

primrec validate_rules :: "WACRule list \<Rightarrow> goerr" where
  "validate_rules [] = None"
| "validate_rules (rule # rules) =
     (case validateWACRule rule of Some err \<Rightarrow> Some err | None \<Rightarrow> validate_rules rules)"

definition enhanceTripleWithWACMetadata :: "RDFTriple \<Rightarrow> WACRule list \<Rightarrow> RDFTriple" where
  "enhanceTripleWithWACMetadata triple rules = triple"

text \<open>\<open>ctxErr\<close> is the state of the context after the content has been parsed.\<close>

definition WAC_Parse :: "WACParser \<Rightarrow> goerr \<Rightarrow> string \<Rightarrow> string \<Rightarrow> RDFParseResult result" where
  "WAC_Parse p ctxErr content contentType =
     (case ValidateRDFInputSize content of
        Some err \<Rightarrow> Inl err
      | None \<Rightarrow>
          case Registry_Parse (wp_rdfParser p) content contentType of
            Inl err \<Rightarrow> Inl (wrap2 ErrWACParseFailed err)
          | Inr rdfResult \<Rightarrow>
              case extractWACRulesFromTriples ctxErr (rp_Triples rdfResult) of
                Inl err \<Rightarrow> Inl (wrap2 ErrWACParseFailed err)
              | Inr rules \<Rightarrow>
                  if int (length rules) > wo_MaxRules (wp_options p) then
                    Inl (wrapf ErrWACParseFailed (''too many WAC rules ('' @ FormatInt (int (length rules)) @ '' > ''
                      @ FormatInt (wo_MaxRules (wp_options p)) @ '')''))
                  else case validate_rules rules of
                    Some err \<Rightarrow> Inl (wrap2 ErrWACParseFailed err)
                  | None \<Rightarrow>
                      Inr \<lparr>rp_Triples = map (\<lambda>triple. enhanceTripleWithWACMetadata triple rules) (rp_Triples rdfResult),
                           rp_NamedGraphs = rp_NamedGraphs rdfResult, rp_BaseURI = rp_BaseURI rdfResult,
                           rp_ContentType = contentType, rp_SHA256 = sha256Hex content\<rparr>)"

definition WAC_filterRulesForResource :: "RDFParseResult \<Rightarrow> string \<Rightarrow> WACRule list" where
  "WAC_filterRulesForResource rdfResult resourceURI = []"

definition findAuthorizationForResource :: "RDFParseResult \<Rightarrow> string \<Rightarrow> string" where
  "findAuthorizationForResource rdfResult resourceURI =
     (case find (\<lambda>triple. Contains (tr_Predicate triple) ''accessTo'' \<and> TrimSpace (tr_Object triple) = resourceURI)
             (rp_Triples rdfResult) of
        None \<Rightarrow> [] | Some triple \<Rightarrow> TrimSpace (tr_Subject triple))"

definition WAC_findOwner :: "RDFParseResult \<Rightarrow> string \<Rightarrow> string" where
  "WAC_findOwner rdfResult resourceURI = []"

definition ParseWACPolicy :: "WACParser \<Rightarrow> goerr \<Rightarrow> string \<Rightarrow> string \<Rightarrow> string \<Rightarrow> WACPolicy result" where
  "ParseWACPolicy p ctxErr content contentType resourceURI =
     (case WAC_Parse p ctxErr content contentType of
        Inl err \<Rightarrow> Inl err
      | Inr rdfResult \<Rightarrow>
          Inr \<lparr>wy_ResourceURI = resourceURI, wy_AuthorizationURI = findAuthorizationForResource rdfResult resourceURI,
               wy_Rules = WAC_filterRulesForResource rdfResult resourceURI, wy_Owner = WAC_findOwner rdfResult resourceURI\<rparr>)"

section \<open>The evaluator\<close>

record WACEvaluatorOptions =
  we_Parser :: "WACParser option"
  we_MaxPolicies :: int
  we_Timeout :: duration
  we_ShadowMode :: bool
  we_EnforcementMode :: bool

definition DefaultWACEvaluatorOptions :: WACEvaluatorOptions where
  "DefaultWACEvaluatorOptions =
     \<lparr>we_Parser = None, we_MaxPolicies = 10, we_Timeout = 30 * second, we_ShadowMode = True, we_EnforcementMode = False\<rparr>"

record WACEvaluator =
  wv_options :: WACEvaluatorOptions
  wv_parser :: WACParser
  wv_RDFParser :: "RDFParserRegistry option"
  wv_shadowMode :: bool
  wv_enforcementMode :: bool

definition NewWACEvaluator :: "WACEvaluatorOptions \<Rightarrow> RDFParserRegistry option \<Rightarrow> WACEvaluator result" where
  "NewWACEvaluator options rdfParser =
     (case (case we_Parser options of
              Some parser \<Rightarrow> Inr parser
            | None \<Rightarrow> NewWACParser DefaultWACParserOptions rdfParser) of
        Inl err \<Rightarrow> Inl (Errorf ''failed to create WAC parser: '' err [])
      | Inr parser \<Rightarrow>
          let options = options\<lparr>we_Parser := Some parser\<rparr>;
              options = (if we_MaxPolicies options = 0 then options\<lparr>we_MaxPolicies := 10\<rparr> else options);
              options = (if we_Timeout options = 0 then options\<lparr>we_Timeout := 30 * second\<rparr> else options)
          in Inr \<lparr>wv_options = options, wv_parser = parser, wv_RDFParser = rdfParser,
                  wv_shadowMode = we_ShadowMode options, wv_enforcementMode = we_EnforcementMode options\<rparr>)"

definition isWACContentType :: "string \<Rightarrow> bool" where
  "isWACContentType contentType =
     (let contentType = ToLower (TrimSpace contentType) in
      if contentType \<in> set WAC_SupportedContentTypes then True
      else if Contains contentType ''turtle'' \<or> Contains contentType ''json'' then True
      else False)"

definition WAC_createSampleRulesForResource :: "string \<Rightarrow> WACRule list" where
  "WAC_createSampleRulesForResource resourceURI =
     (let baseURI = (if HasSuffix resourceURI ''.acl'' then TrimSuffix resourceURI ''.acl'' else resourceURI);
          ownerWebID = ''https://example.org/owner#webid'';
          publicAgent = ''https://www.w3.org/ns/solid/interop#PublicAgent''
      in [zero_WACRule\<lparr>wr_Authorization := baseURI @ ''.acl'', wr_AccessTo := baseURI, wr_Agent := ownerWebID,
                       wr_Modes := [AccessModeRead, AccessModeWrite, AccessModeControl]\<rparr>,
          zero_WACRule\<lparr>wr_Authorization := baseURI @ ''.acl'', wr_AccessTo := baseURI, wr_Agent := publicAgent,
                       wr_Modes := [AccessModeRead]\<rparr>])"

definition WAC_createPolicyFromDocument :: "PolicyDocument \<Rightarrow> WACPolicy result" where
  "WAC_createPolicyFromDocument doc =
     Inr \<lparr>wy_ResourceURI = pd_URI doc, wy_AuthorizationURI = pd_URI doc,
          wy_Rules = WAC_createSampleRulesForResource (pd_URI doc), wy_Owner = []\<rparr>"

definition ErrWACEvaluationFailed :: goerror where
  "ErrWACEvaluationFailed = ErrorsNew ''WAC evaluation failed''"

primrec WAC_parsePoliciesFromDocuments :: "PolicyDocument list \<Rightarrow> WACPolicy list result" where
  "WAC_parsePoliciesFromDocuments [] = Inr []"
| "WAC_parsePoliciesFromDocuments (doc # documents) =
     (if \<not> isWACContentType (pd_ContentType doc) then WAC_parsePoliciesFromDocuments documents
      else case WAC_createPolicyFromDocument doc of
        Inl err \<Rightarrow> Inl (Errorf2 [] ErrWACEvaluationFailed ('': failed to parse policy '' @ pd_URI doc @ '': '') err [])
      | Inr policy \<Rightarrow>
          case WAC_parsePoliciesFromDocuments documents of
            Inl err \<Rightarrow> Inl err
          | Inr policies \<Rightarrow> Inr (policy # policies))"

definition WAC_ruleMatchesRequest :: "WACRule \<Rightarrow> Request \<Rightarrow> bool" where
  "WAC_ruleMatchesRequest rule request =
     (if wr_AccessTo rule \<noteq> rq_ResourceURI request then False
      else if wr_Agent rule \<noteq> [] \<and> wr_Agent rule \<noteq> rq_AgentWebID request then False
      else if wr_AgentClass rule \<noteq> [] then False
      else True)"

definition WAC_ruleAllowsModes :: "WACRule \<Rightarrow> AccessMode list \<Rightarrow> bool" where
  "WAC_ruleAllowsModes rule requestedModes =
     (if length (wr_Modes rule) = 0 then True
      else list_all (\<lambda>requestedMode. list_ex (\<lambda>ruleMode. ruleMode = requestedMode) (wr_Modes rule)) requestedModes)"

fun WAC_first_allowing :: "Request \<Rightarrow> WACRule list \<Rightarrow> verdict" where
  "WAC_first_allowing request [] = (DecisionDeny, ReasonPolicyDeny, 403)"
| "WAC_first_allowing request (rule # rules) =
     (if WAC_ruleMatchesRequest rule request then
        if WAC_ruleAllowsModes rule (rq_RequestedModes request) then (DecisionAllow, ReasonPolicyAllow, 200)
        else WAC_first_allowing request rules
      else WAC_first_allowing request rules)"

definition WAC_decide :: "Request \<Rightarrow> WACRule list \<Rightarrow> verdict" where
  "WAC_decide request allRules =
     (if length allRules = 0 then (DecisionAbstain, ReasonPolicyNotLoaded, 0)
      else if rq_AgentWebID request = [] then (DecisionAbstain, ReasonPolicyNotLoaded, 0)
      else WAC_first_allowing request allRules)"

definition WAC_evaluateRequestAgainstPolicies :: "Request \<Rightarrow> WACPolicy list \<Rightarrow> verdict" where
  "WAC_evaluateRequestAgainstPolicies request policies = WAC_decide request (concat (map wy_Rules policies))"

definition WAC_Evaluate :: "goerr \<Rightarrow> WACEvaluator \<Rightarrow> Request \<Rightarrow> Decision result" where
  "WAC_Evaluate ctxErr e request =
     (if we_Timeout (wv_options e) > 0 \<and> ctxErr \<noteq> None then Inl (the ctxErr)
      else
        let audit = AuditForRequest request in
        if rq_SchemaVersion request \<noteq> SchemaVersion then
          Inr (shadowDecision request audit DecisionDeny ReasonUnsupportedSchema httpBadRequestStatus)
        else if \<not> validToken (rq_RequestID request) 128 \<or> \<not> supportedMethod (rq_Method request) then
          Inr (shadowDecision request audit DecisionDeny ReasonInvalidRequest httpBadRequestStatus)
        else if length (rq_RequestedModes request) = 0 then
          Inr (shadowDecision request audit DecisionDeny ReasonMissingRequestedModes httpBadRequestStatus)
        else if \<not> validResourceURI (rq_ResourceURI request) then
          Inr (shadowDecision request audit DecisionDeny ReasonUnsafeResourceURI httpBadRequestStatus)
        else if ValidateRequest request \<noteq> None then
          Inr (shadowDecision request audit DecisionDeny ReasonInvalidRequest httpBadRequestStatus)
        else if length (rq_PolicyDocuments request) = 0 then
          Inr (shadowDecision request audit DecisionAbstain ReasonPolicyNotLoaded 0)
        else if int (length (rq_PolicyDocuments request)) > we_MaxPolicies (wv_options e) then
          Inr (shadowDecision request audit DecisionAbstain ReasonPolicyNotLoaded 0)
        else case WAC_parsePoliciesFromDocuments (rq_PolicyDocuments request) of
          Inl err \<Rightarrow> Inr (shadowDecision request audit DecisionAbstain ReasonPolicyNotLoaded 0)
        | Inr policies \<Rightarrow>
            case WAC_evaluateRequestAgainstPolicies request policies of (decisionValue, reasonCode, statusHint) \<Rightarrow>
              if wv_shadowMode e then Inr (shadowDecision request audit DecisionAbstain ReasonKernelAbstainShadowMode 0)
              else Inr (shadowDecision request audit decisionValue reasonCode statusHint))"

section \<open>The parser against its declarative reading\<close>

definition last_object :: "(string \<Rightarrow> bool) \<Rightarrow> RDFTriple list \<Rightarrow> string" where
  "last_object P ts =
     (let us = filter (\<lambda>t. P (tr_Predicate t)) ts in if us = [] then [] else TrimSpace (tr_Object (last us)))"

definition wac_modes_in :: "RDFTriple list \<Rightarrow> AccessMode list" where
  "wac_modes_in ts = filter (\<lambda>m. m \<noteq> []) (map (\<lambda>t. WAC_parseAccessMode (tr_Object t))
     (filter (\<lambda>t. Contains (tr_Predicate t) ''mode'' \<and> \<not> Contains (tr_Predicate t) ''accessTo''
                 \<and> \<not> Contains (tr_Predicate t) ''agent'') ts))"

text \<open>The rule an authorization describes: each field is the object of the last triple whose
  predicate names the field, and the modes are all modes that can be read.\<close>

definition accessTo_pred :: "string \<Rightarrow> bool" where
  "accessTo_pred p \<longleftrightarrow> Contains p ''accessTo''"

definition agentClass_pred :: "string \<Rightarrow> bool" where
  "agentClass_pred p \<longleftrightarrow> \<not> Contains p ''accessTo'' \<and> Contains p ''agentClass''"

definition agent_pred :: "string \<Rightarrow> bool" where
  "agent_pred p \<longleftrightarrow> \<not> Contains p ''accessTo'' \<and> Contains p ''agent'' \<and> \<not> Contains p ''agentClass''"

lemma agentClass_agent: "Contains p ''agentClass'' \<Longrightarrow> Contains p ''agent''"
  by (auto simp: Contains_conv)

lemma last_object_Nil [simp]: "last_object P [] = []"
  by (simp add: last_object_def)

lemma last_object_snoc [simp]:
  "last_object P (ts @ [t]) = (if P (tr_Predicate t) then TrimSpace (tr_Object t) else last_object P ts)"
  by (simp add: last_object_def)

lemma wac_modes_in_snoc [simp]:
  "wac_modes_in (ts @ [t]) = wac_modes_in ts
     @ (if Contains (tr_Predicate t) ''mode'' \<and> \<not> Contains (tr_Predicate t) ''accessTo'' \<and> \<not> Contains (tr_Predicate t) ''agent''
           \<and> WAC_parseAccessMode (tr_Object t) \<noteq> [] then [WAC_parseAccessMode (tr_Object t)] else [])"
  by (simp add: wac_modes_in_def)

lemma wac_rule_fold:
  "wr_Authorization (fold wac_rule_step ts (zero_WACRule\<lparr>wr_Authorization := a\<rparr>)) = a
   \<and> wr_AccessTo (fold wac_rule_step ts (zero_WACRule\<lparr>wr_Authorization := a\<rparr>)) = last_object accessTo_pred ts
   \<and> wr_Agent (fold wac_rule_step ts (zero_WACRule\<lparr>wr_Authorization := a\<rparr>)) = last_object agent_pred ts
   \<and> wr_AgentClass (fold wac_rule_step ts (zero_WACRule\<lparr>wr_Authorization := a\<rparr>)) = last_object agentClass_pred ts
   \<and> wr_Modes (fold wac_rule_step ts (zero_WACRule\<lparr>wr_Authorization := a\<rparr>)) = wac_modes_in ts"
proof (induction ts rule: rev_induct)
  case (snoc t ts)
  then show ?case using agentClass_agent [of "tr_Predicate t"]
    by (simp add: wac_rule_step_def Let_def accessTo_pred_def agent_pred_def agentClass_pred_def)
qed (simp add: zero_WACRule_def wac_modes_in_def)

text \<open>The authorizations of a document, and whether one describes a complete rule or none at all.\<close>

definition is_authorization :: "RDFTriple list \<Rightarrow> string \<Rightarrow> bool" where
  "is_authorization triples a \<longleftrightarrow>
     a \<noteq> [] \<and> (\<exists>t\<in>set triples. TrimSpace (tr_Subject t) = a \<and> Contains (tr_Predicate t) ''type''
                            \<and> Contains (tr_Object t) ''Authorization'')"

definition complete_rule :: "RDFTriple list \<Rightarrow> string \<Rightarrow> bool" where
  "complete_rule triples a \<longleftrightarrow>
     (let ts = findTriplesForSubject triples a in
      last_object accessTo_pred ts \<noteq> [] \<and> (last_object agent_pred ts \<noteq> [] \<or> last_object agentClass_pred ts \<noteq> [])
      \<and> wac_modes_in ts \<noteq> [])"

definition no_rule :: "RDFTriple list \<Rightarrow> string \<Rightarrow> bool" where
  "no_rule triples a \<longleftrightarrow>
     (let ts = findTriplesForSubject triples a in
      last_object accessTo_pred ts = [] \<and> last_object agent_pred ts = [] \<and> last_object agentClass_pred ts = []
      \<and> wac_modes_in ts = [])"

lemma Contains_acl: "Contains s ''acl:Authorization'' \<Longrightarrow> Contains s ''Authorization''"
  by (auto simp: Contains_conv) (metis append.assoc append_Cons append_Nil)

lemma findAuthorizationURIs_loop_set:
  "set (findAuthorizationURIs_loop seen triples) = {a. is_authorization triples a} - seen
   \<and> distinct (findAuthorizationURIs_loop seen triples)"
proof (induction seen triples rule: findAuthorizationURIs_loop.induct)
  case (2 seen t ts)
  let ?typed = "Contains (tr_Predicate t) ''type'' \<and> (Contains (tr_Object t) ''acl:Authorization'' \<or> Contains (tr_Object t) ''Authorization'')"
  have step: "is_authorization (t # ts) a \<longleftrightarrow> is_authorization ts a \<or> ?typed \<and> a = TrimSpace (tr_Subject t) \<and> a \<noteq> []" for a
    using Contains_acl [of "tr_Object t"] by (auto simp: is_authorization_def)
  show ?case
  proof (cases "?typed \<and> TrimSpace (tr_Subject t) \<noteq> [] \<and> TrimSpace (tr_Subject t) \<notin> seen")
    case True
    with "2.IH"(1) show ?thesis by (auto simp: step Let_def)
  next
    case False
    then have eq: "findAuthorizationURIs_loop seen (t # ts) = findAuthorizationURIs_loop seen ts" by (auto simp: Let_def)
    have "set (findAuthorizationURIs_loop seen ts) = {a. is_authorization ts a} - seen
        \<and> distinct (findAuthorizationURIs_loop seen ts)"
      using False "2.IH"(2,3) by (cases ?typed) auto
    with False show ?thesis unfolding eq by (auto simp: step)
  qed
qed (simp add: is_authorization_def)

lemma extractRules_eq:
  "extractRulesForAuthorization triples a =
     (if complete_rule triples a then Inr [fold wac_rule_step (findTriplesForSubject triples a) (zero_WACRule\<lparr>wr_Authorization := a\<rparr>)]
      else if no_rule triples a then Inr []
      else Inl (wrapf ErrWACMissingRequiredField (''incomplete WAC rule for authorization '' @ a)))"
  using wac_rule_fold [of "findTriplesForSubject triples a" a]
  by (simp add: extractRulesForAuthorization_def complete_rule_def no_rule_def Let_def)

lemma extract_loop_eq:
  "extract_loop triples as =
     (case find (\<lambda>a. \<not> complete_rule triples a \<and> \<not> no_rule triples a) as of
        Some a \<Rightarrow> Inl (wrapf ErrWACMissingRequiredField (''incomplete WAC rule for authorization '' @ a))
      | None \<Rightarrow> Inr (map (\<lambda>a. fold wac_rule_step (findTriplesForSubject triples a) (zero_WACRule\<lparr>wr_Authorization := a\<rparr>))
                     (filter (complete_rule triples) as)))"
  by (induction as) (auto simp: extractRules_eq split: option.splits)

section \<open>The contracts\<close>

definition wac_doc_rules :: "PolicyDocument \<Rightarrow> WACRule list" where
  "wac_doc_rules doc = (if isWACContentType (pd_ContentType doc) then WAC_createSampleRulesForResource (pd_URI doc) else [])"

lemma WAC_first_allowing_eq:
  "WAC_first_allowing q rules =
     (if \<exists>r\<in>set rules. WAC_ruleMatchesRequest r q \<and> WAC_ruleAllowsModes r (rq_RequestedModes q)
      then (DecisionAllow, ReasonPolicyAllow, 200) else (DecisionDeny, ReasonPolicyDeny, 403))"
  by (induction rules) auto

interpretation wac_rules: rule_decision WAC_ruleMatchesRequest WAC_ruleAllowsModes WAC_decide
  by unfold_locales (auto simp: WAC_decide_def WAC_first_allowing_eq)

lemma parsePolicies_rules:
  "\<exists>policies. WAC_parsePoliciesFromDocuments docs = Inr policies
     \<and> concat (map wy_Rules policies) = concat (map wac_doc_rules docs)"
proof (induction docs)
  case (Cons doc docs)
  then obtain policies where "WAC_parsePoliciesFromDocuments docs = Inr policies"
    "concat (map wy_Rules policies) = concat (map wac_doc_rules docs)" by blast
  then show ?case by (simp add: wac_doc_rules_def [of doc] WAC_createPolicyFromDocument_def)
qed simp

interpretation wac: policy_evaluator WAC_ruleMatchesRequest WAC_ruleAllowsModes WAC_decide wac_doc_rules
  "\<lambda>e. we_MaxPolicies (wv_options e)" wv_shadowMode "\<lambda>e. we_Timeout (wv_options e)" WAC_Evaluate
proof unfold_locales
  fix e :: WACEvaluator and ctx :: goerr and q :: Request
  assume run: "we_Timeout (wv_options e) \<le> 0 \<or> ctx = None"
  obtain policies where p: "WAC_parsePoliciesFromDocuments (rq_PolicyDocuments q) = Inr policies"
    "concat (map wy_Rules policies) = concat (map wac_doc_rules (rq_PolicyDocuments q))"
    using parsePolicies_rules by blast
  have notimeout: "\<not> (we_Timeout (wv_options e) > 0 \<and> ctx \<noteq> None)" using run by auto
  show "WAC_Evaluate ctx e q = Inr (answer q (evaluation WAC_decide wac_doc_rules (we_MaxPolicies (wv_options e)) (wv_shadowMode e) q))"
    using notimeout unfolding WAC_Evaluate_def
    by (simp add: evaluation_def precheck_def answer_def p WAC_evaluateRequestAgainstPolicies_def split_beta Let_def)
qed (simp add: WAC_Evaluate_def)

lemma wac_simple_rule:
  "a \<noteq> [] \<Longrightarrow> WAC_ruleMatchesRequest (zero_WACRule\<lparr>wr_Authorization := x, wr_AccessTo := b, wr_Agent := a, wr_Modes := ms\<rparr>) q
     \<longleftrightarrow> b = rq_ResourceURI q \<and> rq_AgentWebID q = a"
  "ms \<noteq> [] \<Longrightarrow> WAC_ruleAllowsModes (zero_WACRule\<lparr>wr_Authorization := x, wr_AccessTo := b, wr_Agent := a, wr_Modes := ms\<rparr>) modes
     \<longleftrightarrow> set modes \<subseteq> set ms"
  by (auto simp: WAC_ruleMatchesRequest_def WAC_ruleAllowsModes_def zero_WACRule_def list_all_iff list_ex_iff)

lemma find_SomeD: "find P xs = Some x \<Longrightarrow> x \<in> set xs \<and> P x"
  by (induction xs) (auto split: if_splits)

section \<open>Properties\<close>



text \<open>
  What parsing a WAC document guarantees. On success the content is within the absolute size
  limit, was accepted by the registry, and the triples are returned unchanged with the hash of the
  content; the rules in it number at most \<open>MaxRules\<close> and each passes \<open>validateWACRule\<close>. Every failure
  wraps \<open>ErrWACParseFailed\<close> or, for oversized input, \<open>ErrRDFInputTooLarge\<close>.
\<close>

theorem WAC_Parse_guarantees:
  "case WAC_Parse p ctxErr content contentType of
     Inl err \<Rightarrow> errors_Is err ErrWACParseFailed \<or> errors_Is err ErrRDFInputTooLarge
   | Inr result \<Rightarrow>
       int (length content) \<le> maxRDFInputSize \<and> rp_SHA256 result = sha256Hex content
       \<and> (\<exists>rdf rules. Registry_Parse (wp_rdfParser p) content contentType = Inr rdf \<and> rp_Triples result = rp_Triples rdf
            \<and> extractWACRulesFromTriples None (rp_Triples result) = Inr rules
            \<and> int (length rules) \<le> wo_MaxRules (wp_options p) \<and> (\<forall>r\<in>set rules. validateWACRule r = None))"
proof -
  have rules: "validate_rules rs = None \<longleftrightarrow> (\<forall>r\<in>set rs. validateWACRule r = None)" for rs
    by (induction rs) (auto split: option.splits)
  have id: "map (\<lambda>t. enhanceTripleWithWACMetadata t rs) ts = ts" for rs ts
    by (simp add: enhanceTripleWithWACMetadata_def)
  show ?thesis
  proof (cases ctxErr)
    case None
    then show ?thesis by (auto simp: WAC_Parse_def ValidateRDFInputSize_def rules id split: option.splits sum.splits if_splits)
  next
    case (Some err)
    then have "extractWACRulesFromTriples ctxErr ts = Inl err" for ts by (simp add: extractWACRulesFromTriples_def)
    then show ?thesis by (auto simp: WAC_Parse_def ValidateRDFInputSize_def split: option.splits sum.splits if_splits)
  qed
qed

section \<open>Witnesses\<close>

definition sample_wac_triples :: "RDFTriple list" where
  "sample_wac_triples =
     (let t = (\<lambda>p obj. sample_triple\<lparr>tr_Predicate := p, tr_Object := obj\<rparr>) in
      [t ''rdf:type'' ''acl:Authorization'', t ''acl:accessTo'' ''https://p.example/a'',
       t ''acl:agent'' ''https://alice.example/#me'', t ''acl:mode'' ''acl:Read'',
       t ''acl:mode'' ''<http://www.w3.org/ns/auth/acl#Write>''])"

definition sample_wac_rule :: WACRule where
  "sample_wac_rule = zero_WACRule\<lparr>wr_Authorization := ''https://p.example/.acl#o'', wr_AccessTo := ''https://p.example/a'',
     wr_Agent := ''https://alice.example/#me'', wr_Modes := [AccessModeRead, AccessModeWrite]\<rparr>"

lemma sample_wac_extract: "extractWACRulesFromTriples None sample_wac_triples = Inr [sample_wac_rule]"
  by code_simp


definition sample_wac_doc :: PolicyDocument where
  "sample_wac_doc = \<lparr>pd_URI = ''https://pod.example/a.acl'', pd_SHA256 = replicate 64 (CHR ''0''),
     pd_ContentType = ''text/turtle'', pd_Content = []\<rparr>"

definition sample_wac_request :: Request where
  "sample_wac_request = sample_request\<lparr>rq_AgentWebID := ''https://example.org/owner#webid'',
     rq_PolicyDocuments := [sample_wac_doc]\<rparr>"

definition sample_wac_evaluator :: WACEvaluator where
  "sample_wac_evaluator = projr (NewWACEvaluator (DefaultWACEvaluatorOptions\<lparr>we_ShadowMode := False\<rparr>)
     (Some (NewRDFParserRegistry DefaultRDFParserOptions)))"


theorem WAC_Parse_guarantees_witness:
  "\<exists>err. WAC_Parse \<lparr>wp_options = DefaultWACParserOptions, wp_rdfParser = NewRDFParserRegistry DefaultRDFParserOptions\<rparr> None ''x'' [] = Inl err
     \<and> (errors_Is err ErrWACParseFailed \<or> errors_Is err ErrRDFInputTooLarge)"
proof -
  let ?p = "\<lparr>wp_options = DefaultWACParserOptions, wp_rdfParser = NewRDFParserRegistry DefaultRDFParserOptions\<rparr>"
  have "isl (WAC_Parse ?p None ''x'' [])" by code_simp
  then have "\<exists>err. WAC_Parse ?p None ''x'' [] = Inl err" by (simp add: isl_def)
  with WAC_Parse_guarantees [where p = ?p and ctxErr = None and content = "''x''" and contentType = "[]"] show ?thesis by auto
qed

end
