(* ===== verification/Acp_Policy.thy ===== *)
theory Acp_Policy
  imports Wac_Policy
begin

text \<open>
  Access Control Policies: the parser (\<open>internal/authz/acp_parser.go\<close>) and the evaluator
  (\<open>internal/authz/acp_evaluator.go\<close>), modelled as their WAC counterparts are in \<open>Wac_Policy\<close>. Here too
  the evaluator makes two fixed rules of each document, from its URI alone.
\<close>

section \<open>The parser\<close>

definition ErrACPParseFailed :: goerror where
  "ErrACPParseFailed = ErrorsNew ''ACP parsing failed''"

definition ErrACPInvalidRule :: goerror where
  "ErrACPInvalidRule = ErrorsNew ''invalid ACP rule''"

definition ErrACPMissingRequiredField :: goerror where
  "ErrACPMissingRequiredField = ErrorsNew ''missing required ACP field''"

record ACPParserOptions =
  ao_MaxRules :: int
  ao_Timeout :: duration
  ao_EnforcementMode :: bool

definition DefaultACPParserOptions :: ACPParserOptions where
  "DefaultACPParserOptions = \<lparr>ao_MaxRules = 100, ao_Timeout = 30 * second, ao_EnforcementMode = False\<rparr>"

record ACPParser =
  ap_options :: ACPParserOptions
  ap_rdfParser :: RDFParserRegistry

definition NewACPParser :: "ACPParserOptions \<Rightarrow> RDFParserRegistry option \<Rightarrow> ACPParser result" where
  "NewACPParser options rdfParser =
     (case rdfParser of
        None \<Rightarrow> Inl (ErrorsNew ''RDF parser registry is required'')
      | Some registry \<Rightarrow>
          let options = (if ao_MaxRules options = 0 then options\<lparr>ao_MaxRules := 100\<rparr> else options);
              options = (if ao_Timeout options = 0 then options\<lparr>ao_Timeout := 30 * second\<rparr> else options)
          in Inr \<lparr>ap_options = options, ap_rdfParser = registry\<rparr>)"

record ACPAccess =
  aa_AccessTo :: string
  aa_Allows :: bool
  aa_Agent :: string
  aa_AgentClass :: string
  aa_Modes :: "AccessMode list"
  aa_Origin :: string
  aa_Inherit :: bool

record ACPRule =
  ar_Access :: ACPAccess
  ar_Resource :: string
  ar_Policy :: string

record ACPPolicy =
  ay_ResourceURI :: string
  ay_PolicyURI :: string
  ay_Rules :: "ACPRule list"
  ay_Owner :: string
  ay_Inherit :: bool

definition ACP_SupportedContentTypes :: "string list" where
  "ACP_SupportedContentTypes = [''text/turtle'', ''application/ld+json'', ''application/n-triples'',
     ''application/rdf+xml'', ''application/sparql-results+json'']"

fun findPolicyURIs_loop :: "string set \<Rightarrow> RDFTriple list \<Rightarrow> string list" where
  "findPolicyURIs_loop seen [] = []"
| "findPolicyURIs_loop seen (triple # triples) =
     (if Contains (tr_Predicate triple) ''type''
         \<and> (Contains (tr_Object triple) ''acp:Policy'' \<or> Contains (tr_Object triple) ''Policy'') then
        let subject = TrimSpace (tr_Subject triple) in
        if subject \<noteq> [] \<and> subject \<notin> seen then subject # findPolicyURIs_loop (insert subject seen) triples
        else findPolicyURIs_loop seen triples
      else findPolicyURIs_loop seen triples)"

definition findPolicyURIs :: "RDFTriple list \<Rightarrow> string list" where
  "findPolicyURIs triples = findPolicyURIs_loop {} triples"

definition ACP_findTriplesForSubject :: "RDFTriple list \<Rightarrow> string \<Rightarrow> RDFTriple list" where
  "ACP_findTriplesForSubject triples subject = filter (\<lambda>triple. TrimSpace (tr_Subject triple) = subject) triples"

definition findAccessTriples :: "RDFTriple list \<Rightarrow> string \<Rightarrow> RDFTriple list" where
  "findAccessTriples triples policyURI =
     filter (\<lambda>triple. TrimSpace (tr_Subject triple) = policyURI
        \<and> (Contains (tr_Predicate triple) ''allow'' \<or> Contains (tr_Predicate triple) ''deny''
           \<or> Contains (tr_Predicate triple) ''access'')) triples"

definition ACP_parseAccessMode :: "string \<Rightarrow> AccessMode" where
  "ACP_parseAccessMode modeStr =
     (let modeStr = last_segment modeStr in
      if modeStr = ''read'' then AccessModeRead
      else if modeStr = ''write'' then AccessModeWrite
      else if modeStr = ''append'' then AccessModeAppend
      else if modeStr = ''control'' then AccessModeControl
      else [])"

text \<open>One triple about the access node: unlike in the WAC parser the three tests are not
  exclusive.\<close>

definition acp_access_step :: "string \<Rightarrow> RDFTriple \<Rightarrow> ACPRule \<Rightarrow> ACPRule" where
  "acp_access_step node triple rule =
     (if TrimSpace (tr_Subject triple) \<noteq> TrimSpace node then rule
      else
        let p = tr_Predicate triple; obj = TrimSpace (tr_Object triple);
            rule = (if Contains p ''appliesTo'' \<or> Contains p ''accessTo''
                    then rule\<lparr>ar_Access := (ar_Access rule)\<lparr>aa_AccessTo := obj\<rparr>, ar_Resource := obj\<rparr> else rule);
            rule = (if Contains p ''agent'' \<or> Contains p ''agentClass'' then
                      if Contains p ''agentClass'' then rule\<lparr>ar_Access := (ar_Access rule)\<lparr>aa_AgentClass := obj\<rparr>\<rparr>
                      else rule\<lparr>ar_Access := (ar_Access rule)\<lparr>aa_Agent := obj\<rparr>\<rparr>
                    else rule)
        in if Contains p ''mode'' then
             let mode = ACP_parseAccessMode (tr_Object triple) in
             if mode \<noteq> [] then rule\<lparr>ar_Access := (ar_Access rule)\<lparr>aa_Modes := aa_Modes (ar_Access rule) @ [mode]\<rparr>\<rparr> else rule
           else rule)"

definition parseACPRuleFromTriples :: "RDFTriple list \<Rightarrow> RDFTriple \<Rightarrow> ACPRule result" where
  "parseACPRuleFromTriples triples accessTriple =
     (let rule = \<lparr>ar_Access = \<lparr>aa_AccessTo = [], aa_Allows = True, aa_Agent = [], aa_AgentClass = [], aa_Modes = [],
                              aa_Origin = [], aa_Inherit = False\<rparr>,
                  ar_Resource = [], ar_Policy = tr_Subject accessTriple\<rparr>;
          rule = (if Contains (tr_Predicate accessTriple) ''deny''
                  then rule\<lparr>ar_Access := (ar_Access rule)\<lparr>aa_Allows := False\<rparr>\<rparr> else rule);
          rule = fold (acp_access_step (tr_Object accessTriple)) triples rule
      in if aa_AccessTo (ar_Access rule) = [] then Inl (wrapf ErrACPMissingRequiredField ''missing accessTo'')
         else if aa_Agent (ar_Access rule) = [] \<and> aa_AgentClass (ar_Access rule) = [] then
           Inl (wrapf ErrACPMissingRequiredField ''missing agent or agentClass'')
         else Inr rule)"

primrec parse_access_rules :: "RDFTriple list \<Rightarrow> RDFTriple list \<Rightarrow> ACPRule list result" where
  "parse_access_rules triples [] = Inr []"
| "parse_access_rules triples (accessTriple # rest) =
     (case parseACPRuleFromTriples triples accessTriple of
        Inl err \<Rightarrow> Inl err
      | Inr rule \<Rightarrow> case parse_access_rules triples rest of Inl err \<Rightarrow> Inl err | Inr rules \<Rightarrow> Inr (rule # rules))"

definition acp_policy_step :: "RDFTriple \<Rightarrow> ACPPolicy \<Rightarrow> ACPPolicy" where
  "acp_policy_step triple policy =
     (if Contains (tr_Predicate triple) ''appliesTo'' then policy\<lparr>ay_ResourceURI := TrimSpace (tr_Object triple)\<rparr>
      else if Contains (tr_Predicate triple) ''inherit'' then
        policy\<lparr>ay_Inherit := (ToLower (TrimSpace (tr_Object triple)) = ''true'')\<rparr>
      else policy)"

definition extractPolicyFromTriples :: "RDFTriple list \<Rightarrow> string \<Rightarrow> ACPPolicy result" where
  "extractPolicyFromTriples triples policyURI =
     (let policy = fold acp_policy_step (ACP_findTriplesForSubject triples policyURI)
            \<lparr>ay_ResourceURI = policyURI, ay_PolicyURI = policyURI, ay_Rules = [], ay_Owner = [], ay_Inherit = True\<rparr>
      in case parse_access_rules triples (findAccessTriples triples policyURI) of
           Inl err \<Rightarrow> Inl err
         | Inr rules \<Rightarrow> Inr (policy\<lparr>ay_Rules := ay_Rules policy @ rules\<rparr>))"

primrec extract_policies_loop :: "RDFTriple list \<Rightarrow> string list \<Rightarrow> ACPPolicy list result" where
  "extract_policies_loop triples [] = Inr []"
| "extract_policies_loop triples (policyURI # uris) =
     (case extractPolicyFromTriples triples policyURI of
        Inl err \<Rightarrow> Inl err
      | Inr policy \<Rightarrow>
          case extract_policies_loop triples uris of Inl err \<Rightarrow> Inl err | Inr policies \<Rightarrow> Inr (policy # policies))"

definition extractACPPoliciesFromTriples :: "goerr \<Rightarrow> RDFTriple list \<Rightarrow> ACPPolicy list result" where
  "extractACPPoliciesFromTriples ctxErr triples =
     (case ctxErr of
        Some err \<Rightarrow> Inl err
      | None \<Rightarrow> extract_policies_loop triples (findPolicyURIs triples))"

definition validateACPRule :: "ACPRule \<Rightarrow> goerr" where
  "validateACPRule rule =
     (let access = ar_Access rule in
      if aa_AccessTo access = [] then Some (wrapf ErrACPInvalidRule ''missing accessTo'')
      else if aa_Agent access = [] \<and> aa_AgentClass access = [] then Some (wrapf ErrACPInvalidRule ''missing agent or agentClass'')
      else if length (aa_Modes access) = 0 then Some (wrapf ErrACPInvalidRule ''missing modes'')
      else if \<not> validWACResourceURI (aa_AccessTo access) then Some (wrapf ErrACPInvalidRule ''invalid accessTo URI'')
      else if aa_Agent access \<noteq> [] \<and> \<not> validWACResourceURI (aa_Agent access) then Some (wrapf ErrACPInvalidRule ''invalid agent URI'')
      else if aa_Origin access \<noteq> [] \<and> \<not> validWACResourceURI (aa_Origin access) then Some (wrapf ErrACPInvalidRule ''invalid origin URI'')
      else if aa_AgentClass access \<noteq> [] \<and> containsControlRune (aa_AgentClass access) then
        Some (wrapf ErrACPInvalidRule ''agentClass contains control characters'')
      else None)"

primrec validate_acp_rules :: "ACPRule list \<Rightarrow> goerr" where
  "validate_acp_rules [] = None"
| "validate_acp_rules (rule # rules) =
     (case validateACPRule rule of Some err \<Rightarrow> Some err | None \<Rightarrow> validate_acp_rules rules)"

definition validateACPPolicy :: "ACPPolicy \<Rightarrow> goerr" where
  "validateACPPolicy policy =
     (if ay_PolicyURI policy = [] then Some (wrapf ErrACPInvalidRule ''missing policy URI'')
      else if \<not> validWACResourceURI (ay_PolicyURI policy) then Some (wrapf ErrACPInvalidRule ''invalid policy URI'')
      else if ay_ResourceURI policy \<noteq> [] \<and> \<not> validWACResourceURI (ay_ResourceURI policy) then
        Some (wrapf ErrACPInvalidRule ''invalid resource URI'')
      else validate_acp_rules (ay_Rules policy))"

primrec validate_acp_policies :: "ACPPolicy list \<Rightarrow> goerr" where
  "validate_acp_policies [] = None"
| "validate_acp_policies (policy # policies) =
     (case validateACPPolicy policy of Some err \<Rightarrow> Some err | None \<Rightarrow> validate_acp_policies policies)"

text \<open>Unlike the WAC parser this one also asks the context at the start (\<open>ctxErr\<close>); \<open>ctxErr'\<close> is the
  context's state after the content has been parsed.\<close>

definition ACP_Parse :: "ACPParser \<Rightarrow> goerr \<Rightarrow> goerr \<Rightarrow> string \<Rightarrow> string \<Rightarrow> RDFParseResult result" where
  "ACP_Parse p ctxErr ctxErr' content contentType =
     (if ao_Timeout (ap_options p) > 0 \<and> ctxErr \<noteq> None then Inl (the ctxErr)
      else case ValidateRDFInputSize content of
        Some err \<Rightarrow> Inl err
      | None \<Rightarrow>
          case Registry_Parse (ap_rdfParser p) content contentType of
            Inl err \<Rightarrow> Inl (wrap2 ErrACPParseFailed err)
          | Inr rdfResult \<Rightarrow>
              case extractACPPoliciesFromTriples ctxErr' (rp_Triples rdfResult) of
                Inl err \<Rightarrow> Inl (wrap2 ErrACPParseFailed err)
              | Inr policies \<Rightarrow>
                  let totalRules = sum_list (map (\<lambda>policy. int (length (ay_Rules policy))) policies) in
                  if totalRules > ao_MaxRules (ap_options p) then
                    Inl (wrapf ErrACPParseFailed (''too many ACP rules ('' @ FormatInt totalRules @ '' > ''
                      @ FormatInt (ao_MaxRules (ap_options p)) @ '')''))
                  else case validate_acp_policies policies of
                    Some err \<Rightarrow> Inl (wrap2 ErrACPParseFailed err)
                  | None \<Rightarrow>
                      Inr \<lparr>rp_Triples = rp_Triples rdfResult, rp_NamedGraphs = rp_NamedGraphs rdfResult,
                           rp_BaseURI = rp_BaseURI rdfResult, rp_ContentType = contentType, rp_SHA256 = sha256Hex content\<rparr>)"

definition filterPoliciesForResource :: "RDFParseResult \<Rightarrow> string \<Rightarrow> ACPPolicy list" where
  "filterPoliciesForResource rdfResult resourceURI = []"

definition ParseACPPolicy :: "ACPParser \<Rightarrow> goerr \<Rightarrow> goerr \<Rightarrow> string \<Rightarrow> string \<Rightarrow> string \<Rightarrow> ACPPolicy result" where
  "ParseACPPolicy p ctxErr ctxErr' content contentType resourceURI =
     (case ACP_Parse p ctxErr ctxErr' content contentType of
        Inl err \<Rightarrow> Inl err
      | Inr rdfResult \<Rightarrow>
          case filterPoliciesForResource rdfResult resourceURI of
            [] \<Rightarrow> Inl (wrapf ErrACPParseFailed (''no ACP policy found for resource '' @ resourceURI))
          | policy # _ \<Rightarrow> Inr policy)"

section \<open>The evaluator\<close>

record ACPEvaluatorOptions =
  ae_Parser :: "ACPParser option"
  ae_MaxPolicies :: int
  ae_Timeout :: duration
  ae_ShadowMode :: bool
  ae_EnforcementMode :: bool

definition DefaultACPEvaluatorOptions :: ACPEvaluatorOptions where
  "DefaultACPEvaluatorOptions =
     \<lparr>ae_Parser = None, ae_MaxPolicies = 10, ae_Timeout = 30 * second, ae_ShadowMode = True, ae_EnforcementMode = False\<rparr>"

record ACPEvaluator =
  av_options :: ACPEvaluatorOptions
  av_parser :: ACPParser
  av_RDFParser :: "RDFParserRegistry option"
  av_shadowMode :: bool
  av_enforcementMode :: bool

definition NewACPEvaluator :: "ACPEvaluatorOptions \<Rightarrow> RDFParserRegistry option \<Rightarrow> ACPEvaluator result" where
  "NewACPEvaluator options rdfParser =
     (case (case ae_Parser options of
              Some parser \<Rightarrow> Inr parser
            | None \<Rightarrow> NewACPParser DefaultACPParserOptions rdfParser) of
        Inl err \<Rightarrow> Inl (Errorf ''failed to create ACP parser: '' err [])
      | Inr parser \<Rightarrow>
          let options = options\<lparr>ae_Parser := Some parser\<rparr>;
              options = (if ae_MaxPolicies options = 0 then options\<lparr>ae_MaxPolicies := 10\<rparr> else options);
              options = (if ae_Timeout options = 0 then options\<lparr>ae_Timeout := 30 * second\<rparr> else options)
          in Inr \<lparr>av_options = options, av_parser = parser, av_RDFParser = rdfParser,
                  av_shadowMode = ae_ShadowMode options, av_enforcementMode = ae_EnforcementMode options\<rparr>)"

definition isACPContentType :: "string \<Rightarrow> bool" where
  "isACPContentType contentType =
     (let contentType = ToLower (TrimSpace contentType) in
      if contentType \<in> set ACP_SupportedContentTypes then True
      else if Contains contentType ''turtle'' \<or> Contains contentType ''json'' then True
      else False)"

definition acp_access :: "string \<Rightarrow> string \<Rightarrow> AccessMode list \<Rightarrow> ACPAccess" where
  "acp_access accessTo agent modes =
     \<lparr>aa_AccessTo = accessTo, aa_Allows = True, aa_Agent = agent, aa_AgentClass = [], aa_Modes = modes,
      aa_Origin = [], aa_Inherit = False\<rparr>"

definition ACP_createSampleRulesForResource :: "string \<Rightarrow> ACPRule list" where
  "ACP_createSampleRulesForResource resourceURI =
     (let baseURI = (if HasSuffix resourceURI ''.acl'' then TrimSuffix resourceURI ''.acl'' else resourceURI);
          ownerWebID = ''https://example.org/owner#webid'';
          publicAgent = ''https://www.w3.org/ns/solid/interop#PublicAgent''
      in [\<lparr>ar_Access = acp_access baseURI ownerWebID [AccessModeRead, AccessModeWrite, AccessModeControl, AccessModeAppend],
           ar_Resource = baseURI, ar_Policy = baseURI @ ''.acl''\<rparr>,
          \<lparr>ar_Access = acp_access baseURI publicAgent [AccessModeRead],
           ar_Resource = baseURI, ar_Policy = baseURI @ ''.acl''\<rparr>])"

definition ACP_createPolicyFromDocument :: "PolicyDocument \<Rightarrow> ACPPolicy result" where
  "ACP_createPolicyFromDocument doc =
     Inr \<lparr>ay_ResourceURI = pd_URI doc, ay_PolicyURI = pd_URI doc,
          ay_Rules = ACP_createSampleRulesForResource (pd_URI doc), ay_Owner = [], ay_Inherit = False\<rparr>"

definition ErrACPEvaluationFailed :: goerror where
  "ErrACPEvaluationFailed = ErrorsNew ''ACP evaluation failed''"

primrec ACP_parsePoliciesFromDocuments :: "PolicyDocument list \<Rightarrow> ACPPolicy list result" where
  "ACP_parsePoliciesFromDocuments [] = Inr []"
| "ACP_parsePoliciesFromDocuments (doc # documents) =
     (if \<not> isACPContentType (pd_ContentType doc) then ACP_parsePoliciesFromDocuments documents
      else case ACP_createPolicyFromDocument doc of
        Inl err \<Rightarrow> Inl (Errorf2 [] ErrACPEvaluationFailed ('': failed to parse policy '' @ pd_URI doc @ '': '') err [])
      | Inr policy \<Rightarrow>
          case ACP_parsePoliciesFromDocuments documents of
            Inl err \<Rightarrow> Inl err
          | Inr policies \<Rightarrow> Inr (policy # policies))"

definition ACP_ruleMatchesRequest :: "ACPRule \<Rightarrow> Request \<Rightarrow> bool" where
  "ACP_ruleMatchesRequest rule request =
     (if aa_AccessTo (ar_Access rule) \<noteq> rq_ResourceURI request then False
      else if aa_Agent (ar_Access rule) \<noteq> [] \<and> aa_Agent (ar_Access rule) \<noteq> rq_AgentWebID request then False
      else if aa_AgentClass (ar_Access rule) \<noteq> [] then False
      else True)"

definition ACP_ruleAllowsModes :: "ACPRule \<Rightarrow> AccessMode list \<Rightarrow> bool" where
  "ACP_ruleAllowsModes rule requestedModes =
     (if \<not> aa_Allows (ar_Access rule) then False
      else if length (aa_Modes (ar_Access rule)) = 0 then True
      else list_all (\<lambda>requestedMode. list_ex (\<lambda>ruleMode. ruleMode = requestedMode) (aa_Modes (ar_Access rule))) requestedModes)"

fun ACP_first_allowing :: "Request \<Rightarrow> ACPRule list \<Rightarrow> verdict" where
  "ACP_first_allowing request [] = (DecisionDeny, ReasonPolicyDeny, 403)"
| "ACP_first_allowing request (rule # rules) =
     (if ACP_ruleMatchesRequest rule request then
        if ACP_ruleAllowsModes rule (rq_RequestedModes request) then (DecisionAllow, ReasonPolicyAllow, 200)
        else ACP_first_allowing request rules
      else ACP_first_allowing request rules)"

definition ACP_decide :: "Request \<Rightarrow> ACPRule list \<Rightarrow> verdict" where
  "ACP_decide request allRules =
     (if length allRules = 0 then (DecisionAbstain, ReasonPolicyNotLoaded, 0)
      else if rq_AgentWebID request = [] then (DecisionAbstain, ReasonPolicyNotLoaded, 0)
      else ACP_first_allowing request allRules)"

definition ACP_evaluateRequestAgainstPolicies :: "Request \<Rightarrow> ACPPolicy list \<Rightarrow> verdict" where
  "ACP_evaluateRequestAgainstPolicies request policies = ACP_decide request (concat (map ay_Rules policies))"

definition ACP_Evaluate :: "goerr \<Rightarrow> ACPEvaluator \<Rightarrow> Request \<Rightarrow> Decision result" where
  "ACP_Evaluate ctxErr e request =
     (if ae_Timeout (av_options e) > 0 \<and> ctxErr \<noteq> None then Inl (the ctxErr)
      else
        let audit = AuditForRequest request in
        if rq_SchemaVersion request \<noteq> SchemaVersion then
          Inr (shadowDecision request audit DecisionDeny ReasonUnsupportedSchema httpBadRequestStatus)
        else if \<not> validToken (rq_RequestID request) 128 \<or> \<not> supportedMethod (rq_Method request) then
          Inr (shadowDecision request audit DecisionDeny ReasonInvalidRequest httpBadRequestStatus)
        else if length (rq_RequestedModes request) = 0 then
          Inr (shadowDecision request audit DecisionDeny ReasonMissingRequestedModes httpBadRequestStatus)
        else if \<not> validResourceURI (rq_ResourceURI request) then
          Inr (shadowDecision request audit DecisionDeny ReasonUnsafeResourceURI httpBadRequestStatus)
        else if ValidateRequest request \<noteq> None then
          Inr (shadowDecision request audit DecisionDeny ReasonInvalidRequest httpBadRequestStatus)
        else if length (rq_PolicyDocuments request) = 0 then
          Inr (shadowDecision request audit DecisionAbstain ReasonPolicyNotLoaded 0)
        else if int (length (rq_PolicyDocuments request)) > ae_MaxPolicies (av_options e) then
          Inr (shadowDecision request audit DecisionAbstain ReasonPolicyNotLoaded 0)
        else case ACP_parsePoliciesFromDocuments (rq_PolicyDocuments request) of
          Inl err \<Rightarrow> Inr (shadowDecision request audit DecisionAbstain ReasonPolicyNotLoaded 0)
        | Inr policies \<Rightarrow>
            case ACP_evaluateRequestAgainstPolicies request policies of (decisionValue, reasonCode, statusHint) \<Rightarrow>
              if av_shadowMode e then Inr (shadowDecision request audit DecisionAbstain ReasonKernelAbstainShadowMode 0)
              else Inr (shadowDecision request audit decisionValue reasonCode statusHint))"

section \<open>The contracts\<close>

definition acp_doc_rules :: "PolicyDocument \<Rightarrow> ACPRule list" where
  "acp_doc_rules doc = (if isACPContentType (pd_ContentType doc) then ACP_createSampleRulesForResource (pd_URI doc) else [])"

lemma ACP_first_allowing_eq:
  "ACP_first_allowing q rules =
     (if \<exists>r\<in>set rules. ACP_ruleMatchesRequest r q \<and> ACP_ruleAllowsModes r (rq_RequestedModes q)
      then (DecisionAllow, ReasonPolicyAllow, 200) else (DecisionDeny, ReasonPolicyDeny, 403))"
  by (induction rules) auto

interpretation acp_rules: rule_decision ACP_ruleMatchesRequest ACP_ruleAllowsModes ACP_decide
  by unfold_locales (auto simp: ACP_decide_def ACP_first_allowing_eq)

lemma acp_parsePolicies_rules:
  "\<exists>policies. ACP_parsePoliciesFromDocuments docs = Inr policies
     \<and> concat (map ay_Rules policies) = concat (map acp_doc_rules docs)"
proof (induction docs)
  case (Cons doc docs)
  then obtain policies where "ACP_parsePoliciesFromDocuments docs = Inr policies"
    "concat (map ay_Rules policies) = concat (map acp_doc_rules docs)" by blast
  then show ?case by (simp add: acp_doc_rules_def [of doc] ACP_createPolicyFromDocument_def)
qed simp

interpretation acp: policy_evaluator ACP_ruleMatchesRequest ACP_ruleAllowsModes ACP_decide acp_doc_rules
  "\<lambda>e. ae_MaxPolicies (av_options e)" av_shadowMode "\<lambda>e. ae_Timeout (av_options e)" ACP_Evaluate
proof unfold_locales
  fix e :: ACPEvaluator and ctx :: goerr and q :: Request
  assume run: "ae_Timeout (av_options e) \<le> 0 \<or> ctx = None"
  obtain policies where p: "ACP_parsePoliciesFromDocuments (rq_PolicyDocuments q) = Inr policies"
    "concat (map ay_Rules policies) = concat (map acp_doc_rules (rq_PolicyDocuments q))"
    using acp_parsePolicies_rules by blast
  have notimeout: "\<not> (ae_Timeout (av_options e) > 0 \<and> ctx \<noteq> None)" using run by auto
  show "ACP_Evaluate ctx e q = Inr (answer q (evaluation ACP_decide acp_doc_rules (ae_MaxPolicies (av_options e)) (av_shadowMode e) q))"
    using notimeout unfolding ACP_Evaluate_def
    by (simp add: evaluation_def precheck_def answer_def p ACP_evaluateRequestAgainstPolicies_def split_beta Let_def)
qed (simp add: ACP_Evaluate_def)

section \<open>The parser against its declarative reading\<close>

lemma bex_UN: "(\<exists>x\<in>(\<Union>a\<in>A. B a). P x) \<longleftrightarrow> (\<exists>a\<in>A. \<exists>x\<in>B a. P x)"
  by blast

definition is_policy :: "RDFTriple list \<Rightarrow> string \<Rightarrow> bool" where
  "is_policy triples a \<longleftrightarrow>
     a \<noteq> [] \<and> (\<exists>t\<in>set triples. TrimSpace (tr_Subject t) = a \<and> Contains (tr_Predicate t) ''type'' \<and> Contains (tr_Object t) ''Policy'')"

lemma Contains_acp: "Contains s ''acp:Policy'' \<Longrightarrow> Contains s ''Policy''"
  by (auto simp: Contains_conv) (metis append.assoc append_Cons append_Nil)

lemma findPolicyURIs_loop_set:
  "set (findPolicyURIs_loop seen triples) = {a. is_policy triples a} - seen \<and> distinct (findPolicyURIs_loop seen triples)"
proof (induction seen triples rule: findPolicyURIs_loop.induct)
  case (2 seen t ts)
  let ?typed = "Contains (tr_Predicate t) ''type'' \<and> (Contains (tr_Object t) ''acp:Policy'' \<or> Contains (tr_Object t) ''Policy'')"
  have step: "is_policy (t # ts) a \<longleftrightarrow> is_policy ts a \<or> ?typed \<and> a = TrimSpace (tr_Subject t) \<and> a \<noteq> []" for a
    using Contains_acp [of "tr_Object t"] by (auto simp: is_policy_def)
  show ?case
  proof (cases "?typed \<and> TrimSpace (tr_Subject t) \<noteq> [] \<and> TrimSpace (tr_Subject t) \<notin> seen")
    case True
    with "2.IH"(1) show ?thesis by (auto simp: step Let_def)
  next
    case False
    then have eq: "findPolicyURIs_loop seen (t # ts) = findPolicyURIs_loop seen ts" by (auto simp: Let_def)
    have "set (findPolicyURIs_loop seen ts) = {a. is_policy ts a} - seen \<and> distinct (findPolicyURIs_loop seen ts)"
      using False "2.IH"(2,3) by (cases ?typed) auto
    with False show ?thesis unfolding eq by (auto simp: step)
  qed
qed (simp add: is_policy_def)

text \<open>What an access triple states: the node it points to gives resource, agent and modes, its
  predicate tells allow from deny.\<close>

definition acp_modes_in :: "RDFTriple list \<Rightarrow> AccessMode list" where
  "acp_modes_in ts = filter (\<lambda>m. m \<noteq> []) (map (\<lambda>t. ACP_parseAccessMode (tr_Object t))
     (filter (\<lambda>t. Contains (tr_Predicate t) ''mode'') ts))"

definition states_rule :: "RDFTriple list \<Rightarrow> RDFTriple \<Rightarrow> ACPRule \<Rightarrow> bool" where
  "states_rule triples a rule \<longleftrightarrow>
     (let ts = ACP_findTriplesForSubject triples (TrimSpace (tr_Object a)); acc = ar_Access rule in
      aa_Allows acc = (\<not> Contains (tr_Predicate a) ''deny'') \<and> ar_Policy rule = tr_Subject a
      \<and> aa_AccessTo acc = last_object (\<lambda>p. Contains p ''appliesTo'' \<or> Contains p ''accessTo'') ts
      \<and> aa_Agent acc = last_object (\<lambda>p. Contains p ''agent'' \<and> \<not> Contains p ''agentClass'') ts
      \<and> aa_AgentClass acc = last_object (\<lambda>p. Contains p ''agentClass'') ts
      \<and> aa_Modes acc = acp_modes_in ts
      \<and> aa_AccessTo acc \<noteq> [] \<and> (aa_Agent acc \<noteq> [] \<or> aa_AgentClass acc \<noteq> []))"

lemma acp_access_step_fields:
  assumes "TrimSpace (tr_Subject t) = TrimSpace node"
  shows "aa_Allows (ar_Access (acp_access_step node t r)) = aa_Allows (ar_Access r)"
    "ar_Policy (acp_access_step node t r) = ar_Policy r"
    "aa_AccessTo (ar_Access (acp_access_step node t r)) =
       (if Contains (tr_Predicate t) ''appliesTo'' \<or> Contains (tr_Predicate t) ''accessTo'' then TrimSpace (tr_Object t)
        else aa_AccessTo (ar_Access r))"
    "aa_Agent (ar_Access (acp_access_step node t r)) =
       (if Contains (tr_Predicate t) ''agent'' \<and> \<not> Contains (tr_Predicate t) ''agentClass'' then TrimSpace (tr_Object t)
        else aa_Agent (ar_Access r))"
    "aa_AgentClass (ar_Access (acp_access_step node t r)) =
       (if Contains (tr_Predicate t) ''agentClass'' then TrimSpace (tr_Object t) else aa_AgentClass (ar_Access r))"
    "aa_Modes (ar_Access (acp_access_step node t r)) = aa_Modes (ar_Access r)
       @ (if Contains (tr_Predicate t) ''mode'' \<and> ACP_parseAccessMode (tr_Object t) \<noteq> [] then [ACP_parseAccessMode (tr_Object t)] else [])"
  using assms by (simp_all add: acp_access_step_def Let_def)

lemma acp_access_fold:
  fixes r0 :: ACPRule and node :: string
  defines "acc ts \<equiv> ar_Access (fold (acp_access_step node) ts r0)"
  assumes "aa_AccessTo (ar_Access r0) = []" "aa_Agent (ar_Access r0) = []" "aa_AgentClass (ar_Access r0) = []" "aa_Modes (ar_Access r0) = []"
  shows "aa_Allows (acc ts) = aa_Allows (ar_Access r0) \<and> ar_Policy (fold (acp_access_step node) ts r0) = ar_Policy r0
    \<and> aa_AccessTo (acc ts) = last_object (\<lambda>p. Contains p ''appliesTo'' \<or> Contains p ''accessTo'') (ACP_findTriplesForSubject ts (TrimSpace node))
    \<and> aa_Agent (acc ts) = last_object (\<lambda>p. Contains p ''agent'' \<and> \<not> Contains p ''agentClass'') (ACP_findTriplesForSubject ts (TrimSpace node))
    \<and> aa_AgentClass (acc ts) = last_object (\<lambda>p. Contains p ''agentClass'') (ACP_findTriplesForSubject ts (TrimSpace node))
    \<and> aa_Modes (acc ts) = acp_modes_in (ACP_findTriplesForSubject ts (TrimSpace node))"
proof (induction ts rule: rev_induct)
  case Nil
  then show ?case using assms(2-5) by (simp add: acc_def ACP_findTriplesForSubject_def acp_modes_in_def)
next
  case (snoc t ts)
  show ?case
  proof (cases "TrimSpace (tr_Subject t) = TrimSpace node")
    case True
    then have "ACP_findTriplesForSubject (ts @ [t]) (TrimSpace node) = ACP_findTriplesForSubject ts (TrimSpace node) @ [t]"
      by (simp add: ACP_findTriplesForSubject_def)
    moreover have "acp_modes_in (us @ [t]) = acp_modes_in us
       @ (if Contains (tr_Predicate t) ''mode'' \<and> ACP_parseAccessMode (tr_Object t) \<noteq> [] then [ACP_parseAccessMode (tr_Object t)] else [])" for us
      by (simp add: acp_modes_in_def)
    ultimately show ?thesis using snoc True by (simp add: acc_def acp_access_step_fields)
  next
    case False
    then have "ACP_findTriplesForSubject (ts @ [t]) (TrimSpace node) = ACP_findTriplesForSubject ts (TrimSpace node)"
      "acp_access_step node t r = r" for r
      by (simp_all add: ACP_findTriplesForSubject_def acp_access_step_def)
    with snoc show ?thesis by (simp add: acc_def)
  qed
qed

lemma parseACPRule_sound:
  "case parseACPRuleFromTriples triples a of
     Inl err \<Rightarrow> errors_Is err ErrACPMissingRequiredField
   | Inr rule \<Rightarrow> states_rule triples a rule"
proof -
  define r0 where "r0 = \<lparr>ar_Access = \<lparr>aa_AccessTo = [], aa_Allows = \<not> Contains (tr_Predicate a) ''deny'', aa_Agent = [], aa_AgentClass = [],
      aa_Modes = [], aa_Origin = [], aa_Inherit = False\<rparr>, ar_Resource = [], ar_Policy = tr_Subject a\<rparr>"
  have "parseACPRuleFromTriples triples a =
     (let rule = fold (acp_access_step (tr_Object a)) triples r0 in
      if aa_AccessTo (ar_Access rule) = [] then Inl (wrapf ErrACPMissingRequiredField ''missing accessTo'')
      else if aa_Agent (ar_Access rule) = [] \<and> aa_AgentClass (ar_Access rule) = [] then
        Inl (wrapf ErrACPMissingRequiredField ''missing agent or agentClass'')
      else Inr rule)"
    by (simp add: parseACPRuleFromTriples_def r0_def Let_def)
  moreover have "aa_AccessTo (ar_Access r0) = []" "aa_Agent (ar_Access r0) = []" "aa_AgentClass (ar_Access r0) = []"
    "aa_Modes (ar_Access r0) = []" "aa_Allows (ar_Access r0) = (\<not> Contains (tr_Predicate a) ''deny'')" "ar_Policy r0 = tr_Subject a"
    by (simp_all add: r0_def)
  moreover note acp_access_fold [OF this(1-4), of "tr_Object a" triples]
  ultimately show ?thesis by (simp add: states_rule_def Let_def)
qed

lemma parse_access_rules_sound:
  "case parse_access_rules triples as of
     Inl err \<Rightarrow> errors_Is err ErrACPMissingRequiredField
   | Inr rules \<Rightarrow> list_all2 (states_rule triples) as rules"
proof (induction as)
  case (Cons a as)
  then show ?case using parseACPRule_sound [of triples a] by (auto split: sum.splits)
qed simp

lemma acp_policy_step_uri: "ay_PolicyURI (acp_policy_step t p) = ay_PolicyURI p" "ay_Rules (acp_policy_step t p) = ay_Rules p"
  by (simp_all add: acp_policy_step_def)

lemma acp_policy_fold_uri:
  "ay_PolicyURI (fold acp_policy_step ts p) = ay_PolicyURI p" "ay_Rules (fold acp_policy_step ts p) = ay_Rules p"
  by (induction ts arbitrary: p) (simp_all add: acp_policy_step_uri)

lemma extract_policies_sound:
  "case extract_policies_loop triples us of
     Inl err \<Rightarrow> errors_Is err ErrACPMissingRequiredField
   | Inr policies \<Rightarrow> map ay_PolicyURI policies = us
       \<and> (\<forall>p\<in>set policies. list_all2 (states_rule triples) (findAccessTriples triples (ay_PolicyURI p)) (ay_Rules p))"
proof (induction us)
  case (Cons u us)
  have "case extractPolicyFromTriples triples u of
      Inl err \<Rightarrow> errors_Is err ErrACPMissingRequiredField
    | Inr p \<Rightarrow> ay_PolicyURI p = u \<and> list_all2 (states_rule triples) (findAccessTriples triples u) (ay_Rules p)"
    using parse_access_rules_sound [of triples "findAccessTriples triples u"]
    by (auto simp: extractPolicyFromTriples_def Let_def acp_policy_fold_uri split: sum.splits)
  with Cons show ?case by (auto split: sum.splits)
qed simp

section \<open>Properties\<close>


lemma acp_simple_rule:
  "a \<noteq> [] \<Longrightarrow> ACP_ruleMatchesRequest \<lparr>ar_Access = acp_access b a ms, ar_Resource = x, ar_Policy = y\<rparr> q
     \<longleftrightarrow> b = rq_ResourceURI q \<and> rq_AgentWebID q = a"
  "ms \<noteq> [] \<Longrightarrow> ACP_ruleAllowsModes \<lparr>ar_Access = acp_access b a ms, ar_Resource = x, ar_Policy = y\<rparr> modes \<longleftrightarrow> set modes \<subseteq> set ms"
  by (auto simp: ACP_ruleMatchesRequest_def ACP_ruleAllowsModes_def acp_access_def list_all_iff list_ex_iff)


text \<open>
  Both parsers read access modes alike, they read every mode IRI, whatever its namespace and in
  any letter case, and whatever they read is a valid access mode or nothing.
\<close>

theorem parseAccessMode_reads_iris:
  assumes "ToLower name = m" and "validAccessMode m"
  shows "WAC_parseAccessMode (''<'' @ ns @ ''#'' @ name @ ''>'') = m
    \<and> ACP_parseAccessMode s = WAC_parseAccessMode s
    \<and> (WAC_parseAccessMode s = [] \<or> validAccessMode (WAC_parseAccessMode s))"
proof -
  let ?s = "''<'' @ ns @ ''#'' @ name @ ''>''"
  have trim: "TrimSpace ?s = ?s" by (rule TrimSpace_id) (simp add: is_space_def)
  have lower: "ToLower ?s = ''<'' @ ToLower ns @ ''#'' @ m @ ''>''"
    using assms(1) by (auto simp: ToLower_def lower_char_def is_upper_def less_eq_char_def)
  have chars: "CHR ''#'' \<notin> set m" "CHR ''/'' \<notin> set m" "CHR '':'' \<notin> set m"
    using assms(2) by (auto simp: validAccessMode_def AccessMode_defs)
  have "last_segment ?s = m"
  proof -
    have "take (length (''<'' @ ToLower ns @ ''#'' @ m @ ''>'') - 2) (drop 1 (''<'' @ ToLower ns @ ''#'' @ m @ ''>'')) = ToLower ns @ CHR ''#'' # m"
      by simp
    moreover have "HasPrefix (''<'' @ ToLower ns @ ''#'' @ m @ ''>'') ''<''" by simp
    moreover have "HasSuffix (''<'' @ ToLower ns @ ''#'' @ m @ ''>'') ''>''" by (simp add: HasSuffix_conv)
    moreover have "\<not> Contains m '':''" using chars(3) by (auto simp: Contains_conv)
    ultimately show ?thesis using chars unfolding last_segment_def trim lower Let_def by simp
  qed
  then have "WAC_parseAccessMode ?s = m" using assms(2) by (auto simp: WAC_parseAccessMode_def validAccessMode_def AccessMode_defs)
  then show ?thesis
    by (auto simp: WAC_parseAccessMode_def ACP_parseAccessMode_def Let_def validAccessMode_def)
qed

section \<open>Deviations from the stated intent\<close>

text \<open>A rule that denies access has no effect on the decision over the other rules.\<close>

lemma acp_deny_rule_ignored:
  "\<not> aa_Allows (ar_Access r) \<Longrightarrow> rules \<noteq> [] \<Longrightarrow> ACP_decide q (r # rules) = ACP_decide q rules"
  by (simp add: ACP_decide_def ACP_ruleAllowsModes_def)

text \<open>\<open>ParseACPPolicy\<close> fails on every document.\<close>

lemma ParseACPPolicy_always_fails: "\<exists>err. ParseACPPolicy p c c' content ct uri = Inl err"
  by (simp add: ParseACPPolicy_def filterPoliciesForResource_def split: sum.split)

section \<open>Witnesses\<close>

definition sample_acp_triples :: "RDFTriple list" where
  "sample_acp_triples =
     (let t = (\<lambda>s p obj. sample_triple\<lparr>tr_Subject := s, tr_Predicate := p, tr_Object := obj\<rparr>);
          p = ''https://p.example/.acp#p''; n = ''https://p.example/.acp#n'' in
      [t p ''rdf:type'' ''acp:Policy'', t p ''acp:deny'' n, t n ''acp:accessTo'' ''https://p.example/a'',
       t n ''acp:agent'' ''https://alice.example/#me'', t n ''acp:mode'' ''acl:Write''])"

lemma sample_acp_extract: "\<not> isl (extractACPPoliciesFromTriples None sample_acp_triples)"
  by code_simp


definition sample_acp_evaluator :: ACPEvaluator where
  "sample_acp_evaluator = projr (NewACPEvaluator (DefaultACPEvaluatorOptions\<lparr>ae_ShadowMode := False\<rparr>)
     (Some (NewRDFParserRegistry DefaultRDFParserOptions)))"


theorem parseAccessMode_reads_iris_witness:
  "WAC_parseAccessMode ''<http://www.w3.org/ns/auth/acl#Append>'' = AccessModeAppend"
proof -
  have "ToLower ''Append'' = AccessModeAppend" "validAccessMode AccessModeAppend" by code_simp+
  from parseAccessMode_reads_iris [OF this, of "''http://www.w3.org/ns/auth/acl''"] show ?thesis by simp
qed

end
