(* ===== verification/Storage_Core.thy ===== *)
theory Storage_Core
  imports Go_Sha256 Go_Text
begin

text \<open>
  The types and utilities of the storage package (\<open>internal/storage/interface.go\<close> and
  \<open>internal/storage/utils.go\<close>): digests and ETags, the validation of URIs, tenants, content types,
  sizes, addresses and tombstones, the size estimates of the quota accounting, and the sanitising
  of error messages.

  A \<open>[]byte\<close> that may be \<open>nil\<close> is a \<^typ>\<open>string option\<close>. A body reader is the result of reading it to
  the end. \<open>errors.New\<close> values are told apart by their text, which is different for all of them.

  The main results: a validated URI is never empty and has no trailing slash, and validation is the
  identity on normal URIs; no text after a credential marker survives sanitising.
\<close>

section \<open>Errors\<close>

definition ErrNotFound :: goerror where
  "ErrNotFound = ErrorsNew ''resource not found''"

definition ErrAlreadyExists :: goerror where
  "ErrAlreadyExists = ErrorsNew ''resource already exists''"

definition ErrPreconditionFailed :: goerror where
  "ErrPreconditionFailed = ErrorsNew ''precondition failed''"

definition ErrConflict :: goerror where
  "ErrConflict = ErrorsNew ''conflict''"

definition ErrQuotaExceeded :: goerror where
  "ErrQuotaExceeded = ErrorsNew ''quota exceeded''"

definition ErrStorageClosed :: goerror where
  "ErrStorageClosed = ErrorsNew ''storage is closed''"

definition ErrInvalidURI :: goerror where
  "ErrInvalidURI = ErrorsNew ''invalid URI''"

definition ErrInvalidContentType :: goerror where
  "ErrInvalidContentType = ErrorsNew ''invalid content type''"

definition ErrBackendUnavailable :: goerror where
  "ErrBackendUnavailable = ErrorsNew ''backend unavailable''"

definition ErrIntegrityViolation :: goerror where
  "ErrIntegrityViolation = ErrorsNew ''integrity violation''"

definition ErrURITooLong :: goerror where
  "ErrURITooLong = ErrorsNew ''URI exceeds maximum length''"

definition ErrBodyTooLarge :: goerror where
  "ErrBodyTooLarge = ErrorsNew ''body exceeds maximum size''"

definition ErrMetadataTooLarge :: goerror where
  "ErrMetadataTooLarge = ErrorsNew ''metadata exceeds maximum size''"

definition ErrEmptyURI :: goerror where
  "ErrEmptyURI = ErrorsNew ''URI cannot be empty''"

definition ErrNilTombstone :: goerror where
  "ErrNilTombstone = ErrorsNew ''tombstone cannot be nil''"

definition ErrNilContext :: goerror where
  "ErrNilContext = ErrorsNew ''context cannot be nil''"

lemmas storage_errors = ErrNotFound_def ErrAlreadyExists_def ErrPreconditionFailed_def
  ErrConflict_def ErrQuotaExceeded_def ErrStorageClosed_def ErrInvalidURI_def
  ErrInvalidContentType_def ErrBackendUnavailable_def ErrIntegrityViolation_def ErrURITooLong_def
  ErrBodyTooLarge_def ErrMetadataTooLarge_def ErrEmptyURI_def ErrNilTombstone_def ErrNilContext_def

section \<open>Data\<close>

text \<open>A context is only compared with \<open>nil\<close> by the storage code.\<close>

type_synonym gocontext = "unit option"

type_synonym ResourceType = string

definition ResourceTypeUnknown :: ResourceType where
  "ResourceTypeUnknown = ''Unknown''"

definition ResourceTypeResource :: ResourceType where
  "ResourceTypeResource = ''Resource''"

definition ResourceTypeContainer :: ResourceType where
  "ResourceTypeContainer = ''Container''"

definition ResourceTypeACL :: ResourceType where
  "ResourceTypeACL = ''ACL''"

definition ResourceTypeACP :: ResourceType where
  "ResourceTypeACP = ''ACP''"

definition ResourceTypeMetadata :: ResourceType where
  "ResourceTypeMetadata = ''Metadata''"

definition ResourceTypeBlob :: ResourceType where
  "ResourceTypeBlob = ''Blob''"

type_synonym ContentAddress = string

record Tombstone =
  tb_URI :: string
  tb_DeletedAt :: gotime
  tb_DeletedBy :: string
  tb_Reason :: string
  tb_RestoreToken :: string

record QuotaInfo =
  qi_StorageRoot :: string
  qi_Tenant :: string
  qi_UsedBytes :: int
  qi_MaxBytes :: int
  qi_UsedResources :: int
  qi_MaxResources :: int

record CompareAndSwapPrecondition =
  cas_Key :: string
  cas_ExpectedValue :: string
  cas_NewValue :: string

record WritePrecondition =
  wp_IfMatch :: string
  wp_IfNoneMatch :: string
  wp_CompareAndSwap :: "CompareAndSwapPrecondition option"

type_synonym StorageLayoutVersion = int

definition CurrentStorageLayoutVersion :: StorageLayoutVersion where
  "CurrentStorageLayoutVersion = 1"

definition MinSupportedStorageLayoutVersion :: StorageLayoutVersion where
  "MinSupportedStorageLayoutVersion = 1"

record Metadata =
  md_URI :: string
  md_ResourceType :: ResourceType
  md_ContentType :: string
  md_Size :: int
  md_Digest :: string
  md_LastModified :: gotime
  md_Created :: gotime
  md_ETag :: string
  md_Owner :: string
  md_StorageRoot :: string
  md_Tenant :: string
  md_AuxiliaryLinks :: "(string, string) gomap"
  md_PolicyReferences :: "string list"
  md_ValidatorState :: "(string, string) gomap"
  md_ContentAddress :: ContentAddress
  md_LayoutVersion :: StorageLayoutVersion
  md_Custom :: "(string, string) gomap"

definition zero_Metadata :: Metadata where
  "zero_Metadata = \<lparr>md_URI = [], md_ResourceType = [], md_ContentType = [], md_Size = 0,
     md_Digest = [], md_LastModified = zero_time, md_Created = zero_time, md_ETag = [],
     md_Owner = [], md_StorageRoot = [], md_Tenant = [], md_AuxiliaryLinks = [],
     md_PolicyReferences = [], md_ValidatorState = [], md_ContentAddress = [],
     md_LayoutVersion = 0, md_Custom = []\<rparr>"

record quotaUsageInfo =
  qu_UsedBytes :: int
  qu_UsedResources :: int
  qu_MaxBytes :: int
  qu_MaxResources :: int

record Resource =
  rs_URI :: string
  rs_Body :: "string option"
  rs_Metadata :: Metadata

record WriteResource =
  wr_URI :: string
  wr_Body :: "string option"
  wr_BodyReader :: "string result option"
  wr_BodySize :: int
  wr_Metadata :: Metadata
  wr_Preconditions :: WritePrecondition

type_synonym IntegrityIssueType = string
type_synonym IntegrityIssueSeverity = string

record IntegrityIssue =
  ii_Type :: IntegrityIssueType
  ii_Severity :: IntegrityIssueSeverity
  ii_Description :: string
  ii_Details :: "(string, string) gomap"

record ResourceIntegrityReport =
  rr_URI :: string
  rr_Issues :: "IntegrityIssue list"

record IntegrityReport =
  ir_ScannedAt :: gotime
  ir_TotalResources :: int
  ir_ResourcesWithIssues :: int
  ir_MetadataBodyMismatches :: int
  ir_MissingDigests :: int
  ir_OrphanedBlobs :: int
  ir_ResourceReports :: "ResourceIntegrityReport list"

record CacheInvalidationEvent =
  ev_ResourceURI :: string
  ev_IsPolicy :: bool
  ev_PolicyURI :: string
  ev_AgentURI :: string
  ev_Action :: string
  ev_Timestamp :: gotime

section \<open>Digests and ETags\<close>

text \<open>The bytes of a body; a \<open>nil\<close> slice has none.\<close>

definition bytes :: "string option \<Rightarrow> string" where
  "bytes body = (case body of None \<Rightarrow> [] | Some s \<Rightarrow> s)"

definition sha256Sum :: "string \<Rightarrow> nat list" where
  "sha256Sum data = (if data = [] then replicate 32 0 else Sum256 data)"

definition computeDigest :: "string \<Rightarrow> string" where
  "computeDigest data = hex_EncodeToString (sha256Sum data)"

definition computeContentAddress :: "string \<Rightarrow> ContentAddress" where
  "computeContentAddress data = computeDigest data"

definition generateETag :: "string \<Rightarrow> string" where
  "generateETag data =
     (if data = [] then CHR 0x22 # ''0-0'' @ [CHR 0x22]
      else CHR 0x22 # hex_EncodeToString (take 8 (sha256Sum data)) @ [CHR 0x22])"

section \<open>Validation\<close>

definition MaxURILength :: nat where
  "MaxURILength = 8192"

definition MaxBodySize :: int where
  "MaxBodySize = 100 * 1024 * 1024"

definition MaxMetadataSize :: int where
  "MaxMetadataSize = 1024 * 1024"

definition MaxContentAddressLength :: nat where
  "MaxContentAddressLength = 128"

definition MaxStorageRootLength :: nat where
  "MaxStorageRootLength = 1024"

definition MaxTenantLength :: nat where
  "MaxTenantLength = 256"

definition MaxResourceCountPerList :: nat where
  "MaxResourceCountPerList = 10000"

definition valid_uri_char :: "char \<Rightarrow> bool" where
  "valid_uri_char r \<longleftrightarrow> is_lower r \<or> is_upper r \<or> is_digit r \<or>
     r \<in> set ''/.-_~:?#[]!$&()*+,;=@%'' \<or> r = CHR 0x27"

definition ValidateURI :: "string \<Rightarrow> string result" where
  "ValidateURI uri =
     (if uri = [] then Inl ErrEmptyURI
      else if length uri > MaxURILength then Inl ErrURITooLong
      else if \<not> list_all valid_uri_char uri
        then Inl (wrapf ErrInvalidURI ''invalid character in URI'')
      else
        (let uri = (if \<not> HasPrefix uri ''/'' \<and> \<not> Contains uri '':'' then ''/'' @ uri else uri);
             uri = ReplaceAll uri ''//'' ''/''
         in Inr (if length uri > 1 \<and> HasSuffix uri ''/'' then TrimSuffix uri ''/'' else uri)))"

definition ValidateStorageRoot :: "string \<Rightarrow> goerr" where
  "ValidateStorageRoot storageRoot =
     (if storageRoot = [] then None
      else if length storageRoot > MaxStorageRootLength then Some ErrURITooLong
      else case ValidateURI storageRoot of Inl err \<Rightarrow> Some err | Inr _ \<Rightarrow> None)"

text \<open>The verb \<open>%c\<close> on the rune a text begins with: an ill-formed byte is shown as U+FFFD.\<close>

definition first_rune :: "string \<Rightarrow> string" where
  "first_rune s =
     (if rune_width s = 1 \<and> byte_at s 0 \<ge> 128 then [CHR 0xEF, CHR 0xBF, CHR 0xBD]
      else take (rune_width s) s)"

definition valid_tenant_char :: "char \<Rightarrow> bool" where
  "valid_tenant_char r \<longleftrightarrow> is_lower r \<or> is_upper r \<or> is_digit r \<or> r \<in> set ''-_.''"

definition ValidateTenant :: "string \<Rightarrow> goerr" where
  "ValidateTenant tenant =
     (if tenant = [] then None
      else if length tenant > MaxTenantLength
        then Some (ErrorsNew (''tenant exceeds maximum length of '' @ FormatInt (int MaxTenantLength) @
          '' characters''))
      else case dropWhile valid_tenant_char tenant of
        [] \<Rightarrow> None
      | rest \<Rightarrow> Some (ErrorsNew (''invalid character in tenant identifier: '' @ first_rune rest)))"

definition ValidateContentType :: "string \<Rightarrow> goerr" where
  "ValidateContentType contentType =
     (if contentType = [] then None
      else if list_ex is_control contentType then Some ErrInvalidContentType
      else None)"

definition ValidateBodySize :: "string option \<Rightarrow> goerr" where
  "ValidateBodySize body =
     (case body of
        None \<Rightarrow> None
      | Some s \<Rightarrow> if int (length s) > MaxBodySize then Some ErrBodyTooLarge else None)"

definition ValidateBodyReaderSize :: "int \<Rightarrow> goerr" where
  "ValidateBodyReaderSize n =
     (if n < 0 then Some (ErrorsNew ''body size cannot be negative'')
      else if n > MaxBodySize then Some ErrBodyTooLarge
      else None)"

definition valid_address_char :: "char \<Rightarrow> bool" where
  "valid_address_char r \<longleftrightarrow> is_digit r \<or> is_lower r \<or> is_upper r \<or> r \<in> set ''-_./:''"

definition ValidateContentAddress :: "ContentAddress \<Rightarrow> goerr" where
  "ValidateContentAddress address =
     (if address = [] then None
      else if length address > MaxContentAddressLength
        then Some (ErrorsNew ''content address exceeds maximum length'')
      else case dropWhile valid_address_char address of
        [] \<Rightarrow> None
      | rest \<Rightarrow> Some (ErrorsNew (''invalid character in content address: '' @ first_rune rest)))"

definition validateTombstone :: "Tombstone option \<Rightarrow> goerr" where
  "validateTombstone tombstone =
     (case tombstone of
        None \<Rightarrow> Some ErrNilTombstone
      | Some t \<Rightarrow>
          if tb_URI t = [] then Some ErrEmptyURI
          else if length (tb_URI t) > MaxURILength then Some ErrURITooLong
          else if length (tb_DeletedBy t) > MaxTenantLength
            then Some (ErrorsNew ''deletedBy exceeds maximum length'')
          else if length (tb_Reason t) > 1024 then Some (ErrorsNew ''reason exceeds maximum length'')
          else if length (tb_RestoreToken t) > 256
            then Some (ErrorsNew ''restoreToken exceeds maximum length'')
          else None)"

section \<open>Metadata sizes\<close>

definition map_size :: "nat \<Rightarrow> (string, string) gomap \<Rightarrow> nat" where
  "map_size overhead m = sum_list (map (\<lambda>(k, v). length k + length v + overhead) m)"

definition list_size :: "nat \<Rightarrow> string list \<Rightarrow> nat" where
  "list_size overhead vs = sum_list (map (\<lambda>v. length v + overhead) vs)"

definition estimateMetadataSize :: "Metadata option \<Rightarrow> int" where
  "estimateMetadataSize metadata =
     (case metadata of
        None \<Rightarrow> 0
      | Some m \<Rightarrow> int (length (md_URI m) + length (md_ResourceType m) + length (md_ContentType m) +
          length (md_Digest m) + length (md_Owner m) + length (md_StorageRoot m) +
          length (md_Tenant m) + length (md_ContentAddress m) + length (md_ETag m) +
          map_size 0 (md_AuxiliaryLinks m) + list_size 0 (md_PolicyReferences m) +
          map_size 0 (md_ValidatorState m) + map_size 0 (md_Custom m) + 200))"

definition validateMetadataSize :: "Metadata \<Rightarrow> goerr" where
  "validateMetadataSize m =
     (let size = int (length (md_URI m) + length (md_ResourceType m) + length (md_ContentType m) +
          length (md_Digest m) + length (md_Owner m) + length (md_StorageRoot m) +
          length (md_Tenant m) + length (md_ContentAddress m) +
          map_size 10 (md_AuxiliaryLinks m) + list_size 10 (md_PolicyReferences m) +
          map_size 10 (md_ValidatorState m) + map_size 10 (md_Custom m) + 200)
      in if size > MaxMetadataSize then Some ErrMetadataTooLarge else None)"

section \<open>Sanitised errors\<close>

definition redactions :: "(string \<times> string) list" where
  "redactions = [(''/Users/'', []), (''/home/'', []), (''/tmp/'', []), (''/var/'', []), (''/etc/'', []),
     (''127.0.0.1'', ''localhost''), (''192.168.'', []), (''10.'', [])]"

definition credential_patterns :: "string list" where
  "credential_patterns = [''password='', ''token='', ''secret='', ''key='', ''auth='',
     ''Authorization: '', ''Bearer '', ''Basic '']"

definition redact_pattern :: "string \<Rightarrow> string \<Rightarrow> string" where
  "redact_pattern pattern sanitized =
     (if Contains sanitized pattern then fst (Cut sanitized pattern) @ pattern @ ''REDACTED''
      else sanitized)"

definition sanitized_text :: "string \<Rightarrow> string" where
  "sanitized_text errStr =
     fold redact_pattern credential_patterns
       (fold (\<lambda>(old, new) s. ReplaceAll s old new) redactions errStr)"

definition SanitizeError :: "goerror \<Rightarrow> goerror" where
  "SanitizeError err =
     (let errStr = Error err; sanitized = sanitized_text errStr in
      if TrimSpace sanitized = [] then ErrorsNew ''storage operation failed''
      else if sanitized \<noteq> errStr then ErrorsNew (sanitized @ '' (sanitized)'')
      else err)"

section \<open>Normal URIs\<close>

lemma Contains_Cons: "Contains (c # s) sub \<longleftrightarrow> HasPrefix (c # s) sub \<or> Contains s sub"
  by (simp add: Contains_def)

text \<open>\<open>ReplaceAll\<close> changes a text exactly if the old string occurs in it, when the new string is
  shorter.\<close>

lemma ReplaceAll_absent: "\<not> Contains s old \<Longrightarrow> ReplaceAll s old new = s"
proof (induction s)
  case Nil
  then show ?case by simp
next
  case (Cons c s)
  then have "\<not> HasPrefix (c # s) old" "\<not> Contains s old" by (simp_all add: Contains_Cons)
  with Cons.IH show ?case by (subst ReplaceAll.simps) auto
qed

lemma length_ReplaceAll_le: "length new \<le> length old \<Longrightarrow> length (ReplaceAll s old new) \<le> length s"
proof (induction s old new rule: ReplaceAll.induct)
  case (1 s old new)
  then show ?case
  proof (cases "old = [] \<or> s = []")
    case False
    with 1 show ?thesis
    proof (cases "HasPrefix s old")
      case True
      then obtain t where "s = old @ t" by (auto simp: HasPrefix_conv)
      with 1 False True show ?thesis by (subst ReplaceAll.simps) auto
    next
      case False': False
      with 1 False show ?thesis by (subst ReplaceAll.simps) (cases s, auto)
    qed
  qed (auto simp: ReplaceAll.simps)
qed

lemma ReplaceAll_shrinks:
  assumes "length new < length old"
  shows "Contains s old \<Longrightarrow> length (ReplaceAll s old new) < length s"
proof (induction s)
  case Nil
  with assms show ?case by (auto simp: Contains_def split: if_splits)
next
  case (Cons c s)
  from assms have ne: "old \<noteq> []" by auto
  show ?case
  proof (cases "HasPrefix (c # s) old")
    case True
    then obtain t where t: "c # s = old @ t" by (auto simp: HasPrefix_conv)
    have "length (ReplaceAll t old new) \<le> length t"
      using assms by (intro length_ReplaceAll_le) simp
    with assms ne show ?thesis by (simp add: t ReplaceAll_hit)
  next
    case False
    with Cons have "length (ReplaceAll s old new) < length s" by (simp add: Contains_Cons)
    with False ne show ?thesis by (subst ReplaceAll.simps) simp
  qed
qed

lemma ReplaceAll_eq_self_iff:
  "length new < length old \<Longrightarrow> ReplaceAll s old new = s \<longleftrightarrow> \<not> Contains s old"
  using ReplaceAll_shrinks [of new old s] ReplaceAll_absent [of s old new] by fastforce

definition normal_uri :: "string \<Rightarrow> bool" where
  "normal_uri u \<longleftrightarrow> u \<noteq> [] \<and> length u \<le> MaxURILength \<and> list_all valid_uri_char u \<and>
     (HasPrefix u ''/'' \<or> Contains u '':'') \<and> \<not> Contains u ''//'' \<and>
     (length u > 1 \<longrightarrow> \<not> HasSuffix u ''/'')"

lemma length_TrimSuffix_slash: "HasSuffix u ''/'' \<Longrightarrow> length (TrimSuffix u ''/'') < length u"
  by (auto simp: HasSuffix_conv)

text \<open>Validation leaves exactly the normal URIs as they are.\<close>

lemma ValidateURI_fixed_iff: "ValidateURI u = Inr u \<longleftrightarrow> normal_uri u"
proof (cases "u = [] \<or> length u > MaxURILength \<or> \<not> list_all valid_uri_char u")
  case True
  then show ?thesis by (auto simp: ValidateURI_def normal_uri_def)
next
  case ok: False
  let ?r = "\<lambda>v. ReplaceAll v ''//'' ''/''"
  let ?t = "\<lambda>v. if length v > 1 \<and> HasSuffix v ''/'' then TrimSuffix v ''/'' else v"
  have le: "length (?r v) \<le> length v" for v by (rule length_ReplaceAll_le) simp
  have shrink: "length (?t v) \<le> length v" "?t v = v \<or> length (?t v) < length v" for v
    using length_TrimSuffix_slash [of v] by auto
  show ?thesis
  proof (cases "HasPrefix u ''/'' \<or> Contains u '':''")
    case True
    have "?t (?r u) = u \<longleftrightarrow> ?r u = u \<and> ?t u = u"
      using le [of u] shrink(2) [of "?r u"] by (smt (verit) leD le_less_trans less_le_trans)
    moreover have "?r u = u \<longleftrightarrow> \<not> Contains u ''//''" by (rule ReplaceAll_eq_self_iff) simp
    moreover have "?t u = u \<longleftrightarrow> \<not> (length u > 1 \<and> HasSuffix u ''/'')"
      using length_TrimSuffix_slash [of u] by auto
    ultimately show ?thesis
      using True ok by (auto simp: ValidateURI_def normal_uri_def Let_def)
  next
    case False
    obtain c s where u: "u = c # s" using ok by (cases u) auto
    with False have c: "c \<noteq> CHR ''/''" by simp
    have "?r (CHR ''/'' # u) = CHR ''/'' # ?r u"
      using c by (subst ReplaceAll.simps) (simp add: u)
    moreover have "?r u \<noteq> []" using c by (simp add: u ReplaceAll_miss)
    ultimately have "?t (?r (CHR ''/'' # u)) \<noteq> u" using c
      by (cases "?r u") (auto simp: u TrimSuffix_def)
    with False ok show ?thesis by (auto simp: ValidateURI_def normal_uri_def Let_def)
  qed
qed

section \<open>Content addresses\<close>

lemma length_sha256Sum [simp]: "length (sha256Sum data) = 32"
  by (simp add: sha256Sum_def)

lemma sha256Sum_bound: "b \<in> set (sha256Sum data) \<Longrightarrow> b < 256"
  by (auto simp: sha256Sum_def Sum256_bound split: if_splits)

lemma length_computeDigest [simp]: "length (computeDigest data) = 64"
  by (simp add: computeDigest_def)

lemma computeDigest_is_hex: "c \<in> set (computeDigest data) \<Longrightarrow> is_hex c"
  unfolding computeDigest_def using hex_EncodeToString_is_hex sha256Sum_bound by blast

lemma is_hex_address_char: "is_hex c \<Longrightarrow> valid_address_char c"
  by (auto simp: is_hex_def valid_address_char_def is_lower_def is_upper_def less_eq_char_def)

text \<open>Every computed address passes the validation of addresses.\<close>

lemma ValidateContentAddress_computed [simp]: "ValidateContentAddress (computeContentAddress data) = None"
proof -
  have "dropWhile valid_address_char (computeDigest data) = []"
    using computeDigest_is_hex is_hex_address_char by auto
  then show ?thesis
    unfolding ValidateContentAddress_def computeContentAddress_def MaxContentAddressLength_def
    by (simp only: list.case length_computeDigest) simp
qed

section \<open>Sanitising hides what follows a credential marker\<close>

lemma HasPrefix_append_short: "length p \<le> length s \<Longrightarrow> HasPrefix (s @ t) p \<longleftrightarrow> HasPrefix s p"
  by (simp add: HasPrefix_def)

lemma ReplaceAll_step:
  "old \<noteq> [] \<Longrightarrow> \<not> HasPrefix (c # s) old \<Longrightarrow> ReplaceAll (c # s) old new = c # ReplaceAll s old new"
  by (subst ReplaceAll.simps) simp

text \<open>A byte that does not occur in the old string splits a replacement.\<close>

lemma ReplaceAll_split_at:
  assumes "old \<noteq> []" "c \<notin> set old"
  shows "ReplaceAll (x @ c # b) old new = ReplaceAll x old new @ c # ReplaceAll b old new"
proof (induction x rule: length_induct)
  case (1 x)
  show ?case
  proof (cases x)
    case Nil
    have "c \<noteq> hd old" using assms by (cases old) auto
    with assms show ?thesis by (simp add: Nil ReplaceAll_miss)
  next
    case (Cons d y)
    have fits: "HasPrefix (x @ c # b) old \<longleftrightarrow> HasPrefix x old"
    proof (cases "length old \<le> length x")
      case True
      then show ?thesis by (rule HasPrefix_append_short)
    next
      case False
      then have "c \<in> set (take (length old) (x @ c # b))"
        by (simp add: take_Cons')
      with assms(2) have "\<not> HasPrefix (x @ c # b) old" unfolding HasPrefix_def by metis
      with False show ?thesis by (auto simp: HasPrefix_def)
    qed
    show ?thesis
    proof (cases "HasPrefix x old")
      case True
      then obtain t where t: "x = old @ t" by (auto simp: HasPrefix_conv)
      with assms(1) 1 show ?thesis by (simp add: ReplaceAll_hit)
    next
      case False
      with fits Cons assms(1) have "ReplaceAll (x @ c # b) old new = d # ReplaceAll (y @ c # b) old new"
        "ReplaceAll x old new = d # ReplaceAll y old new"
        by (simp_all add: ReplaceAll_step)
      with 1 Cons show ?thesis by simp
    qed
  qed
qed

text \<open>A text without the last byte of the old string keeps its end unchanged.\<close>

lemma ReplaceAll_keep_end:
  assumes "old \<noteq> []" "last old \<notin> set y"
  shows "ReplaceAll (x @ y) old new = ReplaceAll x old new @ y"
proof (induction x rule: length_induct)
  case (1 x)
  show ?case
  proof (cases x)
    case Nil
    have "\<not> Contains y old" using assms by (auto simp: Contains_conv)
    then show ?thesis by (simp add: Nil ReplaceAll_absent)
  next
    case (Cons d z)
    have fits: "HasPrefix (x @ y) old \<longleftrightarrow> HasPrefix x old"
    proof (cases "length old \<le> length x")
      case True
      then show ?thesis by (rule HasPrefix_append_short)
    next
      case False
      have "last old \<in> set y" if "HasPrefix (x @ y) old"
      proof -
        from that False have "old = x @ take (length old - length x) y"
          by (simp add: HasPrefix_def)
        with False have "last old \<in> set (take (length old - length x) y)"
          by (metis append_Nil2 last_appendR last_in_set less_irrefl not_le_imp_less)
        then show ?thesis by (rule in_set_takeD)
      qed
      with assms(2) False show ?thesis by (auto simp: HasPrefix_def)
    qed
    show ?thesis
    proof (cases "HasPrefix x old")
      case True
      then obtain t where t: "x = old @ t" by (auto simp: HasPrefix_conv)
      with assms(1) 1 show ?thesis by (simp add: ReplaceAll_hit)
    next
      case False
      with fits Cons assms(1) have "ReplaceAll (x @ y) old new = d # ReplaceAll (z @ y) old new"
        "ReplaceAll x old new = d # ReplaceAll z old new"
        by (simp_all add: ReplaceAll_step)
      with 1 Cons show ?thesis by simp
    qed
  qed
qed

lemma ReplaceAll_around:
  assumes "old \<noteq> []" "m \<noteq> []" "last old \<notin> set m" "last m \<notin> set old"
  shows "ReplaceAll (a @ m @ b) old new = ReplaceAll a old new @ m @ ReplaceAll b old new"
proof -
  obtain m' c where m: "m = m' @ [c]" using assms(2) by (metis append_butlast_last_id)
  have "ReplaceAll (a @ m @ b) old new = ReplaceAll (a @ m') old new @ c # ReplaceAll b old new"
    using ReplaceAll_split_at [of old c "a @ m'" b new] assms by (simp add: m)
  also have "ReplaceAll (a @ m') old new = ReplaceAll a old new @ m'"
    using assms by (intro ReplaceAll_keep_end) (simp_all add: m)
  finally show ?thesis by (simp add: m)
qed

text \<open>The first occurrence of a pattern in a text does not depend on what follows it.\<close>

lemma Index_bound: "Index s sub = Some i \<Longrightarrow> i + length sub \<le> length s"
proof -
  assume "Index s sub = Some i"
  then have "s = take i s @ sub @ drop (i + length sub) s" by (rule Index_Some_decomp)
  then have "length s = length (take i s @ sub @ drop (i + length sub) s)" by (rule arg_cong)
  moreover from \<open>Index s sub = Some i\<close> have "i \<le> length s"
    by (induction s arbitrary: i) (auto split: if_splits)
  ultimately show ?thesis by simp
qed

lemma Index_append_hit: "Index s sub = Some i \<Longrightarrow> Index (s @ t) sub = Some i"
proof (induction s arbitrary: i)
  case Nil
  then show ?case by (cases t) (auto split: if_splits)
next
  case (Cons c s)
  from Index_bound [OF Cons.prems] have len: "length sub \<le> length (c # s)" by simp
  then have "HasPrefix (c # s @ t) sub \<longleftrightarrow> HasPrefix (c # s) sub"
    using HasPrefix_append_short [of sub "c # s" t] by simp
  with Cons show ?case by (auto split: if_splits)
qed

text \<open>An occurrence cannot straddle a byte that the pattern has at most as its last.\<close>

lemma Index_append_miss:
  assumes "sub \<noteq> []" "c \<notin> set (butlast sub)"
  shows "Index (s @ [c]) sub = None \<Longrightarrow>
    Index (s @ c # t) sub = map_option (\<lambda>i. i + Suc (length s)) (Index t sub)"
proof (induction s)
  case Nil
  have "\<not> HasPrefix (c # t) sub"
  proof
    assume "HasPrefix (c # t) sub"
    with assms(1) obtain sub' where sub: "sub = c # sub'" by (cases sub) auto
    with assms(2) have "sub' = []" by (cases sub') auto
    with Nil show False by (simp add: sub)
  qed
  then show ?case by simp
next
  case (Cons d s)
  from Cons.prems have no: "\<not> HasPrefix (d # s @ [c]) sub" and rest: "Index (s @ [c]) sub = None"
    by (auto split: if_splits)
  have "\<not> HasPrefix (d # s @ c # t) sub"
  proof
    assume hp: "HasPrefix (d # s @ c # t) sub"
    show False
    proof (cases "length sub \<le> length (d # s @ [c])")
      case True
      with hp no HasPrefix_append_short [of sub "d # s @ [c]" t] show False by simp
    next
      case False
      let ?A = "d # s @ [c]" and ?r = "take (length sub - length (d # s @ [c])) t"
      have "take (length sub) (?A @ t) = sub" using hp by (simp add: HasPrefix_def)
      moreover have "take (length sub) (?A @ t) = ?A @ ?r"
        using False take_append [of "length sub" ?A t] by simp
      ultimately have sub: "sub = d # s @ c # ?r" by simp
      with False have "?r \<noteq> []" by (metis append_Cons append_Nil2 length_append_singleton length_Cons order_refl)
      then have "c \<in> set (butlast (d # s @ c # ?r))" by (simp add: butlast_append)
      with sub have "c \<in> set (butlast sub)" by simp
      with assms(2) show False by simp
    qed
  qed
  with Cons.IH [OF rest] show ?case by (simp add: option.map_comp comp_def)
qed

lemma redact_pattern_hit:
  "Index s p = Some i \<Longrightarrow> redact_pattern p (s @ t) = take i s @ p @ ''REDACTED''"
  using Index_append_hit [of s p i t] Index_bound [of s p i]
  by (simp add: redact_pattern_def Contains_def Cut_def)

lemma redact_pattern_miss:
  assumes "p \<noteq> []" "last s \<notin> set (butlast p)" "s \<noteq> []" "Index s p = None"
  shows "redact_pattern p (s @ t) = s @ redact_pattern p t"
proof -
  obtain s' c where s: "s = s' @ [c]" using assms(3) by (metis append_butlast_last_id)
  then have "Index (s @ t) p = map_option (\<lambda>i. i + length s) (Index t p)"
    using Index_append_miss [of p c s' t] assms by simp
  then show ?thesis
    by (cases "Index t p") (simp_all add: redact_pattern_def Contains_def Cut_def)
qed

lemma redact_independent:
  assumes "\<forall>p\<in>set ps. p \<noteq> [] \<and> last pat \<notin> set (butlast p)" "pat \<in> set ps"
  shows "fold redact_pattern ps (x @ pat @ y) = fold redact_pattern ps (x @ pat @ z)"
  using assms
proof (induction ps arbitrary: y z)
  case Nil
  then show ?case by simp
next
  case (Cons p ps)
  have pat: "pat \<noteq> []" using Cons.prems by auto
  show ?case
  proof (cases "Index (x @ pat) p")
    case (Some i)
    then show ?thesis
      using redact_pattern_hit [OF Some, of y] redact_pattern_hit [OF Some, of z] by simp
  next
    case None
    have "Contains (x @ pat) pat" by (auto simp: Contains_conv intro: exI [of _ "[]"])
    with None have "p \<noteq> pat" by (auto simp: Contains_def)
    moreover have "redact_pattern p (x @ pat @ w) = x @ pat @ redact_pattern p w" for w
      using redact_pattern_miss [of p "x @ pat" w] Cons.prems pat None by simp
    ultimately show ?thesis using Cons by simp
  qed
qed

lemma replace_independent:
  assumes "\<forall>(old, new)\<in>set rs. old \<noteq> [] \<and> last old \<notin> set pat \<and> last pat \<notin> set old" "pat \<noteq> []"
  shows "\<exists>x. \<forall>secret. \<exists>y. fold (\<lambda>(old, new) s. ReplaceAll s old new) rs (pre @ pat @ secret) = x @ pat @ y"
  using assms
proof (induction rs arbitrary: pre)
  case Nil
  then show ?case by auto
next
  case (Cons r rs)
  obtain old new where r: "r = (old, new)" by (cases r)
  have "ReplaceAll (pre @ pat @ w) old new = ReplaceAll pre old new @ pat @ ReplaceAll w old new" for w
    using Cons.prems by (intro ReplaceAll_around) (auto simp: r)
  with Cons.IH [of "ReplaceAll pre old new"] Cons.prems show ?case
    by (simp add: r) meson
qed

text \<open>The replaced strings and the credential markers do not overlap, and no marker can end
  inside another.\<close>

lemma markers_apart:
  "list_all (\<lambda>pat. pat \<noteq> [] \<and> \<not> list_all is_space pat \<and>
     list_all (\<lambda>(old, new). old \<noteq> [] \<and> last old \<notin> set pat \<and> last pat \<notin> set old) redactions \<and>
     list_all (\<lambda>p. p \<noteq> [] \<and> last pat \<notin> set (butlast p)) credential_patterns) credential_patterns"
  by code_simp

lemma marker_facts:
  assumes "pat \<in> set credential_patterns"
  shows "pat \<noteq> []" "\<not> list_all is_space pat"
    "\<forall>(old, new)\<in>set redactions. old \<noteq> [] \<and> last old \<notin> set pat \<and> last pat \<notin> set old"
    "\<forall>p\<in>set credential_patterns. p \<noteq> [] \<and> last pat \<notin> set (butlast p)"
  using markers_apart assms unfolding list_all_iff by blast+

lemma sanitized_text_independent:
  assumes "pat \<in> set credential_patterns"
  shows "sanitized_text (pre @ pat @ secret) = sanitized_text (pre @ pat @ secret')"
proof -
  note pat = marker_facts [OF assms]
  from replace_independent [OF pat(3,1), of pre] obtain x where
    x: "\<And>w. \<exists>y. fold (\<lambda>(old, new) s. ReplaceAll s old new) redactions (pre @ pat @ w) = x @ pat @ y"
    by blast
  from x [of secret] x [of secret'] redact_independent [OF pat(4) assms] show ?thesis
    unfolding sanitized_text_def by metis
qed

lemma TrimSpace_empty_iff: "TrimSpace s = [] \<longleftrightarrow> list_all is_space s"
proof -
  have "list_all is_space (dropWhile is_space s) \<longleftrightarrow> list_all is_space s" by (induction s) auto
  then show ?thesis by (simp add: TrimSpace_def dropWhile_eq_Nil_conv list_all_iff)
qed

lemma redact_pattern_visible: "\<not> list_all is_space s \<Longrightarrow> \<not> list_all is_space (redact_pattern p s)"
  by (simp add: redact_pattern_def is_space_def less_eq_char_def)

lemma fold_redact_visible:
  "\<not> list_all is_space s \<Longrightarrow> \<not> list_all is_space (fold redact_pattern ps s)"
  by (induction ps arbitrary: s) (simp_all add: redact_pattern_visible)

lemma sanitized_text_nonempty:
  assumes "pat \<in> set credential_patterns"
  shows "TrimSpace (sanitized_text (pre @ pat @ secret)) \<noteq> []"
proof -
  note pat = marker_facts [OF assms]
  obtain x y where
    "fold (\<lambda>(old, new) s. ReplaceAll s old new) redactions (pre @ pat @ secret) = x @ pat @ y"
    using replace_independent [OF pat(3,1), of pre] by blast
  with pat(2) fold_redact_visible [of "x @ pat @ y"] show ?thesis
    by (simp add: sanitized_text_def TrimSpace_empty_iff)
qed

text \<open>C32: Sanitising an error hides everything that follows a credential marker. For every text
  before the marker there is one message, and whatever secret follows the marker, the sanitised
  error shows that message, with or without the note that it was sanitised.\<close>

theorem SanitizeError_hides_credentials:
  assumes "pat \<in> set credential_patterns"
  shows "\<exists>shown. \<forall>e secret. Error e = pre @ pat @ secret \<longrightarrow>
    Error (SanitizeError e) \<in> {shown, shown @ '' (sanitized)''}"
proof -
  let ?shown = "sanitized_text (pre @ pat)"
  have "Error (SanitizeError e) \<in> {?shown, ?shown @ '' (sanitized)''}"
    if e: "Error e = pre @ pat @ secret" for e secret
  proof -
    have "sanitized_text (Error e) = ?shown"
      using sanitized_text_independent [OF assms, of pre secret "[]"] e by simp
    moreover have "TrimSpace ?shown \<noteq> []"
      using sanitized_text_nonempty [OF assms, of pre "[]"] by simp
    ultimately show ?thesis by (auto simp: SanitizeError_def Let_def)
  qed
  then show ?thesis by blast
qed

theorem SanitizeError_hides_credentials_witness:
  "\<exists>shown. \<forall>e secret. Error e = ''dial 10.2.3.4 with token='' @ secret \<longrightarrow>
     Error (SanitizeError e) \<in> {shown, shown @ '' (sanitized)''}"
proof -
  have "''token='' \<in> set credential_patterns" by (simp add: credential_patterns_def)
  from SanitizeError_hides_credentials [OF this, of "''dial 10.2.3.4 with ''"] show ?thesis by simp
qed

text \<open>Validation collapses the slashes of a scheme, and a second validation may change the result of
  the first.\<close>

lemma ValidateURI_collapses_scheme: "ValidateURI ''https://a.org/b'' = Inr ''https:/a.org/b''"
  by code_simp

lemma ValidateURI_not_idempotent:
  "ValidateURI ''/a////b'' = Inr ''/a//b''" "ValidateURI ''/a//b'' = Inr ''/a/b''"
  by code_simp+

text \<open>The errors of the storage code that reach the sanitiser without user data are left as they are.\<close>

lemma SanitizeError_fixed [simp]:
  "SanitizeError ErrNotFound = ErrNotFound"
  "SanitizeError ErrEmptyURI = ErrEmptyURI"
  "SanitizeError ErrStorageClosed = ErrStorageClosed"
  "SanitizeError ErrURITooLong = ErrURITooLong"
  "SanitizeError ErrBodyTooLarge = ErrBodyTooLarge"
  "SanitizeError ErrNilTombstone = ErrNilTombstone"
  "SanitizeError (wrapf ErrInvalidURI ''invalid character in URI'') =
     wrapf ErrInvalidURI ''invalid character in URI''"
  by code_simp+

end
