(* ===== verification/Storage_Interface.thy ===== *)
theory Storage_Interface
  imports Storage_Core
begin

text \<open>
  The interface between the storage engine and a storage backend (\<open>StorageBackend\<close> of
  \<open>internal/storage/interface.go\<close>): a record of the methods over the backend's state, and the
  contract the engine relies on, as a locale. The contract speaks about normal URIs only: a backend may
  store a URI under a normalised key, and two spellings of one key then meet.
\<close>

section \<open>The methods\<close>

record 'b StorageBackend =
  sb_Initialize :: "gocontext \<Rightarrow> (string, string) gomap \<Rightarrow> 'b \<Rightarrow> goerr \<times> 'b"
  sb_Get :: "gocontext \<Rightarrow> string \<Rightarrow> 'b \<Rightarrow> Resource result"
  sb_GetMetadata :: "gocontext \<Rightarrow> string \<Rightarrow> 'b \<Rightarrow> Metadata result"
  sb_Put :: "gocontext \<Rightarrow> gotime \<Rightarrow> string \<Rightarrow> WriteResource option \<Rightarrow> 'b \<Rightarrow> goerr \<times> 'b"
  sb_Delete :: "gocontext \<Rightarrow> string \<Rightarrow> 'b \<Rightarrow> goerr \<times> 'b"
  sb_List :: "gocontext \<Rightarrow> string \<Rightarrow> 'b \<Rightarrow> Metadata list result"
  sb_Exists :: "gocontext \<Rightarrow> string \<Rightarrow> 'b \<Rightarrow> bool result"
  sb_StoreBlob :: "gocontext \<Rightarrow> string option \<Rightarrow> 'b \<Rightarrow> ContentAddress result \<times> 'b"
  sb_GetBlob :: "gocontext \<Rightarrow> ContentAddress \<Rightarrow> 'b \<Rightarrow> string result"
  sb_BlobExists :: "gocontext \<Rightarrow> ContentAddress \<Rightarrow> 'b \<Rightarrow> bool result"
  sb_DeleteBlob :: "gocontext \<Rightarrow> ContentAddress \<Rightarrow> 'b \<Rightarrow> goerr \<times> 'b"
  sb_HealthCheck :: "gocontext \<Rightarrow> 'b \<Rightarrow> goerr"
  sb_Close :: "'b \<Rightarrow> goerr \<times> 'b"

text \<open>The body a write resource carries, in its field or behind its reader.\<close>

definition written_body :: "WriteResource \<Rightarrow> string option" where
  "written_body w =
     (case (wr_Body w, wr_BodyReader w) of
        (None, Some (Inr data)) \<Rightarrow> Some data
      | (body, _) \<Rightarrow> body)"

text \<open>What every backend keeps of a written resource; it may fill in the empty fields.\<close>

definition keeps_written :: "string \<Rightarrow> WriteResource \<Rightarrow> Resource \<Rightarrow> bool" where
  "keeps_written u w r \<longleftrightarrow>
     rs_URI r = u \<and> rs_Body r = written_body w \<and>
     md_ContentType (rs_Metadata r) = md_ContentType (wr_Metadata w) \<and>
     md_Custom (rs_Metadata r) = md_Custom (wr_Metadata w) \<and>
     (md_ETag (wr_Metadata w) \<noteq> [] \<longrightarrow> md_ETag (rs_Metadata r) = md_ETag (wr_Metadata w)) \<and>
     (md_ETag (wr_Metadata w) = [] \<and> written_body w \<noteq> None \<longrightarrow>
        md_ETag (rs_Metadata r) = generateETag (bytes (written_body w))) \<and>
     (md_ResourceType (wr_Metadata w) \<noteq> [] \<longrightarrow>
        md_ResourceType (rs_Metadata r) = md_ResourceType (wr_Metadata w))"

section \<open>The contract\<close>

text \<open>\<open>inv\<close> is the backend's invariant, open for use; \<open>stored\<close> is the resource it holds at a URI.\<close>

locale storage_backend =
  fixes B :: "'b StorageBackend"
    and inv :: "'b \<Rightarrow> bool"
    and stored :: "'b \<Rightarrow> string \<Rightarrow> Resource option"
    and blob :: "'b \<Rightarrow> ContentAddress \<Rightarrow> string option"
  assumes get: "inv b \<Longrightarrow> normal_uri u \<Longrightarrow>
      sb_Get B ctx u b = (case stored b u of None \<Rightarrow> Inl ErrNotFound | Some r \<Rightarrow> Inr r)"
    and get_metadata: "inv b \<Longrightarrow> normal_uri u \<Longrightarrow>
      sb_GetMetadata B ctx u b = (case stored b u of None \<Rightarrow> Inl ErrNotFound | Some r \<Rightarrow> Inr (rs_Metadata r))"
    and exists: "inv b \<Longrightarrow> normal_uri u \<Longrightarrow> sb_Exists B (Some ()) u b = Inr (stored b u \<noteq> None)"
    and put_ok: "inv b \<Longrightarrow> normal_uri u \<Longrightarrow> sb_Put B ctx now u (Some w) b = (None, b') \<Longrightarrow>
      inv b' \<and> blob b' = blob b \<and> (\<exists>r. keeps_written u w r \<and> stored b' = (stored b)(u \<mapsto> r))"
    and put_error: "inv b \<Longrightarrow> normal_uri u \<Longrightarrow> sb_Put B ctx now u (Some w) b = (Some e, b') \<Longrightarrow>
      inv b' \<and> blob b' = blob b \<and> stored b' = stored b"
    and delete: "inv b \<Longrightarrow> normal_uri u \<Longrightarrow>
      \<exists>b'. sb_Delete B (Some ()) u b = (None, b') \<and> inv b' \<and> blob b' = blob b \<and>
        stored b' = (stored b)(u := None)"
    and list_sound: "inv b \<Longrightarrow> sb_List B ctx u b = Inr ms \<Longrightarrow> m \<in> set ms \<Longrightarrow>
      \<exists>v r. stored b v = Some r \<and> rs_Metadata r = m"
    and store_blob: "inv b \<Longrightarrow> sb_StoreBlob B (Some ()) dat b = (res, b') \<Longrightarrow>
      inv b' \<and> stored b' = stored b \<and>
      (case res of Inl e \<Rightarrow> blob b' = blob b
       | Inr a \<Rightarrow> a = computeContentAddress (bytes dat) \<and> blob b' = (blob b)(a \<mapsto> bytes dat))"
    and get_blob: "inv b \<Longrightarrow> sb_GetBlob B (Some ()) a b = Inr d \<longleftrightarrow>
      ValidateContentAddress a = None \<and> blob b a = Some d"
    and content_addressed: "inv b \<Longrightarrow> blob b a = Some d \<Longrightarrow> a = computeContentAddress d"
begin

text \<open>A successful write is read back, and leaves every other resource alone.\<close>

lemma get_put:
  assumes "inv b" "normal_uri u" "normal_uri v" "sb_Put B ctx now u (Some w) b = (None, b')"
  shows "if v = u then \<exists>r. sb_Get B ctx' v b' = Inr r \<and> keeps_written u w r
    else sb_Get B ctx' v b' = sb_Get B ctx' v b"
  using put_ok [OF assms(1,2,4)] get assms(1-3) by auto

lemma blob_integrity:
  assumes "inv b" "sb_GetBlob B (Some ()) a b = Inr d"
  shows "computeContentAddress d = a"
  using assms get_blob content_addressed by metis

end

end
