(* ===== verification/Memory_Backend.thy ===== *)
theory Memory_Backend
  imports Storage_Interface
begin

text \<open>
  The in-memory storage backend (\<open>internal/storage/memory.go\<close>). The state is the record
  \<open>memoryBackend\<close>; every method takes the mutex for its whole body, so a method is one function on the
  state. The clock reading of a method is an argument. \<open>Close\<close> sets two maps to \<open>nil\<close>, here empty maps:
  every method checks \<open>closed\<close> before it touches them.
\<close>

section \<open>State\<close>

record memoryResource =
  mr_URI :: string
  mr_Body :: "string option"
  mr_Metadata :: Metadata

record memoryBackend =
  mb_data :: "(string, memoryResource) gomap"
  mb_blobs :: "(string, string option) gomap"
  mb_closed :: bool
  mb_quotaUsage :: "(string, quotaUsageInfo) gomap"
  mb_tombstones :: "(string, Tombstone) gomap"
  mb_layoutVersion :: StorageLayoutVersion

definition NewMemoryBackend :: memoryBackend where
  "NewMemoryBackend = \<lparr>mb_data = [], mb_blobs = [], mb_closed = False, mb_quotaUsage = [],
     mb_tombstones = [], mb_layoutVersion = CurrentStorageLayoutVersion\<rparr>"

section \<open>Life cycle\<close>

definition MB_checkClosed :: "memoryBackend \<Rightarrow> goerr" where
  "MB_checkClosed b = (if mb_closed b then Some ErrStorageClosed else None)"

definition MB_Initialize :: "memoryBackend \<Rightarrow> goerr" where
  "MB_Initialize b = (if mb_closed b then Some ErrStorageClosed else None)"

definition MB_HealthCheck :: "memoryBackend \<Rightarrow> goerr" where
  "MB_HealthCheck b = (if mb_closed b then Some ErrStorageClosed else None)"

definition MB_Close :: "memoryBackend \<Rightarrow> memoryBackend" where
  "MB_Close b =
     (if mb_closed b then b
      else b\<lparr>mb_closed := True, mb_data := [], mb_blobs := [], mb_quotaUsage := [], mb_tombstones := []\<rparr>)"

section \<open>Resources\<close>

definition MB_Get :: "string \<Rightarrow> memoryBackend \<Rightarrow> Resource result" where
  "MB_Get uri b =
     (case MB_checkClosed b of
        Some err \<Rightarrow> Inl err
      | None \<Rightarrow>
          if uri = [] then Inl (SanitizeError ErrEmptyURI)
          else if mget (mb_tombstones b) uri \<noteq> None then Inl ErrNotFound
          else case mget (mb_data b) uri of
            None \<Rightarrow> Inl ErrNotFound
          | Some r \<Rightarrow> Inr \<lparr>rs_URI = mr_URI r, rs_Body = mr_Body r, rs_Metadata = mr_Metadata r\<rparr>)"

definition MB_GetMetadata :: "string \<Rightarrow> memoryBackend \<Rightarrow> Metadata result" where
  "MB_GetMetadata uri b =
     (case MB_checkClosed b of
        Some err \<Rightarrow> Inl err
      | None \<Rightarrow>
          if mget (mb_tombstones b) uri \<noteq> None then Inl ErrNotFound
          else case mget (mb_data b) uri of
            None \<Rightarrow> Inl ErrNotFound
          | Some r \<Rightarrow> Inr (mr_Metadata r))"

definition MB_preconditions :: "WritePrecondition \<Rightarrow> memoryResource option \<Rightarrow> goerr" where
  "MB_preconditions pre current =
     (if wp_IfMatch pre \<noteq> [] \<and>
         (if wp_IfMatch pre = ''*'' then current = None
          else case current of None \<Rightarrow> True | Some r \<Rightarrow> md_ETag (mr_Metadata r) \<noteq> wp_IfMatch pre)
      then Some ErrPreconditionFailed
      else if wp_IfNoneMatch pre \<noteq> [] \<and>
         (if wp_IfNoneMatch pre = ''*'' then current \<noteq> None
          else case current of None \<Rightarrow> False | Some r \<Rightarrow> md_ETag (mr_Metadata r) = wp_IfNoneMatch pre)
      then Some ErrPreconditionFailed
      else None)"

definition MB_read_body :: "WriteResource \<Rightarrow> string option result" where
  "MB_read_body resource =
     (case (wr_Body resource, wr_BodyReader resource) of
        (None, Some (Inl err)) \<Rightarrow> Inl (SanitizeError (Errorf ''failed to read body: '' err []))
      | (None, Some (Inr data)) \<Rightarrow> Inr (Some data)
      | (body, _) \<Rightarrow> Inr body)"

text \<open>The storage root of a resource without one: the URI up to its first slash, unless that is its
  first byte.\<close>

definition default_root :: "string \<Rightarrow> string" where
  "default_root uri =
     (case Index uri ''/'' of Some idx \<Rightarrow> if idx > 0 then take idx uri else uri | None \<Rightarrow> uri)"

definition MB_checkAndUpdateQuota :: "string \<Rightarrow> int \<Rightarrow> memoryBackend \<Rightarrow> goerr \<times> memoryBackend" where
  "MB_checkAndUpdateQuota storageRoot additionalBytes b =
     (let usage = (case mget (mb_quotaUsage b) storageRoot of
                     Some u \<Rightarrow> u
                   | None \<Rightarrow> \<lparr>qu_UsedBytes = 0, qu_UsedResources = 0, qu_MaxBytes = 0, qu_MaxResources = 0\<rparr>);
          b = b\<lparr>mb_quotaUsage := mset_at storageRoot usage (mb_quotaUsage b)\<rparr>
      in if qu_MaxBytes usage > 0 \<and> int64_wrap (qu_UsedBytes usage + additionalBytes) > qu_MaxBytes usage
         then (Some ErrQuotaExceeded, b)
         else if qu_MaxResources usage > 0 \<and> int64_wrap (qu_UsedResources usage + 1) > qu_MaxResources usage
         then (Some ErrQuotaExceeded, b)
         else (None, b\<lparr>mb_quotaUsage := mset_at storageRoot
           (usage\<lparr>qu_UsedBytes := int64_wrap (qu_UsedBytes usage + additionalBytes),
                  qu_UsedResources := int64_wrap (qu_UsedResources usage + 1)\<rparr>) (mb_quotaUsage b)\<rparr>))"

definition MB_rollbackQuota :: "string \<Rightarrow> int \<Rightarrow> memoryBackend \<Rightarrow> memoryBackend" where
  "MB_rollbackQuota storageRoot bytesFreed b =
     (case mget (mb_quotaUsage b) storageRoot of
        None \<Rightarrow> b
      | Some usage \<Rightarrow>
          let bytes_left = int64_wrap (qu_UsedBytes usage - bytesFreed);
              resources_left = int64_wrap (qu_UsedResources usage - 1)
          in b\<lparr>mb_quotaUsage := mset_at storageRoot
               (usage\<lparr>qu_UsedBytes := (if bytes_left < 0 then 0 else bytes_left),
                      qu_UsedResources := (if resources_left < 0 then 0 else resources_left)\<rparr>)
               (mb_quotaUsage b)\<rparr>)"

text \<open>The metadata that \<open>Put\<close> stores: the given fields, with defaults for the missing ones.\<close>

definition MB_stored_metadata ::
  "gotime \<Rightarrow> StorageLayoutVersion \<Rightarrow> string \<Rightarrow> string option \<Rightarrow> string \<Rightarrow> Metadata \<Rightarrow> Metadata" where
  "MB_stored_metadata now version uri body storageRoot m =
     m\<lparr>md_URI := (if md_URI m = [] then uri else md_URI m),
       md_Size := (if md_Size m = 0 \<and> body \<noteq> None then int (length (bytes body)) else md_Size m),
       md_LastModified := (if IsZero (md_LastModified m) then now else md_LastModified m),
       md_ETag := (if md_ETag m = [] \<and> body \<noteq> None then generateETag (bytes body) else md_ETag m),
       md_ResourceType := (if md_ResourceType m = [] then ResourceTypeResource else md_ResourceType m),
       md_StorageRoot := (if md_StorageRoot m = [] then storageRoot else md_StorageRoot m),
       md_LayoutVersion := (if md_LayoutVersion m = 0 then version else md_LayoutVersion m)\<rparr>"

definition MB_Put :: "gotime \<Rightarrow> string \<Rightarrow> WriteResource option \<Rightarrow> memoryBackend \<Rightarrow> goerr \<times> memoryBackend" where
  "MB_Put now uri resource b =
     (case MB_checkClosed b of
        Some err \<Rightarrow> (Some err, b)
      | None \<Rightarrow>
        case resource of
          None \<Rightarrow> (Some (ErrorsNew ''resource cannot be nil''), b)
        | Some resource \<Rightarrow>
          if uri = [] then (Some (SanitizeError ErrEmptyURI), b)
          else case MB_preconditions (wr_Preconditions resource) (mget (mb_data b) uri) of
            Some err \<Rightarrow> (Some err, b)
          | None \<Rightarrow>
            case MB_read_body resource of
              Inl err \<Rightarrow> (Some err, b)
            | Inr body \<Rightarrow>
              let m = wr_Metadata resource;
                  storageRoot = (if md_StorageRoot m = [] then default_root uri else md_StorageRoot m);
                  resourceSize = int (length (bytes body)) + estimateMetadataSize (Some m)
              in case (if resourceSize > 0 then MB_checkAndUpdateQuota storageRoot resourceSize b
                       else (None, b)) of
                   (Some err, b) \<Rightarrow> (Some err, b)
                 | (None, b) \<Rightarrow>
                     (None, b\<lparr>mb_data := mset_at uri \<lparr>mr_URI = uri, mr_Body = body,
                         mr_Metadata = MB_stored_metadata now (mb_layoutVersion b) uri body storageRoot m\<rparr>
                         (mb_data b),
                       mb_tombstones := mdelete uri (mb_tombstones b)\<rparr>))"

definition MB_Delete :: "gocontext \<Rightarrow> string \<Rightarrow> memoryBackend \<Rightarrow> goerr \<times> memoryBackend" where
  "MB_Delete ctx uri b =
     (if ctx = None then (Some ErrNilContext, b)
      else case ValidateURI uri of
        Inl err \<Rightarrow> (Some (SanitizeError err), b)
      | Inr validatedURI \<Rightarrow>
        case MB_checkClosed b of
          Some err \<Rightarrow> (Some (SanitizeError err), b)
        | None \<Rightarrow>
          let metadata = (case mget (mb_data b) validatedURI of
                            Some r \<Rightarrow> mr_Metadata r | None \<Rightarrow> zero_Metadata);
              b = b\<lparr>mb_data := mdelete validatedURI (mb_data b)\<rparr>
          in (None,
              if md_Size metadata > 0
              then MB_rollbackQuota (if md_StorageRoot metadata = [] then default_root validatedURI
                                     else md_StorageRoot metadata) (md_Size metadata) b
              else b))"

definition MB_List :: "gocontext \<Rightarrow> string \<Rightarrow> memoryBackend \<Rightarrow> Metadata list result" where
  "MB_List ctx containerURI b =
     (if ctx = None then Inl ErrNilContext
      else case ValidateURI containerURI of
        Inl err \<Rightarrow> Inl (SanitizeError err)
      | Inr validatedURI \<Rightarrow>
        case MB_checkClosed b of
          Some err \<Rightarrow> Inl (SanitizeError err)
        | None \<Rightarrow>
          let prefix = (if HasSuffix validatedURI ''/'' then validatedURI else validatedURI @ ''/'')
          in Inr (take MaxResourceCountPerList
               (map (mr_Metadata \<circ> snd)
                 (filter (\<lambda>(uri, r). mget (mb_tombstones b) uri = None \<and> HasPrefix uri prefix)
                   (mb_data b)))))"

definition MB_Exists :: "gocontext \<Rightarrow> string \<Rightarrow> memoryBackend \<Rightarrow> bool result" where
  "MB_Exists ctx uri b =
     (if ctx = None then Inl ErrNilContext
      else case ValidateURI uri of
        Inl err \<Rightarrow> Inl (SanitizeError err)
      | Inr validatedURI \<Rightarrow>
        case MB_checkClosed b of
          Some err \<Rightarrow> Inl (SanitizeError err)
        | None \<Rightarrow>
          if mget (mb_tombstones b) validatedURI \<noteq> None then Inr False
          else Inr (mget (mb_data b) validatedURI \<noteq> None))"

section \<open>Blobs\<close>

definition MB_StoreBlob ::
  "gocontext \<Rightarrow> string option \<Rightarrow> memoryBackend \<Rightarrow> ContentAddress result \<times> memoryBackend" where
  "MB_StoreBlob ctx data b =
     (if ctx = None then (Inl ErrNilContext, b)
      else case ValidateBodySize data of
        Some err \<Rightarrow> (Inl (SanitizeError err), b)
      | None \<Rightarrow>
        let address = computeContentAddress (bytes data) in
        case ValidateContentAddress address of
          Some err \<Rightarrow> (Inl (SanitizeError err), b)
        | None \<Rightarrow>
          case MB_checkClosed b of
            Some err \<Rightarrow> (Inl (SanitizeError err), b)
          | None \<Rightarrow> (Inr address, b\<lparr>mb_blobs := mset_at address data (mb_blobs b)\<rparr>))"

definition MB_GetBlob :: "gocontext \<Rightarrow> ContentAddress \<Rightarrow> memoryBackend \<Rightarrow> string result" where
  "MB_GetBlob ctx address b =
     (if ctx = None then Inl ErrNilContext
      else case ValidateContentAddress address of
        Some err \<Rightarrow> Inl (SanitizeError err)
      | None \<Rightarrow>
        case MB_checkClosed b of
          Some err \<Rightarrow> Inl (SanitizeError err)
        | None \<Rightarrow>
          case mget (mb_blobs b) address of
            None \<Rightarrow> Inl ErrNotFound
          | Some data \<Rightarrow>
            case ValidateBodySize data of
              Some err \<Rightarrow> Inl (SanitizeError err)
            | None \<Rightarrow> Inr (bytes data))"

definition MB_BlobExists :: "gocontext \<Rightarrow> ContentAddress \<Rightarrow> memoryBackend \<Rightarrow> bool result" where
  "MB_BlobExists ctx address b =
     (if ctx = None then Inl ErrNilContext
      else case ValidateContentAddress address of
        Some err \<Rightarrow> Inl (SanitizeError err)
      | None \<Rightarrow>
        case MB_checkClosed b of
          Some err \<Rightarrow> Inl (SanitizeError err)
        | None \<Rightarrow> Inr (mget (mb_blobs b) address \<noteq> None))"

definition MB_DeleteBlob :: "gocontext \<Rightarrow> ContentAddress \<Rightarrow> memoryBackend \<Rightarrow> goerr \<times> memoryBackend" where
  "MB_DeleteBlob ctx address b =
     (if ctx = None then (Some ErrNilContext, b)
      else case ValidateContentAddress address of
        Some err \<Rightarrow> (Some (SanitizeError err), b)
      | None \<Rightarrow>
        case MB_checkClosed b of
          Some err \<Rightarrow> (Some (SanitizeError err), b)
        | None \<Rightarrow> (None, b\<lparr>mb_blobs := mdelete address (mb_blobs b)\<rparr>))"

section \<open>Quotas\<close>

definition MB_GetQuota :: "gocontext \<Rightarrow> string \<Rightarrow> memoryBackend \<Rightarrow> QuotaInfo result" where
  "MB_GetQuota ctx storageRoot b =
     (if ctx = None then Inl ErrNilContext
      else case ValidateStorageRoot storageRoot of
        Some err \<Rightarrow> Inl (SanitizeError err)
      | None \<Rightarrow>
        case MB_checkClosed b of
          Some err \<Rightarrow> Inl (SanitizeError err)
        | None \<Rightarrow>
          Inr (case mget (mb_quotaUsage b) storageRoot of
            None \<Rightarrow> \<lparr>qi_StorageRoot = storageRoot, qi_Tenant = [], qi_UsedBytes = 0, qi_MaxBytes = 0,
              qi_UsedResources = 0, qi_MaxResources = 0\<rparr>
          | Some usage \<Rightarrow> \<lparr>qi_StorageRoot = storageRoot, qi_Tenant = [],
              qi_UsedBytes = qu_UsedBytes usage, qi_MaxBytes = qu_MaxBytes usage,
              qi_UsedResources = qu_UsedResources usage, qi_MaxResources = qu_MaxResources usage\<rparr>))"

definition MB_CheckQuota :: "gocontext \<Rightarrow> string \<Rightarrow> int \<Rightarrow> memoryBackend \<Rightarrow> goerr \<times> memoryBackend" where
  "MB_CheckQuota ctx storageRoot additionalBytes b =
     (if ctx = None then (Some ErrNilContext, b)
      else if additionalBytes < 0
        then (Some (SanitizeError (ErrorsNew ''additional bytes cannot be negative'')), b)
      else case ValidateStorageRoot storageRoot of
        Some err \<Rightarrow> (Some (SanitizeError err), b)
      | None \<Rightarrow>
        case MB_checkClosed b of
          Some err \<Rightarrow> (Some (SanitizeError err), b)
        | None \<Rightarrow> MB_checkAndUpdateQuota storageRoot additionalBytes b)"

section \<open>Tombstones\<close>

definition MB_GetTombstone :: "gocontext \<Rightarrow> string \<Rightarrow> memoryBackend \<Rightarrow> Tombstone result" where
  "MB_GetTombstone ctx uri b =
     (if ctx = None then Inl ErrNilContext
      else case ValidateURI uri of
        Inl err \<Rightarrow> Inl (SanitizeError err)
      | Inr validatedURI \<Rightarrow>
        case MB_checkClosed b of
          Some err \<Rightarrow> Inl (SanitizeError err)
        | None \<Rightarrow>
          case mget (mb_tombstones b) validatedURI of
            None \<Rightarrow> Inl ErrNotFound
          | Some t \<Rightarrow> Inr t)"

definition MB_StoreTombstone ::
  "gocontext \<Rightarrow> gotime \<Rightarrow> Tombstone option \<Rightarrow> memoryBackend \<Rightarrow> goerr \<times> memoryBackend" where
  "MB_StoreTombstone ctx now tombstone b =
     (if ctx = None then (Some ErrNilContext, b)
      else case tombstone of
        None \<Rightarrow> (Some (SanitizeError ErrNilTombstone), b)
      | Some t \<Rightarrow>
        case validateTombstone tombstone of
          Some err \<Rightarrow> (Some (SanitizeError err), b)
        | None \<Rightarrow>
          case ValidateURI (tb_URI t) of
            Inl err \<Rightarrow> (Some (SanitizeError err), b)
          | Inr validatedURI \<Rightarrow>
            let t = (if IsZero (tb_DeletedAt t) then t\<lparr>tb_DeletedAt := now\<rparr> else t) in
            case MB_checkClosed b of
              Some err \<Rightarrow> (Some (SanitizeError err), b)
            | None \<Rightarrow> (None, b\<lparr>mb_tombstones := mset_at validatedURI t (mb_tombstones b),
                mb_data := mdelete validatedURI (mb_data b)\<rparr>))"

definition MB_DeleteTombstone :: "gocontext \<Rightarrow> string \<Rightarrow> memoryBackend \<Rightarrow> goerr \<times> memoryBackend" where
  "MB_DeleteTombstone ctx uri b =
     (if ctx = None then (Some ErrNilContext, b)
      else case ValidateURI uri of
        Inl err \<Rightarrow> (Some (SanitizeError err), b)
      | Inr validatedURI \<Rightarrow>
        case MB_checkClosed b of
          Some err \<Rightarrow> (Some (SanitizeError err), b)
        | None \<Rightarrow> (None, b\<lparr>mb_tombstones := mdelete validatedURI (mb_tombstones b)\<rparr>))"

definition MB_ListTombstones :: "gocontext \<Rightarrow> string \<Rightarrow> memoryBackend \<Rightarrow> Tombstone list result" where
  "MB_ListTombstones ctx storageRoot b =
     (if ctx = None then Inl ErrNilContext
      else case ValidateStorageRoot storageRoot of
        Some err \<Rightarrow> Inl (SanitizeError err)
      | None \<Rightarrow>
        case MB_checkClosed b of
          Some err \<Rightarrow> Inl (SanitizeError err)
        | None \<Rightarrow>
          Inr (take MaxResourceCountPerList
            (map snd (filter (\<lambda>(uri, t). storageRoot = [] \<or> HasPrefix uri storageRoot \<or> uri = storageRoot)
              (mb_tombstones b)))))"

section \<open>Layout version\<close>

definition MB_GetLayoutVersion :: "gocontext \<Rightarrow> memoryBackend \<Rightarrow> StorageLayoutVersion result" where
  "MB_GetLayoutVersion ctx b =
     (if ctx = None then Inl ErrNilContext
      else case MB_checkClosed b of
        Some err \<Rightarrow> Inl (SanitizeError err)
      | None \<Rightarrow> Inr (mb_layoutVersion b))"

definition MB_SetLayoutVersion ::
  "gocontext \<Rightarrow> StorageLayoutVersion \<Rightarrow> memoryBackend \<Rightarrow> goerr \<times> memoryBackend" where
  "MB_SetLayoutVersion ctx version b =
     (if ctx = None then (Some ErrNilContext, b)
      else case MB_checkClosed b of
        Some err \<Rightarrow> (Some (SanitizeError err), b)
      | None \<Rightarrow>
        if version < MinSupportedStorageLayoutVersion
        then (Some (SanitizeError (ErrorsNew (''version '' @ FormatInt version @
               '' is below minimum supported version '' @ FormatInt MinSupportedStorageLayoutVersion))), b)
        else (None, b\<lparr>mb_layoutVersion := version\<rparr>))"

section \<open>Integrity\<close>

definition integrity_issue ::
  "IntegrityIssueType \<Rightarrow> IntegrityIssueSeverity \<Rightarrow> string \<Rightarrow> (string, string) gomap \<Rightarrow> IntegrityIssue" where
  "integrity_issue ty severity description details =
     \<lparr>ii_Type = ty, ii_Severity = severity, ii_Description = description, ii_Details = details\<rparr>"

definition MB_scanResourceIntegrity :: "string \<Rightarrow> memoryResource \<Rightarrow> ResourceIntegrityReport" where
  "MB_scanResourceIntegrity uri resource =
     (let m = mr_Metadata resource;
          computedDigest = computeDigest (bytes (mr_Body resource));
          actual = int (length (bytes (mr_Body resource)));
          digest_issues =
            (if md_Digest m \<noteq> [] then
               (if md_Digest m \<noteq> computedDigest then
                  [integrity_issue ''invalid_digest'' ''critical'' ''Resource digest does not match metadata''
                     [(''uri'', uri), (''expected'', md_Digest m), (''computed'', computedDigest)]]
                else [])
             else
               [integrity_issue ''missing_digest'' ''low'' ''Resource is missing digest in metadata''
                  [(''uri'', uri)]]);
          size_issues =
            (if md_Size m \<noteq> actual then
               [integrity_issue ''metadata_body_mismatch'' ''high'' ''Resource size does not match metadata''
                  [(''uri'', uri), (''expected'', FormatInt (md_Size m)), (''actual'', FormatInt actual)]]
             else []);
          version_issues =
            (if md_LayoutVersion m = 0 then
               [integrity_issue ''layout_version_mismatch'' ''low'' ''Resource is missing layout version''
                  [(''uri'', uri)]]
             else if md_LayoutVersion m < MinSupportedStorageLayoutVersion then
               [integrity_issue ''layout_version_mismatch'' ''high'' ''Resource has unsupported layout version''
                  [(''uri'', uri), (''layout_version'', FormatInt (md_LayoutVersion m)),
                   (''min_supported'', FormatInt MinSupportedStorageLayoutVersion)]]
             else [])
      in \<lparr>rr_URI = uri, rr_Issues = digest_issues @ size_issues @ version_issues\<rparr>)"

definition MB_ScanIntegrity :: "gocontext \<Rightarrow> gotime \<Rightarrow> memoryBackend \<Rightarrow> IntegrityReport result" where
  "MB_ScanIntegrity ctx now b =
     (if ctx = None then Inl ErrNilContext
      else case MB_checkClosed b of
        Some err \<Rightarrow> Inl (SanitizeError err)
      | None \<Rightarrow>
        let reports = map (\<lambda>(uri, r). MB_scanResourceIntegrity uri r)
              (filter (\<lambda>(uri, r). mget (mb_tombstones b) uri = None) (mb_data b))
        in Inr \<lparr>ir_ScannedAt = now, ir_TotalResources = int (length (mb_data b)),
             ir_ResourcesWithIssues = int (length (filter (\<lambda>r. rr_Issues r \<noteq> []) reports)),
             ir_MetadataBodyMismatches = 0, ir_MissingDigests = 0, ir_OrphanedBlobs = 0,
             ir_ResourceReports = reports\<rparr>)"

section \<open>Runs\<close>

text \<open>The operations that change the state; \<open>Restore\<close> is not among them.\<close>

datatype mb_op =
    OpPut gotime string "WriteResource option"
  | OpDelete gocontext string
  | OpStoreBlob gocontext "string option"
  | OpDeleteBlob gocontext ContentAddress
  | OpCheckQuota gocontext string int
  | OpStoreTombstone gocontext gotime "Tombstone option"
  | OpDeleteTombstone gocontext string
  | OpSetLayoutVersion gocontext StorageLayoutVersion
  | OpClose

primrec exec_mb :: "mb_op \<Rightarrow> memoryBackend \<Rightarrow> memoryBackend" where
  "exec_mb (OpPut now uri w) b = snd (MB_Put now uri w b)"
| "exec_mb (OpDelete ctx uri) b = snd (MB_Delete ctx uri b)"
| "exec_mb (OpStoreBlob ctx data) b = snd (MB_StoreBlob ctx data b)"
| "exec_mb (OpDeleteBlob ctx a) b = snd (MB_DeleteBlob ctx a b)"
| "exec_mb (OpCheckQuota ctx root n) b = snd (MB_CheckQuota ctx root n b)"
| "exec_mb (OpStoreTombstone ctx now t) b = snd (MB_StoreTombstone ctx now t b)"
| "exec_mb (OpDeleteTombstone ctx uri) b = snd (MB_DeleteTombstone ctx uri b)"
| "exec_mb (OpSetLayoutVersion ctx v) b = snd (MB_SetLayoutVersion ctx v b)"
| "exec_mb OpClose b = MB_Close b"

abbreviation run_mb :: "mb_op list \<Rightarrow> memoryBackend \<Rightarrow> memoryBackend" where
  "run_mb \<equiv> fold exec_mb"

section \<open>Invariant\<close>

definition entry_ok :: "string \<times> memoryResource \<Rightarrow> bool" where
  "entry_ok = (\<lambda>(u, r). u \<noteq> [] \<and> mr_URI r = u \<and> md_URI (mr_Metadata r) \<noteq> [] \<and>
     md_ResourceType (mr_Metadata r) \<noteq> [] \<and> md_StorageRoot (mr_Metadata r) \<noteq> [] \<and>
     md_LayoutVersion (mr_Metadata r) \<noteq> 0 \<and>
     (mr_Body r \<noteq> None \<longrightarrow> md_ETag (mr_Metadata r) \<noteq> []))"

definition blob_ok :: "ContentAddress \<times> string option \<Rightarrow> bool" where
  "blob_ok = (\<lambda>(a, d). a = computeContentAddress (bytes d) \<and> ValidateBodySize d = None)"

definition quota_ok :: "string \<times> quotaUsageInfo \<Rightarrow> bool" where
  "quota_ok = (\<lambda>(root, q). qu_MaxBytes q = 0 \<and> qu_MaxResources q = 0 \<and>
     int64_ok (qu_UsedBytes q) \<and> int64_ok (qu_UsedResources q))"

text \<open>No URI has both a resource and a tombstone.\<close>

definition apart :: "(string, Tombstone) gomap \<Rightarrow> (string, memoryResource) gomap \<Rightarrow> bool" where
  "apart ts m \<longleftrightarrow> list_all (\<lambda>(u, r). map_of ts u = None) m"

definition mb_ok :: "memoryBackend \<Rightarrow> bool" where
  "mb_ok b \<longleftrightarrow>
     gomap_ok (mb_data b) \<and> gomap_ok (mb_blobs b) \<and> gomap_ok (mb_quotaUsage b) \<and> gomap_ok (mb_tombstones b) \<and>
     list_all entry_ok (mb_data b) \<and> list_all blob_ok (mb_blobs b) \<and> list_all quota_ok (mb_quotaUsage b) \<and>
     apart (mb_tombstones b) (mb_data b) \<and>
     mb_layoutVersion b \<ge> MinSupportedStorageLayoutVersion \<and>
     (mb_closed b \<longrightarrow> mb_data b = [] \<and> mb_tombstones b = [])"

text \<open>Entry-wise predicates of a map survive updates and deletions.\<close>

lemma list_all_update:
  "list_all P m \<Longrightarrow> P (k, v) \<Longrightarrow> list_all P (AList.update k v m)"
  by (induction m) auto

lemma list_all_delete: "list_all P m \<Longrightarrow> list_all P (AList.delete k m)"
  by (auto simp: list_all_iff AList.delete_eq)

lemma list_all_mono: "list_all P m \<Longrightarrow> (\<And>x. P x \<Longrightarrow> Q x) \<Longrightarrow> list_all Q m"
  by (simp add: list_all_iff)

lemma list_all_lookup: "list_all P m \<Longrightarrow> map_of m k = Some v \<Longrightarrow> P (k, v)"
  using map_of_SomeD by (fastforce simp: list_all_iff)

text \<open>The quota operations change the quota map alone, and no limit is ever set.\<close>

definition quotas_ok :: "(string, quotaUsageInfo) gomap \<Rightarrow> bool" where
  "quotas_ok qs \<longleftrightarrow> gomap_ok qs \<and> list_all quota_ok qs"

lemma checkAndUpdateQuota_unlimited:
  assumes "quotas_ok (mb_quotaUsage b)"
  obtains qs where "MB_checkAndUpdateQuota root n b = (None, b\<lparr>mb_quotaUsage := qs\<rparr>)" "quotas_ok qs"
proof -
  let ?u = "case map_of (mb_quotaUsage b) root of Some u \<Rightarrow> u
    | None \<Rightarrow> \<lparr>qu_UsedBytes = 0, qu_UsedResources = 0, qu_MaxBytes = 0, qu_MaxResources = 0\<rparr>"
  have u: "quota_ok (root, ?u)"
    using assms by (auto simp: quotas_ok_def quota_ok_def int64_ok_def int64_max_def
        dest!: list_all_lookup split: option.splits)
  let ?v = "?u\<lparr>qu_UsedBytes := int64_wrap (qu_UsedBytes ?u + n),
    qu_UsedResources := int64_wrap (qu_UsedResources ?u + 1)\<rparr>"
  let ?qs = "AList.update root ?v (AList.update root ?u (mb_quotaUsage b))"
  have "MB_checkAndUpdateQuota root n b = (None, b\<lparr>mb_quotaUsage := ?qs\<rparr>)"
    using u by (simp add: MB_checkAndUpdateQuota_def Let_def quota_ok_def)
  moreover have "quotas_ok ?qs"
    using assms u by (simp add: quotas_ok_def list_all_update quota_ok_def)
  ultimately show ?thesis by (rule that)
qed

lemma rollbackQuota_frame:
  assumes "quotas_ok (mb_quotaUsage b)"
  obtains qs where "MB_rollbackQuota root n b = b\<lparr>mb_quotaUsage := qs\<rparr>" "quotas_ok qs"
proof (cases "map_of (mb_quotaUsage b) root")
  case None
  then have "MB_rollbackQuota root n b = b\<lparr>mb_quotaUsage := mb_quotaUsage b\<rparr>"
    by (simp add: MB_rollbackQuota_def)
  then show ?thesis using assms by (rule that)
next
  case (Some q)
  let ?l = "\<lambda>x. if int64_wrap x < 0 then 0 else int64_wrap x"
  let ?q = "q\<lparr>qu_UsedBytes := ?l (qu_UsedBytes q - n), qu_UsedResources := ?l (qu_UsedResources q - 1)\<rparr>"
  have "quota_ok (root, q)"
    using assms Some by (auto simp: quotas_ok_def dest: list_all_lookup)
  moreover have "int64_ok (?l x)" for x
    using int64_wrap_ok [of x] by (auto simp: int64_ok_def int64_max_def simp del: int64_wrap_ok)
  ultimately have "quota_ok (root, ?q)" by (simp add: quota_ok_def del: if_split)
  then have "quotas_ok (AList.update root ?q (mb_quotaUsage b))"
    using assms by (simp add: quotas_ok_def list_all_update del: if_split)
  moreover have "MB_rollbackQuota root n b = b\<lparr>mb_quotaUsage := AList.update root ?q (mb_quotaUsage b)\<rparr>"
    using Some by (simp add: MB_rollbackQuota_def Let_def)
  ultimately show ?thesis using that by blast
qed

section \<open>The exact effect of a write\<close>

text \<open>The error of a write, if any, and the entry it stores.\<close>

definition put_error :: "string \<Rightarrow> WriteResource option \<Rightarrow> memoryBackend \<Rightarrow> goerr" where
  "put_error uri resource b =
     (if mb_closed b then Some ErrStorageClosed
      else case resource of
        None \<Rightarrow> Some (ErrorsNew ''resource cannot be nil'')
      | Some w \<Rightarrow>
          if uri = [] then Some ErrEmptyURI
          else case MB_preconditions (wr_Preconditions w) (mget (mb_data b) uri) of
            Some err \<Rightarrow> Some err
          | None \<Rightarrow> (case MB_read_body w of Inl err \<Rightarrow> Some err | Inr _ \<Rightarrow> None))"

definition put_entry :: "gotime \<Rightarrow> StorageLayoutVersion \<Rightarrow> string \<Rightarrow> WriteResource \<Rightarrow> memoryResource" where
  "put_entry now version uri w =
     \<lparr>mr_URI = uri, mr_Body = written_body w,
      mr_Metadata = MB_stored_metadata now version uri (written_body w)
        (if md_StorageRoot (wr_Metadata w) = [] then default_root uri else md_StorageRoot (wr_Metadata w))
        (wr_Metadata w)\<rparr>"

lemma read_body_written: "MB_read_body w = Inr body \<Longrightarrow> body = written_body w"
  by (cases "wr_Body w") (auto simp: MB_read_body_def written_body_def split: option.splits sum.splits)

lemma estimateMetadataSize_pos: "estimateMetadataSize (Some m) > 0"
  by (simp add: estimateMetadataSize_def)

lemma MB_Put_error: "put_error uri resource b = Some err \<Longrightarrow> MB_Put now uri resource b = (Some err, b)"
  by (auto simp: put_error_def MB_Put_def MB_checkClosed_def split: if_splits option.splits sum.splits)

definition put_state :: "gotime \<Rightarrow> string \<Rightarrow> WriteResource \<Rightarrow> (string, quotaUsageInfo) gomap \<Rightarrow>
    memoryBackend \<Rightarrow> memoryBackend" where
  "put_state now uri w qs b =
     b\<lparr>mb_quotaUsage := qs,
       mb_data := AList.update uri (put_entry now (mb_layoutVersion b) uri w) (mb_data b),
       mb_tombstones := AList.delete uri (mb_tombstones b)\<rparr>"

lemma MB_Put_ok:
  assumes "quotas_ok (mb_quotaUsage b)" "put_error uri resource b = None"
  obtains w qs where "resource = Some w" "uri \<noteq> []" "\<not> mb_closed b" "quotas_ok qs"
    "MB_Put now uri resource b = (None, put_state now uri w qs b)"
proof -
  from assms(2) obtain w body where w: "resource = Some w" "uri \<noteq> []" "\<not> mb_closed b"
    and pre: "MB_preconditions (wr_Preconditions w) (map_of (mb_data b) uri) = None"
    and body: "MB_read_body w = Inr body"
    by (auto simp: put_error_def split: if_splits option.splits sum.splits)
  let ?root = "if md_StorageRoot (wr_Metadata w) = [] then default_root uri else md_StorageRoot (wr_Metadata w)"
  let ?n = "int (length (bytes body)) + estimateMetadataSize (Some (wr_Metadata w))"
  obtain qs where qs: "MB_checkAndUpdateQuota ?root ?n b = (None, b\<lparr>mb_quotaUsage := qs\<rparr>)" "quotas_ok qs"
    by (rule checkAndUpdateQuota_unlimited [OF assms(1)])
  have "0 < ?n" using estimateMetadataSize_pos [of "wr_Metadata w"] by simp
  then have "MB_Put now uri resource b = (None, put_state now uri w qs b)"
    using w pre body qs(1)
    by (simp add: MB_Put_def MB_checkClosed_def Let_def put_entry_def put_state_def
        read_body_written [symmetric] del: if_split)
  with w qs(2) show ?thesis by (rule that)
qed

section \<open>Every operation keeps the invariant\<close>

lemma default_root_nonempty: "uri \<noteq> [] \<Longrightarrow> default_root uri \<noteq> []"
  by (auto simp: default_root_def split: option.splits)

lemma put_entry_ok:
  assumes "uri \<noteq> []" "version \<noteq> 0"
  shows "entry_ok (uri, put_entry now version uri w)"
  using assms default_root_nonempty [of uri]
  by (auto simp: entry_ok_def put_entry_def MB_stored_metadata_def ResourceTypeResource_def generateETag_def)

lemma set_delete_iff: "x \<in> set (AList.delete k m) \<longleftrightarrow> x \<in> set m \<and> fst x \<noteq> k"
  by (auto simp: AList.delete_eq)

lemma apart_simps [simp]:
  "apart ts []"
  "apart ts m \<Longrightarrow> apart (AList.delete k ts) m"
  "apart ts m \<Longrightarrow> apart ts (AList.delete k m)"
  "apart ts m \<Longrightarrow> apart (AList.update k t ts) (AList.delete k m)"
  by (auto simp: apart_def list_all_iff set_delete_iff)

lemma apart_update [simp]: "apart ts m \<Longrightarrow> apart (AList.delete k ts) (AList.update k v m)"
  unfolding apart_def by (rule list_all_update) (auto simp: list_all_iff)

lemma mb_ok_quotas: "mb_ok b \<Longrightarrow> quotas_ok (mb_quotaUsage b)"
  by (simp add: mb_ok_def quotas_ok_def)

lemma mb_ok_set_quotas: "mb_ok b \<Longrightarrow> quotas_ok qs \<Longrightarrow> mb_ok (b\<lparr>mb_quotaUsage := qs\<rparr>)"
  by (simp add: mb_ok_def quotas_ok_def)

lemma mb_ok_put_state: "mb_ok b \<Longrightarrow> quotas_ok qs \<Longrightarrow> uri \<noteq> [] \<Longrightarrow> \<not> mb_closed b \<Longrightarrow> mb_ok (put_state now uri w qs b)"
  by (simp add: mb_ok_def put_state_def quotas_ok_def list_all_update put_entry_ok
      MinSupportedStorageLayoutVersion_def)

lemma mb_ok_Put: "mb_ok b \<Longrightarrow> mb_ok (snd (MB_Put now uri resource b))"
proof (cases "put_error uri resource b")
  case None
  assume ok: "mb_ok b"
  obtain w qs where "uri \<noteq> []" "\<not> mb_closed b" "quotas_ok qs" "MB_Put now uri resource b = (None, put_state now uri w qs b)"
    by (rule MB_Put_ok [OF mb_ok_quotas [OF ok] None])
  with ok show ?thesis by (simp add: mb_ok_put_state)
next
  case (Some e)
  assume "mb_ok b"
  with Some show ?thesis by (simp add: MB_Put_error)
qed

lemma MB_Delete_exact:
  assumes "quotas_ok (mb_quotaUsage b)" "\<not> mb_closed b" "ValidateURI uri = Inr v"
  obtains qs where "quotas_ok qs"
    "MB_Delete (Some ()) uri b = (None, b\<lparr>mb_data := AList.delete v (mb_data b), mb_quotaUsage := qs\<rparr>)"
proof -
  let ?b = "b\<lparr>mb_data := AList.delete v (mb_data b)\<rparr>"
  let ?m = "case map_of (mb_data b) v of Some r \<Rightarrow> mr_Metadata r | None \<Rightarrow> zero_Metadata"
  let ?root = "if md_StorageRoot ?m = [] then default_root v else md_StorageRoot ?m"
  obtain qs where qs: "MB_rollbackQuota ?root (md_Size ?m) ?b = ?b\<lparr>mb_quotaUsage := qs\<rparr>" "quotas_ok qs"
    using rollbackQuota_frame [of ?b ?root "md_Size ?m"] assms(1) by auto
  show ?thesis
  proof (cases "md_Size ?m > 0")
    case True
    with qs assms(2,3) show ?thesis
      by (intro that [of qs]) (simp_all add: MB_Delete_def MB_checkClosed_def Let_def del: if_split)
  next
    case False
    with assms show ?thesis
      by (intro that [of "mb_quotaUsage b"]) (simp_all add: MB_Delete_def MB_checkClosed_def Let_def)
  qed
qed

lemma MB_Delete_error:
  assumes "ctx = None \<or> mb_closed b \<or> isl (ValidateURI uri)"
  shows "snd (MB_Delete ctx uri b) = b" "fst (MB_Delete ctx uri b) \<noteq> None"
  using assms by (auto simp: MB_Delete_def MB_checkClosed_def split: sum.splits)

lemma mb_ok_Delete: "mb_ok b \<Longrightarrow> mb_ok (snd (MB_Delete ctx uri b))"
proof (cases "ctx = None \<or> mb_closed b \<or> isl (ValidateURI uri)")
  case False
  assume ok: "mb_ok b"
  from False obtain v where v: "ctx = Some ()" "\<not> mb_closed b" "ValidateURI uri = Inr v"
    by (cases "ValidateURI uri") auto
  obtain qs where "quotas_ok qs"
    "MB_Delete (Some ()) uri b = (None, b\<lparr>mb_data := AList.delete v (mb_data b), mb_quotaUsage := qs\<rparr>)"
    by (rule MB_Delete_exact [OF mb_ok_quotas [OF ok] v(2,3)])
  with ok v show ?thesis by (simp add: mb_ok_def quotas_ok_def list_all_delete)
qed (simp add: MB_Delete_error)

lemma mb_ok_CheckQuota: "mb_ok b \<Longrightarrow> mb_ok (snd (MB_CheckQuota ctx root n b))"
proof -
  assume ok: "mb_ok b"
  obtain qs where "MB_checkAndUpdateQuota root n b = (None, b\<lparr>mb_quotaUsage := qs\<rparr>)" "quotas_ok qs"
    by (rule checkAndUpdateQuota_unlimited [OF mb_ok_quotas [OF ok]])
  with ok show ?thesis
    by (simp add: MB_CheckQuota_def MB_checkClosed_def mb_ok_set_quotas split: option.splits)
qed

lemma mb_ok_StoreBlob: "mb_ok b \<Longrightarrow> mb_ok (snd (MB_StoreBlob ctx data b))"
  by (auto simp: MB_StoreBlob_def MB_checkClosed_def mb_ok_def blob_ok_def Let_def list_all_update
      split: option.splits)

lemma mb_ok_DeleteBlob: "mb_ok b \<Longrightarrow> mb_ok (snd (MB_DeleteBlob ctx a b))"
  by (auto simp: MB_DeleteBlob_def MB_checkClosed_def mb_ok_def list_all_delete split: option.splits)

lemma mb_ok_StoreTombstone: "mb_ok b \<Longrightarrow> mb_ok (snd (MB_StoreTombstone ctx now t b))"
  by (simp add: MB_StoreTombstone_def MB_checkClosed_def mb_ok_def Let_def list_all_delete
      split: option.splits sum.splits)

lemma mb_ok_DeleteTombstone: "mb_ok b \<Longrightarrow> mb_ok (snd (MB_DeleteTombstone ctx uri b))"
  by (auto simp: MB_DeleteTombstone_def MB_checkClosed_def mb_ok_def
      split: sum.splits)

lemma mb_ok_SetLayoutVersion: "mb_ok b \<Longrightarrow> mb_ok (snd (MB_SetLayoutVersion ctx v b))"
  by (auto simp: MB_SetLayoutVersion_def MB_checkClosed_def mb_ok_def)

lemma mb_ok_Close: "mb_ok b \<Longrightarrow> mb_ok (MB_Close b)"
  by (simp add: MB_Close_def mb_ok_def)

lemma mb_ok_exec: "mb_ok b \<Longrightarrow> mb_ok (exec_mb op b)"
  by (cases op) (simp_all add: mb_ok_Put mb_ok_Delete mb_ok_StoreBlob mb_ok_DeleteBlob mb_ok_CheckQuota
      mb_ok_StoreTombstone mb_ok_DeleteTombstone mb_ok_SetLayoutVersion mb_ok_Close)

lemma mb_ok_New: "mb_ok NewMemoryBackend"
  by (simp add: mb_ok_def NewMemoryBackend_def CurrentStorageLayoutVersion_def
      MinSupportedStorageLayoutVersion_def)

lemma mb_ok_run: "mb_ok b \<Longrightarrow> mb_ok (run_mb ops b)"
  by (induction ops arbitrary: b) (simp_all add: mb_ok_exec)

section \<open>The abstract store\<close>

text \<open>
  The specification of the resource operations: one map from URIs to entries, each a live resource or
  a tombstone. Quotas do not occur in it, since no limit is ever set, and blobs are specified on their
  own.
\<close>

datatype entry = Live Resource | Dead Tombstone

record store_spec =
  sp_entries :: "string \<Rightarrow> entry option"
  sp_version :: StorageLayoutVersion
  sp_closed :: bool

definition spec_init :: store_spec where
  "spec_init = \<lparr>sp_entries = (\<lambda>_. None), sp_version = CurrentStorageLayoutVersion, sp_closed = False\<rparr>"

definition live :: "store_spec \<Rightarrow> string \<Rightarrow> Resource option" where
  "live s u = (case sp_entries s u of Some (Live r) \<Rightarrow> Some r | _ \<Rightarrow> None)"

definition dead :: "store_spec \<Rightarrow> string \<Rightarrow> Tombstone option" where
  "dead s u = (case sp_entries s u of Some (Dead t) \<Rightarrow> Some t | _ \<Rightarrow> None)"

definition spec_Get :: "string \<Rightarrow> store_spec \<Rightarrow> Resource result" where
  "spec_Get u s =
     (if sp_closed s then Inl ErrStorageClosed else if u = [] then Inl ErrEmptyURI
      else case live s u of None \<Rightarrow> Inl ErrNotFound | Some r \<Rightarrow> Inr r)"

definition at_uri :: "string \<Rightarrow> store_spec \<Rightarrow> (string \<Rightarrow> 'a result) \<Rightarrow> 'a result" where
  "at_uri u s f =
     (case ValidateURI u of
        Inl e \<Rightarrow> Inl (SanitizeError e)
      | Inr v \<Rightarrow> if sp_closed s then Inl ErrStorageClosed else f v)"

definition spec_Exists :: "string \<Rightarrow> store_spec \<Rightarrow> bool result" where
  "spec_Exists u s = at_uri u s (\<lambda>v. Inr (live s v \<noteq> None))"

definition spec_GetTombstone :: "string \<Rightarrow> store_spec \<Rightarrow> Tombstone result" where
  "spec_GetTombstone u s =
     at_uri u s (\<lambda>v. case dead s v of None \<Rightarrow> Inl ErrNotFound | Some t \<Rightarrow> Inr t)"

text \<open>The preconditions of a write against the ETag of the live resource.\<close>

definition precondition_holds :: "WritePrecondition \<Rightarrow> string option \<Rightarrow> bool" where
  "precondition_holds pre etag \<longleftrightarrow>
     (wp_IfMatch pre = [] \<or> (case etag of None \<Rightarrow> False | Some e \<Rightarrow> wp_IfMatch pre \<in> {''*'', e})) \<and>
     (wp_IfNoneMatch pre = [] \<or> (case etag of None \<Rightarrow> True | Some e \<Rightarrow> wp_IfNoneMatch pre \<notin> {''*'', e}))"

definition spec_accepts :: "string \<Rightarrow> WriteResource \<Rightarrow> store_spec \<Rightarrow> bool" where
  "spec_accepts u w s \<longleftrightarrow> \<not> sp_closed s \<and> u \<noteq> [] \<and>
     precondition_holds (wr_Preconditions w) (map_option (md_ETag \<circ> rs_Metadata) (live s u)) \<and>
     (wr_Body w \<noteq> None \<or> (case wr_BodyReader w of Some (Inl _) \<Rightarrow> False | _ \<Rightarrow> True))"

definition resource_of :: "memoryResource \<Rightarrow> Resource" where
  "resource_of r = \<lparr>rs_URI = mr_URI r, rs_Body = mr_Body r, rs_Metadata = mr_Metadata r\<rparr>"

definition set_entry :: "string \<Rightarrow> entry option \<Rightarrow> store_spec \<Rightarrow> store_spec" where
  "set_entry u e s = s\<lparr>sp_entries := (sp_entries s)(u := e)\<rparr>"

primrec spec_step :: "mb_op \<Rightarrow> store_spec \<Rightarrow> store_spec" where
  "spec_step (OpPut now u w) s =
     (case w of
        None \<Rightarrow> s
      | Some w \<Rightarrow> if spec_accepts u w s
          then set_entry u (Some (Live (resource_of (put_entry now (sp_version s) u w)))) s else s)"
| "spec_step (OpDelete ctx u) s =
     (case ValidateURI u of
        Inr v \<Rightarrow> if ctx \<noteq> None \<and> live s v \<noteq> None then set_entry v None s else s
      | Inl _ \<Rightarrow> s)"
| "spec_step (OpStoreTombstone ctx now t) s =
     (case t of
        None \<Rightarrow> s
      | Some t \<Rightarrow>
          (case ValidateURI (tb_URI t) of
             Inr v \<Rightarrow> if ctx \<noteq> None \<and> validateTombstone (Some t) = None \<and> \<not> sp_closed s
               then set_entry v (Some (Dead (if IsZero (tb_DeletedAt t) then t\<lparr>tb_DeletedAt := now\<rparr> else t))) s
               else s
           | Inl _ \<Rightarrow> s))"
| "spec_step (OpDeleteTombstone ctx u) s =
     (case ValidateURI u of
        Inr v \<Rightarrow> if ctx \<noteq> None \<and> dead s v \<noteq> None then set_entry v None s else s
      | Inl _ \<Rightarrow> s)"
| "spec_step (OpSetLayoutVersion ctx v) s =
     (if ctx \<noteq> None \<and> \<not> sp_closed s \<and> v \<ge> MinSupportedStorageLayoutVersion then s\<lparr>sp_version := v\<rparr> else s)"
| "spec_step OpClose s = s\<lparr>sp_closed := True, sp_entries := (\<lambda>_. None)\<rparr>"
| "spec_step (OpStoreBlob ctx data) s = s"
| "spec_step (OpDeleteBlob ctx a) s = s"
| "spec_step (OpCheckQuota ctx root n) s = s"

section \<open>The backend refines it\<close>

definition entry_of :: "Tombstone option \<Rightarrow> memoryResource option \<Rightarrow> entry option" where
  "entry_of t r = (case t of Some t \<Rightarrow> Some (Dead t) | None \<Rightarrow> map_option (Live \<circ> resource_of) r)"

lemma entry_of_simps [simp]:
  "entry_of (Some t) r = Some (Dead t)" "entry_of None (Some x) = Some (Live (resource_of x))"
  "entry_of None None = None"
  by (simp_all add: entry_of_def)

definition mb_abs :: "memoryBackend \<Rightarrow> store_spec" where
  "mb_abs b =
     \<lparr>sp_entries = (\<lambda>u. entry_of (mget (mb_tombstones b) u) (mget (mb_data b) u)),
      sp_version = mb_layoutVersion b, sp_closed = mb_closed b\<rparr>"

lemma live_abs: "mb_ok b \<Longrightarrow> live (mb_abs b) u = map_option resource_of (map_of (mb_data b) u)"
proof -
  assume "mb_ok b"
  then have "map_of (mb_tombstones b) u = None" if "map_of (mb_data b) u = Some r" for r
    using that by (auto simp: mb_ok_def apart_def dest: list_all_lookup)
  then show ?thesis
    by (cases "map_of (mb_data b) u"; cases "map_of (mb_tombstones b) u") (auto simp: live_def mb_abs_def)
qed

lemma dead_abs: "dead (mb_abs b) u = map_of (mb_tombstones b) u"
  by (cases "map_of (mb_data b) u"; cases "map_of (mb_tombstones b) u") (auto simp: dead_def mb_abs_def)

lemma abs_simps [simp]: "sp_version (mb_abs b) = mb_layoutVersion b" "sp_closed (mb_abs b) = mb_closed b"
  by (simp_all add: mb_abs_def)

lemma preconditions_iff:
  "MB_preconditions pre current = None \<longleftrightarrow> precondition_holds pre (map_option (md_ETag \<circ> mr_Metadata) current)"
  by (cases current) (auto simp: MB_preconditions_def precondition_holds_def)

lemma preconditions_error: "MB_preconditions pre current \<in> {None, Some ErrPreconditionFailed}"
  by (simp add: MB_preconditions_def)

lemma read_body_ok: "isl (MB_read_body w) \<longleftrightarrow> wr_Body w = None \<and> (\<exists>e. wr_BodyReader w = Some (Inl e))"
  by (cases "wr_Body w") (auto simp: MB_read_body_def split: option.splits sum.splits)

lemma put_error_None_iff:
  assumes "mb_ok b"
  shows "put_error u (Some w) b = None \<longleftrightarrow> spec_accepts u w (mb_abs b)"
proof -
  have "put_error u (Some w) b = None \<longleftrightarrow> \<not> mb_closed b \<and> u \<noteq> [] \<and>
      MB_preconditions (wr_Preconditions w) (map_of (mb_data b) u) = None \<and> \<not> isl (MB_read_body w)"
    by (auto simp: put_error_def split: option.splits sum.splits)
  moreover have "map_option (md_ETag \<circ> rs_Metadata) (live (mb_abs b) u) =
      map_option (md_ETag \<circ> mr_Metadata) (map_of (mb_data b) u)"
    by (simp add: live_abs assms option.map_comp comp_def resource_of_def)
  ultimately show ?thesis
    by (auto simp: preconditions_iff spec_accepts_def read_body_ok split: option.splits sum.splits)
qed

lemma abs_eqI:
  assumes "\<And>u. sp_entries (mb_abs b) u = sp_entries s u"
    "mb_layoutVersion b = sp_version s" "mb_closed b = sp_closed s"
  shows "mb_abs b = s"
  using assms by (cases s) (simp add: mb_abs_def fun_eq_iff)

lemma abs_put_state:
  "mb_abs (put_state now u w qs b) =
     set_entry u (Some (Live (resource_of (put_entry now (mb_layoutVersion b) u w)))) (mb_abs b)"
  by (rule abs_eqI) (simp_all add: put_state_def set_entry_def mb_abs_def)

lemma sim_Put:
  assumes "mb_ok b"
  shows "mb_abs (snd (MB_Put now u resource b)) = spec_step (OpPut now u resource) (mb_abs b)"
proof (cases "put_error u resource b")
  case None
  obtain w qs where "resource = Some w" "MB_Put now u resource b = (None, put_state now u w qs b)"
    by (rule MB_Put_ok [OF mb_ok_quotas [OF assms] None])
  with None put_error_None_iff [OF assms] show ?thesis by (simp add: abs_put_state)
next
  case (Some e)
  then have "\<not> spec_accepts u w (mb_abs b)" if "resource = Some w" for w
    using that put_error_None_iff [OF assms, of u w] by simp
  with Some show ?thesis by (cases resource) (simp_all add: MB_Put_error)
qed

lemma sim_Delete:
  assumes "mb_ok b"
  shows "mb_abs (snd (MB_Delete ctx u b)) = spec_step (OpDelete ctx u) (mb_abs b)"
proof (cases "ctx = None \<or> mb_closed b \<or> isl (ValidateURI u)")
  case True
  moreover have "live (mb_abs b) v = None" if "mb_closed b" for v
    using that assms by (simp add: live_abs mb_ok_def)
  ultimately show ?thesis by (auto simp: MB_Delete_error split: sum.splits)
next
  case False
  then obtain v where v: "ctx = Some ()" "\<not> mb_closed b" "ValidateURI u = Inr v"
    by (cases "ValidateURI u") auto
  obtain qs where
    "MB_Delete (Some ()) u b = (None, b\<lparr>mb_data := AList.delete v (mb_data b), mb_quotaUsage := qs\<rparr>)"
    by (rule MB_Delete_exact [OF mb_ok_quotas [OF assms] v(2,3)])
  moreover have "mb_abs (b\<lparr>mb_data := AList.delete v (mb_data b), mb_quotaUsage := qs\<rparr>) =
      (if live (mb_abs b) v \<noteq> None then set_entry v None (mb_abs b) else mb_abs b)"
  proof (cases "map_of (mb_data b) v")
    case None
    then show ?thesis by (intro abs_eqI) (simp_all add: live_abs assms, simp add: mb_abs_def)
  next
    case (Some r)
    with assms have "map_of (mb_tombstones b) v = None"
      by (auto simp: mb_ok_def apart_def dest: list_all_lookup)
    with Some show ?thesis
      by (intro abs_eqI) (simp_all add: live_abs assms set_entry_def, simp add: mb_abs_def)
  qed
  ultimately show ?thesis using v by simp
qed

lemma sim_StoreTombstone:
  "mb_abs (snd (MB_StoreTombstone ctx now t b)) = spec_step (OpStoreTombstone ctx now t) (mb_abs b)"
proof -
  have "mb_abs (b\<lparr>mb_tombstones := AList.update v t (mb_tombstones b), mb_data := AList.delete v (mb_data b)\<rparr>) =
      set_entry v (Some (Dead t)) (mb_abs b)" for v t
    by (rule abs_eqI) (simp_all add: set_entry_def mb_abs_def)
  then show ?thesis
    by (simp add: MB_StoreTombstone_def MB_checkClosed_def Let_def split: option.split sum.split)
qed

lemma sim_DeleteTombstone:
  assumes "mb_ok b"
  shows "mb_abs (snd (MB_DeleteTombstone ctx u b)) = spec_step (OpDeleteTombstone ctx u) (mb_abs b)"
proof -
  have *: "mb_abs (b\<lparr>mb_tombstones := AList.delete v (mb_tombstones b)\<rparr>) =
      (if dead (mb_abs b) v \<noteq> None then set_entry v None (mb_abs b) else mb_abs b)" for v
  proof (cases "map_of (mb_tombstones b) v")
    case None
    then show ?thesis by (intro abs_eqI) (simp_all add: dead_abs, simp add: mb_abs_def)
  next
    case (Some t)
    with assms have "map_of (mb_data b) v = None"
      by (cases "map_of (mb_data b) v") (auto simp: mb_ok_def apart_def dest: list_all_lookup)
    with Some show ?thesis by (intro abs_eqI) (simp_all add: dead_abs set_entry_def, simp add: mb_abs_def)
  qed
  have "dead (mb_abs b) v = None" if "mb_closed b" for v
    using that assms by (simp add: dead_abs mb_ok_def)
  then show ?thesis
    by (auto simp: MB_DeleteTombstone_def MB_checkClosed_def * split: sum.split)
qed

lemma abs_frame [simp]: "mb_abs (b\<lparr>mb_quotaUsage := qs\<rparr>) = mb_abs b" "mb_abs (b\<lparr>mb_blobs := bs\<rparr>) = mb_abs b"
  by (simp_all add: mb_abs_def)

lemma sim_exec: "mb_ok b \<Longrightarrow> mb_abs (exec_mb op b) = spec_step op (mb_abs b)"
proof (cases op)
  case (OpCheckQuota ctx root n)
  assume ok: "mb_ok b"
  obtain qs where "MB_checkAndUpdateQuota root n b = (None, b\<lparr>mb_quotaUsage := qs\<rparr>)"
    by (rule checkAndUpdateQuota_unlimited [OF mb_ok_quotas [OF ok]])
  then show ?thesis
    by (simp add: OpCheckQuota MB_CheckQuota_def split: option.splits)
next
  case (OpSetLayoutVersion ctx v)
  then show ?thesis
    by (simp add: MB_SetLayoutVersion_def MB_checkClosed_def) (simp add: mb_abs_def)
next
  case OpClose
  assume "mb_ok b"
  with OpClose show ?thesis
    by (simp add: MB_Close_def mb_ok_def mb_abs_def)
qed (simp_all add: sim_Put sim_Delete sim_StoreTombstone sim_DeleteTombstone MB_StoreBlob_def
    MB_DeleteBlob_def Let_def split: option.splits del: spec_step.simps(1-4))

lemma sim_run: "mb_ok b \<Longrightarrow> mb_abs (run_mb ops b) = fold spec_step ops (mb_abs b)"
  by (induction ops arbitrary: b) (simp_all add: sim_exec mb_ok_exec)

section \<open>The backend meets the storage contract\<close>

definition memory_methods :: "memoryBackend StorageBackend" where
  "memory_methods =
     \<lparr>sb_Initialize = (\<lambda>ctx config b. (MB_Initialize b, b)), sb_Get = (\<lambda>ctx. MB_Get), sb_GetMetadata = (\<lambda>ctx. MB_GetMetadata),
      sb_Put = (\<lambda>ctx. MB_Put), sb_Delete = MB_Delete, sb_List = MB_List, sb_Exists = MB_Exists,
      sb_StoreBlob = MB_StoreBlob, sb_GetBlob = MB_GetBlob, sb_BlobExists = MB_BlobExists,
      sb_DeleteBlob = MB_DeleteBlob, sb_HealthCheck = (\<lambda>ctx. MB_HealthCheck), sb_Close = (\<lambda>b. (None, MB_Close b))\<rparr>"

definition mb_open :: "memoryBackend \<Rightarrow> bool" where
  "mb_open b \<longleftrightarrow> mb_ok b \<and> \<not> mb_closed b"

definition mb_stored :: "memoryBackend \<Rightarrow> string \<Rightarrow> Resource option" where
  "mb_stored b u = map_option resource_of (mget (mb_data b) u)"

definition mb_blob :: "memoryBackend \<Rightarrow> ContentAddress \<Rightarrow> string option" where
  "mb_blob b a = map_option bytes (mget (mb_blobs b) a)"

lemma tombstone_None: "mb_ok b \<Longrightarrow> map_of (mb_data b) u = Some r \<Longrightarrow> map_of (mb_tombstones b) u = None"
  by (auto simp: mb_ok_def apart_def dest: list_all_lookup)

lemma Get_stored:
  "mb_ok b \<Longrightarrow> \<not> mb_closed b \<Longrightarrow> u \<noteq> [] \<Longrightarrow>
   MB_Get u b = (case mb_stored b u of None \<Rightarrow> Inl ErrNotFound | Some r \<Rightarrow> Inr r)"
  using tombstone_None [of b u]
  by (cases "map_of (mb_data b) u") (auto simp: MB_Get_def MB_checkClosed_def mb_stored_def resource_of_def)

lemma GetMetadata_stored:
  "mb_ok b \<Longrightarrow> \<not> mb_closed b \<Longrightarrow>
   MB_GetMetadata u b = (case mb_stored b u of None \<Rightarrow> Inl ErrNotFound | Some r \<Rightarrow> Inr (rs_Metadata r))"
  using tombstone_None [of b u]
  by (cases "map_of (mb_data b) u")
    (auto simp: MB_GetMetadata_def MB_checkClosed_def mb_stored_def resource_of_def)

lemma Exists_stored:
  "mb_ok b \<Longrightarrow> \<not> mb_closed b \<Longrightarrow> ValidateURI u = Inr v \<Longrightarrow> MB_Exists (Some ()) u b = Inr (mb_stored b v \<noteq> None)"
  using tombstone_None [of b v]
  by (cases "map_of (mb_data b) v") (auto simp: MB_Exists_def MB_checkClosed_def mb_stored_def)

lemma keeps_written_put_entry: "keeps_written u w (resource_of (put_entry now version u w))"
  by (simp add: keeps_written_def resource_of_def put_entry_def MB_stored_metadata_def)

lemma stored_put_state:
  "mb_stored (put_state now u w qs b) = (mb_stored b)(u \<mapsto> resource_of (put_entry now (mb_layoutVersion b) u w))"
  by (simp add: fun_eq_iff mb_stored_def put_state_def)

lemma blob_frame [simp]:
  "mb_blob (put_state now u w qs b) = mb_blob b"
  "mb_blob (b\<lparr>mb_data := d, mb_quotaUsage := qs\<rparr>) = mb_blob b"
  by (simp_all add: mb_blob_def put_state_def fun_eq_iff)

lemma Put_contract:
  assumes "mb_open b" "MB_Put now u (Some w) b = (res, b')"
  shows "mb_open b' \<and> mb_blob b' = mb_blob b \<and>
    (case res of
       None \<Rightarrow> (\<exists>r. keeps_written u w r \<and> mb_stored b' = (mb_stored b)(u \<mapsto> r))
     | Some e \<Rightarrow> mb_stored b' = mb_stored b)"
proof (cases "put_error u (Some w) b")
  case None
  obtain w' qs where *: "Some w = Some w'" "u \<noteq> []" "quotas_ok qs"
    "MB_Put now u (Some w) b = (None, put_state now u w' qs b)"
    using assms(1) None MB_Put_ok mb_ok_quotas unfolding mb_open_def by metis
  with assms have "res = None" "b' = put_state now u w qs b" by auto
  moreover have "mb_open (put_state now u w qs b)"
    using assms(1) * mb_ok_put_state [of b qs u] by (simp add: mb_open_def put_state_def)
  ultimately show ?thesis
    by (auto simp: stored_put_state intro!: exI [of _ "resource_of (put_entry now (mb_layoutVersion b) u w)"]
        keeps_written_put_entry)
next
  case (Some e)
  with assms(2) have "res = Some e" "b' = b" by (simp_all add: MB_Put_error)
  with assms(1) show ?thesis by simp
qed

lemma Delete_contract:
  assumes "mb_open b" "normal_uri u"
  obtains b' where "MB_Delete (Some ()) u b = (None, b')" "mb_open b'" "mb_blob b' = mb_blob b"
    "mb_stored b' = (mb_stored b)(u := None)"
proof -
  have v: "ValidateURI u = Inr u" using assms(2) by (simp add: ValidateURI_fixed_iff)
  have q: "quotas_ok (mb_quotaUsage b)" "\<not> mb_closed b"
    using assms(1) by (simp_all add: mb_open_def mb_ok_quotas)
  obtain qs where qs: "quotas_ok qs"
    "MB_Delete (Some ()) u b = (None, b\<lparr>mb_data := AList.delete u (mb_data b), mb_quotaUsage := qs\<rparr>)"
    by (rule MB_Delete_exact [OF q v])
  show ?thesis
  proof (rule that [OF qs(2)])
    show "mb_open (b\<lparr>mb_data := AList.delete u (mb_data b), mb_quotaUsage := qs\<rparr>)"
      using assms(1) mb_ok_Delete [of b "Some ()" u] qs by (simp add: mb_open_def)
  qed (simp_all add: mb_stored_def fun_eq_iff)
qed

lemma StoreBlob_contract:
  assumes "mb_open b" "MB_StoreBlob (Some ()) d b = (res, b')"
  shows "mb_open b' \<and> mb_stored b' = mb_stored b \<and>
    (case res of
       Inl e \<Rightarrow> mb_blob b' = mb_blob b
     | Inr a \<Rightarrow> a = computeContentAddress (bytes d) \<and> mb_blob b' = (mb_blob b)(a \<mapsto> bytes d))"
proof -
  have "mb_ok b'" using assms mb_ok_StoreBlob [of b "Some ()" d] by (simp add: mb_open_def)
  with assms show ?thesis
    by (auto simp: MB_StoreBlob_def MB_checkClosed_def Let_def mb_open_def mb_stored_def mb_blob_def
        fun_eq_iff split: option.splits)
qed

lemma GetBlob_contract:
  assumes "mb_open b"
  shows "MB_GetBlob (Some ()) a b = Inr d \<longleftrightarrow> ValidateContentAddress a = None \<and> mb_blob b a = Some d"
proof -
  have "ValidateBodySize x = None" if "map_of (mb_blobs b) a = Some x" for x
    using that assms by (auto simp: mb_open_def mb_ok_def blob_ok_def dest: list_all_lookup)
  with assms show ?thesis
    by (auto simp: MB_GetBlob_def MB_checkClosed_def mb_open_def mb_blob_def split: option.splits)
qed

lemma blob_addressed: "mb_ok b \<Longrightarrow> mb_blob b a = Some d \<Longrightarrow> a = computeContentAddress d"
  by (auto simp: mb_blob_def mb_ok_def blob_ok_def dest: list_all_lookup)

lemma List_contract:
  assumes "mb_ok b" "MB_List ctx u b = Inr ms" "m \<in> set ms"
  shows "\<exists>v r. mb_stored b v = Some r \<and> rs_Metadata r = m"
proof -
  from assms(2,3) obtain v r where "(v, r) \<in> set (mb_data b)" "m = mr_Metadata r"
    by (auto simp: MB_List_def Let_def split: if_splits sum.splits option.splits dest!: in_set_takeD)
  moreover with assms(1) have "map_of (mb_data b) v = Some r"
    by (simp add: mb_ok_def map_of_mem)
  ultimately show ?thesis by (auto simp: mb_stored_def resource_of_def intro!: exI [of _ v])
qed

interpretation mem: storage_backend memory_methods mb_open mb_stored mb_blob
proof unfold_locales
  fix b u ctx now w and b' :: memoryBackend
  assume open_b: "mb_open b" and u: "normal_uri u"
  then have u': "u \<noteq> []" "ValidateURI u = Inr u" by (simp_all add: normal_uri_def ValidateURI_fixed_iff)
  show "sb_Get memory_methods ctx u b = (case mb_stored b u of None \<Rightarrow> Inl ErrNotFound | Some r \<Rightarrow> Inr r)"
    using open_b u' by (simp add: memory_methods_def Get_stored mb_open_def)
  show "sb_GetMetadata memory_methods ctx u b =
      (case mb_stored b u of None \<Rightarrow> Inl ErrNotFound | Some r \<Rightarrow> Inr (rs_Metadata r))"
    using open_b by (simp add: memory_methods_def GetMetadata_stored mb_open_def)
  show "sb_Exists memory_methods (Some ()) u b = Inr (mb_stored b u \<noteq> None)"
    using open_b u' by (simp add: memory_methods_def Exists_stored mb_open_def)
  show "\<exists>b'. sb_Delete memory_methods (Some ()) u b = (None, b') \<and> mb_open b' \<and> mb_blob b' = mb_blob b \<and>
      mb_stored b' = (mb_stored b)(u := None)"
    by (rule Delete_contract [OF open_b u]) (simp add: memory_methods_def)
  show "mb_open b' \<and> mb_blob b' = mb_blob b \<and>
      (\<exists>r. keeps_written u w r \<and> mb_stored b' = (mb_stored b)(u \<mapsto> r))"
    if "sb_Put memory_methods ctx now u (Some w) b = (None, b')"
    using Put_contract [OF open_b, of now u w None b'] that by (simp add: memory_methods_def)
  show "mb_open b' \<and> mb_blob b' = mb_blob b \<and> mb_stored b' = mb_stored b"
    if "sb_Put memory_methods ctx now u (Some w) b = (Some e, b')" for e
    using Put_contract [OF open_b, of now u w "Some e" b'] that by (simp add: memory_methods_def)
next
  fix b ctx u ms m
  assume "mb_open b" "sb_List memory_methods ctx u b = Inr ms" "m \<in> set ms"
  then show "\<exists>v r. mb_stored b v = Some r \<and> rs_Metadata r = m"
    using List_contract by (simp add: mb_open_def memory_methods_def)
next
  fix b dat res and b' :: memoryBackend
  assume "mb_open b" "sb_StoreBlob memory_methods (Some ()) dat b = (res, b')"
  then show "mb_open b' \<and> mb_stored b' = mb_stored b \<and>
      (case res of Inl e \<Rightarrow> mb_blob b' = mb_blob b
       | Inr a \<Rightarrow> a = computeContentAddress (bytes dat) \<and> mb_blob b' = (mb_blob b)(a \<mapsto> bytes dat))"
    using StoreBlob_contract by (simp add: memory_methods_def)
qed (simp add: memory_methods_def GetBlob_contract, auto simp: mb_open_def dest: blob_addressed)

section \<open>Properties\<close>

text \<open>C21: Every sequence of operations on a new backend leaves it well formed: its maps have distinct
  keys, no URI has both a resource and a tombstone, every resource is stored under its own URI with a
  URI, a type, a storage root, a layout version and (when it has a body) an ETag, every blob is stored
  under its own content address and within the size limit, the usage counters are 64-bit integers
  without a limit, the layout version is supported, and a closed backend is empty.\<close>

theorem memory_backend_well_formed: "mb_ok (run_mb ops NewMemoryBackend)"
  by (intro mb_ok_run mb_ok_New)

text \<open>C11: The backend refines the abstract store. After every sequence of operations its state
  represents the state of the abstract store after the same sequence, reads, existence checks and
  tombstone reads answer as the abstract store does, and a write succeeds exactly if the abstract
  store accepts it.\<close>

theorem memory_backend_refines:
  "let b = run_mb ops NewMemoryBackend; s = fold spec_step ops spec_init in
     mb_abs b = s \<and>
     MB_Get u b = spec_Get u s \<and>
     MB_Exists (Some ()) u b = spec_Exists u s \<and>
     MB_GetTombstone (Some ()) u b = spec_GetTombstone u s \<and>
     (fst (MB_Put now u (Some w) b) = None \<longleftrightarrow> spec_accepts u w s)"
proof -
  let ?b = "run_mb ops NewMemoryBackend"
  have ok: "mb_ok ?b" by (intro mb_ok_run mb_ok_New)
  have "mb_abs NewMemoryBackend = spec_init"
    by (simp add: mb_abs_def spec_init_def NewMemoryBackend_def)
  then have abs: "mb_abs ?b = fold spec_step ops spec_init"
    using sim_run [OF mb_ok_New] by simp
  have stored: "mb_stored ?b v = live (mb_abs ?b) v" for v
    by (simp add: live_abs ok mb_stored_def)
  have "MB_Get u ?b = spec_Get u (mb_abs ?b)"
    using ok by (cases "mb_closed ?b \<or> u = []")
      (auto simp: spec_Get_def Get_stored stored, auto simp: MB_Get_def MB_checkClosed_def)
  moreover have "MB_Exists (Some ()) u ?b = spec_Exists u (mb_abs ?b)"
    using ok by (cases "mb_closed ?b"; cases "ValidateURI u")
      (simp_all add: spec_Exists_def at_uri_def Exists_stored stored, simp_all add: MB_Exists_def MB_checkClosed_def)
  moreover have "MB_GetTombstone (Some ()) u ?b = spec_GetTombstone u (mb_abs ?b)"
    by (cases "ValidateURI u")
      (simp_all add: spec_GetTombstone_def at_uri_def MB_GetTombstone_def MB_checkClosed_def dead_abs)
  moreover have "fst (MB_Put now u (Some w) ?b) = None \<longleftrightarrow> spec_accepts u w (mb_abs ?b)"
  proof (cases "put_error u (Some w) ?b")
    case None
    obtain w' qs where "MB_Put now u (Some w) ?b = (None, put_state now u w' qs ?b)"
      by (rule MB_Put_ok [OF mb_ok_quotas [OF ok] None])
    with None put_error_None_iff [OF ok, of u w] show ?thesis by simp
  next
    case (Some e)
    with put_error_None_iff [OF ok, of u w] show ?thesis by (simp add: MB_Put_error)
  qed
  ultimately show ?thesis by (simp add: abs Let_def)
qed

text \<open>C23: Conditional writes lose no update. After a successful write of a URI, a second writer that
  still expects another ETag there (\<open>If-Match\<close>) or expects the resource not to exist (\<open>If-None-Match: *\<close>)
  is refused with \<open>ErrPreconditionFailed\<close>, and the backend is left as it was.\<close>

theorem conditional_writes_lose_no_update:
  assumes "MB_Put now u (Some w) (run_mb ops NewMemoryBackend) = (None, b)"
    and "MB_GetMetadata u b = Inr m"
    and "wp_IfMatch (wr_Preconditions w') \<notin> {[], ''*'', md_ETag m} \<or> wp_IfNoneMatch (wr_Preconditions w') = ''*''"
  shows "MB_Put now' u (Some w') b = (Some ErrPreconditionFailed, b)"
proof -
  have ok: "mb_ok b"
    using mb_ok_Put [OF mb_ok_run [OF mb_ok_New], of now u "Some w" ops] assms(1) by simp
  from assms(2) obtain r where r: "map_of (mb_data b) u = Some r" "mr_Metadata r = m" "\<not> mb_closed b"
    by (auto simp: MB_GetMetadata_def MB_checkClosed_def split: if_splits option.splits)
  with ok have "u \<noteq> []" by (auto simp: mb_ok_def entry_ok_def dest: list_all_lookup)
  moreover have "MB_preconditions (wr_Preconditions w') (Some r) \<noteq> None"
    using assms(3) r by (auto simp: preconditions_iff precondition_holds_def)
  then have "MB_preconditions (wr_Preconditions w') (Some r) = Some ErrPreconditionFailed"
    using preconditions_error [of "wr_Preconditions w'" "Some r"] by auto
  ultimately have "put_error u (Some w') b = Some ErrPreconditionFailed"
    using r by (simp add: put_error_def)
  then show ?thesis by (rule MB_Put_error)
qed

text \<open>A write without a body, for concrete runs.\<close>

definition plain_write :: "string \<Rightarrow> string \<Rightarrow> WritePrecondition \<Rightarrow> WriteResource" where
  "plain_write u etag pre =
     \<lparr>wr_URI = u, wr_Body = None, wr_BodyReader = None, wr_BodySize = 0,
      wr_Metadata = zero_Metadata\<lparr>md_ETag := etag\<rparr>, wr_Preconditions = pre\<rparr>"

definition no_precondition :: WritePrecondition where
  "no_precondition = \<lparr>wp_IfMatch = [], wp_IfNoneMatch = [], wp_CompareAndSwap = None\<rparr>"

theorem conditional_writes_lose_no_update_witness:
  "MB_Put 5 ''/a'' (Some (plain_write ''/a'' ''e2'' (no_precondition\<lparr>wp_IfMatch := ''e0''\<rparr>)))
     (snd (MB_Put 4 ''/a'' (Some (plain_write ''/a'' ''e1'' no_precondition)) NewMemoryBackend)) =
   (Some ErrPreconditionFailed,
    snd (MB_Put 4 ''/a'' (Some (plain_write ''/a'' ''e1'' no_precondition)) NewMemoryBackend))"
proof -
  let ?b = "snd (MB_Put 4 ''/a'' (Some (plain_write ''/a'' ''e1'' no_precondition)) NewMemoryBackend)"
  let ?m = "projr (MB_GetMetadata ''/a'' ?b)"
  have 1: "MB_Put 4 ''/a'' (Some (plain_write ''/a'' ''e1'' no_precondition)) (run_mb [] NewMemoryBackend) =
      (None, ?b)"
    by code_simp
  have 2: "MB_GetMetadata ''/a'' ?b = Inr ?m" by code_simp
  have "''e0'' \<notin> {[], ''*'', md_ETag ?m}" by code_simp
  then have 3: "wp_IfMatch (wr_Preconditions (plain_write ''/a'' ''e2'' (no_precondition\<lparr>wp_IfMatch := ''e0''\<rparr>)))
      \<notin> {[], ''*'', md_ETag ?m} \<or>
      wp_IfNoneMatch (wr_Preconditions (plain_write ''/a'' ''e2'' (no_precondition\<lparr>wp_IfMatch := ''e0''\<rparr>))) = ''*''"
    by (simp add: plain_write_def)
  show ?thesis by (rule conditional_writes_lose_no_update [OF 1 2 3])
qed

lemma Put_frame:
  "mb_ok b \<Longrightarrow> mb_blob (snd (MB_Put now u resource b)) = mb_blob b \<and>
     mb_closed (snd (MB_Put now u resource b)) = mb_closed b"
proof (cases "put_error u resource b")
  case None
  assume "mb_ok b"
  then obtain w qs where "MB_Put now u resource b = (None, put_state now u w qs b)"
    using MB_Put_ok [OF mb_ok_quotas None] by metis
  then show ?thesis by simp (simp add: put_state_def)
qed (simp add: MB_Put_error)

lemma blob_kept:
  assumes "mb_ok b" "\<not> mb_closed b" "mb_blob b a \<noteq> None" "op \<noteq> OpClose" "op \<noteq> OpDeleteBlob (Some ()) a"
  shows "mb_blob (exec_mb op b) a \<noteq> None \<and> \<not> mb_closed (exec_mb op b)"
proof (cases op)
  case (OpPut now u w)
  with assms Put_frame [of b now u w] show ?thesis by simp
next
  case (OpDelete ctx u)
  show ?thesis
  proof (cases "ctx = None \<or> mb_closed b \<or> isl (ValidateURI u)")
    case False
    then obtain v where v: "ctx = Some ()" "ValidateURI u = Inr v" by (cases "ValidateURI u") auto
    obtain qs where
      "MB_Delete (Some ()) u b = (None, b\<lparr>mb_data := AList.delete v (mb_data b), mb_quotaUsage := qs\<rparr>)"
      by (rule MB_Delete_exact [OF mb_ok_quotas [OF assms(1)] assms(2) v(2)])
    with assms v OpDelete show ?thesis by simp
  qed (use assms OpDelete in \<open>simp add: MB_Delete_error\<close>)
next
  case (OpCheckQuota ctx root n)
  obtain qs where "MB_checkAndUpdateQuota root n b = (None, b\<lparr>mb_quotaUsage := qs\<rparr>)"
    by (rule checkAndUpdateQuota_unlimited [OF mb_ok_quotas [OF assms(1)]])
  with assms OpCheckQuota show ?thesis by (simp add: MB_CheckQuota_def mb_blob_def split: option.splits)
next
  case (OpDeleteBlob ctx x)
  with assms show ?thesis
    by (auto simp: MB_DeleteBlob_def mb_blob_def split: option.splits)
qed (use assms in \<open>auto simp: MB_StoreBlob_def MB_StoreTombstone_def MB_DeleteTombstone_def
    MB_SetLayoutVersion_def mb_blob_def Let_def split: option.splits sum.splits\<close>)

lemma blob_kept_run:
  assumes "mb_ok b" "\<not> mb_closed b" "mb_blob b a \<noteq> None"
    and "list_all (\<lambda>op. op \<noteq> OpClose \<and> op \<noteq> OpDeleteBlob (Some ()) a) ops"
  shows "mb_blob (run_mb ops b) a \<noteq> None \<and> mb_open (run_mb ops b)"
  using assms
proof (induction ops arbitrary: b)
  case Nil
  then show ?case by (simp add: mb_open_def)
next
  case (Cons op ops)
  with blob_kept [of b a op] mb_ok_exec [of b op] show ?case by simp
qed

text \<open>C24: Blobs are content addressed and durable. A stored blob gets the address of its content and is
  read back at once. As long as neither that address is deleted nor the backend closed, every later
  read of the address succeeds, and returns content with that address.\<close>

theorem blobs_durable_and_content_addressed:
  assumes "MB_StoreBlob (Some ()) d (run_mb ops NewMemoryBackend) = (Inr a, b)"
    and "list_all (\<lambda>op. op \<noteq> OpClose \<and> op \<noteq> OpDeleteBlob (Some ()) a) later"
  shows "a = computeContentAddress (bytes d) \<and> MB_GetBlob (Some ()) a b = Inr (bytes d) \<and>
    (\<exists>d'. MB_GetBlob (Some ()) a (run_mb later b) = Inr d' \<and> computeContentAddress d' = a)"

proof -
  let ?b0 = "run_mb ops NewMemoryBackend"
  have "\<not> mb_closed ?b0" using assms(1) by (auto simp: MB_StoreBlob_def MB_checkClosed_def Let_def split: option.splits if_splits)
  then have "mb_open ?b0" by (simp add: mb_open_def mb_ok_run mb_ok_New)
  with StoreBlob_contract assms(1) have b: "mb_open b" "a = computeContentAddress (bytes d)" "mb_blob b a = Some (bytes d)"
    by fastforce+
  have valid: "ValidateContentAddress a = None" by (simp add: b(2))
  have "mb_blob (run_mb later b) a \<noteq> None \<and> mb_open (run_mb later b)"
    using b assms(2) by (intro blob_kept_run) (simp_all add: mb_open_def)
  then obtain d' where "mb_open (run_mb later b)" "mb_blob (run_mb later b) a = Some d'" by auto
  with valid b GetBlob_contract [of "run_mb later b" a] GetBlob_contract [OF b(1), of a]
    blob_addressed [of "run_mb later b" a d']
  show ?thesis by (auto simp: mb_open_def)
qed

theorem blobs_durable_and_content_addressed_witness:
  "\<exists>a b. MB_StoreBlob (Some ()) (Some []) (run_mb [] NewMemoryBackend) = (Inr a, b) \<and>
     MB_GetBlob (Some ()) a b = Inr [] \<and>
     (\<exists>d'. MB_GetBlob (Some ()) a (run_mb [OpDelete (Some ()) ''/x''] b) = Inr d' \<and> computeContentAddress d' = a)"
proof -
  let ?s = "MB_StoreBlob (Some ()) (Some []) (run_mb [] NewMemoryBackend)"
  have "?s = (Inr (projr (fst ?s)), snd ?s)" by code_simp
  then obtain a b where s: "?s = (Inr a, b)" by blast
  have "list_all (\<lambda>op. op \<noteq> OpClose \<and> op \<noteq> OpDeleteBlob (Some ()) a) [OpDelete (Some ()) ''/x'']" by simp
  from blobs_durable_and_content_addressed [OF s this] s show ?thesis by (auto simp: bytes_def)
qed

text \<open>Writes use the URI as it is and deletions normalise it, so a resource written under a URI with
  two adjacent slashes is neither found by \<open>Exists\<close> nor removed by \<open>Delete\<close>.\<close>

lemma unnormalised_uri_is_not_deleted:
  "let w = plain_write ''https://a.org/x'' ''e'' no_precondition;
       b = snd (MB_Put 1 ''https://a.org/x'' (Some w) NewMemoryBackend);
       (err, b') = MB_Delete (Some ()) ''https://a.org/x'' b
   in MB_Exists (Some ()) ''https://a.org/x'' b = Inr False \<and> err = None \<and>
      \<not> isl (MB_Get ''https://a.org/x'' b')"
  by code_simp

text \<open>A write charges body and metadata, a deletion releases the body size only: the quota usage of an
  empty store stays positive.\<close>

lemma quota_not_released:
  "let w = plain_write ''/x'' ''e'' no_precondition;
       b = snd (MB_Delete (Some ()) ''/x'' (snd (MB_Put 1 ''/x'' (Some w) NewMemoryBackend)))
   in mb_data b = [] \<and> map_option qu_UsedBytes (mget (mb_quotaUsage b) ''/x'') = Some 201"
  by code_simp

text \<open>\<open>CheckQuota\<close> charges what it is asked to check.\<close>

lemma CheckQuota_charges:
  "map_option qu_UsedBytes (mget (mb_quotaUsage (snd (MB_CheckQuota (Some ()) ''/x'' 7 NewMemoryBackend))) ''/x'') = Some 7"
  by code_simp

end
