(* ===== verification/Storage_Engine.thy ===== *)
theory Storage_Engine
  imports Memory_Backend
begin

text \<open>
  The storage engine (\<open>internal/storage/engine.go\<close>) over a backend, with its default stores
  (\<open>internal/storage/stores.go\<close>): the tombstone store and the quota manager live in the engine, the
  metadata and blob stores delegate to the default backend. The backend is a parameter \<open>B\<close>, the record
  of its methods; a cache invalidator is a parameter \<open>On\<close>, its method over its state. Invalidators are
  registered by pointer, so the engine holds pointers into a store of invalidator states.

  A store that the configuration leaves out is a \<open>nil\<close> interface, and calling it panics: operations that
  may do so return an \<open>option\<close>, with \<^const>\<open>None\<close> for the panic. The context is passed on to the backend
  and is never \<open>nil\<close> here.
\<close>

section \<open>The tombstone store\<close>

type_synonym TombstoneStore = "(string, Tombstone) gomap"

definition TS_GetTombstone :: "string \<Rightarrow> TombstoneStore \<Rightarrow> Tombstone result" where
  "TS_GetTombstone uri s = (case mget s uri of None \<Rightarrow> Inl ErrNotFound | Some t \<Rightarrow> Inr t)"

definition TS_StoreTombstone :: "Tombstone \<Rightarrow> TombstoneStore \<Rightarrow> TombstoneStore" where
  "TS_StoreTombstone t s = mset_at (tb_URI t) t s"

definition TS_DeleteTombstone :: "string \<Rightarrow> TombstoneStore \<Rightarrow> TombstoneStore" where
  "TS_DeleteTombstone uri s = mdelete uri s"

definition TS_ListTombstones :: "string \<Rightarrow> TombstoneStore \<Rightarrow> Tombstone list" where
  "TS_ListTombstones storageRoot s = map snd s"

definition TS_TombstoneExists :: "string \<Rightarrow> TombstoneStore \<Rightarrow> bool" where
  "TS_TombstoneExists uri s \<longleftrightarrow> mget s uri \<noteq> None"

section \<open>The quota manager\<close>

type_synonym QuotaManager = "(string, QuotaInfo) gomap"

definition no_quota :: QuotaInfo where
  "no_quota = \<lparr>qi_StorageRoot = [], qi_Tenant = [], qi_UsedBytes = 0, qi_MaxBytes = 0,
     qi_UsedResources = 0, qi_MaxResources = 0\<rparr>"

definition QM_GetQuota :: "string \<Rightarrow> QuotaManager \<Rightarrow> QuotaInfo" where
  "QM_GetQuota storageRoot q =
     (case mget q storageRoot of Some quota \<Rightarrow> quota | None \<Rightarrow> no_quota\<lparr>qi_StorageRoot := storageRoot\<rparr>)"

definition QM_GetTenantQuota :: "string \<Rightarrow> QuotaManager \<Rightarrow> QuotaInfo" where
  "QM_GetTenantQuota tenant q =
     (case mget q tenant of Some quota \<Rightarrow> quota | None \<Rightarrow> no_quota\<lparr>qi_Tenant := tenant\<rparr>)"

definition QM_CheckQuota :: "string \<Rightarrow> int \<Rightarrow> QuotaManager \<Rightarrow> goerr" where
  "QM_CheckQuota storageRoot additionalBytes q =
     (let quota = QM_GetQuota storageRoot q in
      if qi_MaxBytes quota = 0 then None
      else if int64_wrap (qi_UsedBytes quota + additionalBytes) > qi_MaxBytes quota then Some ErrQuotaExceeded
      else None)"

definition QM_RecordUsage :: "string \<Rightarrow> int \<Rightarrow> QuotaManager \<Rightarrow> QuotaManager" where
  "QM_RecordUsage storageRoot bytesUsed q =
     (case mget q storageRoot of
        None \<Rightarrow> mset_at storageRoot (no_quota\<lparr>qi_StorageRoot := storageRoot, qi_UsedBytes := bytesUsed\<rparr>) q
      | Some quota \<Rightarrow>
          mset_at storageRoot (quota\<lparr>qi_UsedBytes := int64_wrap (qi_UsedBytes quota + bytesUsed)\<rparr>) q)"

definition QM_ReleaseUsage :: "string \<Rightarrow> int \<Rightarrow> QuotaManager \<Rightarrow> QuotaManager" where
  "QM_ReleaseUsage storageRoot bytesFreed q =
     (case mget q storageRoot of
        None \<Rightarrow> q
      | Some quota \<Rightarrow>
          let left = int64_wrap (qi_UsedBytes quota - bytesFreed)
          in mset_at storageRoot (quota\<lparr>qi_UsedBytes := (if left < 0 then 0 else left)\<rparr>) q)"

definition QM_SetQuota :: "string \<Rightarrow> QuotaInfo \<Rightarrow> QuotaManager \<Rightarrow> QuotaManager" where
  "QM_SetQuota storageRoot quota q = mset_at storageRoot quota q"

section \<open>Metrics\<close>

record EngineMetrics =
  em_GetRequests :: int
  em_PutRequests :: int
  em_DeleteRequests :: int
  em_ListRequests :: int
  em_MetadataRequests :: int
  em_GetSuccesses :: int
  em_PutSuccesses :: int
  em_DeleteSuccesses :: int
  em_ListSuccesses :: int
  em_MetadataSuccesses :: int
  em_GetErrors :: int
  em_PutErrors :: int
  em_DeleteErrors :: int
  em_ListErrors :: int
  em_MetadataErrors :: int
  em_BlobStoreRequests :: int
  em_BlobRetrieveRequests :: int
  em_TransactionsStarted :: int
  em_TransactionsCommitted :: int
  em_TransactionsRolledBack :: int
  em_QuotaChecks :: int
  em_QuotaExceeded :: int
  em_TombstoneCreations :: int
  em_TombstoneRestores :: int
  em_ErrorsByType :: "(string, int) gomap"

definition zero_EngineMetrics :: EngineMetrics where
  "zero_EngineMetrics = \<lparr>em_GetRequests = 0, em_PutRequests = 0, em_DeleteRequests = 0,
     em_ListRequests = 0, em_MetadataRequests = 0, em_GetSuccesses = 0, em_PutSuccesses = 0,
     em_DeleteSuccesses = 0, em_ListSuccesses = 0, em_MetadataSuccesses = 0, em_GetErrors = 0,
     em_PutErrors = 0, em_DeleteErrors = 0, em_ListErrors = 0, em_MetadataErrors = 0,
     em_BlobStoreRequests = 0, em_BlobRetrieveRequests = 0, em_TransactionsStarted = 0,
     em_TransactionsCommitted = 0, em_TransactionsRolledBack = 0, em_QuotaChecks = 0,
     em_QuotaExceeded = 0, em_TombstoneCreations = 0, em_TombstoneRestores = 0, em_ErrorsByType = []\<rparr>"

definition RecordRequest :: "string \<Rightarrow> EngineMetrics \<Rightarrow> EngineMetrics" where
  "RecordRequest requestType m =
     (if requestType = ''get'' then m\<lparr>em_GetRequests := em_GetRequests m + 1\<rparr>
      else if requestType = ''put'' then m\<lparr>em_PutRequests := em_PutRequests m + 1\<rparr>
      else if requestType = ''delete'' then m\<lparr>em_DeleteRequests := em_DeleteRequests m + 1\<rparr>
      else if requestType = ''list'' then m\<lparr>em_ListRequests := em_ListRequests m + 1\<rparr>
      else if requestType = ''metadata'' then m\<lparr>em_MetadataRequests := em_MetadataRequests m + 1\<rparr>
      else if requestType = ''blob_store'' then m\<lparr>em_BlobStoreRequests := em_BlobStoreRequests m + 1\<rparr>
      else if requestType = ''blob_retrieve'' then m\<lparr>em_BlobRetrieveRequests := em_BlobRetrieveRequests m + 1\<rparr>
      else m)"

definition RecordSuccess :: "string \<Rightarrow> EngineMetrics \<Rightarrow> EngineMetrics" where
  "RecordSuccess requestType m =
     (if requestType = ''get'' then m\<lparr>em_GetSuccesses := em_GetSuccesses m + 1\<rparr>
      else if requestType = ''put'' then m\<lparr>em_PutSuccesses := em_PutSuccesses m + 1\<rparr>
      else if requestType = ''delete'' then m\<lparr>em_DeleteSuccesses := em_DeleteSuccesses m + 1\<rparr>
      else if requestType = ''list'' then m\<lparr>em_ListSuccesses := em_ListSuccesses m + 1\<rparr>
      else if requestType = ''metadata'' then m\<lparr>em_MetadataSuccesses := em_MetadataSuccesses m + 1\<rparr>
      else m)"

definition classifyError :: "goerr \<Rightarrow> string" where
  "classifyError err =
     (case err of
        None \<Rightarrow> []
      | Some e \<Rightarrow>
          if errors_Is e ErrNotFound then ''not_found''
          else if errors_Is e ErrAlreadyExists then ''already_exists''
          else if errors_Is e ErrPreconditionFailed then ''precondition_failed''
          else if errors_Is e ErrConflict then ''conflict''
          else if errors_Is e ErrQuotaExceeded then ''quota_exceeded''
          else if errors_Is e ErrStorageClosed then ''storage_closed''
          else if errors_Is e ErrInvalidURI then ''invalid_uri''
          else if errors_Is e ErrBackendUnavailable then ''backend_unavailable''
          else ''internal'')"

definition RecordError :: "string \<Rightarrow> goerror \<Rightarrow> EngineMetrics \<Rightarrow> EngineMetrics" where
  "RecordError requestType err m =
     (let errType = classifyError (Some err);
          n = (case mget (em_ErrorsByType m) errType of Some n \<Rightarrow> n | None \<Rightarrow> 0);
          m = m\<lparr>em_ErrorsByType := mset_at errType (n + 1) (em_ErrorsByType m)\<rparr>
      in if requestType = ''get'' then m\<lparr>em_GetErrors := em_GetErrors m + 1\<rparr>
         else if requestType = ''put'' then m\<lparr>em_PutErrors := em_PutErrors m + 1\<rparr>
         else if requestType = ''delete'' then m\<lparr>em_DeleteErrors := em_DeleteErrors m + 1\<rparr>
         else if requestType = ''list'' then m\<lparr>em_ListErrors := em_ListErrors m + 1\<rparr>
         else if requestType = ''metadata'' then m\<lparr>em_MetadataErrors := em_MetadataErrors m + 1\<rparr>
         else m)"

section \<open>State\<close>

record EngineConfig =
  ec_DefaultBackend :: string
  ec_BackendConfigs :: "(string, (string, string) gomap) gomap"
  ec_EnableBlobStorage :: bool
  ec_BlobStorageBackend :: string
  ec_EnableQuotaManagement :: bool
  ec_QuotaConfigs :: "(string, int \<times> int) gomap"
  ec_EnableTombstones :: bool
  ec_EnableIntegrityScanning :: bool
  ec_IntegrityScanInterval :: duration
  ec_EnableBackupRestore :: bool

definition DefaultEngineConfig :: EngineConfig where
  "DefaultEngineConfig = \<lparr>ec_DefaultBackend = ''filesystem'', ec_BackendConfigs = [],
     ec_EnableBlobStorage = True, ec_BlobStorageBackend = [], ec_EnableQuotaManagement = False,
     ec_QuotaConfigs = [], ec_EnableTombstones = True, ec_EnableIntegrityScanning = False,
     ec_IntegrityScanInterval = 0, ec_EnableBackupRestore = True\<rparr>"

text \<open>\<open>se_default\<close> is the backend registered under the configured name, \<open>se_others\<close> the other registered
  ones. Which stores are present is read off the configuration, which never changes.\<close>

record ('b, 'i) storageEngine =
  se_config :: EngineConfig
  se_default :: 'b
  se_others :: "(string, 'b) gomap"
  se_tombstones :: TombstoneStore
  se_quotas :: QuotaManager
  se_layoutVersion :: StorageLayoutVersion
  se_metrics :: EngineMetrics
  se_closed :: bool
  se_cacheInvalidators :: "nat list"
  se_invalidator_at :: "nat \<Rightarrow> 'i"

definition NewStorageEngine ::
  "'b StorageBackend \<Rightarrow> EngineConfig \<Rightarrow> (string, 'b) gomap \<Rightarrow> (nat \<Rightarrow> 'i) \<Rightarrow> ('b, 'i) storageEngine result" where
  "NewStorageEngine B config registered objects =
     (let name = ec_DefaultBackend config in
      case mget registered name of
        None \<Rightarrow> Inl (Errorf ''failed to set default backend: ''
          (ErrorsNew (''backend '' @ Quote name @ '' not found'')) [])
      | Some b \<Rightarrow>
        case sb_Initialize B (Some ()) (case mget (ec_BackendConfigs config) name of Some c \<Rightarrow> c | None \<Rightarrow> []) b of
          (Some err, b) \<Rightarrow> Inl (Errorf ''failed to set default backend: ''
            (Errorf (''failed to initialize backend '' @ Quote name @ '': '') err []) [])
        | (None, b) \<Rightarrow>
            Inr \<lparr>se_config = config, se_default = b, se_others = mdelete name registered,
              se_tombstones = [], se_quotas = [], se_layoutVersion = CurrentStorageLayoutVersion,
              se_metrics = zero_EngineMetrics, se_closed = False, se_cacheInvalidators = [],
              se_invalidator_at = objects\<rparr>)"

definition SE_RegisterBackend :: "string \<Rightarrow> 'b \<Rightarrow> ('b, 'i) storageEngine \<Rightarrow> goerr \<times> ('b, 'i) storageEngine" where
  "SE_RegisterBackend name backend s =
     (if se_closed s then (Some ErrStorageClosed, s)
      else if name = ec_DefaultBackend (se_config s) \<or> mget (se_others s) name \<noteq> None
        then (Some (ErrorsNew (''backend '' @ Quote name @ '' already registered'')), s)
      else (None, s\<lparr>se_others := mset_at name backend (se_others s)\<rparr>))"

definition SE_GetBackend :: "string \<Rightarrow> ('b, 'i) storageEngine \<Rightarrow> 'b result" where
  "SE_GetBackend name s =
     (if se_closed s then Inl ErrStorageClosed
      else if name = ec_DefaultBackend (se_config s) then Inr (se_default s)
      else case mget (se_others s) name of
        None \<Rightarrow> Inl (wrapf ErrNotFound (''backend '' @ Quote name))
      | Some b \<Rightarrow> Inr b)"

definition request :: "string \<Rightarrow> ('b, 'i) storageEngine \<Rightarrow> ('b, 'i) storageEngine" where
  "request t s = s\<lparr>se_metrics := RecordRequest t (se_metrics s)\<rparr>"

definition success :: "string \<Rightarrow> ('b, 'i) storageEngine \<Rightarrow> ('b, 'i) storageEngine" where
  "success t s = s\<lparr>se_metrics := RecordSuccess t (se_metrics s)\<rparr>"

definition failure :: "string \<Rightarrow> goerror \<Rightarrow> ('b, 'i) storageEngine \<Rightarrow> ('b, 'i) storageEngine" where
  "failure t err s = s\<lparr>se_metrics := RecordError t err (se_metrics s)\<rparr>"

section \<open>Utilities\<close>

definition validateStorageURI :: "string \<Rightarrow> goerr" where
  "validateStorageURI uri =
     (if uri = [] then Some ErrInvalidURI
      else if Contains uri ''..'' then Some ErrInvalidURI
      else if Contains uri [CHR 0x00] then Some ErrInvalidURI
      else None)"

definition validateResource :: "WriteResource \<Rightarrow> WriteResource result" where
  "validateResource resource =
     (if wr_URI resource = [] then Inl ErrInvalidURI
      else Inr (if wr_Body resource = Some [] then resource\<lparr>wr_Body := None\<rparr> else resource))"

text \<open>\<open>filepath.Ext\<close>: from the last dot of the last path element.\<close>

definition filepath_Ext :: "string \<Rightarrow> string" where
  "filepath_Ext path =
     (let stop = (\<lambda>c. c \<noteq> CHR ''.'' \<and> c \<noteq> CHR ''/'') in
      case dropWhile stop (rev path) of
        c # _ \<Rightarrow> if c = CHR ''.'' then CHR ''.'' # rev (takeWhile stop (rev path)) else []
      | [] \<Rightarrow> [])"

definition detectContentType :: "string \<Rightarrow> string \<Rightarrow> string" where
  "detectContentType uri data =
     (let ext = filepath_Ext uri in
      if ext = ''.ttl'' then ''text/turtle''
      else if ext = ''.n3'' then ''text/n3''
      else if ext = ''.json'' then ''application/json''
      else if ext = ''.jsonld'' then ''application/ld+json''
      else if ext = ''.rdf'' then ''application/rdf+xml''
      else if ext = ''.xml'' then ''application/xml''
      else if ext = ''.html'' \<or> ext = ''.htm'' then ''text/html''
      else if ext = ''.txt'' then ''text/plain''
      else if ext = ''.jpeg'' \<or> ext = ''.jpg'' then ''image/jpeg''
      else if ext = ''.png'' then ''image/png''
      else if ext = ''.gif'' then ''image/gif''
      else if HasPrefix data ''{'' \<or> HasPrefix data ''['' then ''application/json''
      else if HasPrefix data ''@prefix'' then ''text/turtle''
      else ''application/octet-stream'')"

definition isPolicyResource :: "ResourceType \<Rightarrow> bool" where
  "isPolicyResource resourceType \<longleftrightarrow> resourceType = ResourceTypeACL \<or> resourceType = ResourceTypeACP"

definition SE_isTombstoned :: "string \<Rightarrow> ('b, 'i) storageEngine \<Rightarrow> bool result" where
  "SE_isTombstoned uri s =
     (if \<not> ec_EnableTombstones (se_config s) then Inr False
      else case TS_GetTombstone uri (se_tombstones s) of
        Inl err \<Rightarrow> if errors_Is err ErrNotFound then Inr False else Inl err
      | Inr _ \<Rightarrow> Inr True)"

definition SE_triggerCacheInvalidation ::
  "(CacheInvalidationEvent \<Rightarrow> 'i \<Rightarrow> goerr \<times> 'i) \<Rightarrow> CacheInvalidationEvent \<Rightarrow> ('b, 'i) storageEngine \<Rightarrow>
   ('b, 'i) storageEngine" where
  "SE_triggerCacheInvalidation On event s =
     s\<lparr>se_invalidator_at := fold (\<lambda>p objects. objects(p := snd (On event (objects p))))
         (se_cacheInvalidators s) (se_invalidator_at s)\<rparr>"

definition SE_RegisterCacheInvalidator :: "nat \<Rightarrow> ('b, 'i) storageEngine \<Rightarrow> ('b, 'i) storageEngine" where
  "SE_RegisterCacheInvalidator p s = s\<lparr>se_cacheInvalidators := se_cacheInvalidators s @ [p]\<rparr>"

definition SE_UnregisterCacheInvalidator :: "nat \<Rightarrow> ('b, 'i) storageEngine \<Rightarrow> ('b, 'i) storageEngine" where
  "SE_UnregisterCacheInvalidator p s = s\<lparr>se_cacheInvalidators := remove1 p (se_cacheInvalidators s)\<rparr>"

section \<open>Reading\<close>

definition SE_Get ::
  "'b StorageBackend \<Rightarrow> string \<Rightarrow> ('b, 'i) storageEngine \<Rightarrow> Resource result \<times> ('b, 'i) storageEngine" where
  "SE_Get B uri s =
     (let s = request ''get'' s in
      case validateStorageURI uri of
        Some err \<Rightarrow> (Inl err, failure ''get'' err s)
      | None \<Rightarrow>
        case SE_isTombstoned uri s of
          Inl err \<Rightarrow> (Inl (Errorf ''failed to check tombstone: '' err []), failure ''get'' err s)
        | Inr True \<Rightarrow> (Inl ErrNotFound, s)
        | Inr False \<Rightarrow>
          case sb_Get B (Some ()) uri (se_default s) of
            Inl err \<Rightarrow> (Inl err, failure ''get'' err s)
          | Inr resource \<Rightarrow>
            let body = bytes (rs_Body resource);
                m = rs_Metadata resource;
                m = (if md_ETag m = [] then m\<lparr>md_ETag := generateETag body\<rparr> else m);
                m = (if md_ContentType m = [] then m\<lparr>md_ContentType := detectContentType uri body\<rparr> else m)
            in (Inr \<lparr>rs_URI = uri, rs_Body = rs_Body resource, rs_Metadata = m\<rparr>, success ''get'' s))"

definition SE_GetMetadata ::
  "'b StorageBackend \<Rightarrow> string \<Rightarrow> ('b, 'i) storageEngine \<Rightarrow> Metadata result \<times> ('b, 'i) storageEngine" where
  "SE_GetMetadata B uri s =
     (let s = request ''metadata'' s in
      case validateStorageURI uri of
        Some err \<Rightarrow> (Inl err, failure ''metadata'' err s)
      | None \<Rightarrow>
        case SE_isTombstoned uri s of
          Inl err \<Rightarrow> (Inl (Errorf ''failed to check tombstone: '' err []), failure ''metadata'' err s)
        | Inr True \<Rightarrow>
          (case TS_GetTombstone uri (se_tombstones s) of
             Inl err \<Rightarrow> (Inl ErrNotFound, s)
           | Inr t \<Rightarrow> (Inr (zero_Metadata\<lparr>md_ResourceType := ResourceTypeUnknown,
               md_LastModified := tb_DeletedAt t, md_Owner := tb_DeletedBy t,
               md_Custom := [(''tombstoned'', ''true'')]\<rparr>), s))
        | Inr False \<Rightarrow>
          case sb_GetMetadata B (Some ()) uri (se_default s) of
            Inl err \<Rightarrow> (Inl err, failure ''metadata'' err s)
          | Inr m \<Rightarrow> (Inr m, success ''metadata'' s))"

definition SE_Exists ::
  "'b StorageBackend \<Rightarrow> string \<Rightarrow> ('b, 'i) storageEngine \<Rightarrow> bool result \<times> ('b, 'i) storageEngine" where
  "SE_Exists B uri s =
     (let s = request ''metadata'' s in
      case validateStorageURI uri of
        Some err \<Rightarrow> (Inl err, failure ''metadata'' err s)
      | None \<Rightarrow>
        case sb_Exists B (Some ()) uri (se_default s) of
          Inl err \<Rightarrow> (Inl err, failure ''metadata'' err s)
        | Inr e \<Rightarrow> (Inr e, s))"

definition SE_ExistsWithTombstone ::
  "'b StorageBackend \<Rightarrow> string \<Rightarrow> ('b, 'i) storageEngine \<Rightarrow> (bool \<times> bool) result \<times> ('b, 'i) storageEngine" where
  "SE_ExistsWithTombstone B uri s =
     (let s = request ''metadata'' s in
      case SE_isTombstoned uri s of
        Inl err \<Rightarrow> (Inl err, failure ''metadata'' err s)
      | Inr tombstoned \<Rightarrow>
        case SE_Exists B uri s of
          (Inl err, s) \<Rightarrow> (Inl err, failure ''metadata'' err s)
        | (Inr e, s) \<Rightarrow> (Inr (e, tombstoned), s))"

definition SE_List ::
  "'b StorageBackend \<Rightarrow> string \<Rightarrow> ('b, 'i) storageEngine \<Rightarrow> Metadata list result \<times> ('b, 'i) storageEngine" where
  "SE_List B containerURI s =
     (let s = request ''list'' s in
      case validateStorageURI containerURI of
        Some err \<Rightarrow> (Inl err, failure ''list'' err s)
      | None \<Rightarrow>
        case sb_List B (Some ()) containerURI (se_default s) of
          Inl err \<Rightarrow> (Inl err, failure ''list'' err s)
        | Inr ms \<Rightarrow> (Inr (filter (\<lambda>m. SE_isTombstoned (md_URI m) s = Inr False) ms), success ''list'' s))"

definition SE_ListWithPrefix ::
  "'b StorageBackend \<Rightarrow> string \<Rightarrow> string \<Rightarrow> ('b, 'i) storageEngine \<Rightarrow>
   Metadata list result \<times> ('b, 'i) storageEngine" where
  "SE_ListWithPrefix B containerURI prefix s =
     (let s = request ''list'' s in
      case validateStorageURI containerURI of
        Some err \<Rightarrow> (Inl err, failure ''list'' err s)
      | None \<Rightarrow>
        case SE_List B containerURI s of
          (Inl err, s) \<Rightarrow> (Inl err, s)
        | (Inr ms, s) \<Rightarrow> (Inr (filter (\<lambda>m. HasPrefix (TrimPrefix (md_URI m) containerURI) prefix) ms), s))"

definition getAllStorageRoots :: "string list" where
  "getAllStorageRoots = [''/'']"

definition list_roots ::
  "'b StorageBackend \<Rightarrow> string list \<Rightarrow> ('b, 'i) storageEngine \<Rightarrow> Metadata list \<times> ('b, 'i) storageEngine" where
  "list_roots B roots s =
     fold (\<lambda>root (acc, s).
         case SE_List B root s of
           (Inl err, s) \<Rightarrow> (acc, s)
         | (Inr ms, s) \<Rightarrow> (acc @ ms, snd (SE_List B root s)))
       roots ([], s)"

definition SE_ListAll ::
  "'b StorageBackend \<Rightarrow> ('b, 'i) storageEngine \<Rightarrow> (Metadata list \<times> ('b, 'i) storageEngine) option" where
  "SE_ListAll B s =
     (let s = request ''list_all'' s; (ms, s) = list_roots B getAllStorageRoots s in
      if \<not> ec_EnableTombstones (se_config s) then None
      else Some (ms, success ''list_all'' s))"

section \<open>Writing\<close>

definition check_If_None_Match ::
  "'b StorageBackend \<Rightarrow> WriteResource \<Rightarrow> ('b, 'i) storageEngine \<Rightarrow> goerr \<times> bool \<times> ('b, 'i) storageEngine" where
  \<comment> \<open>the flag is set when the function returns here\<close>
  "check_If_None_Match B w s =
     (let tag = wp_IfNoneMatch (wr_Preconditions w) in
      if tag = [] then (None, False, s)
      else if tag = ''*'' then
        (case SE_Exists B (wr_URI w) s of
           (Inl err, s) \<Rightarrow> (Some (Errorf ''failed to check existence for If-None-Match: '' err []), True, s)
         | (Inr True, s) \<Rightarrow> (Some ErrPreconditionFailed, True, s)
         | (Inr False, s) \<Rightarrow> (None, False, s))
      else
        (case SE_GetMetadata B (wr_URI w) s of
           (Inl err, s) \<Rightarrow>
             if errors_Is err ErrNotFound then (None, True, s)
             else (Some (Errorf ''failed to get metadata for If-None-Match: '' err []), True, s)
         | (Inr m, s) \<Rightarrow> if md_ETag m = tag then (Some ErrPreconditionFailed, True, s) else (None, False, s)))"

definition check_If_Match ::
  "'b StorageBackend \<Rightarrow> WriteResource \<Rightarrow> ('b, 'i) storageEngine \<Rightarrow> goerr \<times> ('b, 'i) storageEngine" where
  "check_If_Match B w s =
     (let tag = wp_IfMatch (wr_Preconditions w) in
      if tag = [] then (None, s)
      else if tag = ''*'' then
        (case SE_Exists B (wr_URI w) s of
           (Inl err, s) \<Rightarrow> (Some (Errorf ''failed to check existence for If-Match: '' err []), s)
         | (Inr True, s) \<Rightarrow> (None, s)
         | (Inr False, s) \<Rightarrow> (Some ErrPreconditionFailed, s))
      else
        (case SE_GetMetadata B (wr_URI w) s of
           (Inl err, s) \<Rightarrow>
             (Some (if errors_Is err ErrNotFound then ErrPreconditionFailed
                    else Errorf ''failed to get metadata for If-Match: '' err []), s)
         | (Inr m, s) \<Rightarrow> (if md_ETag m \<noteq> tag then Some ErrPreconditionFailed else None, s)))"

definition check_Compare_And_Swap ::
  "'b StorageBackend \<Rightarrow> WriteResource \<Rightarrow> ('b, 'i) storageEngine \<Rightarrow> goerr \<times> ('b, 'i) storageEngine" where
  "check_Compare_And_Swap B w s =
     (case wp_CompareAndSwap (wr_Preconditions w) of
        None \<Rightarrow> (None, s)
      | Some cas \<Rightarrow>
        case SE_GetMetadata B (wr_URI w) s of
          (Inl err, s) \<Rightarrow>
            (Some (if errors_Is err ErrNotFound then ErrPreconditionFailed
                   else Errorf ''failed to get metadata for CompareAndSwap: '' err []), s)
        | (Inr m, s) \<Rightarrow>
            let currentValue = (case mget (md_Custom m) (cas_Key cas) of Some v \<Rightarrow> v | None \<Rightarrow> [])
            in (if currentValue \<noteq> cas_ExpectedValue cas then Some ErrPreconditionFailed else None, s))"

definition SE_handlePreconditions ::
  "'b StorageBackend \<Rightarrow> WriteResource \<Rightarrow> ('b, 'i) storageEngine \<Rightarrow> goerr \<times> ('b, 'i) storageEngine" where
  "SE_handlePreconditions B w s =
     (case check_If_None_Match B w s of
        (err, True, s) \<Rightarrow> (err, s)
      | (_, False, s) \<Rightarrow>
        case check_If_Match B w s of
          (Some err, s) \<Rightarrow> (Some err, s)
        | (None, s) \<Rightarrow> check_Compare_And_Swap B w s)"

text \<open>The quota check of \<open>Put\<close>; it may read the body behind a reader into the resource.\<close>

definition put_quota_check ::
  "WriteResource \<Rightarrow> ('b, 'i) storageEngine \<Rightarrow> WriteResource result \<times> ('b, 'i) storageEngine" where
  "put_quota_check w s =
     (if \<not> (ec_EnableQuotaManagement (se_config s) \<and> md_StorageRoot (wr_Metadata w) \<noteq> []) then (Inr w, s)
      else
        let w' = (if wr_BodySize w = 0 then
                    case wr_BodyReader w of
                      None \<Rightarrow> Inr w
                    | Some (Inl err) \<Rightarrow> Inl err
                    | Some (Inr data) \<Rightarrow>
                        Inr (w\<lparr>wr_Body := Some data, wr_BodyReader := None, wr_BodySize := int (length data)\<rparr>)
                  else Inr w)
        in case w' of
             Inl err \<Rightarrow>
               (Inl (SanitizeError (Errorf ''failed to read body for quota check: '' err [])), failure ''put'' err s)
           | Inr w \<Rightarrow>
               let totalSize = int64_wrap (wr_BodySize w + estimateMetadataSize (Some (wr_Metadata w)))
               in case QM_CheckQuota (md_StorageRoot (wr_Metadata w)) totalSize (se_quotas s) of
                    Some err \<Rightarrow> (Inl err, failure ''put'' err s)
                  | None \<Rightarrow> (Inr w, s))"

text \<open>The blob of a content-addressed resource.\<close>

definition put_blob ::
  "'b StorageBackend \<Rightarrow> WriteResource \<Rightarrow> ('b, 'i) storageEngine \<Rightarrow>
   (WriteResource result \<times> ('b, 'i) storageEngine) option" where
  "put_blob B w s =
     (if md_ContentAddress (wr_Metadata w) = [] \<or> md_Digest (wr_Metadata w) = [] then Some (Inr w, s)
      else if computeDigest (bytes (wr_Body w)) \<noteq> md_Digest (wr_Metadata w)
        then Some (Inl ErrIntegrityViolation, failure ''put'' ErrIntegrityViolation s)
      else if \<not> ec_EnableBlobStorage (se_config s) then None
      else case sb_StoreBlob B (Some ()) (wr_Body w) (se_default s) of
        (Inl err, b) \<Rightarrow>
          Some (Inl (Errorf ''failed to store blob: '' err []), failure ''put'' err (s\<lparr>se_default := b\<rparr>))
      | (Inr address, b) \<Rightarrow>
          Some (Inr (w\<lparr>wr_Metadata := (wr_Metadata w)\<lparr>md_ContentAddress := address\<rparr>\<rparr>), s\<lparr>se_default := b\<rparr>))"

definition put_event :: "gotime \<Rightarrow> WriteResource \<Rightarrow> CacheInvalidationEvent" where
  "put_event now w =
     \<lparr>ev_ResourceURI = wr_URI w, ev_IsPolicy = isPolicyResource (md_ResourceType (wr_Metadata w)),
      ev_PolicyURI = wr_URI w, ev_AgentURI = [], ev_Action = ''put'', ev_Timestamp = now\<rparr>"

text \<open>The end of \<open>Put\<close>: the write to the default backend and what follows it.\<close>

definition put_backend ::
  "'b StorageBackend \<Rightarrow> (CacheInvalidationEvent \<Rightarrow> 'i \<Rightarrow> goerr \<times> 'i) \<Rightarrow> gotime \<Rightarrow> WriteResource \<Rightarrow>
   ('b, 'i) storageEngine \<Rightarrow> goerr \<times> ('b, 'i) storageEngine" where
  "put_backend B On now w s =
     (case sb_Put B (Some ()) now (wr_URI w) (Some w) (se_default s) of
        (Some err, b) \<Rightarrow> (Some err, failure ''put'' err (s\<lparr>se_default := b\<rparr>))
      | (None, b) \<Rightarrow>
          let s = s\<lparr>se_default := b\<rparr>;
              root = md_StorageRoot (wr_Metadata w);
              s = (if ec_EnableQuotaManagement (se_config s) \<and> root \<noteq> []
                   then s\<lparr>se_quotas := QM_RecordUsage root (wr_BodySize w) (se_quotas s)\<rparr> else s)
          in (None, success ''put'' (SE_triggerCacheInvalidation On (put_event now w) s)))"

definition SE_Put ::
  "'b StorageBackend \<Rightarrow> (CacheInvalidationEvent \<Rightarrow> 'i \<Rightarrow> goerr \<times> 'i) \<Rightarrow> gotime \<Rightarrow> WriteResource \<Rightarrow>
   ('b, 'i) storageEngine \<Rightarrow> (goerr \<times> ('b, 'i) storageEngine) option" where
  "SE_Put B On now w s =
     (let s = request ''put'' s in
      case validateStorageURI (wr_URI w) of
        Some err \<Rightarrow> Some (Some err, failure ''put'' err s)
      | None \<Rightarrow>
        case validateResource w of
          Inl err \<Rightarrow> Some (Some err, failure ''put'' err s)
        | Inr w \<Rightarrow>
          case put_quota_check w s of
            (Inl err, s) \<Rightarrow> Some (Some err, s)
          | (Inr w, s) \<Rightarrow>
            case SE_handlePreconditions B w s of
              (Some err, s) \<Rightarrow> Some (Some err, failure ''put'' err s)
            | (None, s) \<Rightarrow>
              case put_blob B w s of
                None \<Rightarrow> None
              | Some (Inl err, s) \<Rightarrow> Some (Some err, s)
              | Some (Inr w, s) \<Rightarrow> Some (put_backend B On now w s))"

text \<open>Deletion in the default backend and then, through the metadata store, in the same backend again.\<close>

definition delete_metadata :: "'b StorageBackend \<Rightarrow> string \<Rightarrow> ('b, 'i) storageEngine \<Rightarrow> ('b, 'i) storageEngine" where
  "delete_metadata B uri s = s\<lparr>se_default := snd (sb_Delete B (Some ()) uri (se_default s))\<rparr>"

definition delete_finish ::
  "'b StorageBackend \<Rightarrow> (CacheInvalidationEvent \<Rightarrow> 'i \<Rightarrow> goerr \<times> 'i) \<Rightarrow> gotime \<Rightarrow> string \<Rightarrow>
   ('b, 'i) storageEngine \<Rightarrow> ('b, 'i) storageEngine" where
  "delete_finish B On now uri s =
     (let s = delete_metadata B uri s;
          isPolicy = (case sb_GetMetadata B (Some ()) uri (se_default s) of
                        Inr m \<Rightarrow> isPolicyResource (md_ResourceType m) | Inl _ \<Rightarrow> False);
          event = \<lparr>ev_ResourceURI = uri, ev_IsPolicy = isPolicy, ev_PolicyURI = uri, ev_AgentURI = [],
            ev_Action = ''delete'', ev_Timestamp = now\<rparr>
      in success ''delete'' (SE_triggerCacheInvalidation On event s))"

definition SE_Delete ::
  "'b StorageBackend \<Rightarrow> (CacheInvalidationEvent \<Rightarrow> 'i \<Rightarrow> goerr \<times> 'i) \<Rightarrow> gotime \<Rightarrow> string \<Rightarrow>
   ('b, 'i) storageEngine \<Rightarrow> goerr \<times> ('b, 'i) storageEngine" where
  "SE_Delete B On now uri s =
     (let s = request ''delete'' s in
      case validateStorageURI uri of
        Some err \<Rightarrow> (Some err, failure ''delete'' err s)
      | None \<Rightarrow>
        case sb_Delete B (Some ()) uri (se_default s) of
          (Some err, b) \<Rightarrow>
            if errors_Is err ErrNotFound then (None, delete_finish B On now uri (s\<lparr>se_default := b\<rparr>))
            else (Some err, failure ''delete'' err (s\<lparr>se_default := b\<rparr>))
        | (None, b) \<Rightarrow> (None, delete_finish B On now uri (s\<lparr>se_default := b\<rparr>)))"

definition tombstone_finish :: "'b StorageBackend \<Rightarrow> string \<Rightarrow> ('b, 'i) storageEngine \<Rightarrow> ('b, 'i) storageEngine" where
  "tombstone_finish B uri s =
     (let s = success ''delete'' (delete_metadata B uri s); m = se_metrics s
      in s\<lparr>se_metrics := m\<lparr>em_TombstoneCreations := em_TombstoneCreations m + 1\<rparr>\<rparr>)"

definition SE_DeleteWithTombstone ::
  "'b StorageBackend \<Rightarrow> gotime \<Rightarrow> string \<Rightarrow> Tombstone \<Rightarrow> ('b, 'i) storageEngine \<Rightarrow>
   (goerr \<times> ('b, 'i) storageEngine) option" where
  "SE_DeleteWithTombstone B now uri t s =
     (let s = request ''delete'' s in
      case validateStorageURI uri of
        Some err \<Rightarrow> Some (Some err, failure ''delete'' err s)
      | None \<Rightarrow>
        let t = (if tb_URI t = [] then t\<lparr>tb_URI := uri\<rparr> else t);
            t = (if IsZero (tb_DeletedAt t) then t\<lparr>tb_DeletedAt := now\<rparr> else t)
        in if \<not> ec_EnableTombstones (se_config s) then None
           else
             let s = s\<lparr>se_tombstones := TS_StoreTombstone t (se_tombstones s)\<rparr> in
             Some (case sb_Delete B (Some ()) uri (se_default s) of
               (Some err, b) \<Rightarrow>
                 if errors_Is err ErrNotFound then (None, tombstone_finish B uri (s\<lparr>se_default := b\<rparr>))
                 else (Some err, (failure ''delete'' err (s\<lparr>se_default := b\<rparr>))
                   \<lparr>se_tombstones := TS_DeleteTombstone uri (se_tombstones s)\<rparr>)
             | (None, b) \<Rightarrow> (None, tombstone_finish B uri (s\<lparr>se_default := b\<rparr>))))"

section \<open>Blobs\<close>

definition SE_StoreBlob ::
  "'b StorageBackend \<Rightarrow> string option \<Rightarrow> ('b, 'i) storageEngine \<Rightarrow>
   (ContentAddress result \<times> ('b, 'i) storageEngine) option" where
  "SE_StoreBlob B data s =
     (let s = request ''blob_store'' s in
      case (if ec_EnableQuotaManagement (se_config s)
            then QM_CheckQuota ''blobs'' (int (length (bytes data))) (se_quotas s) else None) of
        Some err \<Rightarrow> Some (Inl err, failure ''blob_store'' err s)
      | None \<Rightarrow>
        if \<not> ec_EnableBlobStorage (se_config s) then None
        else Some (case sb_StoreBlob B (Some ()) data (se_default s) of
          (Inl err, b) \<Rightarrow> (Inl err, failure ''blob_store'' err (s\<lparr>se_default := b\<rparr>))
        | (Inr address, b) \<Rightarrow> (Inr address, success ''blob_store'' (s\<lparr>se_default := b\<rparr>))))"

definition SE_GetBlob ::
  "'b StorageBackend \<Rightarrow> ContentAddress \<Rightarrow> ('b, 'i) storageEngine \<Rightarrow>
   (string result \<times> ('b, 'i) storageEngine) option" where
  "SE_GetBlob B address s =
     (let s = request ''blob_retrieve'' s in
      if \<not> ec_EnableBlobStorage (se_config s) then None
      else Some (case sb_GetBlob B (Some ()) address (se_default s) of
        Inl err \<Rightarrow> (Inl err, failure ''blob_retrieve'' err s)
      | Inr data \<Rightarrow> (Inr data, success ''blob_retrieve'' s)))"

definition SE_DeleteBlob ::
  "'b StorageBackend \<Rightarrow> ContentAddress \<Rightarrow> ('b, 'i) storageEngine \<Rightarrow> (goerr \<times> ('b, 'i) storageEngine) option" where
  "SE_DeleteBlob B address s =
     (let s = request ''delete'' s in
      if \<not> ec_EnableBlobStorage (se_config s) then None
      else Some (case sb_DeleteBlob B (Some ()) address (se_default s) of
        (Some err, b) \<Rightarrow> (Some err, failure ''delete'' err (s\<lparr>se_default := b\<rparr>))
      | (None, b) \<Rightarrow> (None, success ''delete'' (s\<lparr>se_default := b\<rparr>))))"

definition SE_BlobExists ::
  "'b StorageBackend \<Rightarrow> ContentAddress \<Rightarrow> ('b, 'i) storageEngine \<Rightarrow>
   (bool result \<times> ('b, 'i) storageEngine) option" where
  "SE_BlobExists B address s =
     (let s = request ''metadata'' s in
      if \<not> ec_EnableBlobStorage (se_config s) then None
      else Some (case sb_BlobExists B (Some ()) address (se_default s) of
        Inl err \<Rightarrow> (Inl err, failure ''metadata'' err s)
      | Inr e \<Rightarrow> (Inr e, s)))"

section \<open>Quotas, tombstones, layout, life cycle\<close>

definition SE_GetQuota :: "string \<Rightarrow> ('b, 'i) storageEngine \<Rightarrow> QuotaInfo" where
  "SE_GetQuota storageRoot s =
     (if \<not> ec_EnableQuotaManagement (se_config s) then no_quota\<lparr>qi_StorageRoot := storageRoot\<rparr>
      else QM_GetQuota storageRoot (se_quotas s))"

definition SE_GetTenantQuota :: "string \<Rightarrow> ('b, 'i) storageEngine \<Rightarrow> QuotaInfo" where
  "SE_GetTenantQuota tenant s =
     (if \<not> ec_EnableQuotaManagement (se_config s) then no_quota\<lparr>qi_Tenant := tenant\<rparr>
      else QM_GetTenantQuota tenant (se_quotas s))"

definition SE_CheckQuota :: "string \<Rightarrow> int \<Rightarrow> ('b, 'i) storageEngine \<Rightarrow> goerr" where
  "SE_CheckQuota storageRoot additionalBytes s =
     (if \<not> ec_EnableQuotaManagement (se_config s) then None
      else QM_CheckQuota storageRoot additionalBytes (se_quotas s))"

definition SE_GetTombstone :: "string \<Rightarrow> ('b, 'i) storageEngine \<Rightarrow> Tombstone result option" where
  "SE_GetTombstone uri s =
     (if \<not> ec_EnableTombstones (se_config s) then None else Some (TS_GetTombstone uri (se_tombstones s)))"

definition SE_ListTombstones :: "string \<Rightarrow> ('b, 'i) storageEngine \<Rightarrow> Tombstone list option" where
  "SE_ListTombstones storageRoot s =
     (if \<not> ec_EnableTombstones (se_config s) then None
      else Some (TS_ListTombstones storageRoot (se_tombstones s)))"

definition SE_RestoreFromTombstone :: "string \<Rightarrow> string \<Rightarrow> ('b, 'i) storageEngine \<Rightarrow> goerror option" where
  \<comment> \<open>always an error; \<^const>\<open>None\<close> is the panic\<close>
  "SE_RestoreFromTombstone uri restoreToken s =
     map_option (\<lambda>r. case r of
         Inl err \<Rightarrow> Errorf ''failed to get tombstone: '' err []
       | Inr t \<Rightarrow>
           if tb_RestoreToken t \<noteq> [] \<and> tb_RestoreToken t \<noteq> restoreToken
           then wrapf ErrPreconditionFailed ''invalid restore token''
           else ErrorsNew ''restore not implemented'')
       (SE_GetTombstone uri s)"

definition SE_SetLayoutVersion ::
  "StorageLayoutVersion \<Rightarrow> ('b, 'i) storageEngine \<Rightarrow> goerr \<times> ('b, 'i) storageEngine" where
  "SE_SetLayoutVersion version s =
     (if version < MinSupportedStorageLayoutVersion
      then (Some (ErrorsNew (''version '' @ FormatInt version @ '' is below minimum supported version '' @
        FormatInt MinSupportedStorageLayoutVersion)), s)
      else (None, s\<lparr>se_layoutVersion := version\<rparr>))"

definition SE_MigrateLayout :: "StorageLayoutVersion \<Rightarrow> goerror" where
  "SE_MigrateLayout targetVersion = ErrorsNew ''layout migration not implemented''"

fun first_unhealthy :: "'b StorageBackend \<Rightarrow> (string, 'b) gomap \<Rightarrow> goerr" where
  "first_unhealthy B [] = None"
| "first_unhealthy B ((name, b) # rest) =
     (case sb_HealthCheck B (Some ()) b of
        Some err \<Rightarrow> Some (Errorf (''backend '' @ Quote name @ '' health check failed: '') err [])
      | None \<Rightarrow> first_unhealthy B rest)"

definition SE_HealthCheck :: "'b StorageBackend \<Rightarrow> ('b, 'i) storageEngine \<Rightarrow> goerr" where
  "SE_HealthCheck B s =
     (case sb_HealthCheck B (Some ()) (se_default s) of
        Some err \<Rightarrow> Some (Errorf ''default backend health check failed: '' err [])
      | None \<Rightarrow> first_unhealthy B ((ec_DefaultBackend (se_config s), se_default s) # se_others s))"

definition SE_Close :: "'b StorageBackend \<Rightarrow> ('b, 'i) storageEngine \<Rightarrow> ('b, 'i) storageEngine" where
  "SE_Close B s =
     (if se_closed s then s
      else s\<lparr>se_closed := True, se_default := snd (sb_Close B (se_default s)),
             se_others := map (\<lambda>(name, b). (name, snd (sb_Close B b))) (se_others s)\<rparr>)"

section \<open>What an operation leaves alone\<close>

text \<open>The engine without its counters. Reads and checks change the counters only.\<close>

definition strip :: "('b, 'i) storageEngine \<Rightarrow> ('b, 'i) storageEngine" where
  "strip s = s\<lparr>se_metrics := zero_EngineMetrics\<rparr>"

lemma strip_counters [simp]:
  "strip (request t s) = strip s" "strip (success t s) = strip s" "strip (failure t err s) = strip s"
  by (simp_all add: strip_def request_def success_def failure_def)

lemma strip_fields:
  assumes "strip s' = strip s"
  shows "se_config s' = se_config s" "se_default s' = se_default s" "se_others s' = se_others s"
    "se_tombstones s' = se_tombstones s" "se_quotas s' = se_quotas s"
    "se_layoutVersion s' = se_layoutVersion s" "se_closed s' = se_closed s"
    "se_cacheInvalidators s' = se_cacheInvalidators s" "se_invalidator_at s' = se_invalidator_at s"
  using arg_cong [OF assms, of se_config] arg_cong [OF assms, of se_default]
    arg_cong [OF assms, of se_others] arg_cong [OF assms, of se_tombstones]
    arg_cong [OF assms, of se_quotas] arg_cong [OF assms, of se_layoutVersion]
    arg_cong [OF assms, of se_closed] arg_cong [OF assms, of se_cacheInvalidators]
    arg_cong [OF assms, of se_invalidator_at]
  by (simp_all add: strip_def)

lemma counter_fields [simp]:
  "se_config (request t s) = se_config s" "se_default (request t s) = se_default s"
  "se_tombstones (request t s) = se_tombstones s" "se_quotas (request t s) = se_quotas s"
  "se_config (success t s) = se_config s" "se_default (success t s) = se_default s"
  "se_tombstones (success t s) = se_tombstones s" "se_quotas (success t s) = se_quotas s"
  "se_config (failure t err s) = se_config s" "se_default (failure t err s) = se_default s"
  "se_tombstones (failure t err s) = se_tombstones s" "se_quotas (failure t err s) = se_quotas s"
  "se_cacheInvalidators (request t s) = se_cacheInvalidators s"
  "se_cacheInvalidators (success t s) = se_cacheInvalidators s"
  "se_cacheInvalidators (failure t err s) = se_cacheInvalidators s"
  "se_invalidator_at (request t s) = se_invalidator_at s"
  "se_invalidator_at (success t s) = se_invalidator_at s"
  "se_invalidator_at (failure t err s) = se_invalidator_at s"
  by (simp_all add: request_def success_def failure_def)

lemma strip_Exists: "strip (snd (SE_Exists B u s)) = strip s"
  by (simp add: SE_Exists_def Let_def split: option.split sum.split)

lemma strip_GetMetadata: "strip (snd (SE_GetMetadata B u s)) = strip s"
  by (simp add: SE_GetMetadata_def Let_def split: option.split sum.split bool.split)

lemma strip_Get: "strip (snd (SE_Get B u s)) = strip s"
  by (simp add: SE_Get_def Let_def split: option.split sum.split bool.split)

lemma strip_If_None_Match: "strip (snd (snd (check_If_None_Match B w s))) = strip s"
  using strip_Exists [of B "wr_URI w" s] strip_GetMetadata [of B "wr_URI w" s]
  by (cases "SE_Exists B (wr_URI w) s"; cases "SE_GetMetadata B (wr_URI w) s")
    (simp add: check_If_None_Match_def Let_def split: sum.split bool.split)

lemma strip_If_Match: "strip (snd (check_If_Match B w s)) = strip s"
  using strip_Exists [of B "wr_URI w" s] strip_GetMetadata [of B "wr_URI w" s]
  by (cases "SE_Exists B (wr_URI w) s"; cases "SE_GetMetadata B (wr_URI w) s")
    (simp add: check_If_Match_def Let_def split: sum.split bool.split)

lemma strip_Compare_And_Swap: "strip (snd (check_Compare_And_Swap B w s)) = strip s"
  using strip_GetMetadata [of B "wr_URI w" s]
  by (cases "SE_GetMetadata B (wr_URI w) s")
    (simp add: check_Compare_And_Swap_def Let_def split: sum.split option.split)

lemma strip_handlePreconditions: "strip (snd (SE_handlePreconditions B w s)) = strip s"
proof -
  obtain err ret s1 where 1: "check_If_None_Match B w s = (err, ret, s1)" by (cases "check_If_None_Match B w s")
  obtain err2 s2 where 2: "check_If_Match B w s1 = (err2, s2)" by (cases "check_If_Match B w s1")
  show ?thesis
    using strip_If_None_Match [of B w s] strip_If_Match [of B w s1] strip_Compare_And_Swap [of B w s2] 1 2
    by (cases ret; cases err2) (simp_all add: SE_handlePreconditions_def)
qed

section \<open>The anatomy of a write\<close>

text \<open>The resource after the checks of \<open>Put\<close>: an empty body counts as none.\<close>

definition normal_write :: "WriteResource \<Rightarrow> WriteResource" where
  "normal_write w = (if wr_Body w = Some [] then w\<lparr>wr_Body := None\<rparr> else w)"

definition engine_body :: "WriteResource \<Rightarrow> string option" where
  "engine_body w = written_body (normal_write w)"

definition same_write :: "WriteResource \<Rightarrow> WriteResource \<Rightarrow> bool" where
  "same_write w w' \<longleftrightarrow> wr_URI w' = wr_URI w \<and> written_body w' = written_body w \<and>
     (\<exists>a. wr_Metadata w' = (wr_Metadata w)\<lparr>md_ContentAddress := a\<rparr>)"

lemma same_write_refl: "same_write w w"
  by (auto simp: same_write_def intro!: exI [of _ "md_ContentAddress (wr_Metadata w)"])

lemma put_quota_check_frame: "strip (snd (put_quota_check w s)) = strip s"
  by (simp add: put_quota_check_def Let_def split: sum.split option.split)

lemma put_quota_check_ok:
  assumes "put_quota_check w s = (Inr w', s')" "wr_Body w = None \<or> wr_BodyReader w = None"
  shows "same_write w w' \<and> wr_Metadata w' = wr_Metadata w \<and> (wr_Body w' = None \<or> wr_BodyReader w' = None)"
proof -
  have "w' = w \<or> (\<exists>data. wr_BodyReader w = Some (Inr data) \<and>
      w' = w\<lparr>wr_Body := Some data, wr_BodyReader := None, wr_BodySize := int (length data)\<rparr>)"
    using assms(1)
    by (simp add: put_quota_check_def Let_def split: if_splits sum.splits option.splits)
  with assms(2) show ?thesis
    by (auto simp: same_write_refl) (auto simp: same_write_def written_body_def intro!: exI [of _ "md_ContentAddress (wr_Metadata w)"])
qed

text \<open>The backend after the blob of a write has been stored, if it has one.\<close>

definition blob_stage :: "'b StorageBackend \<Rightarrow> 'b \<Rightarrow> 'b \<Rightarrow> bool" where
  "blob_stage B b b' \<longleftrightarrow> b' = b \<or> (\<exists>d res. sb_StoreBlob B (Some ()) d b = (res, b'))"

lemma put_blob_stage:
  assumes "put_blob B w s = Some (res, s')"
  shows "strip s' = (strip s)\<lparr>se_default := se_default s'\<rparr> \<and> blob_stage B (se_default s) (se_default s') \<and>
    (\<forall>w'. res = Inr w' \<longrightarrow> same_write w w' \<and> wr_BodyReader w' = wr_BodyReader w)"
proof -
  obtain r b where st: "sb_StoreBlob B (Some ()) (wr_Body w) (se_default s) = (r, b)" by force
  then have stage: "blob_stage B (se_default s) b" by (auto simp: blob_stage_def)
  have same: "same_write w (w\<lparr>wr_Metadata := (wr_Metadata w)\<lparr>md_ContentAddress := a\<rparr>\<rparr>)" for a
    by (auto simp: same_write_def written_body_def)
  show ?thesis
    using assms stage same same_write_refl [of w]
    by (auto simp: put_blob_def st strip_def blob_stage_def failure_def split: if_splits sum.splits)
qed

lemma strip_set_default: "strip (s\<lparr>se_default := b\<rparr>) = (strip s)\<lparr>se_default := b\<rparr>"
  by (simp add: strip_def)

lemma strip_default_fields:
  assumes "strip s' = (strip s)\<lparr>se_default := d\<rparr>"
  shows "se_config s' = se_config s" "se_tombstones s' = se_tombstones s"
    "se_cacheInvalidators s' = se_cacheInvalidators s" "se_invalidator_at s' = se_invalidator_at s"
  using arg_cong [OF assms, of se_config] arg_cong [OF assms, of se_tombstones]
    arg_cong [OF assms, of se_cacheInvalidators] arg_cong [OF assms, of se_invalidator_at]
  by (simp_all add: strip_def)

lemma normal_write_simps [simp]:
  "wr_URI (normal_write w) = wr_URI w" "wr_Metadata (normal_write w) = wr_Metadata w"
  "wr_BodyReader (normal_write w) = wr_BodyReader w" "wr_Body (normal_write w) \<noteq> Some []"
  by (simp_all add: normal_write_def)

lemma validateResource_normal: "wr_URI w \<noteq> [] \<Longrightarrow> validateResource w = Inr (normal_write w)"
  by (simp add: validateResource_def normal_write_def)

lemma same_write_trans: "same_write a b \<Longrightarrow> same_write b c \<Longrightarrow> same_write a c"
  by (auto simp: same_write_def)

lemma put_event_same: "same_write (normal_write w) w' \<Longrightarrow> put_event now w' = put_event now w"
  by (auto simp: same_write_def put_event_def)

lemma put_backend_effect:
  assumes "put_backend B On now w s = (res, s')"
  shows "sb_Put B (Some ()) now (wr_URI w) (Some w) (se_default s) = (res, se_default s')"
    and "res \<noteq> None \<Longrightarrow> strip s' = (strip s)\<lparr>se_default := se_default s'\<rparr>"
    and "se_config s' = se_config s" "se_tombstones s' = se_tombstones s"
    "se_cacheInvalidators s' = se_cacheInvalidators s"
    and "res = None \<Longrightarrow>
      se_invalidator_at s' = se_invalidator_at (SE_triggerCacheInvalidation On (put_event now w) s)"
  using assms
  by (cases "sb_Put B (Some ()) now (wr_URI w) (Some w) (se_default s)";
      auto simp: put_backend_def Let_def strip_set_default SE_triggerCacheInvalidation_def
        split: option.splits if_splits)+

text \<open>A write is refused by the checks or reaches the backend.\<close>

lemma SE_Put_stages:
  assumes "SE_Put B On now w s = Some (res, s')" "wr_Body w = None \<or> wr_BodyReader w = None"
  obtains (refused) e where "res = Some e" "strip s' = (strip s)\<lparr>se_default := se_default s'\<rparr>"
      "blob_stage B (se_default s) (se_default s')"
    | (reached) w' t where "validateStorageURI (wr_URI w) = None" "same_write (normal_write w) w'"
      "strip t = (strip s)\<lparr>se_default := se_default t\<rparr>" "blob_stage B (se_default s) (se_default t)"
      "put_backend B On now w' t = (res, s')"
proof -
  let ?s1 = "request ''put'' s" and ?w = "normal_write w"
  have unchanged: thesis if "res = Some e" "strip s' = strip s" for e
    using that strip_fields(2) [OF that(2)]
    by (intro refused) (simp_all add: strip_def blob_stage_def)
  show thesis
  proof (cases "validateStorageURI (wr_URI w)")
    case (Some e)
    with assms(1) have "res = Some e" "s' = failure ''put'' e ?s1" by (auto simp: SE_Put_def Let_def)
    then show thesis by (intro unchanged) simp_all
  next
    case valid: None
    then have ne: "wr_URI w \<noteq> []" by (auto simp: validateStorageURI_def)
    obtain rq s2 where q: "put_quota_check ?w ?s1 = (rq, s2)" by force
    have s2: "strip s2 = strip s" using put_quota_check_frame [of ?w ?s1] q by simp
    note put = assms(1) [unfolded SE_Put_def Let_def valid validateResource_normal [OF ne], simplified, unfolded q]
    show thesis
    proof (cases rq)
      case (Inl e)
      with put s2 show thesis by (intro unchanged) auto
    next
      case (Inr w1)
      have w1: "same_write ?w w1"
        using put_quota_check_ok [of ?w ?s1 w1 s2] q Inr assms(2) by (auto simp: normal_write_def split: if_splits)
      obtain ep s3 where p: "SE_handlePreconditions B w1 s2 = (ep, s3)" by force
      have s3: "strip s3 = strip s" using strip_handlePreconditions [of B w1 s2] p s2 by simp
      show thesis
      proof (cases ep)
        case (Some e)
        with put Inr p s3 show thesis by (intro unchanged [of e]) auto
      next
        case None
        then obtain rb s4 where b: "put_blob B w1 s3 = Some (rb, s4)"
          using put Inr p by (cases "put_blob B w1 s3") auto
        have s4: "strip s4 = (strip s)\<lparr>se_default := se_default s4\<rparr>" "blob_stage B (se_default s) (se_default s4)"
          using put_blob_stage [OF b] s3 strip_fields(2) [OF s3] by simp_all
        have "same_write ?w w2" if "rb = Inr w2" for w2
          using put_blob_stage [OF b] that w1 same_write_trans by blast
        with put Inr p None b s4 valid show thesis
          by (cases rb) (auto intro: refused reached)
      qed
    qed
  qed
qed

text \<open>In the backend the write fails or is stored. Unless it is stored, nothing but the counters and
  the backend changes.\<close>

lemma SE_Put_cases:
  assumes "SE_Put B On now w s = Some (res, s')" "wr_Body w = None \<or> wr_BodyReader w = None"
  obtains (refused) e where "res = Some e" "strip s' = (strip s)\<lparr>se_default := se_default s'\<rparr>"
      "blob_stage B (se_default s) (se_default s')"
    | (failed) e w' b where "res = Some e" "strip s' = (strip s)\<lparr>se_default := se_default s'\<rparr>"
      "blob_stage B (se_default s) b" "same_write (normal_write w) w'"
      "sb_Put B (Some ()) now (wr_URI w) (Some w') b = (Some e, se_default s')"
    | (stored) w' b where "res = None" "validateStorageURI (wr_URI w) = None"
      "blob_stage B (se_default s) b" "same_write (normal_write w) w'"
      "sb_Put B (Some ()) now (wr_URI w) (Some w') b = (None, se_default s')"
      "se_config s' = se_config s" "se_tombstones s' = se_tombstones s"
      "se_cacheInvalidators s' = se_cacheInvalidators s"
      "se_invalidator_at s' = se_invalidator_at (SE_triggerCacheInvalidation On (put_event now w) s)"
  using assms
proof (cases rule: SE_Put_stages)
  case (reached w' t)
  note effect = put_backend_effect [OF reached(5)] and t = strip_default_fields [OF reached(3)]
  have uri: "wr_URI w' = wr_URI w" using reached(2) by (simp add: same_write_def)
  show thesis
  proof (cases res)
    case None
    with effect t uri reached(1,2,4) put_event_same [OF reached(2)] show thesis
      by (intro stored [of "se_default t" w']) (simp_all add: SE_triggerCacheInvalidation_def)
  next
    case (Some e)
    with effect uri reached show thesis by (intro failed [of e "se_default t" w']) simp_all
  qed
qed (rule refused)

section \<open>The engine over a backend that meets the contract\<close>

definition tombstoned :: "('b, 'i) storageEngine \<Rightarrow> string \<Rightarrow> bool" where
  "tombstoned s u \<longleftrightarrow> ec_EnableTombstones (se_config s) \<and> mget (se_tombstones s) u \<noteq> None"

text \<open>A stored resource as \<open>Get\<close> returns it.\<close>

definition served :: "string \<Rightarrow> Resource \<Rightarrow> Resource" where
  "served uri r =
     (let m = rs_Metadata r; body = bytes (rs_Body r) in
      \<lparr>rs_URI = uri, rs_Body = rs_Body r,
       rs_Metadata = m\<lparr>md_ETag := (if md_ETag m = [] then generateETag body else md_ETag m),
         md_ContentType := (if md_ContentType m = [] then detectContentType uri body else md_ContentType m)\<rparr>\<rparr>)"

lemma isTombstoned_iff: "SE_isTombstoned u s = Inr (tombstoned s u)"
  by (cases "map_of (se_tombstones s) u") (auto simp: SE_isTombstoned_def tombstoned_def TS_GetTombstone_def)

lemma keeps_same_write: "keeps_written u w' r \<Longrightarrow> same_write w w' \<Longrightarrow> keeps_written u w r"
  by (auto simp: keeps_written_def same_write_def)

text \<open>The event of a deletion: by then the type of the resource is gone.\<close>

definition delete_event :: "gotime \<Rightarrow> string \<Rightarrow> CacheInvalidationEvent" where
  "delete_event now u = \<lparr>ev_ResourceURI = u, ev_IsPolicy = False, ev_PolicyURI = u, ev_AgentURI = [],
     ev_Action = ''delete'', ev_Timestamp = now\<rparr>"

context storage_backend
begin

lemma blob_stage_contract: "inv b \<Longrightarrow> blob_stage B b b' \<Longrightarrow> inv b' \<and> stored b' = stored b"
  using store_blob by (auto simp: blob_stage_def)

lemma SE_Get_stored:
  assumes "inv (se_default s)" "normal_uri u"
  shows "fst (SE_Get B u s) =
    (case validateStorageURI u of
       Some e \<Rightarrow> Inl e
     | None \<Rightarrow>
         if tombstoned s u then Inl ErrNotFound
         else case stored (se_default s) u of None \<Rightarrow> Inl ErrNotFound | Some r \<Rightarrow> Inr (served u r))"
proof -
  have "tombstoned (request t s) u = tombstoned s u" for t by (simp add: tombstoned_def)
  with assms show ?thesis
    by (simp add: SE_Get_def isTombstoned_iff get Let_def served_def split: option.split)
qed

text \<open>A refused write leaves the stored resources and everything but the counters alone.\<close>

lemma engine_put_refused:
  assumes "inv (se_default s)" "normal_uri (wr_URI w)" "wr_Body w = None \<or> wr_BodyReader w = None"
    and "SE_Put B On now w s = Some (Some e, s')"
  shows "inv (se_default s') \<and> stored (se_default s') = stored (se_default s) \<and>
    strip s' = (strip s)\<lparr>se_default := se_default s'\<rparr>"
  using assms(4,3)
proof (cases rule: SE_Put_cases)
  case (refused e')
  with assms(1) blob_stage_contract show ?thesis by simp
next
  case (failed e' w' b)
  with assms(1) blob_stage_contract have "inv b" "stored b = stored (se_default s)" by simp_all
  with failed assms(2) put_error [of b "wr_URI w"] show ?thesis by simp
qed simp

text \<open>An accepted write is stored, with the fields it gives.\<close>

lemma engine_put_stored:
  assumes "inv (se_default s)" "normal_uri (wr_URI w)" "wr_Body w = None \<or> wr_BodyReader w = None"
    and "SE_Put B On now w s = Some (None, s')"
  obtains r where "inv (se_default s')" "keeps_written (wr_URI w) (normal_write w) r"
    "stored (se_default s') = (stored (se_default s))(wr_URI w \<mapsto> r)"
    "tombstoned s' = tombstoned s" "validateStorageURI (wr_URI w) = None"
    "se_cacheInvalidators s' = se_cacheInvalidators s"
    "se_invalidator_at s' = se_invalidator_at (SE_triggerCacheInvalidation On (put_event now w) s)"
  using assms(4,3)
proof (cases rule: SE_Put_cases)
  case (stored w' b)
  with assms(1) blob_stage_contract have b: "inv b" "stored b = stored (se_default s)" by simp_all
  obtain r where r: "inv (se_default s')" "keeps_written (wr_URI w) w' r"
    "stored (se_default s') = (stored b)(wr_URI w \<mapsto> r)"
    using put_ok [OF b(1) assms(2) stored(5)] by blast
  show thesis
    using stored r b keeps_same_write [OF r(2) stored(4)]
    by (intro that [of r]) (simp_all add: tombstoned_def fun_eq_iff)
qed simp_all

lemma engine_put_get:
  assumes "inv (se_default s)" "normal_uri (wr_URI w)" "wr_Body w = None \<or> wr_BodyReader w = None"
    and "SE_Put B On now w s = Some (None, s')"
  shows "(if tombstoned s (wr_URI w) then fst (SE_Get B (wr_URI w) s') = Inl ErrNotFound
     else \<exists>r. fst (SE_Get B (wr_URI w) s') = Inr (served (wr_URI w) r) \<and>
       keeps_written (wr_URI w) (normal_write w) r)"
    and "normal_uri v \<Longrightarrow> v \<noteq> wr_URI w \<Longrightarrow> fst (SE_Get B v s') = fst (SE_Get B v s)"
proof -
  obtain r where r: "inv (se_default s')" "keeps_written (wr_URI w) (normal_write w) r"
    "stored (se_default s') = (stored (se_default s))(wr_URI w \<mapsto> r)"
    "tombstoned s' = tombstoned s" "validateStorageURI (wr_URI w) = None"
    by (rule engine_put_stored [OF assms])
  then show "(if tombstoned s (wr_URI w) then fst (SE_Get B (wr_URI w) s') = Inl ErrNotFound
     else \<exists>r. fst (SE_Get B (wr_URI w) s') = Inr (served (wr_URI w) r) \<and>
       keeps_written (wr_URI w) (normal_write w) r)"
    using assms(2) by (auto simp: SE_Get_stored)
  show "fst (SE_Get B v s') = fst (SE_Get B v s)" if "normal_uri v" "v \<noteq> wr_URI w"
    using that r assms(1) by (simp add: SE_Get_stored split: option.split)
qed

text \<open>A deletion removes the resource and reports it.\<close>

lemma engine_delete:
  assumes "inv (se_default s)" "normal_uri u" "validateStorageURI u = None"
  shows "\<exists>s'. SE_Delete B On now u s = (None, s') \<and> inv (se_default s') \<and>
    stored (se_default s') = (stored (se_default s))(u := None) \<and> tombstoned s' = tombstoned s \<and>
    se_cacheInvalidators s' = se_cacheInvalidators s \<and>
    se_invalidator_at s' = se_invalidator_at (SE_triggerCacheInvalidation On (delete_event now u) s)"
proof -
  obtain b where b: "sb_Delete B (Some ()) u (se_default s) = (None, b)" "inv b"
    "stored b = (stored (se_default s))(u := None)"
    using delete [OF assms(1,2)] by blast
  obtain b' where b': "sb_Delete B (Some ()) u b = (None, b')" "inv b'"
    "stored b' = (stored b)(u := None)"
    using delete [OF b(2) assms(2)] by blast
  have "sb_GetMetadata B (Some ()) u b' = Inl ErrNotFound"
    using get_metadata [OF b'(2) assms(2)] b'(3) by simp
  with assms(3) b b' show ?thesis
    by (simp add: SE_Delete_def delete_finish_def delete_metadata_def Let_def delete_event_def
        SE_triggerCacheInvalidation_def tombstoned_def fun_eq_iff)
qed

end

text \<open>Every registered invalidator gets the event, perhaps more than once: \<open>I\<close> is what holds of it
  before and after, \<open>P\<close> what one event establishes.\<close>

lemma trigger_reaches:
  assumes "\<And>x. I x \<Longrightarrow> I (snd (On event x)) \<and> P (snd (On event x))"
    and "p \<in> set (se_cacheInvalidators s)" "I (se_invalidator_at s p)"
  shows "P (se_invalidator_at (SE_triggerCacheInvalidation On event s) p)"
proof -
  let ?step = "\<lambda>p objects. objects(p := snd (On event (objects p)))"
  have "P (fold ?step ps f p)" if "I (f p)" "p \<in> set ps \<or> P (f p)" for ps f
    using that
  proof (induction ps arbitrary: f)
    case (Cons q ps)
    then show ?case using assms(1) by (cases "p = q") auto
  qed simp
  with assms(2,3) show ?thesis by (simp add: SE_triggerCacheInvalidation_def)
qed

section \<open>The engine over the in-memory backend\<close>


text \<open>A concrete engine over an empty in-memory backend.\<close>

definition fresh_engine :: "EngineConfig \<Rightarrow> (memoryBackend, unit) storageEngine" where
  "fresh_engine config =
     projr (NewStorageEngine memory_methods (config\<lparr>ec_DefaultBackend := ''memory''\<rparr>)
       [(''memory'', NewMemoryBackend)] (\<lambda>_. ()))"

text \<open>A small resource with a body and the ETag it is given.\<close>

definition note_write :: WriteResource where
  "note_write = (plain_write ''/n.txt'' ''e1'' no_precondition)\<lparr>wr_Body := Some ''hi''\<rparr>"






text \<open>A tombstone of the engine outlives a later write: the write is acknowledged and the resource is
  not found.\<close>

lemma write_behind_tombstone_is_invisible:
  "case SE_DeleteWithTombstone memory_methods 5 ''/n.txt''
       \<lparr>tb_URI = [], tb_DeletedAt = 0, tb_DeletedBy = [], tb_Reason = [], tb_RestoreToken = []\<rparr>
       (fresh_engine DefaultEngineConfig) of
     Some (None, s) \<Rightarrow>
       (case SE_Put memory_methods (\<lambda>ev x. (None, x)) 7 note_write s of
          Some (None, s') \<Rightarrow> fst (SE_Get memory_methods ''/n.txt'' s') = Inl ErrNotFound
        | _ \<Rightarrow> False)
   | _ \<Rightarrow> False"
  by code_simp

text \<open>The quotas of the configuration are never installed: with quota management on, the quota check
  of a new engine passes for every size.\<close>

lemma configured_quotas_are_ignored:
  "SE_CheckQuota root n (fresh_engine (config\<lparr>ec_EnableQuotaManagement := True, ec_QuotaConfigs := [(root, (1, 1))]\<rparr>)) = None"
  by (simp add: fresh_engine_def NewStorageEngine_def memory_methods_def MB_Initialize_def NewMemoryBackend_def
      SE_CheckQuota_def QM_CheckQuota_def QM_GetQuota_def no_quota_def Let_def)

text \<open>A failed \<open>If-None-Match\<close> lookup ends the check of the preconditions: a missing resource satisfies an
  \<open>If-Match\<close> that comes with an \<open>If-None-Match\<close> tag, as far as the engine is concerned.\<close>

lemma If_None_Match_hides_If_Match:
  "fst (SE_handlePreconditions memory_methods
     (note_write\<lparr>wr_Preconditions := no_precondition\<lparr>wp_IfMatch := ''*'', wp_IfNoneMatch := ''e9''\<rparr>\<rparr>)
     (fresh_engine DefaultEngineConfig)) = None"
  by code_simp

end
