(* ===== verification/Storage_Transaction.thy ===== *)
theory Storage_Transaction
  imports Storage_Engine
begin

text \<open>
  Storage transactions (\<open>internal/storage/transaction.go\<close>). A transaction collects writes and deletions
  and applies them to the engine's default backend at commit, writes first, in the order in which Go
  ranges over the two maps.
\<close>

section \<open>Operations\<close>

record storageTransaction =
  tx_pending :: "(string, WriteResource) gomap"
  tx_deleted :: "(string, bool) gomap"
  tx_committed :: bool
  tx_rolledBack :: bool

definition SE_BeginTransaction :: "('b, 'i) storageEngine \<Rightarrow> storageTransaction \<times> ('b, 'i) storageEngine" where
  "SE_BeginTransaction s =
     (let s = request ''put'' s; m = se_metrics s in
      (\<lparr>tx_pending = [], tx_deleted = [], tx_committed = False, tx_rolledBack = False\<rparr>,
       s\<lparr>se_metrics := m\<lparr>em_TransactionsStarted := em_TransactionsStarted m + 1\<rparr>\<rparr>))"

definition TX_Get ::
  "'b StorageBackend \<Rightarrow> string \<Rightarrow> storageTransaction \<Rightarrow> ('b, 'i) storageEngine \<Rightarrow>
   Resource result \<times> ('b, 'i) storageEngine" where
  "TX_Get B uri t s =
     (case mget (tx_pending t) uri of
        Some w \<Rightarrow> (Inr \<lparr>rs_URI = wr_URI w, rs_Body = wr_Body w, rs_Metadata = wr_Metadata w\<rparr>, s)
      | None \<Rightarrow>
          if mget (tx_deleted t) uri = Some True then (Inl ErrNotFound, s)
          else SE_Get B uri s)"

definition TX_Put :: "WriteResource \<Rightarrow> storageTransaction \<Rightarrow> goerr \<times> storageTransaction" where
  "TX_Put w t =
     (if tx_committed t \<or> tx_rolledBack t then (Some (ErrorsNew ''transaction already completed''), t)
      else (None, t\<lparr>tx_pending := mset_at (wr_URI w) w (tx_pending t)\<rparr>))"

definition TX_Delete :: "string \<Rightarrow> storageTransaction \<Rightarrow> goerr \<times> storageTransaction" where
  "TX_Delete uri t =
     (if tx_committed t \<or> tx_rolledBack t then (Some (ErrorsNew ''transaction already completed''), t)
      else (None, t\<lparr>tx_deleted := mset_at uri True (tx_deleted t), tx_pending := mdelete uri (tx_pending t)\<rparr>))"

fun commit_puts ::
  "'b StorageBackend \<Rightarrow> gotime \<Rightarrow> (string \<times> WriteResource) list \<Rightarrow> 'b \<Rightarrow> goerr \<times> 'b" where
  "commit_puts B now [] b = (None, b)"
| "commit_puts B now ((uri, w) # rest) b =
     (case sb_Put B (Some ()) now uri (Some w) b of
        (Some err, b) \<Rightarrow> (Some err, b)
      | (None, b) \<Rightarrow> commit_puts B now rest b)"

fun commit_deletes :: "'b StorageBackend \<Rightarrow> string list \<Rightarrow> 'b \<Rightarrow> goerr \<times> 'b" where
  "commit_deletes B [] b = (None, b)"
| "commit_deletes B (uri # rest) b =
     (case sb_Delete B (Some ()) uri b of
        (Some err, b) \<Rightarrow> if errors_Is err ErrNotFound then commit_deletes B rest b else (Some err, b)
      | (None, b) \<Rightarrow> commit_deletes B rest b)"

definition TX_Commit ::
  "'b StorageBackend \<Rightarrow> gotime \<Rightarrow> storageTransaction \<Rightarrow> ('b, 'i) storageEngine \<Rightarrow>
   goerr \<times> storageTransaction \<times> ('b, 'i) storageEngine" where
  "TX_Commit B now t s =
     (if tx_committed t then (Some (ErrorsNew ''transaction already committed''), t, s)
      else if tx_rolledBack t then (Some (ErrorsNew ''transaction was rolled back''), t, s)
      else case commit_puts B now (tx_pending t) (se_default s) of
        (Some err, b) \<Rightarrow>
          (Some (Errorf ''failed to commit transaction: '' err []), t\<lparr>tx_rolledBack := True, tx_committed := False\<rparr>,
           s\<lparr>se_default := b\<rparr>)
      | (None, b) \<Rightarrow>
        case commit_deletes B (map fst (tx_deleted t)) b of
          (Some err, b) \<Rightarrow>
            (Some (Errorf ''failed to commit transaction: '' err []), t\<lparr>tx_rolledBack := True, tx_committed := False\<rparr>,
             s\<lparr>se_default := b\<rparr>)
        | (None, b) \<Rightarrow>
            (None, t\<lparr>tx_committed := True\<rparr>,
             s\<lparr>se_default := b, se_metrics := (se_metrics s)\<lparr>em_TransactionsCommitted :=
               em_TransactionsCommitted (se_metrics s) + 1\<rparr>\<rparr>))"

definition TX_Rollback ::
  "storageTransaction \<Rightarrow> ('b, 'i) storageEngine \<Rightarrow> goerr \<times> storageTransaction \<times> ('b, 'i) storageEngine" where
  "TX_Rollback t s =
     (if tx_rolledBack t then (Some (ErrorsNew ''transaction already rolled back''), t, s)
      else if tx_committed t then (Some (ErrorsNew ''transaction already committed''), t, s)
      else (None, t\<lparr>tx_rolledBack := True, tx_pending := [], tx_deleted := []\<rparr>,
        s\<lparr>se_metrics := (se_metrics s)\<lparr>em_TransactionsRolledBack := em_TransactionsRolledBack (se_metrics s) + 1\<rparr>\<rparr>))"

section \<open>Transactions of a run\<close>

datatype tx_op = TxPut WriteResource | TxDelete string

primrec tx_step :: "tx_op \<Rightarrow> storageTransaction \<Rightarrow> storageTransaction" where
  "tx_step (TxPut w) t = snd (TX_Put w t)"
| "tx_step (TxDelete u) t = snd (TX_Delete u t)"

definition tx_run :: "tx_op list \<Rightarrow> storageTransaction" where
  "tx_run ops = fold tx_step ops \<lparr>tx_pending = [], tx_deleted = [], tx_committed = False, tx_rolledBack = False\<rparr>"

definition tx_uri :: "tx_op \<Rightarrow> string" where
  "tx_uri op = (case op of TxPut w \<Rightarrow> wr_URI w | TxDelete u \<Rightarrow> u)"

text \<open>A transaction is active when neither committed nor rolled back.\<close>

definition tx_ok :: "storageTransaction \<Rightarrow> bool" where
  "tx_ok t \<longleftrightarrow> gomap_ok (tx_pending t) \<and> gomap_ok (tx_deleted t) \<and>
     (\<forall>(u, w) \<in> set (tx_pending t). wr_URI w = u) \<and> \<not> tx_committed t \<and> \<not> tx_rolledBack t"

lemma set_update_sub: "set (AList.update k v m) \<subseteq> insert (k, v) (set m)"
  by (induction m) auto

lemma tx_ok_step: "tx_ok t \<Longrightarrow> tx_ok (tx_step op t)"
proof (cases op)
  case (TxPut w)
  assume "tx_ok t"
  then show ?thesis using set_update_sub [of "wr_URI w" w "tx_pending t"]
    by (auto simp: TxPut tx_ok_def TX_Put_def)
next
  case (TxDelete u)
  assume "tx_ok t"
  then show ?thesis by (auto simp: TxDelete tx_ok_def TX_Delete_def AList.delete_eq)
qed

lemma tx_ok_run: "tx_ok (tx_run ops)"
proof -
  have "tx_ok (fold tx_step ops t)" if "tx_ok t" for t
    using that by (induction ops arbitrary: t) (simp_all add: tx_ok_step)
  moreover have "tx_ok \<lparr>tx_pending = [], tx_deleted = [], tx_committed = False, tx_rolledBack = False\<rparr>"
    by (simp add: tx_ok_def)
  ultimately show ?thesis by (simp add: tx_run_def)
qed

section \<open>The specification of a transaction\<close>

text \<open>What a transaction does to one URI, read off its operations: a URI once deleted is deleted,
  otherwise its last write is kept.\<close>

definition tx_deletes :: "tx_op list \<Rightarrow> string \<Rightarrow> bool" where
  "tx_deletes ops u \<longleftrightarrow> TxDelete u \<in> set ops"

fun tx_writes :: "tx_op list \<Rightarrow> string \<Rightarrow> WriteResource option \<Rightarrow> WriteResource option" where
  "tx_writes [] u acc = acc"
| "tx_writes (TxPut w # ops) u acc = tx_writes ops u (if wr_URI w = u then Some w else acc)"
| "tx_writes (TxDelete v # ops) u acc = tx_writes ops u (if v = u then None else acc)"

lemma tx_run_maps:
  assumes "tx_ok t"
  shows "map_of (tx_pending (fold tx_step ops t)) u = tx_writes ops u (map_of (tx_pending t) u)"
    "map_of (tx_deleted (fold tx_step ops t)) u =
       (if TxDelete u \<in> set ops then Some True else map_of (tx_deleted t) u)"
  using assms
proof (induction ops arbitrary: t)
  case (Cons op ops)
  {
    case 1
    then show ?case
      using Cons.IH(1) [OF tx_ok_step [OF 1, of op]]
      by (cases op) (auto simp: TX_Put_def TX_Delete_def tx_ok_def)
  next
    case 2
    then show ?case
      using Cons.IH(2) [OF tx_ok_step [OF 2, of op]]
      by (cases op) (auto simp: TX_Put_def TX_Delete_def tx_ok_def)
  }
qed simp_all

lemma tx_writes_Some: "tx_writes ops u acc = Some w \<Longrightarrow> TxPut w \<in> set ops \<and> wr_URI w = u \<or> acc = Some w"
  by (induction ops u acc rule: tx_writes.induct) (auto split: if_splits)

context storage_backend
begin

lemma commit_puts_effect:
  assumes "inv b" "\<forall>(u, w)\<in>set ps. normal_uri u" "gomap_ok ps" "commit_puts B now ps b = (None, b')"
  shows "inv b' \<and> (\<forall>u. case map_of ps u of
      None \<Rightarrow> stored b' u = stored b u
    | Some w \<Rightarrow> (\<exists>r. stored b' u = Some r \<and> keeps_written u w r))"
  using assms
proof (induction ps arbitrary: b)
  case (Cons p ps)
  obtain u w where p: "p = (u, w)" by (cases p)
  from Cons.prems(4) obtain b1 where put: "sb_Put B (Some ()) now u (Some w) b = (None, b1)"
    and rest: "commit_puts B now ps b1 = (None, b')"
    by (auto simp: p split: prod.splits option.splits)
  have u: "normal_uri u" and fresh: "map_of ps u = None"
    using Cons.prems(2,3) by (auto simp: p gomap_ok_def map_of_eq_None_iff)
  from put_ok [OF Cons.prems(1) u put] obtain r where
    b1: "inv b1" "keeps_written u w r" "stored b1 = (stored b)(u \<mapsto> r)" by blast
  from Cons.IH [OF b1(1) _ _ rest] Cons.prems(2,3) have
    IH: "inv b'" "\<And>v. case map_of ps v of None \<Rightarrow> stored b' v = stored b1 v
      | Some w \<Rightarrow> (\<exists>r. stored b' v = Some r \<and> keeps_written v w r)"
    by (auto simp: gomap_ok_def)
  have "case map_of (p # ps) v of None \<Rightarrow> stored b' v = stored b v
      | Some w \<Rightarrow> (\<exists>r. stored b' v = Some r \<and> keeps_written v w r)" for v
  proof (cases "v = u")
    case True
    with IH(2) [of u] fresh b1 show ?thesis by (simp add: p)
  next
    case False
    with IH(2) [of v] b1(3) show ?thesis by (cases "map_of ps v") (simp_all add: p)
  qed
  with IH(1) show ?case by blast
qed simp

lemma commit_deletes_effect:
  assumes "inv b" "\<forall>u\<in>set us. normal_uri u"
  shows "\<exists>b'. commit_deletes B us b = (None, b') \<and> inv b' \<and>
    stored b' = (\<lambda>u. if u \<in> set us then None else stored b u)"
  using assms
proof (induction us arbitrary: b)
  case (Cons u us)
  obtain b1 where "sb_Delete B (Some ()) u b = (None, b1)" "inv b1" "stored b1 = (stored b)(u := None)"
    using delete [of b u] Cons.prems by auto
  moreover with Cons.IH [of b1] Cons.prems(2) obtain b' where
    "commit_deletes B us b1 = (None, b')" "inv b'"
    "stored b' = (\<lambda>v. if v \<in> set us then None else stored b1 v)" by auto
  ultimately show ?case by (auto simp: fun_eq_iff)
qed simp

lemma commit_effect:
  assumes "inv (se_default s)" "\<forall>op\<in>set ops. normal_uri (tx_uri op)"
    and "TX_Commit B now (tx_run ops) s = (None, t', s')"
  shows "inv (se_default s') \<and>
    (if tx_deletes ops u then stored (se_default s') u = None
     else case tx_writes ops u None of
       None \<Rightarrow> stored (se_default s') u = stored (se_default s) u
     | Some w \<Rightarrow> (\<exists>r. stored (se_default s') u = Some r \<and> keeps_written u w r))"
proof -
  let ?t = "tx_run ops"
  have ok: "tx_ok ?t" by (rule tx_ok_run)
  have maps: "map_of (tx_pending ?t) v = tx_writes ops v None"
    "map_of (tx_deleted ?t) v = (if tx_deletes ops v then Some True else None)" for v
    using tx_run_maps [of "\<lparr>tx_pending = [], tx_deleted = [], tx_committed = False, tx_rolledBack = False\<rparr>" ops v]
    by (simp_all add: tx_run_def tx_ok_def tx_deletes_def)
  have puts: "\<forall>(v, w)\<in>set (tx_pending ?t). normal_uri v"
  proof safe
    fix v w assume "(v, w) \<in> set (tx_pending ?t)"
    then have "tx_writes ops v None = Some w" using ok maps(1) by (simp add: tx_ok_def map_of_mem [symmetric])
    then have "TxPut w \<in> set ops" "wr_URI w = v" using tx_writes_Some by fastforce+
    with assms(2) show "normal_uri v" by (auto simp: tx_uri_def)
  qed
  have deleted: "v \<in> fst ` set (tx_deleted ?t) \<longleftrightarrow> tx_deletes ops v" for v
    using maps(2) [of v] map_of_eq_None_iff [of "tx_deleted ?t" v] by (auto split: if_splits)
  from assms(3) ok obtain b where b: "commit_puts B now (tx_pending ?t) (se_default s) = (None, b)"
    and d: "commit_deletes B (map fst (tx_deleted ?t)) b = (None, se_default s')"
    by (auto simp: TX_Commit_def tx_ok_def split: prod.splits option.splits)
  have gm: "gomap_ok (tx_pending ?t)" using ok by (simp add: tx_ok_def)
  note effect = commit_puts_effect [OF assms(1) puts gm b]
  have "\<forall>v\<in>set (map fst (tx_deleted ?t)). normal_uri v"
    using deleted assms(2) by (fastforce simp: tx_deletes_def tx_uri_def)
  from commit_deletes_effect [OF conjunct1 [OF effect] this] d
  have "inv (se_default s')" "stored (se_default s') u = (if tx_deletes ops u then None else stored b u)"
    by (simp_all add: deleted)
  with spec [OF conjunct2 [OF effect], of u] maps(1) [of u] show ?thesis
    by (cases "tx_writes ops u None") auto
qed

end

section \<open>Transactions on the in-memory backend\<close>



text \<open>A write that follows a deletion of the same URI in one transaction is lost, although the
  transaction itself reads it.\<close>

lemma write_after_delete_is_lost:
  "let t = tx_run [TxDelete ''/a'', TxPut (plain_write ''/a'' ''e1'' no_precondition)];
       s = fresh_engine DefaultEngineConfig;
       (err, t', s') = TX_Commit memory_methods 7 t s
   in \<not> isl (fst (TX_Get memory_methods ''/a'' t s)) \<and> err = None \<and>
      mb_stored (se_default s') ''/a'' = None"
  by code_simp

text \<open>A commit that fails half way keeps the writes it has made.\<close>

lemma failed_commit_is_partial:
  "let t = tx_run [TxPut (plain_write ''/a'' ''e1'' no_precondition),
         TxPut (plain_write ''/b'' ''e2'' (no_precondition\<lparr>wp_IfMatch := ''x''\<rparr>))];
       (err, t', s') = TX_Commit memory_methods 7 t (fresh_engine DefaultEngineConfig)
   in err \<noteq> None \<and> tx_rolledBack t' \<and> mb_stored (se_default s') ''/a'' \<noteq> None"
  by code_simp

text \<open>A transaction reaches the backend with URIs that the engine itself would stop.\<close>

lemma transaction_skips_traversal_check:
  "let (err, t', s') = TX_Commit memory_methods 7 (tx_run [TxPut (plain_write ''/a/../b'' ''e1'' no_precondition)])
         (fresh_engine DefaultEngineConfig)
   in err = None \<and> mb_stored (se_default s') ''/a/../b'' \<noteq> None"
  by code_simp

end
