(* ===== verification/Cache_Invalidator.thy ===== *)
theory Cache_Invalidator
  imports Storage_Core
begin

text \<open>
  The invalidator that connects the storage engine with the authorization caches
  (\<open>internal/storage/cache_invalidator.go\<close>). The two callbacks are functions on the caches they close
  over, which are kept in \<open>ai_caches\<close>; \<^const>\<open>None\<close> is a \<open>nil\<close> callback.
\<close>

record CacheInvalidatorMetrics =
  im_InvalidationEvents :: int
  im_PolicyInvalidations :: int
  im_ResourceInvalidations :: int
  im_Errors :: int
  im_LastInvalidation :: gotime

record 'c AuthzCacheInvalidator =
  ai_policyCacheInvalidator :: "(string \<Rightarrow> 'c \<Rightarrow> goerr \<times> 'c) option"
  ai_decisionCacheInvalidator :: "(string \<Rightarrow> bool \<Rightarrow> 'c \<Rightarrow> goerr \<times> 'c) option"
  ai_metrics :: CacheInvalidatorMetrics
  ai_caches :: 'c

definition NewAuthzCacheInvalidator ::
  "(string \<Rightarrow> 'c \<Rightarrow> goerr \<times> 'c) option \<Rightarrow> (string \<Rightarrow> bool \<Rightarrow> 'c \<Rightarrow> goerr \<times> 'c) option \<Rightarrow> 'c \<Rightarrow>
   'c AuthzCacheInvalidator" where
  "NewAuthzCacheInvalidator policyInvalidator decisionInvalidator caches =
     \<lparr>ai_policyCacheInvalidator = policyInvalidator, ai_decisionCacheInvalidator = decisionInvalidator,
      ai_metrics = \<lparr>im_InvalidationEvents = 0, im_PolicyInvalidations = 0, im_ResourceInvalidations = 0,
        im_Errors = 0, im_LastInvalidation = zero_time\<rparr>, ai_caches = caches\<rparr>"

text \<open>Run a callback and count its outcome.\<close>

definition invalidate_policy :: "(string \<Rightarrow> 'c \<Rightarrow> goerr \<times> 'c) \<Rightarrow> string \<Rightarrow> 'c AuthzCacheInvalidator \<Rightarrow>
    'c AuthzCacheInvalidator" where
  "invalidate_policy f uri a =
     (case f uri (ai_caches a) of
        (Some err, c) \<Rightarrow> a\<lparr>ai_caches := c,
          ai_metrics := (ai_metrics a)\<lparr>im_Errors := im_Errors (ai_metrics a) + 1\<rparr>\<rparr>
      | (None, c) \<Rightarrow> a\<lparr>ai_caches := c,
          ai_metrics := (ai_metrics a)\<lparr>im_PolicyInvalidations := im_PolicyInvalidations (ai_metrics a) + 1\<rparr>\<rparr>)"

definition invalidate_decisions :: "(string \<Rightarrow> bool \<Rightarrow> 'c \<Rightarrow> goerr \<times> 'c) \<Rightarrow> bool \<Rightarrow> string \<Rightarrow>
    'c AuthzCacheInvalidator \<Rightarrow> 'c AuthzCacheInvalidator" where
  "invalidate_decisions f isPolicy uri a =
     (case f uri isPolicy (ai_caches a) of
        (Some err, c) \<Rightarrow> a\<lparr>ai_caches := c,
          ai_metrics := (ai_metrics a)\<lparr>im_Errors := im_Errors (ai_metrics a) + 1\<rparr>\<rparr>
      | (None, c) \<Rightarrow> a\<lparr>ai_caches := c,
          ai_metrics := (ai_metrics a)\<lparr>im_ResourceInvalidations := im_ResourceInvalidations (ai_metrics a) + 1\<rparr>\<rparr>)"

definition OnCacheInvalidation ::
  "gotime \<Rightarrow> CacheInvalidationEvent \<Rightarrow> 'c AuthzCacheInvalidator \<Rightarrow> goerr \<times> 'c AuthzCacheInvalidator" where
  "OnCacheInvalidation now event a =
     (let a = a\<lparr>ai_metrics := (ai_metrics a)\<lparr>im_InvalidationEvents := im_InvalidationEvents (ai_metrics a) + 1,
                im_LastInvalidation := now\<rparr>\<rparr>;
          a = (case ai_policyCacheInvalidator a of
                 Some f \<Rightarrow> if ev_IsPolicy event \<and> ev_PolicyURI event \<noteq> [] then invalidate_policy f (ev_PolicyURI event) a
                   else a
               | None \<Rightarrow> a);
          resourcesToInvalidate = ev_ResourceURI event # (if ev_IsPolicy event then [ev_PolicyURI event] else [])
      in (None,
          case ai_decisionCacheInvalidator a of
            Some f \<Rightarrow> fold (invalidate_decisions f (ev_IsPolicy event)) resourcesToInvalidate a
          | None \<Rightarrow> a))"

definition GetMetrics :: "gotime \<Rightarrow> 'c AuthzCacheInvalidator \<Rightarrow> CacheInvalidatorMetrics \<times> 'c AuthzCacheInvalidator" where
  "GetMetrics now a =
     (let m = (ai_metrics a)\<lparr>im_LastInvalidation := now\<rparr> in (m, a\<lparr>ai_metrics := m\<rparr>))"

definition NewNoOpCacheInvalidator :: "'c \<Rightarrow> 'c AuthzCacheInvalidator" where
  "NewNoOpCacheInvalidator c =
     NewAuthzCacheInvalidator (Some (\<lambda>policyURI c. (None, c))) (Some (\<lambda>resourceURI isPolicy c. (None, c))) c"

section \<open>What reaches the caches\<close>

lemma invalidate_caches [simp]:
  "ai_caches (invalidate_policy f u a) = snd (f u (ai_caches a))"
  "ai_caches (invalidate_decisions g p u a) = snd (g u p (ai_caches a))"
  "ai_decisionCacheInvalidator (invalidate_policy f u a) = ai_decisionCacheInvalidator a"
  "ai_decisionCacheInvalidator (invalidate_decisions g p u a) = ai_decisionCacheInvalidator a"
  "ai_policyCacheInvalidator (invalidate_policy f u a) = ai_policyCacheInvalidator a"
  "ai_policyCacheInvalidator (invalidate_decisions g p u a) = ai_policyCacheInvalidator a"
  by (simp_all add: invalidate_policy_def invalidate_decisions_def split: prod.split option.split)

text \<open>The caches after an event: the policy callback first, if there is one and the event is about a
  policy, then the decision callback for the resource and, for a policy, for the policy.\<close>

lemma OnCacheInvalidation_caches:
  assumes "ai_policyCacheInvalidator a = pol" "ai_decisionCacheInvalidator a = Some g"
  shows "let (err, a') = OnCacheInvalidation now ev a;
             c = (case pol of
                    Some f \<Rightarrow> if ev_IsPolicy ev \<and> ev_PolicyURI ev \<noteq> [] then snd (f (ev_PolicyURI ev) (ai_caches a))
                      else ai_caches a
                  | None \<Rightarrow> ai_caches a);
             c = snd (g (ev_ResourceURI ev) (ev_IsPolicy ev) c)
         in err = None \<and> ai_policyCacheInvalidator a' = pol \<and> ai_decisionCacheInvalidator a' = Some g \<and>
            ai_caches a' = (if ev_IsPolicy ev then snd (g (ev_PolicyURI ev) True c) else c)"
  using assms by (simp add: OnCacheInvalidation_def Let_def split: option.split)

end
