(* ===== verification/Runtime_Validation.thy ===== *)
theory Runtime_Validation
  imports Go_Url Go_Text
begin

text \<open>
  The input checks of the native runtime (\<open>internal/runtime/validation.go\<close>). The names carry the prefix
  \<open>RT_\<close> where package \<open>storage\<close> has a function of the same name. The text of an error of \<open>url.Parse\<close>,
  which the checks put into their own error, is the parameter \<open>perr\<close>: no theorem depends on it.
\<close>

section \<open>Limits and errors\<close>

definition RT_MaxURILength :: nat where
  "RT_MaxURILength = 4096"

definition MaxResourceSize :: int where
  "MaxResourceSize = 10 * 1024 * 1024"

definition MaxWebIDLength :: nat where
  "MaxWebIDLength = 4096"

definition MaxContentTypeLength :: nat where
  "MaxContentTypeLength = 256"

definition RT_ErrInvalidURI :: goerror where
  "RT_ErrInvalidURI = ErrorsNew ''invalid URI''"

definition RT_ErrURITooLong :: goerror where
  "RT_ErrURITooLong = ErrorsNew ''URI exceeds maximum length''"

definition ErrInvalidURIScheme :: goerror where
  "ErrInvalidURIScheme = ErrorsNew ''invalid URI scheme''"

definition ErrInvalidURICharacters :: goerror where
  "ErrInvalidURICharacters = ErrorsNew ''invalid URI characters''"

definition ErrResourceTooLarge :: goerror where
  "ErrResourceTooLarge = ErrorsNew ''resource exceeds maximum size''"

definition ErrInvalidWebID :: goerror where
  "ErrInvalidWebID = ErrorsNew ''invalid WebID''"

definition RT_ErrInvalidContentType :: goerror where
  "RT_ErrInvalidContentType = ErrorsNew ''invalid content type''"

section \<open>The checks\<close>

definition allowedSchemes :: "string list" where
  "allowedSchemes = [''http'', ''https'', ''boundary'', ''file'', ''memory'', ''internal'', ''test'']"

definition RT_ValidateURI :: "(string \<Rightarrow> string) \<Rightarrow> string \<Rightarrow> goerr" where
  "RT_ValidateURI perr uri =
     (if uri = [] then Some RT_ErrInvalidURI
      else if length uri > RT_MaxURILength then Some RT_ErrURITooLong
      else if list_ex is_control uri then Some ErrInvalidURICharacters
      else if ContainsAny uri [CHR 0x5C, CHR ''#''] then Some ErrInvalidURICharacters
      else case url_Parse uri of
        None \<Rightarrow> Some (wrapf RT_ErrInvalidURI (perr uri))
      | Some parsed \<Rightarrow>
          if u_Scheme parsed \<notin> set allowedSchemes then Some (wrapf ErrInvalidURIScheme (u_Scheme parsed))
          else if (u_Scheme parsed = ''http'' \<or> u_Scheme parsed = ''https'') \<and> u_Host parsed = []
          then Some RT_ErrInvalidURI
          else None)"

definition ValidateResourceSize :: "int \<Rightarrow> goerr" where
  "ValidateResourceSize sz = (if sz > MaxResourceSize then Some ErrResourceTooLarge else None)"

definition ValidateWebID :: "(string \<Rightarrow> string) \<Rightarrow> string \<Rightarrow> goerr" where
  "ValidateWebID perr webID =
     (if webID = [] then Some ErrInvalidWebID
      else if length webID > MaxWebIDLength then Some RT_ErrURITooLong
      else if list_ex is_control webID then Some ErrInvalidURICharacters
      else case url_Parse webID of
        None \<Rightarrow> Some (wrapf ErrInvalidWebID (perr webID))
      | Some parsed \<Rightarrow>
          if u_Scheme parsed \<noteq> ''http'' \<and> u_Scheme parsed \<noteq> ''https''
          then Some (wrapf ErrInvalidURIScheme (u_Scheme parsed))
          else if u_Host parsed = [] then Some ErrInvalidWebID
          else None)"

definition RT_ValidateContentType :: "string \<Rightarrow> goerr" where
  "RT_ValidateContentType contentType =
     (if contentType = [] then Some RT_ErrInvalidContentType
      else if length contentType > MaxContentTypeLength
      then Some (ErrorsNew ''content type exceeds maximum length'')
      else if list_ex is_control contentType then Some ErrInvalidURICharacters
      else None)"

definition ValidateContainerURI :: "(string \<Rightarrow> string) \<Rightarrow> string \<Rightarrow> goerr" where
  "ValidateContainerURI perr uri =
     (if uri = [] then Some RT_ErrInvalidURI
      else case RT_ValidateURI perr uri of Some err \<Rightarrow> Some err | None \<Rightarrow> None)"

definition valid_tenant_id_char :: "char \<Rightarrow> bool" where
  "valid_tenant_id_char c \<longleftrightarrow> is_lower c \<or> is_upper c \<or> is_digit c \<or> c \<in> set ''-_.''"

definition ValidateTenantID :: "string \<Rightarrow> goerr" where
  "ValidateTenantID tenantID =
     (if tenantID = [] then Some (ErrorsNew ''tenant ID cannot be empty'')
      else if length tenantID > 256 then Some (ErrorsNew ''tenant ID exceeds maximum length'')
      else if list_ex is_control tenantID then Some ErrInvalidURICharacters
      else if list_ex (\<lambda>c. \<not> valid_tenant_id_char c) tenantID
      then Some (ErrorsNew ''tenant ID contains invalid characters'')
      else None)"

definition ValidatePolicyURI :: "(string \<Rightarrow> string) \<Rightarrow> string \<Rightarrow> goerr" where
  "ValidatePolicyURI perr uri = RT_ValidateURI perr uri"

definition ValidateRDFTerm :: "string \<Rightarrow> goerr" where
  "ValidateRDFTerm term =
     (if term = [] then Some (ErrorsNew ''RDF term cannot be empty'')
      else if list_ex is_control term then Some ErrInvalidURICharacters
      else if (HasPrefix term ''http://'' \<or> HasPrefix term ''https://'') \<and> ContainsAny term [CHR 0x5C, CHR ''#'']
      then Some ErrInvalidURICharacters
      else None)"

section \<open>What an accepted URI looks like\<close>

text \<open>An accepted URI has an allowed scheme, and an HTTP one has a host and so an authority part.\<close>

lemma RT_ValidateURI_None:
  "RT_ValidateURI perr uri = None \<longleftrightarrow>
     uri \<noteq> [] \<and> length uri \<le> RT_MaxURILength \<and> \<not> list_ex is_control uri \<and>
     \<not> ContainsAny uri [CHR 0x5C, CHR ''#''] \<and>
     (\<exists>u. url_Parse uri = Some u \<and> u_Scheme u \<in> set allowedSchemes \<and>
        (u_Scheme u = ''http'' \<or> u_Scheme u = ''https'' \<longrightarrow> u_Host u \<noteq> []))"
  by (auto simp: RT_ValidateURI_def split: option.splits)

end
