(* ===== verification/Runtime_Storage.thy ===== *)
theory Runtime_Storage
  imports Runtime_Validation Storage_Core
begin

text \<open>
  The storage layer of the native runtime: the abstraction layer with its retry loop and the in-memory
  backend (\<open>internal/runtime/storage.go\<close>) and conditional writes (\<open>storage_conditional.go\<close>). The backend
  that proxies to an HTTP server is not modelled.

  \<^item> A backend is a record of methods over its state, as in \<open>Storage_Interface\<close>; every method may change
    the state, since some backends count their calls.
  \<^item> The errors here are richer than those of the other packages, because the retry loop looks at their
    type: an HTTP status, an error with a \<open>Timeout\<close> method, or any other error, possibly wrapped.
  \<^item> A context is what the retry loop sees of it: for the wait before an attempt and its length in
    milliseconds, the error of the context if it ends during that wait.
  \<^item> The \<open>Custom\<close> map of a resource is a value; the code shares it between the caller and the store where
    it copies a resource field by field.
\<close>

section \<open>Errors\<close>

datatype rterror =
    Plain goerror
  | HTTPError int string
  | NetError bool string
  | Wrap string rterror

primrec rt_Error :: "rterror \<Rightarrow> string" where
  "rt_Error (Plain e) = Error e"
| "rt_Error (HTTPError code msg) = ''HTTP '' @ FormatInt code @ '': '' @ msg"
| "rt_Error (NetError tmo msg) = msg"
| "rt_Error (Wrap before e) = before @ rt_Error e"

definition DeadlineExceeded :: rterror where
  "DeadlineExceeded = NetError True ''context deadline exceeded''"

definition io_EOF :: goerror where
  "io_EOF = ErrorsNew ''EOF''"

definition io_ErrUnexpectedEOF :: goerror where
  "io_ErrUnexpectedEOF = ErrorsNew ''unexpected EOF''"

text \<open>\<open>errors.As\<close> for an error with a \<open>Timeout\<close> method and for \<open>*HTTPError\<close>: the first of that kind in the chain.\<close>

primrec as_Timeout :: "rterror \<Rightarrow> bool option" where
  "as_Timeout (Plain e) = None"
| "as_Timeout (HTTPError code msg) = None"
| "as_Timeout (NetError tmo msg) = Some tmo"
| "as_Timeout (Wrap before e) = as_Timeout e"

primrec as_HTTPError :: "rterror \<Rightarrow> int option" where
  "as_HTTPError (Plain e) = None"
| "as_HTTPError (HTTPError code msg) = Some code"
| "as_HTTPError (NetError tmo msg) = None"
| "as_HTTPError (Wrap before e) = as_HTTPError e"

primrec rt_Is :: "rterror \<Rightarrow> rterror \<Rightarrow> bool" where
  "rt_Is (Plain e) t = (case t of Plain e' \<Rightarrow> errors_Is e e' | _ \<Rightarrow> False)"
| "rt_Is (HTTPError code msg) t = (HTTPError code msg = t)"
| "rt_Is (NetError tmo msg) t = (NetError tmo msg = t)"
| "rt_Is (Wrap before e) t = (Wrap before e = t \<or> rt_Is e t)"

type_synonym 'a rtresult = "rterror + 'a"

section \<open>Resources and backends\<close>

record StorageResourceMetadata =
  sm_Size :: int
  sm_ContentType :: string
  sm_ETag :: string
  sm_LastModified :: gotime
  sm_Created :: gotime
  sm_Custom :: "(string, string) gomap"

record StorageResource =
  sr_URI :: string
  sr_ContentType :: string
  sr_Body :: "string option"
  sr_Metadata :: StorageResourceMetadata
  sr_ETag :: string
  sr_LastModified :: gotime

record StoragePreconditions =
  sp_IfMatch :: "string list"
  sp_IfNoneMatch :: "string list"

definition StoragePreconditions_IsEmpty :: "StoragePreconditions \<Rightarrow> bool" where
  "StoragePreconditions_IsEmpty p \<longleftrightarrow> length (sp_IfMatch p) = 0 \<and> length (sp_IfNoneMatch p) = 0"

text \<open>\<open>rb_Conditional\<close> tells whether the backend implements \<open>ConditionalStorageBackend\<close>. The name of a
  backend is only logged and is left out.\<close>

record 'b RuntimeBackend =
  rb_Get :: "string \<Rightarrow> 'b \<Rightarrow> StorageResource rtresult \<times> 'b"
  rb_Put :: "gotime \<Rightarrow> string \<Rightarrow> StorageResource \<Rightarrow> 'b \<Rightarrow> rterror option \<times> 'b"
  rb_Delete :: "string \<Rightarrow> 'b \<Rightarrow> rterror option \<times> 'b"
  rb_List :: "string \<Rightarrow> 'b \<Rightarrow> StorageResource list rtresult \<times> 'b"
  rb_Exists :: "string \<Rightarrow> 'b \<Rightarrow> bool rtresult \<times> 'b"
  rb_Head :: "string \<Rightarrow> 'b \<Rightarrow> StorageResourceMetadata rtresult \<times> 'b"
  rb_Close :: "'b \<Rightarrow> rterror option \<times> 'b"
  rb_HealthCheck :: "'b \<Rightarrow> rterror option"
  rb_Conditional :: "'b \<Rightarrow> bool"
  rb_PutConditional :: "gotime \<Rightarrow> string \<Rightarrow> StorageResource \<Rightarrow> StoragePreconditions \<Rightarrow> 'b \<Rightarrow> rterror option \<times> 'b"
  rb_DeleteConditional :: "string \<Rightarrow> StoragePreconditions \<Rightarrow> 'b \<Rightarrow> rterror option \<times> 'b"

section \<open>The abstraction layer\<close>

record StorageAbstractionConfig =
  sc_DefaultStorage :: string
  sc_MaxRetries :: int
  sc_BackoffBase :: int
  sc_BackoffMax :: int

definition DefaultStorageAbstractionConfig :: StorageAbstractionConfig where
  "DefaultStorageAbstractionConfig =
     \<lparr>sc_DefaultStorage = ''default'', sc_MaxRetries = 3, sc_BackoffBase = 100, sc_BackoffMax = 5000\<rparr>"

record StorageAbstractionMetrics =
  sa_TotalOperations :: int
  sa_SuccessfulOperations :: int
  sa_FailedOperations :: int
  sa_ReadOperations :: int
  sa_WriteOperations :: int
  sa_DeleteOperations :: int
  sa_ListOperations :: int
  sa_RetryAttempts :: int
  sa_MaxRetriesHit :: int
  sa_ValidationFailures :: int
  sa_ValidationFailuresByType :: "(string, int) gomap"
  sa_BackendOperations :: "(string, int) gomap"

text \<open>\<open>m[k]++\<close> on a map of counters.\<close>

definition bump :: "string \<Rightarrow> (string, int) gomap \<Rightarrow> (string, int) gomap" where
  "bump k m = mset_at k ((case mget m k of None \<Rightarrow> 0 | Some n \<Rightarrow> n) + 1) m"

definition RecordOperation :: "string \<Rightarrow> string \<Rightarrow> bool \<Rightarrow> StorageAbstractionMetrics \<Rightarrow> StorageAbstractionMetrics" where
  "RecordOperation operation backend success m =
     (let m = m\<lparr>sa_TotalOperations := sa_TotalOperations m + 1\<rparr>;
          m = (if success then m\<lparr>sa_SuccessfulOperations := sa_SuccessfulOperations m + 1\<rparr>
               else m\<lparr>sa_FailedOperations := sa_FailedOperations m + 1\<rparr>);
          m = (if operation = ''read'' then m\<lparr>sa_ReadOperations := sa_ReadOperations m + 1\<rparr>
               else if operation = ''write'' then m\<lparr>sa_WriteOperations := sa_WriteOperations m + 1\<rparr>
               else if operation = ''delete'' then m\<lparr>sa_DeleteOperations := sa_DeleteOperations m + 1\<rparr>
               else if operation = ''list'' then m\<lparr>sa_ListOperations := sa_ListOperations m + 1\<rparr>
               else m)
      in m\<lparr>sa_BackendOperations := bump backend (sa_BackendOperations m)\<rparr>)"

definition RecordRetry :: "StorageAbstractionMetrics \<Rightarrow> StorageAbstractionMetrics" where
  "RecordRetry m = m\<lparr>sa_RetryAttempts := sa_RetryAttempts m + 1\<rparr>"

definition RecordMaxRetriesHit :: "StorageAbstractionMetrics \<Rightarrow> StorageAbstractionMetrics" where
  "RecordMaxRetriesHit m = m\<lparr>sa_MaxRetriesHit := sa_MaxRetriesHit m + 1\<rparr>"

definition RecordValidationFailure :: "string \<Rightarrow> StorageAbstractionMetrics \<Rightarrow> StorageAbstractionMetrics" where
  "RecordValidationFailure failureType m =
     m\<lparr>sa_ValidationFailures := sa_ValidationFailures m + 1,
       sa_ValidationFailuresByType := bump failureType (sa_ValidationFailuresByType m)\<rparr>"

record 'b StorageAbstractionLayer =
  sl_config :: StorageAbstractionConfig
  sl_backends :: "(string, 'b) gomap"
  sl_defaultBackend :: string
  sl_metrics :: StorageAbstractionMetrics
  sl_closed :: bool

definition NewStorageAbstractionLayer :: "StorageAbstractionConfig \<Rightarrow> 'b StorageAbstractionLayer" where
  "NewStorageAbstractionLayer config =
     \<lparr>sl_config = config, sl_backends = [], sl_defaultBackend = sc_DefaultStorage config,
      sl_metrics = \<lparr>sa_TotalOperations = 0, sa_SuccessfulOperations = 0, sa_FailedOperations = 0,
        sa_ReadOperations = 0, sa_WriteOperations = 0, sa_DeleteOperations = 0, sa_ListOperations = 0,
        sa_RetryAttempts = 0, sa_MaxRetriesHit = 0, sa_ValidationFailures = 0,
        sa_ValidationFailuresByType = [], sa_BackendOperations = []\<rparr>,
      sl_closed = False\<rparr>"

definition RL_RegisterBackend :: "string \<Rightarrow> 'b \<Rightarrow> 'b StorageAbstractionLayer \<Rightarrow> goerr \<times> 'b StorageAbstractionLayer" where
  "RL_RegisterBackend name backend s =
     (if sl_closed s then (Some (ErrorsNew ''cannot register backend: storage layer is closed''), s)
      else if mget (sl_backends s) name \<noteq> None
      then (Some (ErrorsNew (''backend '' @ Quote name @ '' already registered'')), s)
      else (None, s\<lparr>sl_backends := mset_at name backend (sl_backends s)\<rparr>))"

text \<open>An unregistered backend is closed and leaves the layer; an error on closing it is only logged.\<close>

definition RL_UnregisterBackend :: "string \<Rightarrow> 'b StorageAbstractionLayer \<Rightarrow> goerr \<times> 'b StorageAbstractionLayer" where
  "RL_UnregisterBackend name s =
     (if sl_closed s then (Some (ErrorsNew ''cannot unregister backend: storage layer is closed''), s)
      else if mget (sl_backends s) name = None
      then (Some (ErrorsNew (''backend '' @ Quote name @ '' not found'')), s)
      else (None, s\<lparr>sl_backends := mdelete name (sl_backends s)\<rparr>))"

definition RL_GetBackend :: "string \<Rightarrow> 'b StorageAbstractionLayer \<Rightarrow> 'b result" where
  "RL_GetBackend name s =
     (if sl_closed s then Inl (ErrorsNew ''storage layer is closed'')
      else case mget (sl_backends s) name of
        None \<Rightarrow> Inl (ErrorsNew (''backend '' @ Quote name @ '' not found''))
      | Some backend \<Rightarrow> Inr backend)"

definition RL_SetDefaultBackend :: "string \<Rightarrow> 'b StorageAbstractionLayer \<Rightarrow> goerr \<times> 'b StorageAbstractionLayer" where
  "RL_SetDefaultBackend name s =
     (if sl_closed s then (Some (ErrorsNew ''cannot set default backend: storage layer is closed''), s)
      else if mget (sl_backends s) name = None
      then (Some (ErrorsNew (''backend '' @ Quote name @ '' not found'')), s)
      else (None, s\<lparr>sl_defaultBackend := name\<rparr>))"

definition RL_getDefaultBackend :: "'b StorageAbstractionLayer \<Rightarrow> 'b result" where
  "RL_getDefaultBackend s =
     (if sl_closed s then Inl (ErrorsNew ''storage layer is closed'')
      else case mget (sl_backends s) (sl_defaultBackend s) of
        None \<Rightarrow> Inl (ErrorsNew (''default backend '' @ Quote (sl_defaultBackend s) @ '' not found''))
      | Some backend \<Rightarrow> Inr backend)"

section \<open>The retry loop\<close>

text \<open>\<open>BackoffBase * (1 << (attempt - 1))\<close> at the width of \<open>int\<close>.\<close>

definition calculateBackoff :: "StorageAbstractionConfig \<Rightarrow> nat \<Rightarrow> int" where
  "calculateBackoff cfg attempt =
     (let backoff = int64_wrap (sc_BackoffBase cfg * int64_wrap (2 ^ (attempt - 1)))
      in if backoff > sc_BackoffMax cfg then sc_BackoffMax cfg else backoff)"

definition shouldRetry :: "rterror \<Rightarrow> bool" where
  "shouldRetry err =
     (if as_Timeout err = Some True then True
      else if rt_Is err DeadlineExceeded then True
      else if rt_Is err (Plain io_EOF) \<or> rt_Is err (Plain io_ErrUnexpectedEOF) then True
      else case as_HTTPError err of
        Some code \<Rightarrow> 500 \<le> code \<and> code < 600
      | None \<Rightarrow> False)"

type_synonym waiting = "nat \<Rightarrow> int \<Rightarrow> rterror option"

definition max_retries_error :: "rterror option \<Rightarrow> rterror" where
  "max_retries_error lastErr =
     (case lastErr of
        Some e \<Rightarrow> Wrap ''max retries exceeded: '' e
      | None \<Rightarrow> Plain (ErrorsNew ''max retries exceeded: %!w(<nil>)''))"

text \<open>The loop from a given attempt on, with the number of attempts that are left.\<close>

fun retry_loop ::
  "StorageAbstractionConfig \<Rightarrow> string \<Rightarrow> string \<Rightarrow> waiting \<Rightarrow> (nat \<Rightarrow> 'b \<Rightarrow> 'r rtresult \<times> 'b) \<Rightarrow> nat \<Rightarrow> nat \<Rightarrow>
   rterror option \<Rightarrow> StorageAbstractionMetrics \<Rightarrow> 'b \<Rightarrow> 'r rtresult \<times> StorageAbstractionMetrics \<times> 'b" where
  "retry_loop cfg operation name ctx fn 0 attempt lastErr m b =
     (Inl (max_retries_error lastErr), RecordMaxRetriesHit (RecordOperation operation name False m), b)"
| "retry_loop cfg operation name ctx fn (Suc left) attempt lastErr m b =
     (let m = (if attempt > 0 then RecordRetry m else m) in
      case (if attempt > 0 then ctx attempt (calculateBackoff cfg attempt) else None) of
        Some err \<Rightarrow> (Inl (Wrap ''context cancelled: '' err), RecordOperation operation name False m, b)
      | None \<Rightarrow>
          case fn attempt b of
            (Inr result, b) \<Rightarrow> (Inr result, RecordOperation operation name True m, b)
          | (Inl err, b) \<Rightarrow>
              if \<not> shouldRetry err then (Inl err, RecordOperation operation name False m, b)
              else retry_loop cfg operation name ctx fn left (Suc attempt) (Some err) m b)"

definition doWithRetry ::
  "string \<Rightarrow> string \<Rightarrow> waiting \<Rightarrow> (nat \<Rightarrow> 'b \<Rightarrow> 'r rtresult \<times> 'b) \<Rightarrow> 'b \<Rightarrow> 'b StorageAbstractionLayer \<Rightarrow>
   'r rtresult \<times> 'b StorageAbstractionLayer" where
  "doWithRetry operation name ctx fn b s =
     (case retry_loop (sl_config s) operation name ctx fn (nat (sc_MaxRetries (sl_config s) + 1)) 0 None (sl_metrics s) b of
        (result, m, b) \<Rightarrow> (result, s\<lparr>sl_metrics := m, sl_backends := mset_at name b (sl_backends s)\<rparr>))"

text \<open>The same loop over a boolean and over metadata, which the code writes out again.\<close>

definition doWithRetryBool ::
  "string \<Rightarrow> string \<Rightarrow> waiting \<Rightarrow> (nat \<Rightarrow> 'b \<Rightarrow> bool rtresult \<times> 'b) \<Rightarrow> 'b \<Rightarrow> 'b StorageAbstractionLayer \<Rightarrow>
   bool rtresult \<times> 'b StorageAbstractionLayer" where
  "doWithRetryBool = doWithRetry"

definition doWithRetryMetadata ::
  "string \<Rightarrow> string \<Rightarrow> waiting \<Rightarrow> (nat \<Rightarrow> 'b \<Rightarrow> StorageResourceMetadata rtresult \<times> 'b) \<Rightarrow> 'b \<Rightarrow> 'b StorageAbstractionLayer \<Rightarrow>
   StorageResourceMetadata rtresult \<times> 'b StorageAbstractionLayer" where
  "doWithRetryMetadata = doWithRetry"

section \<open>The operations of the layer\<close>

text \<open>An operation without a result, as the loop sees it, and back.\<close>

definition no_result :: "rterror option \<times> 'b \<Rightarrow> unit rtresult \<times> 'b" where
  "no_result p = ((case fst p of None \<Rightarrow> Inr () | Some err \<Rightarrow> Inl err), snd p)"

definition only_error :: "unit rtresult \<times> 's \<Rightarrow> rterror option \<times> 's" where
  "only_error p = ((case fst p of Inr _ \<Rightarrow> None | Inl err \<Rightarrow> Some err), snd p)"

definition invalid_uri :: "goerror \<Rightarrow> rterror" where
  "invalid_uri err = Plain (Errorf ''invalid URI: '' err [])"

definition validation_failure :: "string \<Rightarrow> 'b StorageAbstractionLayer \<Rightarrow> 'b StorageAbstractionLayer" where
  "validation_failure kind s = s\<lparr>sl_metrics := RecordValidationFailure kind (sl_metrics s)\<rparr>"

definition GetFromBackend ::
  "'b RuntimeBackend \<Rightarrow> waiting \<Rightarrow> string \<Rightarrow> string \<Rightarrow> 'b StorageAbstractionLayer \<Rightarrow>
   StorageResource rtresult \<times> 'b StorageAbstractionLayer" where
  "GetFromBackend R ctx name uri s =
     (case RL_GetBackend name s of
        Inl err \<Rightarrow> (Inl (Plain err), s)
      | Inr b \<Rightarrow> doWithRetry ''read'' name ctx (\<lambda>attempt. rb_Get R uri) b s)"

definition RL_Get ::
  "(string \<Rightarrow> string) \<Rightarrow> 'b RuntimeBackend \<Rightarrow> waiting \<Rightarrow> string \<Rightarrow> 'b StorageAbstractionLayer \<Rightarrow>
   StorageResource rtresult \<times> 'b StorageAbstractionLayer" where
  "RL_Get perr R ctx uri s =
     (case RT_ValidateURI perr uri of
        Some err \<Rightarrow> (Inl (invalid_uri err), validation_failure ''uri'' s)
      | None \<Rightarrow>
        case RL_getDefaultBackend s of
          Inl err \<Rightarrow> (Inl (Plain err), s)
        | Inr _ \<Rightarrow> GetFromBackend R ctx (sl_defaultBackend s) uri s)"

definition PutToBackend ::
  "'b RuntimeBackend \<Rightarrow> waiting \<Rightarrow> (nat \<Rightarrow> gotime) \<Rightarrow> string \<Rightarrow> string \<Rightarrow> StorageResource \<Rightarrow> 'b StorageAbstractionLayer \<Rightarrow>
   rterror option \<times> 'b StorageAbstractionLayer" where
  "PutToBackend R ctx now name uri resource s =
     (case RL_GetBackend name s of
        Inl err \<Rightarrow> (Some (Plain err), s)
      | Inr b \<Rightarrow> only_error (doWithRetry ''write'' name ctx
          (\<lambda>attempt b. no_result (rb_Put R (now attempt) uri resource b)) b s))"

text \<open>\<open>None\<close> is the panic on a nil resource, whose size is taken without a check.\<close>

definition RL_Put ::
  "(string \<Rightarrow> string) \<Rightarrow> 'b RuntimeBackend \<Rightarrow> waiting \<Rightarrow> (nat \<Rightarrow> gotime) \<Rightarrow> string \<Rightarrow> StorageResource option \<Rightarrow>
   'b StorageAbstractionLayer \<Rightarrow> (rterror option \<times> 'b StorageAbstractionLayer) option" where
  "RL_Put perr R ctx now uri resource s =
     (case RT_ValidateURI perr uri of
        Some err \<Rightarrow> Some (Some (invalid_uri err), validation_failure ''uri'' s)
      | None \<Rightarrow>
        case resource of
          None \<Rightarrow> None
        | Some resource \<Rightarrow> Some (
          case ValidateResourceSize (int (length (bytes (sr_Body resource)))) of
            Some err \<Rightarrow> (Some (Plain (Errorf ''resource validation failed: '' err [])), validation_failure ''size'' s)
          | None \<Rightarrow>
            case RL_getDefaultBackend s of
              Inl err \<Rightarrow> (Some (Plain err), s)
            | Inr _ \<Rightarrow> PutToBackend R ctx now (sl_defaultBackend s) uri resource s))"

definition DeleteFromBackend ::
  "'b RuntimeBackend \<Rightarrow> waiting \<Rightarrow> string \<Rightarrow> string \<Rightarrow> 'b StorageAbstractionLayer \<Rightarrow>
   rterror option \<times> 'b StorageAbstractionLayer" where
  "DeleteFromBackend R ctx name uri s =
     (case RL_GetBackend name s of
        Inl err \<Rightarrow> (Some (Plain err), s)
      | Inr b \<Rightarrow> only_error (doWithRetry ''delete'' name ctx (\<lambda>attempt b. no_result (rb_Delete R uri b)) b s))"

definition RL_Delete ::
  "(string \<Rightarrow> string) \<Rightarrow> 'b RuntimeBackend \<Rightarrow> waiting \<Rightarrow> string \<Rightarrow> 'b StorageAbstractionLayer \<Rightarrow>
   rterror option \<times> 'b StorageAbstractionLayer" where
  "RL_Delete perr R ctx uri s =
     (case RT_ValidateURI perr uri of
        Some err \<Rightarrow> (Some (invalid_uri err), validation_failure ''uri'' s)
      | None \<Rightarrow>
        case RL_getDefaultBackend s of
          Inl err \<Rightarrow> (Some (Plain err), s)
        | Inr _ \<Rightarrow> DeleteFromBackend R ctx (sl_defaultBackend s) uri s)"

text \<open>The loop of \<open>ListFromBackend\<close> sleeps without looking at the context.\<close>

definition ListFromBackend ::
  "'b RuntimeBackend \<Rightarrow> string \<Rightarrow> string \<Rightarrow> 'b StorageAbstractionLayer \<Rightarrow>
   StorageResource list rtresult \<times> 'b StorageAbstractionLayer" where
  "ListFromBackend R name containerURI s =
     (case RL_GetBackend name s of
        Inl err \<Rightarrow> (Inl (Plain err), s)
      | Inr b \<Rightarrow> doWithRetry ''list'' name (\<lambda>attempt backoff. None) (\<lambda>attempt. rb_List R containerURI) b s)"

definition RL_List ::
  "(string \<Rightarrow> string) \<Rightarrow> 'b RuntimeBackend \<Rightarrow> string \<Rightarrow> 'b StorageAbstractionLayer \<Rightarrow>
   StorageResource list rtresult \<times> 'b StorageAbstractionLayer" where
  "RL_List perr R containerURI s =
     (case RT_ValidateURI perr containerURI of
        Some err \<Rightarrow> (Inl (Plain (Errorf ''invalid container URI: '' err [])), validation_failure ''uri'' s)
      | None \<Rightarrow>
        case RL_getDefaultBackend s of
          Inl err \<Rightarrow> (Inl (Plain err), s)
        | Inr _ \<Rightarrow> ListFromBackend R (sl_defaultBackend s) containerURI s)"

definition ExistsInBackend ::
  "'b RuntimeBackend \<Rightarrow> waiting \<Rightarrow> string \<Rightarrow> string \<Rightarrow> 'b StorageAbstractionLayer \<Rightarrow>
   bool rtresult \<times> 'b StorageAbstractionLayer" where
  "ExistsInBackend R ctx name uri s =
     (case RL_GetBackend name s of
        Inl err \<Rightarrow> (Inl (Plain err), s)
      | Inr b \<Rightarrow> doWithRetryBool ''exists'' name ctx (\<lambda>attempt. rb_Exists R uri) b s)"

definition RL_Exists ::
  "(string \<Rightarrow> string) \<Rightarrow> 'b RuntimeBackend \<Rightarrow> waiting \<Rightarrow> string \<Rightarrow> 'b StorageAbstractionLayer \<Rightarrow>
   bool rtresult \<times> 'b StorageAbstractionLayer" where
  "RL_Exists perr R ctx uri s =
     (case RT_ValidateURI perr uri of
        Some err \<Rightarrow> (Inl (invalid_uri err), validation_failure ''uri'' s)
      | None \<Rightarrow>
        case RL_getDefaultBackend s of
          Inl err \<Rightarrow> (Inl (Plain err), s)
        | Inr _ \<Rightarrow> ExistsInBackend R ctx (sl_defaultBackend s) uri s)"

definition HeadFromBackend ::
  "'b RuntimeBackend \<Rightarrow> waiting \<Rightarrow> string \<Rightarrow> string \<Rightarrow> 'b StorageAbstractionLayer \<Rightarrow>
   StorageResourceMetadata rtresult \<times> 'b StorageAbstractionLayer" where
  "HeadFromBackend R ctx name uri s =
     (case RL_GetBackend name s of
        Inl err \<Rightarrow> (Inl (Plain err), s)
      | Inr b \<Rightarrow> doWithRetryMetadata ''head'' name ctx (\<lambda>attempt. rb_Head R uri) b s)"

definition RL_Head ::
  "(string \<Rightarrow> string) \<Rightarrow> 'b RuntimeBackend \<Rightarrow> waiting \<Rightarrow> string \<Rightarrow> 'b StorageAbstractionLayer \<Rightarrow>
   StorageResourceMetadata rtresult \<times> 'b StorageAbstractionLayer" where
  "RL_Head perr R ctx uri s =
     (case RT_ValidateURI perr uri of
        Some err \<Rightarrow> (Inl (invalid_uri err), validation_failure ''uri'' s)
      | None \<Rightarrow>
        case RL_getDefaultBackend s of
          Inl err \<Rightarrow> (Inl (Plain err), s)
        | Inr _ \<Rightarrow> HeadFromBackend R ctx (sl_defaultBackend s) uri s)"

definition RL_GetBackendNames :: "'b StorageAbstractionLayer \<Rightarrow> string list" where
  "RL_GetBackendNames s = map fst (sl_backends s)"

definition RL_HealthCheck :: "'b RuntimeBackend \<Rightarrow> 'b StorageAbstractionLayer \<Rightarrow> (string, rterror option) gomap" where
  "RL_HealthCheck R s =
     (if sl_closed s then [(''error'', Some (Plain (ErrorsNew ''storage layer is closed'')))]
      else map (\<lambda>(name, b). (name, rb_HealthCheck R b)) (sl_backends s))"

definition RL_Close :: "'b RuntimeBackend \<Rightarrow> 'b StorageAbstractionLayer \<Rightarrow> 'b StorageAbstractionLayer" where
  "RL_Close R s =
     (if sl_closed s then s
      else s\<lparr>sl_closed := True, sl_backends := map (\<lambda>(name, b). (name, snd (rb_Close R b))) (sl_backends s)\<rparr>)"

section \<open>Conditional writes\<close>

definition ErrStoragePreconditionFailed :: goerror where
  "ErrStoragePreconditionFailed = ErrorsNew ''storage precondition failed''"

definition ErrStorageConditionalUnsupported :: goerror where
  "ErrStorageConditionalUnsupported = ErrorsNew ''storage conditional operation unsupported''"

definition PutConditionalToBackend ::
  "'b RuntimeBackend \<Rightarrow> waiting \<Rightarrow> (nat \<Rightarrow> gotime) \<Rightarrow> string \<Rightarrow> string \<Rightarrow> StorageResource \<Rightarrow> StoragePreconditions \<Rightarrow>
   'b StorageAbstractionLayer \<Rightarrow> rterror option \<times> 'b StorageAbstractionLayer" where
  "PutConditionalToBackend R ctx now name uri resource preconditions s =
     (case RL_GetBackend name s of
        Inl err \<Rightarrow> (Some (Plain err), s)
      | Inr b \<Rightarrow>
          if \<not> rb_Conditional R b
          then (Some (Plain (wrapf ErrStorageConditionalUnsupported (''backend '' @ Quote name))), s)
          else only_error (doWithRetry ''conditional_write'' name ctx
            (\<lambda>attempt b. no_result (rb_PutConditional R (now attempt) uri resource preconditions b)) b s))"

definition RL_PutConditional ::
  "(string \<Rightarrow> string) \<Rightarrow> 'b RuntimeBackend \<Rightarrow> waiting \<Rightarrow> (nat \<Rightarrow> gotime) \<Rightarrow> string \<Rightarrow> StorageResource option \<Rightarrow>
   StoragePreconditions \<Rightarrow> 'b StorageAbstractionLayer \<Rightarrow> rterror option \<times> 'b StorageAbstractionLayer" where
  "RL_PutConditional perr R ctx now uri resource preconditions s =
     (case RT_ValidateURI perr uri of
        Some err \<Rightarrow> (Some (invalid_uri err), validation_failure ''uri'' s)
      | None \<Rightarrow>
        case resource of
          None \<Rightarrow> (Some (Plain (ErrorsNew ''resource must not be nil'')), validation_failure ''resource'' s)
        | Some resource \<Rightarrow>
          case ValidateResourceSize (int (length (bytes (sr_Body resource)))) of
            Some err \<Rightarrow> (Some (Plain (Errorf ''resource validation failed: '' err [])), validation_failure ''size'' s)
          | None \<Rightarrow>
            case RL_getDefaultBackend s of
              Inl err \<Rightarrow> (Some (Plain err), s)
            | Inr _ \<Rightarrow> PutConditionalToBackend R ctx now (sl_defaultBackend s) uri resource preconditions s)"

definition DeleteConditionalFromBackend ::
  "'b RuntimeBackend \<Rightarrow> waiting \<Rightarrow> string \<Rightarrow> string \<Rightarrow> StoragePreconditions \<Rightarrow>
   'b StorageAbstractionLayer \<Rightarrow> rterror option \<times> 'b StorageAbstractionLayer" where
  "DeleteConditionalFromBackend R ctx name uri preconditions s =
     (case RL_GetBackend name s of
        Inl err \<Rightarrow> (Some (Plain err), s)
      | Inr b \<Rightarrow>
          if \<not> rb_Conditional R b
          then (Some (Plain (wrapf ErrStorageConditionalUnsupported (''backend '' @ Quote name))), s)
          else only_error (doWithRetry ''conditional_delete'' name ctx
            (\<lambda>attempt b. no_result (rb_DeleteConditional R uri preconditions b)) b s))"

definition RL_DeleteConditional ::
  "(string \<Rightarrow> string) \<Rightarrow> 'b RuntimeBackend \<Rightarrow> waiting \<Rightarrow> string \<Rightarrow> StoragePreconditions \<Rightarrow>
   'b StorageAbstractionLayer \<Rightarrow> rterror option \<times> 'b StorageAbstractionLayer" where
  "RL_DeleteConditional perr R ctx uri preconditions s =
     (case RT_ValidateURI perr uri of
        Some err \<Rightarrow> (Some (invalid_uri err), validation_failure ''uri'' s)
      | None \<Rightarrow>
        case RL_getDefaultBackend s of
          Inl err \<Rightarrow> (Some (Plain err), s)
        | Inr _ \<Rightarrow> DeleteConditionalFromBackend R ctx (sl_defaultBackend s) uri preconditions s)"

section \<open>What the retry loop computes\<close>

text \<open>The calls of an operation, one after the other, with the state after each.\<close>

fun outcomes :: "(nat \<Rightarrow> 'b \<Rightarrow> 'r rtresult \<times> 'b) \<Rightarrow> nat list \<Rightarrow> 'b \<Rightarrow> ('r rtresult \<times> 'b) list" where
  "outcomes fn [] b = []"
| "outcomes fn (a # as) b = fn a b # outcomes fn as (snd (fn a b))"

definition transient :: "'r rtresult \<times> 'b \<Rightarrow> bool" where
  "transient o' = (case fst o' of Inl err \<Rightarrow> shouldRetry err | Inr _ \<Rightarrow> False)"

text \<open>The attempts that the context lets begin.\<close>

definition begun :: "StorageAbstractionConfig \<Rightarrow> waiting \<Rightarrow> nat list \<Rightarrow> nat list" where
  "begun cfg ctx = takeWhile (\<lambda>a. a > 0 \<longrightarrow> ctx a (calculateBackoff cfg a) = None)"

definition gives_up :: "StorageAbstractionConfig \<Rightarrow> waiting \<Rightarrow> nat list \<Rightarrow> rterror option \<Rightarrow> rterror" where
  "gives_up cfg ctx as lastErr =
     (case drop (length (begun cfg ctx as)) as of
        [] \<Rightarrow> max_retries_error lastErr
      | a # _ \<Rightarrow> Wrap ''context cancelled: '' (the (ctx a (calculateBackoff cfg a))))"

definition last_error :: "('r rtresult \<times> 'b) list \<Rightarrow> rterror option \<Rightarrow> rterror option" where
  "last_error os e = (if os = [] then e else case fst (last os) of Inl err \<Rightarrow> Some err | Inr _ \<Rightarrow> None)"

lemma metrics_retry [simp]:
  "sa_RetryAttempts (RecordOperation op n b m) = sa_RetryAttempts m"
  "sa_RetryAttempts (RecordMaxRetriesHit m) = sa_RetryAttempts m"
  "sa_RetryAttempts (RecordRetry m) = sa_RetryAttempts m + 1"
  "sa_TotalOperations (RecordOperation op n b m) = sa_TotalOperations m + 1"
  "sa_TotalOperations (RecordMaxRetriesHit m) = sa_TotalOperations m"
  "sa_TotalOperations (RecordRetry m) = sa_TotalOperations m"
  by (simp_all add: RecordOperation_def RecordMaxRetriesHit_def RecordRetry_def Let_def)

lemma retry_loop_exact:
  fixes fn :: "nat \<Rightarrow> 'b \<Rightarrow> 'r rtresult \<times> 'b"
  assumes "retry_loop cfg op name ctx fn left attempt lastErr m b = (res, m', b')"
    and "as = [attempt..<attempt + left]" and "os = outcomes fn (begun cfg ctx as) b"
  shows "(case find (\<lambda>p. \<not> transient p) os of
            Some p \<Rightarrow> (res, b') = p
          | None \<Rightarrow> res = Inl (gives_up cfg ctx as (last_error os lastErr)) \<and> b' = (if os = [] then b else snd (last os)))
    \<and> sa_TotalOperations m' = sa_TotalOperations m + 1
    \<and> sa_RetryAttempts m' = sa_RetryAttempts m + int (min left (length (takeWhile transient os) + 1))
        - (if attempt = 0 \<and> left > 0 then 1 else 0)"
  using assms
proof (induction left arbitrary: attempt lastErr m b as os)
  case 0
  then show ?case by (auto simp: begun_def gives_up_def last_error_def)
next
  case (Suc left)
  define rest where "rest = [Suc attempt..<Suc attempt + left]"
  have as: "as = attempt # rest"
    using Suc.prems(2) by (simp add: rest_def upt_conv_Cons del: upt_Suc)
  let ?wait = "if attempt > 0 then ctx attempt (calculateBackoff cfg attempt) else None"
  let ?m = "if attempt > 0 then RecordRetry m else m"
  note loop = Suc.prems(1) and os = Suc.prems(3) [unfolded as]
  show ?case
  proof (cases ?wait)
    case (Some err)
    then have "attempt > 0" "ctx attempt (calculateBackoff cfg attempt) = Some err" by (simp_all split: if_splits)
    with loop show ?thesis by (auto simp: as os begun_def gives_up_def Let_def)
  next
    case None
    then have beg: "begun cfg ctx (attempt # xs) = attempt # begun cfg ctx xs" for xs
      by (simp add: begun_def split: if_splits)
    obtain r b1 where fn: "fn attempt b = (r, b1)" by (cases "fn attempt b")
    let ?os = "outcomes fn (begun cfg ctx rest) b1"
    have os': "os = (r, b1) # ?os" by (simp add: os beg fn)
    show ?thesis
    proof (cases "transient (r, b1)")
      case False
      with loop None fn show ?thesis
        by (auto simp: os' transient_def Let_def split: sum.splits if_splits)
    next
      case True
      then obtain err where err: "r = Inl err" "shouldRetry err" by (cases r) (auto simp: transient_def)
      with loop None fn
      have "retry_loop cfg op name ctx fn left (Suc attempt) (Some err) ?m b1 = (res, m', b')"
        by (simp add: Let_def)
      note IH = Suc.IH [OF this rest_def refl]
      have "gives_up cfg ctx as e = gives_up cfg ctx rest e" for e
        by (simp add: as gives_up_def beg)
      moreover have "last_error os lastErr = last_error ?os (Some err)"
        by (simp add: os' err last_error_def)
      moreover have "(if os = [] then b else snd (last os)) = (if ?os = [] then b1 else snd (last ?os))"
        by (simp add: os')
      moreover have "find (\<lambda>p. \<not> transient p) os = find (\<lambda>p. \<not> transient p) ?os"
        "takeWhile transient os = (r, b1) # takeWhile transient ?os"
        using True by (simp_all add: os')
      ultimately show ?thesis using IH by (auto split: option.splits)
    qed
  qed
qed

lemma calculateBackoff_exact:
  assumes "0 \<le> sc_BackoffBase cfg" "sc_BackoffBase cfg * 2 ^ (a - 1) \<le> int64_max" "a \<le> 63"
  shows "calculateBackoff cfg a = min (sc_BackoffBase cfg * 2 ^ (a - 1)) (sc_BackoffMax cfg)"
proof -
  have pos: "(0::int) < 2 ^ (a - 1)" by simp
  have "(2::int) ^ (a - 1) \<le> 2 ^ 62" using assms(3) by (intro power_increasing) auto
  moreover have "- 9223372036854775808 \<le> (2::int) ^ (a - 1)"
    by (rule order_trans [OF _ less_imp_le [OF pos]]) simp
  ultimately have "int64_ok (2 ^ (a - 1))" by (simp add: int64_ok_def int64_max_def)
  moreover have "0 \<le> sc_BackoffBase cfg * 2 ^ (a - 1)" using assms(1) pos by simp
  with assms(2) have "int64_ok (sc_BackoffBase cfg * 2 ^ (a - 1))" by (simp add: int64_ok_def)
  ultimately show ?thesis by (simp add: calculateBackoff_def Let_def min_def)
qed

lemma calculateBackoff_le: "calculateBackoff cfg a \<le> sc_BackoffMax cfg"
  by (simp add: calculateBackoff_def Let_def)

lemma retry_loop_invariant:
  assumes "retry_loop cfg op name ctx fn left attempt lastErr m b = (res, m', b')" and "P b"
    and "\<And>a b e b'. P b \<Longrightarrow> fn a b = (Inl e, b') \<Longrightarrow> P b'"
  shows "case res of Inl e \<Rightarrow> P b' | Inr r \<Rightarrow> \<exists>a b0. P b0 \<and> fn a b0 = (Inr r, b')"
  using assms(1,2)
proof (induction left arbitrary: attempt lastErr m b)
  case 0
  then show ?case by auto
next
  case (Suc left)
  obtain r b1 where fn: "fn attempt b = (r, b1)" by (cases "fn attempt b")
  show ?case
  proof (cases "(if attempt > 0 then ctx attempt (calculateBackoff cfg attempt) else None) = None")
    case go: True
    show ?thesis
    proof (cases r)
      case (Inl e)
      have P1: "P b1" using assms(3) [OF Suc.prems(2)] fn Inl by simp
      show ?thesis
      proof (cases "shouldRetry e")
        case True
        with Suc.prems(1) go fn Inl have "retry_loop cfg op name ctx fn left (Suc attempt) (Some e)
            (if attempt > 0 then RecordRetry m else m) b1 = (res, m', b')" by (simp add: Let_def)
        from Suc.IH [OF this P1] show ?thesis .
      next
        case False
        with Suc.prems(1) go fn Inl P1 show ?thesis by (auto simp: Let_def)
      qed
    next
      case (Inr x)
      with Suc.prems(1) go fn have "res = Inr x" "b' = b1" by (auto simp: Let_def)
      with Suc.prems(2) fn Inr show ?thesis by auto
    qed
  next
    case False
    with Suc.prems show ?thesis by (auto simp: Let_def split: if_splits)
  qed
qed

section \<open>The contract of a backend\<close>

text \<open>What a reader sees of a resource.\<close>

definition shown :: "StorageResource \<Rightarrow> string \<times> string" where
  "shown r = (bytes (sr_Body r), sr_ContentType r)"

text \<open>
  \<open>inv\<close> is the backend's invariant, \<open>good\<close> the URIs it handles faithfully, and \<open>held\<close> what it holds at a
  URI. A failing operation changes nothing, and a missing resource is not a transient failure.
\<close>

locale runtime_backend =
  fixes R :: "'b RuntimeBackend"
    and inv :: "'b \<Rightarrow> bool"
    and good :: "string \<Rightarrow> bool"
    and held :: "'b \<Rightarrow> string \<Rightarrow> (string \<times> string) option"
  assumes get: "inv b \<Longrightarrow> good u \<Longrightarrow> rb_Get R u b = (res, b') \<Longrightarrow> inv b' \<and> held b' = held b \<and>
      (case held b u of
         Some v \<Rightarrow> \<exists>r. res = Inr r \<and> shown r = v
       | None \<Rightarrow> \<exists>e. res = Inl e \<and> \<not> shouldRetry e)"
    and put: "inv b \<Longrightarrow> good u \<Longrightarrow> rb_Put R now u r b = (err, b') \<Longrightarrow>
      inv b' \<and> held b' = (if err = None then (held b)(u \<mapsto> shown r) else held b)"
    and delete: "inv b \<Longrightarrow> good u \<Longrightarrow> rb_Delete R u b = (err, b') \<Longrightarrow>
      inv b' \<and> held b' = (if err = None then (held b)(u := None) else held b)"
    and exists: "inv b \<Longrightarrow> good u \<Longrightarrow> rb_Exists R u b = (res', b') \<Longrightarrow>
      inv b' \<and> held b' = held b \<and> res' = Inr (held b u \<noteq> None)"

lemma getDefaultBackend_Inr:
  "RL_getDefaultBackend s = Inr b \<longleftrightarrow> \<not> sl_closed s \<and> map_of (sl_backends s) (sl_defaultBackend s) = Some b"
  by (auto simp: RL_getDefaultBackend_def split: option.splits)

lemma GetBackend_default: "RL_getDefaultBackend s = Inr b \<Longrightarrow> RL_GetBackend (sl_defaultBackend s) s = Inr b"
  by (simp add: getDefaultBackend_Inr RL_GetBackend_def)

lemma doWithRetry_invariant:
  assumes "RL_getDefaultBackend s = Inr b" and "P b"
    and "doWithRetry op (sl_defaultBackend s) ctx fn b s = (res, s')"
    and "\<And>a b e b'. P b \<Longrightarrow> fn a b = (Inl e, b') \<Longrightarrow> P b'"
  shows "\<exists>b'. RL_getDefaultBackend s' = Inr b' \<and> sl_config s' = sl_config s \<and>
    (case res of Inl e \<Rightarrow> P b' | Inr r \<Rightarrow> \<exists>a b0. P b0 \<and> fn a b0 = (Inr r, b'))"
proof -
  obtain m b' where loop: "retry_loop (sl_config s) op (sl_defaultBackend s) ctx fn
      (nat (sc_MaxRetries (sl_config s) + 1)) 0 None (sl_metrics s) b = (res, m, b')"
    and s': "s' = s\<lparr>sl_metrics := m, sl_backends := mset_at (sl_defaultBackend s) b' (sl_backends s)\<rparr>"
    using assms(3) by (auto simp: doWithRetry_def split: prod.splits)
  have "case res of Inl e \<Rightarrow> P b' | Inr r \<Rightarrow> \<exists>a b0. P b0 \<and> fn a b0 = (Inr r, b')"
    by (rule retry_loop_invariant [where P = P, OF loop assms(2)]) (rule assms(4))
  with assms(1) show ?thesis by (simp add: s' getDefaultBackend_Inr)
qed

text \<open>An operation whose first call is final ends with it.\<close>

lemma doWithRetry_final:
  assumes "0 \<le> sc_MaxRetries (sl_config s)" and "fn 0 b = (r, b')" and "\<not> transient (r, b')"
    and "doWithRetry op name ctx fn b s = (res, s')"
  shows "res = r"
proof -
  have "nat (sc_MaxRetries (sl_config s) + 1) = Suc (nat (sc_MaxRetries (sl_config s)))"
    using assms(1) by simp
  with assms(2-4) show ?thesis
    by (auto simp: doWithRetry_def Let_def transient_def split: sum.splits if_splits)
qed

text \<open>An operation without a result, whose failures keep \<open>P\<close> and whose success gives \<open>Q\<close>.\<close>

lemma write_with_retry:
  assumes "RL_getDefaultBackend s = Inr b" and "P b"
    and run: "only_error (doWithRetry op (sl_defaultBackend s) ctx (\<lambda>a b. no_result (f a b)) b s) = (res, s')"
    and fails: "\<And>a b e b'. P b \<Longrightarrow> f a b = (Some e, b') \<Longrightarrow> P b'"
    and succeeds: "\<And>a b b'. P b \<Longrightarrow> f a b = (None, b') \<Longrightarrow> Q b'"
  shows "\<exists>b'. RL_getDefaultBackend s' = Inr b' \<and> sl_config s' = sl_config s \<and> (if res = None then Q b' else P b')"
proof -
  let ?fn = "\<lambda>a b. no_result (f a b)"
  obtain res0 where run0: "doWithRetry op (sl_defaultBackend s) ctx ?fn b s = (res0, s')"
    and res: "res = (case res0 of Inr _ \<Rightarrow> None | Inl err \<Rightarrow> Some err)"
    using run by (cases "doWithRetry op (sl_defaultBackend s) ctx ?fn b s") (simp add: only_error_def)
  have step: "P b'" if "P b" "?fn a b = (Inl e, b')" for a b e b'
    using that fails [of b a e b'] by (cases "f a b") (auto simp: no_result_def split: option.splits)
  have "\<exists>b'. RL_getDefaultBackend s' = Inr b' \<and> sl_config s' = sl_config s \<and>
      (case res0 of Inl e \<Rightarrow> P b' | Inr r \<Rightarrow> \<exists>a b0. P b0 \<and> ?fn a b0 = (Inr r, b'))"
    by (rule doWithRetry_invariant [where P = P, OF assms(1,2) run0]) (rule step)
  then obtain b' where b': "RL_getDefaultBackend s' = Inr b'" "sl_config s' = sl_config s"
    "case res0 of Inl e \<Rightarrow> P b' | Inr r \<Rightarrow> \<exists>a b0. P b0 \<and> ?fn a b0 = (Inr r, b')" by blast
  show ?thesis
  proof (cases res0)
    case (Inl e)
    with b' res show ?thesis by auto
  next
    case (Inr r)
    with b'(3) obtain a b0 where "P b0" "?fn a b0 = (Inr r, b')" by auto
    then have "Q b'" using succeeds [of b0 a b'] by (cases "f a b0") (auto simp: no_result_def split: option.splits)
    with b'(1,2) res Inr show ?thesis by auto
  qed
qed

lemma refused_before_backend:
  assumes "RL_getDefaultBackend s = Inr b"
  shows "RL_getDefaultBackend (validation_failure kind s) = Inr b" "sl_config (validation_failure kind s) = sl_config s"
  using assms by (simp_all add: validation_failure_def getDefaultBackend_Inr)

context runtime_backend
begin

lemma layer_put:
  assumes "RL_getDefaultBackend s = Inr b" "inv b" "good u" "RL_Put perr R ctx now u (Some r) s = Some (res, s')"
  shows "\<exists>b'. RL_getDefaultBackend s' = Inr b' \<and> sl_config s' = sl_config s \<and> inv b' \<and>
    held b' = (if res = None then (held b)(u \<mapsto> shown r) else held b)"
proof (cases "RT_ValidateURI perr u = None \<and> ValidateResourceSize (int (length (bytes (sr_Body r)))) = None")
  case True
  with assms(1,4) have run: "only_error (doWithRetry ''write'' (sl_defaultBackend s) ctx
      (\<lambda>a b. no_result (rb_Put R (now a) u r b)) b s) = (res, s')"
    by (simp add: RL_Put_def PutToBackend_def GetBackend_default)
  have "\<exists>b'. RL_getDefaultBackend s' = Inr b' \<and> sl_config s' = sl_config s \<and>
    (if res = None then inv b' \<and> held b' = (held b)(u \<mapsto> shown r) else inv b' \<and> held b' = held b)"
    by (rule write_with_retry [OF assms(1) _ run]) (use assms(2,3) put in auto)
  then show ?thesis by (auto split: if_splits)
next
  case False
  then have "s' = validation_failure ''uri'' s \<or> s' = validation_failure ''size'' s" "res \<noteq> None"
    using assms(4) by (auto simp: RL_Put_def split: option.splits)
  with assms(1,2) refused_before_backend [OF assms(1)] show ?thesis by auto
qed

lemma layer_delete:
  assumes "RL_getDefaultBackend s = Inr b" "inv b" "good u" "RL_Delete perr R ctx u s = (res, s')"
  shows "\<exists>b'. RL_getDefaultBackend s' = Inr b' \<and> sl_config s' = sl_config s \<and> inv b' \<and>
    held b' = (if res = None then (held b)(u := None) else held b)"
proof (cases "RT_ValidateURI perr u")
  case None
  with assms(1,4) have run: "only_error (doWithRetry ''delete'' (sl_defaultBackend s) ctx
      (\<lambda>a b. no_result (rb_Delete R u b)) b s) = (res, s')"
    by (simp add: RL_Delete_def DeleteFromBackend_def GetBackend_default)
  have "\<exists>b'. RL_getDefaultBackend s' = Inr b' \<and> sl_config s' = sl_config s \<and>
    (if res = None then inv b' \<and> held b' = (held b)(u := None) else inv b' \<and> held b' = held b)"
    by (rule write_with_retry [OF assms(1) _ run]) (use assms(2,3) delete in auto)
  then show ?thesis by (auto split: if_splits)
next
  case (Some err)
  with assms refused_before_backend [OF assms(1)] show ?thesis by (auto simp: RL_Delete_def)
qed

lemma layer_get:
  assumes "RL_getDefaultBackend s = Inr b" "inv b" "good u" "RT_ValidateURI perr u = None"
    and "0 \<le> sc_MaxRetries (sl_config s)"
  shows "case held b u of
      Some v \<Rightarrow> \<exists>r. fst (RL_Get perr R ctx u s) = Inr r \<and> shown r = v
    | None \<Rightarrow> \<exists>e. fst (RL_Get perr R ctx u s) = Inl e"
proof -
  obtain r b1 where rb: "rb_Get R u b = (r, b1)" by (cases "rb_Get R u b")
  note law = get [OF assms(2,3) rb]
  then have final: "\<not> transient (r, b1)" by (auto simp: transient_def split: option.splits)
  obtain res s' where run: "doWithRetry ''read'' (sl_defaultBackend s) ctx (\<lambda>a. rb_Get R u) b s = (res, s')"
    by (cases "doWithRetry ''read'' (sl_defaultBackend s) ctx (\<lambda>a. rb_Get R u) b s")
  from assms(1,4) run have "fst (RL_Get perr R ctx u s) = res"
    by (simp add: RL_Get_def GetFromBackend_def GetBackend_default)
  moreover have "res = r" by (rule doWithRetry_final [OF assms(5) rb final run])
  ultimately show ?thesis using law by (auto split: option.splits)
qed

end

section \<open>Runs of the layer\<close>

text \<open>A sequence of writes and deletions, the answers of the layer, and what a reader then sees.\<close>

datatype layer_op = LPut "nat \<Rightarrow> gotime" string StorageResource | LDelete string

primrec op_uri :: "layer_op \<Rightarrow> string" where
  "op_uri (LPut now u r) = u"
| "op_uri (LDelete u) = u"

primrec layer_step ::
  "(string \<Rightarrow> string) \<Rightarrow> 'b RuntimeBackend \<Rightarrow> waiting \<Rightarrow> layer_op \<Rightarrow> 'b StorageAbstractionLayer \<Rightarrow>
   rterror option \<times> 'b StorageAbstractionLayer" where
  "layer_step perr R ctx (LPut now u r) s =
     (case RL_Put perr R ctx now u (Some r) s of Some p \<Rightarrow> p | None \<Rightarrow> (None, s))"
| "layer_step perr R ctx (LDelete u) s = RL_Delete perr R ctx u s"

fun layer_run ::
  "(string \<Rightarrow> string) \<Rightarrow> 'b RuntimeBackend \<Rightarrow> waiting \<Rightarrow> layer_op list \<Rightarrow> 'b StorageAbstractionLayer \<Rightarrow>
   rterror option list \<times> 'b StorageAbstractionLayer" where
  "layer_run perr R ctx [] s = ([], s)"
| "layer_run perr R ctx (op # ops) s =
     (case layer_step perr R ctx op s of
        (res, s) \<Rightarrow> case layer_run perr R ctx ops s of (rs, s) \<Rightarrow> (res # rs, s))"

definition observed ::
  "(string \<Rightarrow> string) \<Rightarrow> 'b RuntimeBackend \<Rightarrow> waiting \<Rightarrow> 'b StorageAbstractionLayer \<Rightarrow> string \<Rightarrow> (string \<times> string) option" where
  "observed perr R ctx s u = (case fst (RL_Get perr R ctx u s) of Inr r \<Rightarrow> Some (shown r) | Inl _ \<Rightarrow> None)"

text \<open>The specification: a map that the accepted operations update.\<close>

primrec spec_op :: "layer_op \<Rightarrow> (string \<Rightarrow> (string \<times> string) option) \<Rightarrow> string \<Rightarrow> (string \<times> string) option" where
  "spec_op (LPut now u r) h = h(u \<mapsto> shown r)"
| "spec_op (LDelete u) h = h(u := None)"

definition spec_run :: "(layer_op \<times> rterror option) list \<Rightarrow> (string \<Rightarrow> (string \<times> string) option) \<Rightarrow> string \<Rightarrow> (string \<times> string) option" where
  "spec_run = fold (\<lambda>(op, res) h. if res = None then spec_op op h else h)"

text \<open>The answer that the checks of the layer alone give.\<close>

primrec verdict :: "(string \<Rightarrow> string) \<Rightarrow> layer_op \<Rightarrow> rterror option" where
  "verdict perr (LPut now u r) =
     (case RT_ValidateURI perr u of
        Some err \<Rightarrow> Some (invalid_uri err)
      | None \<Rightarrow> map_option (\<lambda>err. Plain (Errorf ''resource validation failed: '' err []))
          (ValidateResourceSize (int (length (bytes (sr_Body r))))))"
| "verdict perr (LDelete u) = map_option invalid_uri (RT_ValidateURI perr u)"

lemma RL_Put_total: "RL_Put perr R ctx now u (Some r) s \<noteq> None"
  by (simp add: RL_Put_def split: option.split)

context runtime_backend
begin

lemma layer_step_refines:
  assumes "RL_getDefaultBackend s = Inr b" "inv b" "good (op_uri op)" "layer_step perr R ctx op s = (res, s')"
  shows "\<exists>b'. RL_getDefaultBackend s' = Inr b' \<and> sl_config s' = sl_config s \<and> inv b' \<and>
    held b' = (if res = None then spec_op op (held b) else held b)"
proof (cases op)
  case (LPut now u r)
  with assms RL_Put_total [of perr R ctx now u r s]
  have "RL_Put perr R ctx now u (Some r) s = Some (res, s')" by auto
  from layer_put [OF assms(1,2) _ this] assms(3) LPut show ?thesis by auto
next
  case (LDelete u)
  with assms(4) have "RL_Delete perr R ctx u s = (res, s')" by simp
  from layer_delete [OF assms(1,2) _ this] assms(3) LDelete show ?thesis by auto
qed

lemma layer_run_refines:
  assumes "RL_getDefaultBackend s = Inr b" "inv b" "\<forall>op\<in>set ops. good (op_uri op)"
    and "layer_run perr R ctx ops s = (rs, s')"
  shows "\<exists>b'. RL_getDefaultBackend s' = Inr b' \<and> sl_config s' = sl_config s \<and> inv b' \<and>
    held b' = spec_run (zip ops rs) (held b)"
  using assms
proof (induction ops arbitrary: s b rs)
  case Nil
  then show ?case by (simp add: spec_run_def)
next
  case (Cons op ops)
  obtain res s1 where step: "layer_step perr R ctx op s = (res, s1)" by (cases "layer_step perr R ctx op s")
  obtain rs1 s2 where run: "layer_run perr R ctx ops s1 = (rs1, s2)" by (cases "layer_run perr R ctx ops s1")
  from Cons.prems(4) step run have eq: "rs = res # rs1" "s' = s2" by simp_all
  have "good (op_uri op)" using Cons.prems(3) by simp
  from layer_step_refines [OF Cons.prems(1,2) this step]
  obtain b1 where b1: "RL_getDefaultBackend s1 = Inr b1" "sl_config s1 = sl_config s" "inv b1"
    "held b1 = (if res = None then spec_op op (held b) else held b)" by blast
  from Cons.IH [OF b1(1,3) _ run [folded eq(2)]] Cons.prems(3)
  obtain b2 where "RL_getDefaultBackend s' = Inr b2" "sl_config s' = sl_config s1" "inv b2"
    "held b2 = spec_run (zip ops rs1) (held b1)" by auto
  then show ?case using b1(2,4) eq by (auto simp: spec_run_def)
qed

lemma observed_held:
  assumes "RL_getDefaultBackend s = Inr b" "inv b" "good u" "RT_ValidateURI perr u = None"
    and "0 \<le> sc_MaxRetries (sl_config s)"
  shows "observed perr R ctx s u = held b u"
  using layer_get [OF assms, where ctx = ctx] by (auto simp: observed_def split: option.splits)

end

text \<open>A backend that never refuses a write: then the answers of the layer do not depend on it.\<close>

locale reliable_backend = runtime_backend +
  assumes put_total: "inv b \<Longrightarrow> good u \<Longrightarrow> fst (rb_Put R now u r b) = None"
    and delete_total: "inv b \<Longrightarrow> good u \<Longrightarrow> fst (rb_Delete R u b) = None"
begin

lemma final_success:
  assumes "fst (f 0 b) = None" "0 \<le> sc_MaxRetries (sl_config s)"
  shows "fst (only_error (doWithRetry op name ctx (\<lambda>a b. no_result (f a b)) b s)) = None"
proof -
  obtain res s' where run: "doWithRetry op name ctx (\<lambda>a b. no_result (f a b)) b s = (res, s')"
    by (cases "doWithRetry op name ctx (\<lambda>a b. no_result (f a b)) b s")
  have "no_result (f 0 b) = (Inr (), snd (f 0 b))" using assms(1) by (simp add: no_result_def)
  from doWithRetry_final [OF assms(2) this _ run] run show ?thesis
    by (simp add: transient_def only_error_def)
qed

lemma layer_step_verdict:
  assumes "RL_getDefaultBackend s = Inr b" "inv b" "good (op_uri op)" "0 \<le> sc_MaxRetries (sl_config s)"
  shows "fst (layer_step perr R ctx op s) = verdict perr op"
proof (cases op)
  case (LPut now u r)
  have "fst (only_error (doWithRetry ''write'' (sl_defaultBackend s) ctx
      (\<lambda>a b. no_result (rb_Put R (now a) u r b)) b s)) = None"
    by (rule final_success) (use put_total assms LPut in auto)
  with LPut assms(1) show ?thesis
    by (auto simp: RL_Put_def PutToBackend_def GetBackend_default split: option.splits)
next
  case (LDelete u)
  have "fst (only_error (doWithRetry ''delete'' (sl_defaultBackend s) ctx
      (\<lambda>a b. no_result (rb_Delete R u b)) b s)) = None"
    by (rule final_success) (use delete_total assms LDelete in auto)
  with LDelete assms(1) show ?thesis
    by (auto simp: RL_Delete_def DeleteFromBackend_def GetBackend_default split: option.splits)
qed

lemma layer_run_verdicts:
  assumes "RL_getDefaultBackend s = Inr b" "inv b" "\<forall>op\<in>set ops. good (op_uri op)"
    and "0 \<le> sc_MaxRetries (sl_config s)"
  shows "fst (layer_run perr R ctx ops s) = map (verdict perr) ops"
  using assms
proof (induction ops arbitrary: s b)
  case Nil
  then show ?case by simp
next
  case (Cons op ops)
  obtain res s1 where step: "layer_step perr R ctx op s = (res, s1)" by (cases "layer_step perr R ctx op s")
  have good: "good (op_uri op)" using Cons.prems(3) by simp
  from layer_step_refines [OF Cons.prems(1,2) good step]
  obtain b1 where b1: "RL_getDefaultBackend s1 = Inr b1" "sl_config s1 = sl_config s" "inv b1" by blast
  have "fst (layer_run perr R ctx ops s1) = map (verdict perr) ops"
    by (rule Cons.IH [OF b1(1,3)]) (use Cons.prems b1(2) in auto)
  moreover have "res = verdict perr op"
    using layer_step_verdict [OF Cons.prems(1,2) good Cons.prems(4)] step by (metis fst_conv)
  ultimately show ?case using step by (cases "layer_run perr R ctx ops s1") simp
qed

text \<open>So the answers and the later reads are those of the specification.\<close>

lemma run_as_specified:
  assumes "RL_getDefaultBackend s = Inr b" "inv b" "\<forall>op\<in>set ops. good (op_uri op)"
    and "0 \<le> sc_MaxRetries (sl_config s)" and "layer_run perr R ctx ops s = (rs, s')"
    and "good u" "RT_ValidateURI perr u = None"
  shows "rs = map (verdict perr) ops \<and>
    observed perr R ctx' s' u = spec_run (zip ops (map (verdict perr) ops)) (held b) u"
proof -
  have rs: "rs = map (verdict perr) ops"
    using layer_run_verdicts [OF assms(1-4), where perr = perr and ctx = ctx] assms(5) by simp
  from layer_run_refines [OF assms(1-3,5)]
  obtain b' where b': "RL_getDefaultBackend s' = Inr b'" "sl_config s' = sl_config s" "inv b'"
    "held b' = spec_run (zip ops rs) (held b)" by blast
  have "observed perr R ctx' s' u = held b' u"
    by (rule observed_held [OF b'(1,3) assms(6,7)]) (simp add: b'(2) assms(4))
  with b'(4) rs show ?thesis by simp
qed

end

section \<open>Properties\<close>

lemma begun_first: "begun cfg ctx (0 # as) = 0 # begun cfg ctx as"
  by (simp add: begun_def)

lemma outcomes_length [simp]: "length (outcomes fn as b) = length as"
  by (induction as arbitrary: b) auto

lemma begun_length: "length (begun cfg ctx as) \<le> length as"
  by (simp add: begun_def length_takeWhile_le)

text \<open>C29: The retry loop answers with the first call that succeeds or fails for good, and keeps the state
  after exactly the calls up to that one. If every call that the context lets begin fails transiently, it
  reports the last failure, or the cancellation. It makes at least one call and at most one more than the
  configured number of retries, and counts one operation and one retry per repeated attempt. The wait
  before an attempt doubles each time up to the configured maximum.\<close>

theorem retry_exact:
  assumes "doWithRetry op name ctx fn b s = (res, s')" and "sc_MaxRetries (sl_config s) = int k"
    and "os = outcomes fn (begun (sl_config s) ctx [0..<Suc k]) b"
  shows "(case find (\<lambda>p. \<not> transient p) os of
       Some p \<Rightarrow> res = fst p \<and> mget (sl_backends s') name = Some (snd p)
     | None \<Rightarrow> res = Inl (gives_up (sl_config s) ctx [0..<Suc k] (last_error os None)) \<and>
         mget (sl_backends s') name = Some (snd (last os))) \<and>
    1 \<le> length os \<and> length os \<le> Suc k \<and>
    sa_TotalOperations (sl_metrics s') = sa_TotalOperations (sl_metrics s) + 1 \<and>
    sa_RetryAttempts (sl_metrics s') = sa_RetryAttempts (sl_metrics s) + int (min k (length (takeWhile transient os))) \<and>
    (\<forall>a\<le>63. 0 \<le> sc_BackoffBase (sl_config s) \<and> sc_BackoffBase (sl_config s) * 2 ^ (a - 1) \<le> int64_max \<longrightarrow>
       calculateBackoff (sl_config s) a = min (sc_BackoffBase (sl_config s) * 2 ^ (a - 1)) (sc_BackoffMax (sl_config s)))"
proof -
  have n: "nat (sc_MaxRetries (sl_config s) + 1) = Suc k" using assms(2) by simp
  obtain m b' where loop: "retry_loop (sl_config s) op name ctx fn (Suc k) 0 None (sl_metrics s) b = (res, m, b')"
    and s': "s' = s\<lparr>sl_metrics := m, sl_backends := mset_at name b' (sl_backends s)\<rparr>"
    using assms(1) unfolding doWithRetry_def n by (auto split: prod.splits)
  note exact = retry_loop_exact [OF loop _ assms(3), simplified add_0_left, OF refl]
  have "[0..<Suc k] = 0 # [1..<Suc k]" by (simp add: upt_conv_Cons del: upt_Suc)
  then have ne: "1 \<le> length os"
    unfolding assms(3) by (simp only: begun_first outcomes.simps) simp
  moreover have "length os \<le> Suc k"
    unfolding assms(3) outcomes_length by (rule order_trans [OF begun_length]) simp
  moreover have "os \<noteq> []" using ne by auto
  ultimately show ?thesis
    using exact calculateBackoff_exact [of "sl_config s"]
    by (auto simp: s' min_def split: option.splits)
qed

text \<open>A backend that fails twice before it answers.\<close>

definition flaky :: "nat \<Rightarrow> nat \<Rightarrow> string rtresult \<times> nat" where
  "flaky attempt n = (if n < 2 then (Inl (HTTPError 503 ''Service Unavailable''), n + 1) else (Inr ''ok'', n + 1))"

definition flaky_layer :: "nat StorageAbstractionLayer" where
  "flaky_layer = (NewStorageAbstractionLayer DefaultStorageAbstractionConfig)\<lparr>sl_backends := [(''default'', 0)]\<rparr>"

lemma flaky_outcomes:
  "outcomes flaky (begun (sl_config flaky_layer) (\<lambda>a w. None) [0..<Suc 3]) 0 =
     [(Inl (HTTPError 503 ''Service Unavailable''), 1), (Inl (HTTPError 503 ''Service Unavailable''), 2),
      (Inr ''ok'', 3), (Inr ''ok'', 4)]"
  by (simp add: begun_def flaky_def upt_rec)

theorem retry_exact_witness:
  "\<exists>s'. doWithRetry ''read'' ''default'' (\<lambda>a w. None) flaky 0 flaky_layer = (Inr ''ok'', s') \<and>
     mget (sl_backends s') ''default'' = Some 3 \<and> sa_RetryAttempts (sl_metrics s') = 2"
proof -
  obtain res s' where run: "doWithRetry ''read'' ''default'' (\<lambda>a w. None) flaky 0 flaky_layer = (res, s')"
    by (cases "doWithRetry ''read'' ''default'' (\<lambda>a w. None) flaky 0 flaky_layer")
  have k: "sc_MaxRetries (sl_config flaky_layer) = int 3" "sa_RetryAttempts (sl_metrics flaky_layer) = 0"
    by (simp_all add: flaky_layer_def NewStorageAbstractionLayer_def DefaultStorageAbstractionConfig_def)
  have "shouldRetry (HTTPError 503 ''Service Unavailable'')"
    by (simp add: shouldRetry_def)
  with retry_exact [OF run k(1) flaky_outcomes [symmetric]] run k(2) show ?thesis
    by (simp add: transient_def)
qed

section \<open>Remarks on the code\<close>

text \<open>The comment on the backoff speaks of jitter, but the wait is a function of the configuration and the
  attempt; and after 64 doublings the shift has left the machine word, so that there is no wait.\<close>

lemma backoff_vanishes: "calculateBackoff DefaultStorageAbstractionConfig 65 = 0"
  by (simp add: calculateBackoff_def DefaultStorageAbstractionConfig_def int64_wrap_def)

end
