(* ===== verification/Runtime_Memory.thy ===== *)
theory Runtime_Memory
  imports Runtime_Storage
begin

text \<open>
  The in-memory backend of the native runtime (\<open>InMemoryStorageBackend\<close> of \<open>internal/runtime/storage.go\<close>)
  with its conditional writes (\<open>storage_conditional.go\<close>).
\<close>

section \<open>The backend\<close>

record InMemoryStorageBackend =
  im_data :: "(string, StorageResource) gomap"
  im_name :: string
  im_closed :: bool

definition NewInMemoryStorageBackend :: "string \<Rightarrow> InMemoryStorageBackend" where
  "NewInMemoryStorageBackend name = \<lparr>im_data = [], im_name = name, im_closed = False\<rparr>"

definition im_closed_error :: rterror where
  "im_closed_error = Plain (ErrorsNew ''in-memory backend is closed'')"

definition im_not_found :: rterror where
  "im_not_found = HTTPError 404 ''resource not found''"

text \<open>\<open>append([]byte(nil), body...)\<close>: a copy, nil if there is nothing to copy.\<close>

definition copy_body :: "string option \<Rightarrow> string option" where
  "copy_body body = (if bytes body = [] then None else body)"

definition IM_Get :: "string \<Rightarrow> InMemoryStorageBackend \<Rightarrow> StorageResource rtresult" where
  "IM_Get uri m =
     (if im_closed m then Inl im_closed_error
      else case mget (im_data m) uri of
        None \<Rightarrow> Inl im_not_found
      | Some resource \<Rightarrow> Inr (resource\<lparr>sr_Body := copy_body (sr_Body resource)\<rparr>))"

definition IM_Put :: "gotime \<Rightarrow> string \<Rightarrow> StorageResource \<Rightarrow> InMemoryStorageBackend \<Rightarrow> rterror option \<times> InMemoryStorageBackend" where
  "IM_Put now uri resource m =
     (if im_closed m then (Some im_closed_error, m)
      else (None, m\<lparr>im_data := mset_at uri
        (resource\<lparr>sr_Body := copy_body (sr_Body resource), sr_LastModified := now\<rparr>) (im_data m)\<rparr>))"

definition IM_Delete :: "string \<Rightarrow> InMemoryStorageBackend \<Rightarrow> rterror option \<times> InMemoryStorageBackend" where
  "IM_Delete uri m =
     (if im_closed m then (Some im_closed_error, m)
      else (None, m\<lparr>im_data := mdelete uri (im_data m)\<rparr>))"

definition IM_List :: "string \<Rightarrow> InMemoryStorageBackend \<Rightarrow> StorageResource list rtresult" where
  "IM_List containerURI m =
     (if im_closed m then Inl im_closed_error
      else Inr (map (\<lambda>(uri, resource). resource\<lparr>sr_Body := copy_body (sr_Body resource)\<rparr>)
        (filter (\<lambda>(uri, resource). length containerURI = 0 \<or>
             length uri \<ge> length containerURI \<and> take (length containerURI) uri = containerURI) (im_data m))))"

definition IM_Exists :: "string \<Rightarrow> InMemoryStorageBackend \<Rightarrow> bool rtresult" where
  "IM_Exists uri m = (if im_closed m then Inl im_closed_error else Inr (mget (im_data m) uri \<noteq> None))"

definition IM_Head :: "string \<Rightarrow> InMemoryStorageBackend \<Rightarrow> StorageResourceMetadata rtresult" where
  "IM_Head uri m =
     (if im_closed m then Inl im_closed_error
      else case mget (im_data m) uri of None \<Rightarrow> Inl im_not_found | Some resource \<Rightarrow> Inr (sr_Metadata resource))"

definition IM_Close :: "InMemoryStorageBackend \<Rightarrow> InMemoryStorageBackend" where
  "IM_Close m = (if im_closed m then m else m\<lparr>im_closed := True, im_data := []\<rparr>)"

definition IM_HealthCheck :: "InMemoryStorageBackend \<Rightarrow> rterror option" where
  "IM_HealthCheck m = (if im_closed m then Some im_closed_error else None)"

section \<open>Conditional writes\<close>

fun etagListMatches :: "string list \<Rightarrow> string \<Rightarrow> bool \<Rightarrow> bool" where
  "etagListMatches [] current ex = False"
| "etagListMatches (value # values) current ex =
     (if value = ''*'' then ex
      else if ex \<and> value \<noteq> [] \<and> value = current then True
      else etagListMatches values current ex)"

definition evaluateStoragePreconditions :: "string \<Rightarrow> bool \<Rightarrow> StoragePreconditions \<Rightarrow> goerr" where
  "evaluateStoragePreconditions current ex preconditions =
     (if length (sp_IfMatch preconditions) > 0 \<and>
         (\<not> ex \<or> \<not> etagListMatches (sp_IfMatch preconditions) current ex)
      then Some (wrapf ErrStoragePreconditionFailed ''If-Match did not match current validator'')
      else if length (sp_IfNoneMatch preconditions) > 0 \<and>
         etagListMatches (sp_IfNoneMatch preconditions) current ex
      then Some (wrapf ErrStoragePreconditionFailed ''If-None-Match matched current validator'')
      else None)"

definition currentETag :: "StorageResource option \<Rightarrow> string" where
  "currentETag resource =
     (case resource of
        None \<Rightarrow> []
      | Some resource \<Rightarrow> if sr_ETag resource \<noteq> [] then sr_ETag resource else sm_ETag (sr_Metadata resource))"

definition strongStorageETag :: "string \<Rightarrow> string" where
  "strongStorageETag body =
     CHR 0x22 # ''sha256-'' @ hex_EncodeToString (Sum256 body) @ [CHR 0x22]"

definition copyStorageResource :: "StorageResource \<Rightarrow> StorageResource" where
  "copyStorageResource resource = resource\<lparr>sr_Body := copy_body (sr_Body resource)\<rparr>"

text \<open>The resource that a conditional write stores in place of the current one.\<close>

definition conditional_entry :: "gotime \<Rightarrow> string \<Rightarrow> StorageResource option \<Rightarrow> StorageResource \<Rightarrow> StorageResource" where
  "conditional_entry now uri current resource =
     (let stored = (copyStorageResource resource)\<lparr>sr_URI := uri, sr_LastModified := now\<rparr>;
          stored = (if sr_ETag stored = [] then stored\<lparr>sr_ETag := strongStorageETag (bytes (sr_Body stored))\<rparr> else stored);
          md = (sr_Metadata stored)\<lparr>sm_ETag := sr_ETag stored, sm_Size := int (length (bytes (sr_Body stored)))\<rparr>;
          md = (if sm_ContentType md = [] then md\<lparr>sm_ContentType := sr_ContentType stored\<rparr> else md);
          md = (case current of
                  Some c \<Rightarrow> if IsZero (sm_Created md) then md\<lparr>sm_Created := sm_Created (sr_Metadata c)\<rparr> else md
                | None \<Rightarrow> md);
          md = (if IsZero (sm_Created md) then md\<lparr>sm_Created := sr_LastModified stored\<rparr> else md)
      in stored\<lparr>sr_Metadata := md\<lparr>sm_LastModified := sr_LastModified stored\<rparr>\<rparr>)"

definition IM_PutConditional ::
  "gotime \<Rightarrow> string \<Rightarrow> StorageResource \<Rightarrow> StoragePreconditions \<Rightarrow> InMemoryStorageBackend \<Rightarrow>
   rterror option \<times> InMemoryStorageBackend" where
  "IM_PutConditional now uri resource preconditions m =
     (if im_closed m then (Some im_closed_error, m)
      else
        let current = mget (im_data m) uri in
        case evaluateStoragePreconditions (currentETag current) (current \<noteq> None) preconditions of
          Some err \<Rightarrow> (Some (Plain err), m)
        | None \<Rightarrow> (None, m\<lparr>im_data := mset_at uri (conditional_entry now uri current resource) (im_data m)\<rparr>))"

definition IM_DeleteConditional ::
  "string \<Rightarrow> StoragePreconditions \<Rightarrow> InMemoryStorageBackend \<Rightarrow> rterror option \<times> InMemoryStorageBackend" where
  "IM_DeleteConditional uri preconditions m =
     (if im_closed m then (Some im_closed_error, m)
      else
        let current = mget (im_data m) uri in
        case evaluateStoragePreconditions (currentETag current) (current \<noteq> None) preconditions of
          Some err \<Rightarrow> (Some (Plain err), m)
        | None \<Rightarrow> (None, m\<lparr>im_data := mdelete uri (im_data m)\<rparr>))"

definition im_methods :: "InMemoryStorageBackend RuntimeBackend" where
  "im_methods =
     \<lparr>rb_Get = (\<lambda>uri m. (IM_Get uri m, m)), rb_Put = IM_Put, rb_Delete = IM_Delete,
      rb_List = (\<lambda>uri m. (IM_List uri m, m)), rb_Exists = (\<lambda>uri m. (IM_Exists uri m, m)),
      rb_Head = (\<lambda>uri m. (IM_Head uri m, m)), rb_Close = (\<lambda>m. (None, IM_Close m)), rb_HealthCheck = IM_HealthCheck,
      rb_Conditional = (\<lambda>m. True), rb_PutConditional = IM_PutConditional,
      rb_DeleteConditional = IM_DeleteConditional\<rparr>"

section \<open>Preconditions\<close>

text \<open>The list of validators matches as the HTTP specification says: a star matches every existing
  resource, an entity tag the resource that carries it.\<close>

lemma etagListMatches_iff:
  "etagListMatches values current ex \<longleftrightarrow> ex \<and> (''*'' \<in> set values \<or> current \<noteq> [] \<and> current \<in> set values)"
  by (induction "values" current ex rule: etagListMatches.induct) auto

lemma evaluateStoragePreconditions_None:
  "evaluateStoragePreconditions current ex pre = None \<longleftrightarrow>
     (sp_IfMatch pre \<noteq> [] \<longrightarrow> ex \<and> (''*'' \<in> set (sp_IfMatch pre) \<or> current \<noteq> [] \<and> current \<in> set (sp_IfMatch pre))) \<and>
     (ex \<longrightarrow> ''*'' \<notin> set (sp_IfNoneMatch pre) \<and> (current \<noteq> [] \<longrightarrow> current \<notin> set (sp_IfNoneMatch pre)))"
  by (auto simp: evaluateStoragePreconditions_def etagListMatches_iff)

text \<open>A conditional write is a compare-and-swap on the entity tag of the stored resource.\<close>

lemma PutConditional_exact:
  assumes "\<not> im_closed m"
  shows "IM_PutConditional now u r pre m =
    (case evaluateStoragePreconditions (currentETag (mget (im_data m) u)) (mget (im_data m) u \<noteq> None) pre of
       None \<Rightarrow> (None, m\<lparr>im_data := mset_at u (conditional_entry now u (mget (im_data m) u) r) (im_data m)\<rparr>)
     | Some err \<Rightarrow> (Some (Plain err), m))"
  using assms by (simp add: IM_PutConditional_def Let_def)

lemma conditional_entry_etag:
  "currentETag (Some (conditional_entry now u c r)) =
     (if sr_ETag r = [] then strongStorageETag (bytes (sr_Body r)) else sr_ETag r)"
  by (simp add: conditional_entry_def Let_def currentETag_def copyStorageResource_def strongStorageETag_def
      copy_body_def bytes_def split: option.split)

text \<open>After a conditional write, a writer that expects another entity tag is refused and changes nothing.\<close>

lemma stale_writer_refused:
  assumes "\<not> im_closed m" "IM_PutConditional now u r pre m = (None, m')"
    and "e \<noteq> ''*''" "e \<noteq> currentETag (mget (im_data m') u)"
  shows "\<exists>err. IM_PutConditional now' u r' \<lparr>sp_IfMatch = [e], sp_IfNoneMatch = none\<rparr> m' = (Some err, m')"
proof -
  have m': "\<not> im_closed m'" "mget (im_data m') u \<noteq> None"
    using assms(1,2) by (auto simp: PutConditional_exact split: option.splits)
  moreover have "evaluateStoragePreconditions (currentETag (mget (im_data m') u)) True
      \<lparr>sp_IfMatch = [e], sp_IfNoneMatch = none\<rparr> \<noteq> None"
    using assms(3,4) by (simp add: evaluateStoragePreconditions_None)
  ultimately show ?thesis by (auto simp: PutConditional_exact)
qed

section \<open>The backend meets the contract\<close>

lemma shown_copy [simp]: "shown (r\<lparr>sr_Body := copy_body (sr_Body r)\<rparr>) = shown r"
  "shown (r\<lparr>sr_Body := copy_body (sr_Body r), sr_LastModified := t\<rparr>) = shown r"
  by (simp_all add: shown_def copy_body_def bytes_def split: option.split)

lemma not_found_final [simp]: "\<not> shouldRetry im_not_found"
  by (simp add: im_not_found_def shouldRetry_def DeadlineExceeded_def)

definition im_held :: "InMemoryStorageBackend \<Rightarrow> string \<Rightarrow> (string \<times> string) option" where
  "im_held m u = map_option shown (mget (im_data m) u)"

interpretation im: reliable_backend im_methods "\<lambda>m. \<not> im_closed m" "\<lambda>u. True" im_held
proof unfold_locales
  fix b b' :: InMemoryStorageBackend and u res
  assume "\<not> im_closed b" "rb_Get im_methods u b = (res, b')"
  then show "\<not> im_closed b' \<and> im_held b' = im_held b \<and>
      (case im_held b u of None \<Rightarrow> \<exists>e. res = Inl e \<and> \<not> shouldRetry e | Some v \<Rightarrow> \<exists>r. res = Inr r \<and> shown r = v)"
    by (cases "mget (im_data b) u")
      (auto simp: im_methods_def IM_Get_def im_held_def)
next
  fix b b' :: InMemoryStorageBackend and u now r err
  assume "\<not> im_closed b" "rb_Put im_methods now u r b = (err, b')"
  then show "\<not> im_closed b' \<and> im_held b' = (if err = None then (im_held b)(u \<mapsto> shown r) else im_held b)"
    by (auto simp: im_methods_def IM_Put_def im_held_def fun_eq_iff)
next
  fix b b' :: InMemoryStorageBackend and u err
  assume "\<not> im_closed b" "rb_Delete im_methods u b = (err, b')"
  then show "\<not> im_closed b' \<and> im_held b' = (if err = None then (im_held b)(u := None) else im_held b)"
    by (auto simp: im_methods_def IM_Delete_def im_held_def fun_eq_iff)
next
  fix b b' :: InMemoryStorageBackend and u res'
  assume "\<not> im_closed b" "rb_Exists im_methods u b = (res', b')"
  then show "\<not> im_closed b' \<and> im_held b' = im_held b \<and> res' = Inr (im_held b u \<noteq> None)"
    by (auto simp: im_methods_def IM_Exists_def im_held_def)
next
  fix b :: InMemoryStorageBackend and u now r
  assume "\<not> im_closed b"
  then show "fst (rb_Put im_methods now u r b) = None" "fst (rb_Delete im_methods u b) = None"
    by (simp_all add: im_methods_def IM_Put_def IM_Delete_def)
qed

end
