(* ===== verification/Storage_Adapter.thy ===== *)
theory Storage_Adapter
  imports Runtime_Memory Memory_Backend
begin

text \<open>
  The adapter that lets the runtime's storage layer use a backend of package \<open>storage\<close>
  (\<open>internal/runtime/storage_adapter.go\<close>). Its cache hooks are functions on the state \<open>'c\<close> of the caches
  they close over; a missing hook is \<open>None\<close>.
\<close>

section \<open>State\<close>

definition ErrResourceNotFound :: goerror where
  "ErrResourceNotFound = ErrorsNew ''resource not found''"

definition ErrResourceExists :: goerror where
  "ErrResourceExists = ErrorsNew ''resource already exists''"

definition RT_ErrQuotaExceeded :: goerror where
  "RT_ErrQuotaExceeded = ErrorsNew ''quota exceeded''"

definition ErrStorageUnavailable :: goerror where
  "ErrStorageUnavailable = ErrorsNew ''storage unavailable''"

record StorageEngineAdapterMetrics =
  am_TotalRequests :: int
  am_SuccessfulRequests :: int
  am_FailedRequests :: int
  am_GetOperations :: int
  am_PutOperations :: int
  am_DeleteOperations :: int
  am_ListOperations :: int
  am_LastError :: string

definition AM_RecordRequest :: "string \<Rightarrow> bool \<Rightarrow> goerr \<Rightarrow> StorageEngineAdapterMetrics \<Rightarrow> StorageEngineAdapterMetrics" where
  "AM_RecordRequest operation success err m =
     (let m = m\<lparr>am_TotalRequests := am_TotalRequests m + 1\<rparr>;
          m = (if success then m\<lparr>am_SuccessfulRequests := am_SuccessfulRequests m + 1\<rparr>
               else let m = m\<lparr>am_FailedRequests := am_FailedRequests m + 1\<rparr>
                    in case err of None \<Rightarrow> m | Some e \<Rightarrow> m\<lparr>am_LastError := Error e\<rparr>)
      in if operation = ''get'' then m\<lparr>am_GetOperations := am_GetOperations m + 1\<rparr>
         else if operation = ''put'' then m\<lparr>am_PutOperations := am_PutOperations m + 1\<rparr>
         else if operation = ''delete'' then m\<lparr>am_DeleteOperations := am_DeleteOperations m + 1\<rparr>
         else if operation = ''list'' then m\<lparr>am_ListOperations := am_ListOperations m + 1\<rparr>
         else m)"

record ('b, 'i) StorageEngineAdapter =
  ad_backend :: 'b
  ad_metrics :: StorageEngineAdapterMetrics
  ad_policyCacheInvalidator :: "('i \<Rightarrow> 'i) option"
  ad_authzCacheInvalidator :: "(string \<Rightarrow> 'i \<Rightarrow> goerr \<times> 'i) option"
  ad_caches :: 'i

definition NewStorageEngineAdapterWithCache ::
  "'b \<Rightarrow> ('i \<Rightarrow> 'i) option \<Rightarrow> (string \<Rightarrow> 'i \<Rightarrow> goerr \<times> 'i) option \<Rightarrow> 'i \<Rightarrow> ('b, 'i) StorageEngineAdapter" where
  "NewStorageEngineAdapterWithCache backend policyCacheInvalidator authzCacheInvalidator caches =
     \<lparr>ad_backend = backend,
      ad_metrics = \<lparr>am_TotalRequests = 0, am_SuccessfulRequests = 0, am_FailedRequests = 0, am_GetOperations = 0,
        am_PutOperations = 0, am_DeleteOperations = 0, am_ListOperations = 0, am_LastError = []\<rparr>,
      ad_policyCacheInvalidator = policyCacheInvalidator, ad_authzCacheInvalidator = authzCacheInvalidator,
      ad_caches = caches\<rparr>"

definition NewStorageEngineAdapter :: "'b \<Rightarrow> 'i \<Rightarrow> ('b, 'i) StorageEngineAdapter" where
  "NewStorageEngineAdapter backend caches = NewStorageEngineAdapterWithCache backend None None caches"

definition recorded :: "string \<Rightarrow> bool \<Rightarrow> goerr \<Rightarrow> ('b, 'i) StorageEngineAdapter \<Rightarrow> ('b, 'i) StorageEngineAdapter" where
  "recorded operation success err a = a\<lparr>ad_metrics := AM_RecordRequest operation success err (ad_metrics a)\<rparr>"

section \<open>Conversions\<close>

text \<open>The two conversions of metadata are only called on a pointer that is not nil; their answer to nil, which
  is nil, is left out.\<close>

definition runtime_custom :: "Metadata \<Rightarrow> (string, string) gomap" where
  "runtime_custom m =
     [(''resourceType'', md_ResourceType m), (''uri'', md_URI m), (''owner'', md_Owner m),
      (''storageRoot'', md_StorageRoot m), (''tenant'', md_Tenant m)]"

definition convertMetadataToRuntimeMetadata :: "Metadata \<Rightarrow> StorageResourceMetadata" where
  "convertMetadataToRuntimeMetadata m =
     \<lparr>sm_Size = md_Size m, sm_ContentType = md_ContentType m, sm_ETag = md_ETag m,
      sm_LastModified = md_LastModified m, sm_Created = md_Created m, sm_Custom = runtime_custom m\<rparr>"

definition convertToRuntimeResource :: "Resource option \<Rightarrow> StorageResource result" where
  "convertToRuntimeResource prodResource =
     (case prodResource of
        None \<Rightarrow> Inl (ErrorsNew ''nil production resource'')
      | Some r \<Rightarrow> let m = rs_Metadata r in
          Inr \<lparr>sr_URI = rs_URI r, sr_ContentType = md_ContentType m, sr_Body = rs_Body r,
               sr_Metadata = convertMetadataToRuntimeMetadata m, sr_ETag = md_ETag m,
               sr_LastModified = md_LastModified m\<rparr>)"

definition convertMetadataToRuntimeResource :: "Metadata \<Rightarrow> StorageResource" where
  "convertMetadataToRuntimeResource m =
     \<lparr>sr_URI = md_URI m, sr_ContentType = md_ContentType m, sr_Body = None,
      sr_Metadata = convertMetadataToRuntimeMetadata m, sr_ETag = md_ETag m, sr_LastModified = md_LastModified m\<rparr>"

definition production_type :: "string option \<Rightarrow> ResourceType" where
  "production_type resourceType =
     (case resourceType of
        None \<Rightarrow> ResourceTypeResource
      | Some t \<Rightarrow>
          if t = ''Resource'' then ResourceTypeResource
          else if t = ''Container'' then ResourceTypeContainer
          else if t = ''ACL'' then ResourceTypeACL
          else if t = ''ACP'' then ResourceTypeACP
          else if t = ''Metadata'' then ResourceTypeMetadata
          else if t = ''Blob'' then ResourceTypeBlob
          else ResourceTypeUnknown)"

definition custom_field :: "string \<Rightarrow> StorageResource \<Rightarrow> string" where
  "custom_field k r = (case mget (sm_Custom (sr_Metadata r)) k of None \<Rightarrow> [] | Some v \<Rightarrow> v)"

definition convertToProductionResource :: "string \<Rightarrow> StorageResource option \<Rightarrow> WriteResource result" where
  "convertToProductionResource uri runtimeResource =
     (case runtimeResource of
        None \<Rightarrow> Inl (ErrorsNew ''nil runtime resource'')
      | Some r \<Rightarrow>
          Inr \<lparr>wr_URI = uri, wr_Body = sr_Body r, wr_BodyReader = None, wr_BodySize = 0,
               wr_Metadata = zero_Metadata\<lparr>md_URI := uri,
                 md_ResourceType := production_type (mget (sm_Custom (sr_Metadata r)) ''resourceType''),
                 md_ContentType := sr_ContentType r, md_Size := sm_Size (sr_Metadata r), md_ETag := sr_ETag r,
                 md_LastModified := sr_LastModified r, md_Created := sm_Created (sr_Metadata r),
                 md_Owner := custom_field ''owner'' r, md_StorageRoot := custom_field ''storageRoot'' r,
                 md_Tenant := custom_field ''tenant'' r, md_LayoutVersion := CurrentStorageLayoutVersion\<rparr>,
               wr_Preconditions = \<lparr>wp_IfMatch = [], wp_IfNoneMatch = [], wp_CompareAndSwap = None\<rparr>\<rparr>)"

definition invalidateCaches :: "string \<Rightarrow> ('b, 'i) StorageEngineAdapter \<Rightarrow> ('b, 'i) StorageEngineAdapter" where
  "invalidateCaches uri a =
     (let a = (case ad_policyCacheInvalidator a of None \<Rightarrow> a | Some f \<Rightarrow> a\<lparr>ad_caches := f (ad_caches a)\<rparr>)
      in case ad_authzCacheInvalidator a of None \<Rightarrow> a | Some f \<Rightarrow> a\<lparr>ad_caches := snd (f uri (ad_caches a))\<rparr>)"

section \<open>Operations\<close>

text \<open>The runtime's error for an error of the backend, as \<open>Get\<close>, \<open>Delete\<close>, \<open>List\<close> and \<open>Head\<close>, \<open>Put\<close> and \<open>Exists\<close> map it.\<close>

definition storage_error :: "goerror \<Rightarrow> goerror" where
  "storage_error err = Errorf ''storage error: '' err []"

definition read_error :: "goerror \<Rightarrow> goerror" where
  "read_error err =
     (if errors_Is err ErrNotFound then ErrResourceNotFound
      else if errors_Is err ErrStorageClosed then ErrStorageUnavailable
      else storage_error err)"

definition write_error :: "goerror \<Rightarrow> goerror" where
  "write_error err =
     (if errors_Is err ErrAlreadyExists then ErrResourceExists
      else if errors_Is err ErrQuotaExceeded then RT_ErrQuotaExceeded
      else if errors_Is err ErrStorageClosed then ErrStorageUnavailable
      else storage_error err)"

definition exists_error :: "goerror \<Rightarrow> goerror" where
  "exists_error err = (if errors_Is err ErrStorageClosed then ErrStorageUnavailable else storage_error err)"

definition empty_uri_error :: goerror where
  "empty_uri_error = ErrorsNew ''URI cannot be empty''"

definition AD_Get ::
  "(string \<Rightarrow> string) \<Rightarrow> 'b StorageBackend \<Rightarrow> gocontext \<Rightarrow> string \<Rightarrow> ('b, 'i) StorageEngineAdapter \<Rightarrow>
   StorageResource result \<times> ('b, 'i) StorageEngineAdapter" where
  "AD_Get perr B ctx uri a =
     (let a = recorded ''get'' False None a in
      if uri = [] then (Inl empty_uri_error, recorded ''get'' False (Some empty_uri_error) a)
      else case RT_ValidateURI perr uri of
        Some err \<Rightarrow> (Inl (Errorf ''invalid URI: '' err []), recorded ''get'' False (Some err) a)
      | None \<Rightarrow>
        case sb_Get B ctx uri (ad_backend a) of
          Inl err \<Rightarrow> (Inl (read_error err), recorded ''get'' False (Some err) a)
        | Inr r \<Rightarrow>
          case convertToRuntimeResource (Some r) of
            Inl err \<Rightarrow> (Inl err, recorded ''get'' False (Some err) a)
          | Inr resource \<Rightarrow> (Inr resource, recorded ''get'' True None a))"

definition AD_Put ::
  "(string \<Rightarrow> string) \<Rightarrow> 'b StorageBackend \<Rightarrow> gocontext \<Rightarrow> gotime \<Rightarrow> string \<Rightarrow> StorageResource option \<Rightarrow>
   ('b, 'i) StorageEngineAdapter \<Rightarrow> goerr \<times> ('b, 'i) StorageEngineAdapter" where
  "AD_Put perr B ctx now uri resource a =
     (let a = recorded ''put'' False None a in
      if uri = [] then (Some empty_uri_error, recorded ''put'' False (Some empty_uri_error) a)
      else if resource = None then
        let err = ErrorsNew ''resource cannot be nil'' in (Some err, recorded ''put'' False (Some err) a)
      else case RT_ValidateURI perr uri of
        Some err \<Rightarrow> (Some (Errorf ''invalid URI: '' err []), recorded ''put'' False (Some err) a)
      | None \<Rightarrow>
        case convertToProductionResource uri resource of
          Inl err \<Rightarrow> (Some err, recorded ''put'' False (Some err) a)
        | Inr prodResource \<Rightarrow>
          case sb_Put B ctx now uri (Some prodResource) (ad_backend a) of
            (Some err, b) \<Rightarrow> (Some (write_error err), recorded ''put'' False (Some err) (a\<lparr>ad_backend := b\<rparr>))
          | (None, b) \<Rightarrow> (None, recorded ''put'' True None (invalidateCaches uri (a\<lparr>ad_backend := b\<rparr>))))"

definition AD_Delete ::
  "(string \<Rightarrow> string) \<Rightarrow> 'b StorageBackend \<Rightarrow> gocontext \<Rightarrow> string \<Rightarrow> ('b, 'i) StorageEngineAdapter \<Rightarrow>
   goerr \<times> ('b, 'i) StorageEngineAdapter" where
  "AD_Delete perr B ctx uri a =
     (let a = recorded ''delete'' False None a in
      if uri = [] then (Some empty_uri_error, recorded ''delete'' False (Some empty_uri_error) a)
      else case RT_ValidateURI perr uri of
        Some err \<Rightarrow> (Some (Errorf ''invalid URI: '' err []), recorded ''delete'' False (Some err) a)
      | None \<Rightarrow>
        case sb_Delete B ctx uri (ad_backend a) of
          (Some err, b) \<Rightarrow> (Some (read_error err), recorded ''delete'' False (Some err) (a\<lparr>ad_backend := b\<rparr>))
        | (None, b) \<Rightarrow> (None, recorded ''delete'' True None (invalidateCaches uri (a\<lparr>ad_backend := b\<rparr>))))"

definition AD_List ::
  "(string \<Rightarrow> string) \<Rightarrow> 'b StorageBackend \<Rightarrow> gocontext \<Rightarrow> string \<Rightarrow> ('b, 'i) StorageEngineAdapter \<Rightarrow>
   StorageResource list result \<times> ('b, 'i) StorageEngineAdapter" where
  "AD_List perr B ctx containerURI a =
     (let a = recorded ''list'' False None a in
      if containerURI = [] then
        let err = ErrorsNew ''container URI cannot be empty'' in (Inl err, recorded ''list'' False (Some err) a)
      else case RT_ValidateURI perr containerURI of
        Some err \<Rightarrow> (Inl (Errorf ''invalid container URI: '' err []), recorded ''list'' False (Some err) a)
      | None \<Rightarrow>
        case sb_List B ctx containerURI (ad_backend a) of
          Inl err \<Rightarrow> (Inl (read_error err), recorded ''list'' False (Some err) a)
        | Inr ms \<Rightarrow> (Inr (map convertMetadataToRuntimeResource ms), recorded ''list'' True None a))"

definition AD_Exists ::
  "(string \<Rightarrow> string) \<Rightarrow> 'b StorageBackend \<Rightarrow> gocontext \<Rightarrow> string \<Rightarrow> ('b, 'i) StorageEngineAdapter \<Rightarrow>
   bool result \<times> ('b, 'i) StorageEngineAdapter" where
  "AD_Exists perr B ctx uri a =
     (let a = recorded ''exists'' False None a in
      if uri = [] then (Inl empty_uri_error, recorded ''exists'' False (Some empty_uri_error) a)
      else case RT_ValidateURI perr uri of
        Some err \<Rightarrow> (Inl (Errorf ''invalid URI: '' err []), recorded ''exists'' False (Some err) a)
      | None \<Rightarrow>
        case sb_Exists B ctx uri (ad_backend a) of
          Inl err \<Rightarrow> (Inl (exists_error err), recorded ''exists'' False (Some err) a)
        | Inr ex \<Rightarrow> (Inr ex, recorded ''exists'' True None a))"

definition AD_Head ::
  "(string \<Rightarrow> string) \<Rightarrow> 'b StorageBackend \<Rightarrow> gocontext \<Rightarrow> string \<Rightarrow> ('b, 'i) StorageEngineAdapter \<Rightarrow>
   StorageResourceMetadata result \<times> ('b, 'i) StorageEngineAdapter" where
  "AD_Head perr B ctx uri a =
     (let a = recorded ''head'' False None a in
      if uri = [] then (Inl empty_uri_error, recorded ''head'' False (Some empty_uri_error) a)
      else case RT_ValidateURI perr uri of
        Some err \<Rightarrow> (Inl (Errorf ''invalid URI: '' err []), recorded ''head'' False (Some err) a)
      | None \<Rightarrow>
        case sb_GetMetadata B ctx uri (ad_backend a) of
          Inl err \<Rightarrow> (Inl (read_error err), recorded ''head'' False (Some err) a)
        | Inr m \<Rightarrow> (Inr (convertMetadataToRuntimeMetadata m), recorded ''head'' True None a))"

section \<open>The adapter as a backend of the runtime\<close>

definition plain_result :: "'r result \<times> 's \<Rightarrow> 'r rtresult \<times> 's" where
  "plain_result p = ((case fst p of Inl err \<Rightarrow> Inl (Plain err) | Inr r \<Rightarrow> Inr r), snd p)"

definition plain_error :: "goerr \<times> 's \<Rightarrow> rterror option \<times> 's" where
  "plain_error p = (map_option Plain (fst p), snd p)"

text \<open>The adapter's \<open>Close\<close> and \<open>HealthCheck\<close> do nothing, and it has no conditional writes.\<close>

definition adapter_methods :: "(string \<Rightarrow> string) \<Rightarrow> 'b StorageBackend \<Rightarrow> ('b, 'i) StorageEngineAdapter RuntimeBackend" where
  "adapter_methods perr B =
     \<lparr>rb_Get = (\<lambda>uri a. plain_result (AD_Get perr B (Some ()) uri a)),
      rb_Put = (\<lambda>now uri resource a. plain_error (AD_Put perr B (Some ()) now uri (Some resource) a)),
      rb_Delete = (\<lambda>uri a. plain_error (AD_Delete perr B (Some ()) uri a)),
      rb_List = (\<lambda>uri a. plain_result (AD_List perr B (Some ()) uri a)),
      rb_Exists = (\<lambda>uri a. plain_result (AD_Exists perr B (Some ()) uri a)),
      rb_Head = (\<lambda>uri a. plain_result (AD_Head perr B (Some ()) uri a)),
      rb_Close = (\<lambda>a. (None, a)), rb_HealthCheck = (\<lambda>a. None),
      rb_Conditional = (\<lambda>a. False),
      rb_PutConditional = (\<lambda>now uri resource pre a. (None, a)), rb_DeleteConditional = (\<lambda>uri pre a. (None, a))\<rparr>"

lemma recorded_frame [simp]:
  "ad_backend (recorded op ok err a) = ad_backend a" "ad_caches (recorded op ok err a) = ad_caches a"
  "ad_policyCacheInvalidator (recorded op ok err a) = ad_policyCacheInvalidator a"
  "ad_authzCacheInvalidator (recorded op ok err a) = ad_authzCacheInvalidator a"
  by (simp_all add: recorded_def)

lemma invalidateCaches_backend [simp]: "ad_backend (invalidateCaches u a) = ad_backend a"
  by (simp add: invalidateCaches_def Let_def split: option.splits)

lemma not_found_is_final [simp]: "\<not> shouldRetry (Plain ErrResourceNotFound)"
  by (simp add: shouldRetry_def DeadlineExceeded_def io_EOF_def io_ErrUnexpectedEOF_def ErrResourceNotFound_def)

text \<open>What a reader of the adapter sees of a stored resource.\<close>

definition seen :: "Resource \<Rightarrow> string \<times> string" where
  "seen r = (bytes (rs_Body r), md_ContentType (rs_Metadata r))"

definition adapter_good :: "(string \<Rightarrow> string) \<Rightarrow> string \<Rightarrow> bool" where
  "adapter_good perr u \<longleftrightarrow> normal_uri u \<and> RT_ValidateURI perr u = None"

lemma adapter_good_nonempty: "adapter_good perr u \<Longrightarrow> u \<noteq> []"
  by (auto simp: adapter_good_def RT_ValidateURI_None)

lemma converted_keeps:
  "convertToProductionResource u (Some r) = Inr w \<Longrightarrow> keeps_written u w x \<Longrightarrow> seen x = shown r"
  by (auto simp: convertToProductionResource_def keeps_written_def written_body_def seen_def shown_def split: option.splits)

context storage_backend
begin

lemma adapter_get:
  assumes "inv (ad_backend a)" "adapter_good perr u" "rb_Get (adapter_methods perr B) u a = (res, a')"
  shows "ad_backend a' = ad_backend a \<and>
    (case stored (ad_backend a) u of
       Some r \<Rightarrow> \<exists>x. res = Inr x \<and> shown x = seen r
     | None \<Rightarrow> res = Inl (Plain ErrResourceNotFound))"
  using assms get [of "ad_backend a" u "Some ()"] adapter_good_nonempty [OF assms(2)]
  by (cases "stored (ad_backend a) u")
    (auto simp: adapter_methods_def plain_result_def AD_Get_def Let_def adapter_good_def read_error_def
      convertToRuntimeResource_def shown_def seen_def)

lemma adapter_put:
  assumes "inv (ad_backend a)" "adapter_good perr u" "rb_Put (adapter_methods perr B) now u r a = (err, a')"
  shows "inv (ad_backend a') \<and> (if err = None then \<exists>x. seen x = shown r \<and> stored (ad_backend a') = (stored (ad_backend a))(u \<mapsto> x)
    else stored (ad_backend a') = stored (ad_backend a))"
proof -
  obtain w where w: "convertToProductionResource u (Some r) = Inr w"
    by (simp add: convertToProductionResource_def)
  obtain e b where p: "sb_Put B (Some ()) now u (Some w) (ad_backend a) = (e, b)"
    by (cases "sb_Put B (Some ()) now u (Some w) (ad_backend a)")
  have u: "normal_uri u" "RT_ValidateURI perr u = None" "u \<noteq> []"
    using assms(2) adapter_good_nonempty [OF assms(2)] by (simp_all add: adapter_good_def)
  from assms(3) have eq: "err = map_option (Plain \<circ> write_error) e" "ad_backend a' = b"
    by (cases e; auto simp: adapter_methods_def plain_error_def AD_Put_def Let_def u w p)+
  show ?thesis
  proof (cases e)
    case None
    with put_ok [OF assms(1) u(1)] p obtain x where "inv b" "keeps_written u w x"
      "stored b = (stored (ad_backend a))(u \<mapsto> x)" by blast
    with eq None converted_keeps [OF w] show ?thesis by auto
  next
    case (Some e')
    with put_error [OF assms(1) u(1)] p eq show ?thesis by auto
  qed
qed

lemma adapter_delete:
  assumes "inv (ad_backend a)" "adapter_good perr u" "rb_Delete (adapter_methods perr B) u a = (err, a')"
  shows "err = None \<and> inv (ad_backend a') \<and> stored (ad_backend a') = (stored (ad_backend a))(u := None)"
proof -
  have u: "normal_uri u" "RT_ValidateURI perr u = None" "u \<noteq> []"
    using assms(2) adapter_good_nonempty [OF assms(2)] by (simp_all add: adapter_good_def)
  obtain b where b: "sb_Delete B (Some ()) u (ad_backend a) = (None, b)" "inv b"
    "stored b = (stored (ad_backend a))(u := None)"
    using delete [OF assms(1) u(1)] by blast
  from assms(3) have "err = None" "ad_backend a' = b"
    by (auto simp: adapter_methods_def plain_error_def AD_Delete_def Let_def u b(1))
  with b show ?thesis by simp
qed

lemma adapter_exists:
  assumes "inv (ad_backend a)" "adapter_good perr u" "rb_Exists (adapter_methods perr B) u a = (res, a')"
  shows "ad_backend a' = ad_backend a \<and> res = Inr (stored (ad_backend a) u \<noteq> None)"
  using assms exists [of "ad_backend a" u] adapter_good_nonempty [OF assms(2)]
  by (auto simp: adapter_methods_def plain_result_def AD_Exists_def Let_def adapter_good_def)

end

definition adapter_held :: "('b \<Rightarrow> string \<Rightarrow> Resource option) \<Rightarrow> ('b, 'i) StorageEngineAdapter \<Rightarrow> string \<Rightarrow> (string \<times> string) option" where
  "adapter_held stored a u = map_option seen (stored (ad_backend a) u)"

text \<open>Over every backend that keeps the contract of package \<open>storage\<close>, the adapter keeps the runtime's.\<close>

sublocale storage_backend \<subseteq> ad: runtime_backend "adapter_methods perr B" "\<lambda>a. inv (ad_backend a)"
  "adapter_good perr" "adapter_held stored" for perr
proof unfold_locales
  fix b b' :: "('b, 'a) StorageEngineAdapter" and u res
  assume "inv (ad_backend b)" "adapter_good perr u" "rb_Get (adapter_methods perr B) u b = (res, b')"
  from this(1) adapter_get [OF this] not_found_is_final
  show "inv (ad_backend b') \<and> adapter_held stored b' = adapter_held stored b \<and>
      (case adapter_held stored b u of None \<Rightarrow> \<exists>e. res = Inl e \<and> \<not> shouldRetry e
       | Some v \<Rightarrow> \<exists>r. res = Inr r \<and> shown r = v)"
    by (auto simp: adapter_held_def fun_eq_iff split: option.splits)
next
  fix b b' :: "('b, 'a) StorageEngineAdapter" and u now r err
  assume "inv (ad_backend b)" "adapter_good perr u" "rb_Put (adapter_methods perr B) now u r b = (err, b')"
  from adapter_put [OF this]
  show "inv (ad_backend b') \<and> adapter_held stored b' =
      (if err = None then (adapter_held stored b)(u \<mapsto> shown r) else adapter_held stored b)"
    by (auto simp: adapter_held_def fun_eq_iff split: if_splits)
next
  fix b b' :: "('b, 'a) StorageEngineAdapter" and u err
  assume "inv (ad_backend b)" "adapter_good perr u" "rb_Delete (adapter_methods perr B) u b = (err, b')"
  from adapter_delete [OF this]
  show "inv (ad_backend b') \<and> adapter_held stored b' =
      (if err = None then (adapter_held stored b)(u := None) else adapter_held stored b)"
    by (auto simp: adapter_held_def fun_eq_iff)
next
  fix b b' :: "('b, 'a) StorageEngineAdapter" and u res'
  assume "inv (ad_backend b)" "adapter_good perr u" "rb_Exists (adapter_methods perr B) u b = (res', b')"
  from this(1) adapter_exists [OF this]
  show "inv (ad_backend b') \<and> adapter_held stored b' = adapter_held stored b \<and>
      res' = Inr (adapter_held stored b u \<noteq> None)"
    by (auto simp: adapter_held_def fun_eq_iff)
qed

section \<open>The runtime on the in-memory backend of package storage\<close>

lemma converted_write:
  assumes "convertToProductionResource u (Some r) = Inr w"
  shows "wr_BodyReader w = None" "wr_Preconditions w = \<lparr>wp_IfMatch = [], wp_IfNoneMatch = [], wp_CompareAndSwap = None\<rparr>"
  using assms by (auto simp: convertToProductionResource_def)

lemma memory_put_total:
  assumes "mb_open (ad_backend a)" "adapter_good perr u"
  shows "fst (rb_Put (adapter_methods perr memory_methods) now u r a) = None"
proof -
  obtain w where w: "convertToProductionResource u (Some r) = Inr w"
    by (simp add: convertToProductionResource_def)
  have u: "RT_ValidateURI perr u = None" "u \<noteq> []"
    using assms(2) adapter_good_nonempty [OF assms(2)] by (simp_all add: adapter_good_def)
  have "put_error u (Some w) (ad_backend a) = None"
    using assms(1) u converted_write [OF w]
    by (simp add: put_error_def mb_open_def MB_checkClosed_def MB_preconditions_def MB_read_body_def split: option.split)
  then obtain qs w' where "MB_Put now u (Some w) (ad_backend a) = (None, put_state now u w' qs (ad_backend a))"
    using assms(1) MB_Put_ok mb_ok_quotas unfolding mb_open_def by metis
  then show ?thesis
    by (simp add: adapter_methods_def plain_error_def AD_Put_def Let_def u w memory_methods_def)
qed

interpretation stack: reliable_backend "adapter_methods perr memory_methods" "\<lambda>a. mb_open (ad_backend a)"
  "adapter_good perr" "adapter_held mb_stored" for perr
proof unfold_locales
  fix b :: "(memoryBackend, 'a) StorageEngineAdapter" and u now r
  assume b: "mb_open (ad_backend b)" "adapter_good perr u"
  then show "fst (rb_Put (adapter_methods perr memory_methods) now u r b) = None"
    by (rule memory_put_total)
  show "fst (rb_Delete (adapter_methods perr memory_methods) u b) = None"
    using mem.adapter_delete [OF b] by (cases "rb_Delete (adapter_methods perr memory_methods) u b") auto
qed

section \<open>Properties\<close>

lemma spec_run_cong: "h u = h' u \<Longrightarrow> spec_run xs h u = spec_run xs h' u"
proof (induction xs arbitrary: h h')
  case Nil
  then show ?case by (simp add: spec_run_def)
next
  case (Cons x xs)
  obtain op res where x: "x = (op, res)" by (cases x)
  have "spec_op op h u = spec_op op h' u" using Cons.prems by (cases op) auto
  then have step: "(if res = None then spec_op op h else h) u = (if res = None then spec_op op h' else h') u"
    using Cons.prems by auto
  have unfold: "spec_run (x # xs) k = spec_run xs (if res = None then spec_op op k else k)" for k
    by (simp add: x spec_run_def)
  show ?case unfolding unfold by (rule Cons.IH) (rule step)
qed


definition plain_resource :: "string \<Rightarrow> StorageResource" where
  "plain_resource body = \<lparr>sr_URI = [], sr_ContentType = ''text/plain'', sr_Body = Some body,
     sr_Metadata = \<lparr>sm_Size = 0, sm_ContentType = [], sm_ETag = [], sm_LastModified = 0, sm_Created = 0, sm_Custom = []\<rparr>,
     sr_ETag = ''v1'', sr_LastModified = 0\<rparr>"

definition layer_over :: "'b \<Rightarrow> 'b StorageAbstractionLayer" where
  "layer_over b = (NewStorageAbstractionLayer DefaultStorageAbstractionConfig)\<lparr>sl_backends := [(''default'', b)]\<rparr>"

lemma layer_over_simps [simp]:
  "RL_getDefaultBackend (layer_over b) = Inr b" "sc_MaxRetries (sl_config (layer_over b)) = 3"
  by (simp_all add: layer_over_def getDefaultBackend_Inr NewStorageAbstractionLayer_def
      DefaultStorageAbstractionConfig_def)

lemma RT_ValidateURI_internal:
  assumes "uri \<noteq> []" "length uri \<le> RT_MaxURILength" "\<not> list_ex is_control uri" "\<not> ContainsAny uri [CHR 0x5C, CHR ''#'']"
    and "map_option u_Scheme (url_Parse uri) = Some scheme" "scheme \<in> set allowedSchemes" "scheme \<noteq> ''http''" "scheme \<noteq> ''https''"
  shows "RT_ValidateURI perr uri = None"
  unfolding RT_ValidateURI_None using assms by auto

lemma memory_uri_valid: "RT_ValidateURI perr ''memory:/a'' = None"
  by (rule RT_ValidateURI_internal [where scheme = "''memory''"]; code_simp)

lemma memory_uri_normal: "normal_uri ''memory:/a''"
  by code_simp

lemma memory_uri_good: "adapter_good perr ''memory:/a''"
  unfolding adapter_good_def by (intro conjI memory_uri_normal memory_uri_valid)


section \<open>Remarks on the code\<close>

text \<open>An HTTP URI is accepted by the runtime but not normal for package \<open>storage\<close>, whose \<open>Delete\<close> looks for
  another key: the deletion is reported as done, and the resource is still served.\<close>

lemma http_resource_survives_delete:
  "let a = NewStorageEngineAdapter NewMemoryBackend ();
       (e1, a) = AD_Put (\<lambda>u. []) memory_methods (Some ()) 5 ''https://a.org/x'' (Some (plain_resource ''one'')) a;
       (e2, a) = AD_Delete (\<lambda>u. []) memory_methods (Some ()) ''https://a.org/x'' a
   in e1 = None \<and> e2 = None \<and>
      map_sum id sr_Body (fst (AD_Get (\<lambda>u. []) memory_methods (Some ()) ''https://a.org/x'' a)) = Inr (Some ''one'') \<and>
      fst (AD_Exists (\<lambda>u. []) memory_methods (Some ()) ''https://a.org/x'' a) = Inr False"
  by code_simp

text \<open>Every operation is first counted as a failed request: a successful one counts as two requests.\<close>

lemma success_counts_as_failure:
  assumes "fst (AD_Get perr B ctx u a) = Inr r"
  shows "am_TotalRequests (ad_metrics (snd (AD_Get perr B ctx u a))) = am_TotalRequests (ad_metrics a) + 2 \<and>
    am_FailedRequests (ad_metrics (snd (AD_Get perr B ctx u a))) = am_FailedRequests (ad_metrics a) + 1"
  using assms
  by (auto simp: AD_Get_def Let_def recorded_def AM_RecordRequest_def split: if_splits option.splits sum.splits)

text \<open>The custom metadata of a resource does not reach the backend.\<close>

lemma custom_metadata_is_dropped:
  "convertToProductionResource u (Some r) = Inr w \<Longrightarrow> md_Custom (wr_Metadata w) = []"
  by (auto simp: convertToProductionResource_def zero_Metadata_def)

end
