(* ===== verification/Sai_Validation.thy ===== *)
theory Sai_Validation
  imports Go_Url Go_Text
begin

text \<open>
  The data of Solid Application Interoperability (\<^verbatim>\<open>internal/sai/types.go\<close>) and its checks
  (\<^verbatim>\<open>internal/sai/validation.go\<close>). A pointer argument is an \<open>option\<close>, \<open>None\<close> being \<open>nil\<close>. The text of an
  error of \<open>url.Parse\<close>, which the checks put into their own error, is the parameter \<open>perr\<close>: no theorem
  depends on it. \<open>SAI_ValidateWebID\<close> has its prefix because the native runtime has a check of that name.
\<close>

section \<open>The data\<close>

type_synonym AccessNecessity = string
type_synonym AccessScenario = string
type_synonym ACLMode = string
type_synonym ScopeOfGrant = string

definition InteropNamespace :: string where
  "InteropNamespace = ''http://www.w3.org/ns/solid/interop#''"

definition ACLNamespace :: string where
  "ACLNamespace = ''http://www.w3.org/ns/auth/acl#''"

record AccessNeed =
  nd_ID :: string
  nd_RegisteredShapeTree :: string
  nd_AccessMode :: "ACLMode list"
  nd_AccessNecessity :: AccessNecessity
  nd_InheritsFromNeed :: string

record AccessNeedGroup =
  ng_ID :: string
  ng_AccessNecessity :: AccessNecessity
  ng_AccessScenario :: AccessScenario
  ng_AuthenticatesAs :: string
  ng_HasAccessNeed :: "AccessNeed list"
  ng_HasAccessDecoratorIndex :: string

record Application =
  ap_ID :: string
  ap_ApplicationName :: string
  ap_ApplicationDescription :: string
  ap_ApplicationAuthor :: string
  ap_ApplicationThumbnail :: string
  ap_HasAccessNeedGroup :: "AccessNeedGroup list"
  ap_HasAuthorizationCallbackEndpoint :: string
  ap_AuthenticatesAs :: string

record ApplicationRegistration =
  rg_ID :: string
  rg_RegisteredBy :: string
  rg_RegisteredWith :: string
  rg_RegisteredAt :: gotime
  rg_UpdatedAt :: gotime
  rg_RegisteredAgent :: string
  rg_HasAccessGrant :: string

record AccessGrantSubject =
  gs_ID :: string
  gs_AccessByAgent :: string
  gs_AccessByApplication :: string

record AccessGrant =
  gr_ID :: string
  gr_GrantedBy :: string
  gr_GrantedWith :: string
  gr_GrantedAt :: gotime
  gr_ProvidedAt :: gotime
  gr_UpdatedAt :: gotime
  gr_FromAgent :: string
  gr_ViaAgent :: string
  gr_HasAccessGrantSubject :: AccessGrantSubject
  gr_HasAccessNeedGroup :: "string list"
  gr_HasDataGrant :: "string list"

record DataGrant =
  dg_ID :: string
  dg_DataOwner :: string
  dg_GrantedBy :: string
  dg_RegisteredShapeTree :: string
  dg_HasDataRegistration :: string
  dg_AccessMode :: "ACLMode list"
  dg_ScopeOfGrant :: ScopeOfGrant
  dg_HasDataInstance :: "string list"
  dg_InheritsFromGrant :: string
  dg_DelegationOfGrant :: string

record DataRegistration =
  dr_ID :: string
  dr_RegisteredShapeTree :: string
  dr_RegisteredAt :: gotime
  dr_RegisteredBy :: string
  dr_RegisteredWith :: string
  dr_IRIPrefix :: string
  dr_Contains :: "string list"

record AuthorizationAgent =
  au_ID :: string
  au_AgentRegistrySet :: "string list"

record DataInstance =
  di_ID :: string
  di_Type :: string
  di_ShapeTree :: string
  di_Data :: string
  di_ContentType :: string

record ShapeTreeReference =
  sf_HasShapeTree :: string
  sf_ViaShapePath :: string

record ShapeTree =
  sh_ID :: string
  sh_ExpectsType :: string
  sh_Shape :: string
  sh_References :: "ShapeTreeReference list"

definition SAIMaxApplicationNameLength :: nat where
  "SAIMaxApplicationNameLength = 256"

definition SAIMaxDescriptionLength :: nat where
  "SAIMaxDescriptionLength = 1024"

definition SAIMaxIRILength :: nat where
  "SAIMaxIRILength = 2048"

definition SAIMaxInputSize :: nat where
  "SAIMaxInputSize = 1024 * 1024"

definition ErrSAIValidation :: goerror where
  "ErrSAIValidation = ErrorsNew ''SAI validation failed''"

section \<open>The shape of a check\<close>

text \<open>\<open>if err := e; err != nil { return fmt.Errorf("msg: %v", err) }\<close>, and then the rest of the function. The
  error goes into the text only: it is not wrapped.\<close>

definition checkf :: "string \<Rightarrow> goerr \<Rightarrow> goerr \<Rightarrow> goerr" where
  "checkf msg e rest = (case e of Some err \<Rightarrow> Some (ErrorsNew (msg @ '': '' @ Error err)) | None \<Rightarrow> rest)"

text \<open>The same with \<open>fmt.Errorf("%w: msg: %v", base, err)\<close>.\<close>

definition checkw :: "goerror \<Rightarrow> string \<Rightarrow> goerr \<Rightarrow> goerr \<Rightarrow> goerr" where
  "checkw base msg e rest = (case e of Some err \<Rightarrow> Some (wrapf base (msg @ '': '' @ Error err)) | None \<Rightarrow> rest)"

text \<open>A loop \<open>for i, x := range xs\<close> that checks every element: the message and the error of the first that
  fails.\<close>

fun first_bad :: "('a \<Rightarrow> goerr) \<Rightarrow> nat \<Rightarrow> 'a list \<Rightarrow> (nat \<times> goerror) option" where
  "first_bad check i [] = None"
| "first_bad check i (x # xs) = (case check x of Some err \<Rightarrow> Some (i, err) | None \<Rightarrow> first_bad check (Suc i) xs)"

definition check_all :: "string \<Rightarrow> ('a \<Rightarrow> goerr) \<Rightarrow> 'a list \<Rightarrow> goerr \<Rightarrow> goerr" where
  "check_all msg check xs rest =
     (case first_bad check 0 xs of
        Some (i, err) \<Rightarrow> Some (ErrorsNew (msg @ '' at index '' @ format_nat i @ '': '' @ Error err))
      | None \<Rightarrow> rest)"

definition check_allw :: "goerror \<Rightarrow> string \<Rightarrow> ('a \<Rightarrow> goerr) \<Rightarrow> 'a list \<Rightarrow> goerr \<Rightarrow> goerr" where
  "check_allw base msg check xs rest =
     (case first_bad check 0 xs of
        Some (i, err) \<Rightarrow> Some (wrapf base (msg @ '' at index '' @ format_nat i @ '': '' @ Error err))
      | None \<Rightarrow> rest)"

text \<open>A check of an optional field.\<close>

abbreviation (input) if_set :: "string \<Rightarrow> goerr \<Rightarrow> goerr" where
  "if_set field e \<equiv> (if field \<noteq> [] then e else None)"

lemma first_bad_None: "first_bad check i xs = None \<longleftrightarrow> (\<forall>x \<in> set xs. check x = None)"
  by (induction xs arbitrary: i) (auto split: option.splits)

named_theorems sai_checks \<open>when the checks of the SAI package accept\<close>

lemma checkf_None [sai_checks]: "checkf msg e rest = None \<longleftrightarrow> e = None \<and> rest = None"
  by (simp add: checkf_def split: option.splits)

lemma checkw_None [sai_checks]: "checkw base msg e rest = None \<longleftrightarrow> e = None \<and> rest = None"
  by (simp add: checkw_def split: option.splits)

lemma check_all_None [sai_checks]:
  "check_all msg check xs rest = None \<longleftrightarrow> (\<forall>x \<in> set xs. check x = None) \<and> rest = None"
  using first_bad_None [of check 0 xs] by (auto simp: check_all_def split: option.splits)

lemma check_allw_None [sai_checks]:
  "check_allw base msg check xs rest = None \<longleftrightarrow> (\<forall>x \<in> set xs. check x = None) \<and> rest = None"
  using first_bad_None [of check 0 xs] by (auto simp: check_allw_def split: option.splits)

section \<open>The checks of single values\<close>

text \<open>A rune between \<open>0x20\<close> and \<open>0x7E\<close>. The loops below range over runes; a byte of at least 128 is part
  of a rune of at least 128.\<close>

definition printable :: "char \<Rightarrow> bool" where
  "printable c \<longleftrightarrow> CHR '' '' \<le> c \<and> c \<le> CHR 0x7E"

definition ValidateApplicationName :: "string \<Rightarrow> goerr" where
  "ValidateApplicationName name =
     (if name = [] then Some (ErrorsNew ''application name cannot be empty'')
      else if length name > SAIMaxApplicationNameLength then
        Some (ErrorsNew (''application name exceeds maximum length of '' @
                         format_nat SAIMaxApplicationNameLength @ '' characters''))
      else if list_ex (\<lambda>r. \<not> printable r) name then Some (ErrorsNew ''application name contains invalid characters'')
      else None)"

definition ValidateDescription :: "string \<Rightarrow> goerr" where
  "ValidateDescription desc =
     (if length desc > SAIMaxDescriptionLength then
        Some (ErrorsNew (''description exceeds maximum length of '' @ format_nat SAIMaxDescriptionLength @ '' characters''))
      else if list_ex (\<lambda>r. \<not> printable r) desc then Some (ErrorsNew ''description contains invalid characters'')
      else None)"

definition isValidWebIDFragment :: "string \<Rightarrow> bool" where
  "isValidWebIDFragment fragment \<longleftrightarrow>
     fragment \<noteq> [] \<and> \<not> list_ex (\<lambda>r. r < CHR ''!'' \<or> CHR 0x7E < r) fragment"

definition SAI_ValidateWebID :: "(string \<Rightarrow> string) \<Rightarrow> string \<Rightarrow> goerr" where
  "SAI_ValidateWebID perr webID =
     (if webID = [] then Some (ErrorsNew ''WebID cannot be empty'')
      else if length webID > SAIMaxIRILength then
        Some (ErrorsNew (''WebID exceeds maximum length of '' @ format_nat SAIMaxIRILength @ '' characters''))
      else case url_Parse webID of
        None \<Rightarrow> Some (ErrorsNew (''invalid WebID URL: '' @ perr webID))
      | Some parsed \<Rightarrow>
          if u_Scheme parsed \<noteq> ''https'' \<and> u_Scheme parsed \<noteq> ''http''
          then Some (ErrorsNew ''WebID must use http or https scheme'')
          else if u_Fragment parsed = [] then Some (ErrorsNew ''WebID must have a fragment identifier'')
          else if \<not> isValidWebIDFragment (u_Fragment parsed)
          then Some (ErrorsNew (''invalid WebID fragment: '' @ u_Fragment parsed))
          else None)"

definition ValidateURL :: "(string \<Rightarrow> string) \<Rightarrow> string \<Rightarrow> goerr" where
  "ValidateURL perr u =
     (if u = [] then None
      else if length u > SAIMaxIRILength then
        Some (ErrorsNew (''URL exceeds maximum length of '' @ format_nat SAIMaxIRILength @ '' characters''))
      else case url_Parse u of
        None \<Rightarrow> Some (ErrorsNew (''invalid URL: '' @ perr u))
      | Some parsed \<Rightarrow>
          if u_Scheme parsed \<noteq> ''https'' \<and> u_Scheme parsed \<noteq> ''http''
          then Some (ErrorsNew ''URL must use http or https scheme'')
          else if u_Host parsed = [] then Some (ErrorsNew ''URL must have a host'')
          else if Contains (u_Host parsed) [CHR 0x0A] \<or> Contains (u_Host parsed) [CHR 0x0D]
          then Some (ErrorsNew ''URL contains invalid characters'')
          else None)"

definition isValidIRIScheme :: "string \<Rightarrow> bool" where
  "isValidIRIScheme scheme \<longleftrightarrow>
     scheme \<in> set [''http'', ''https'', ''urn'', [],
       ''pm'', ''solid'', ''interop'', ''shapetrees'', ''solidshapes'', ''shape'',
       ''uuid'', ''ldp'', ''acl'', ''foaf'', ''rdf'', ''rdfs'', ''xsd'',
       ''solidtrees'', ''projectron'']"

definition ValidateIRI :: "string \<Rightarrow> goerr" where
  "ValidateIRI iri =
     (if iri = [] then Some (ErrorsNew ''IRI cannot be empty'')
      else if length iri > SAIMaxIRILength then
        Some (ErrorsNew (''IRI exceeds maximum length of '' @ format_nat SAIMaxIRILength @ '' characters''))
      else if list_ex (\<lambda>r. \<not> printable r) iri then Some (ErrorsNew ''IRI contains invalid characters'')
      else case url_Parse iri of
        Some parsed \<Rightarrow>
          if u_Scheme parsed \<noteq> [] \<and> u_Scheme parsed \<noteq> ''http'' \<and> u_Scheme parsed \<noteq> ''https'' \<and>
             \<not> isValidIRIScheme (u_Scheme parsed)
          then Some (ErrorsNew (''invalid IRI scheme: '' @ u_Scheme parsed))
          else None
      | None \<Rightarrow> None)"

definition ValidateAccessNecessity :: "AccessNecessity \<Rightarrow> goerr" where
  "ValidateAccessNecessity necessity =
     (if necessity \<in> set [InteropNamespace @ ''accessRequired'', InteropNamespace @ ''accessOptional'',
                          InteropNamespace @ ''accessProhibited'']
      then None else Some (ErrorsNew (''invalid access necessity: '' @ necessity)))"

definition ValidateAccessScenario :: "AccessScenario \<Rightarrow> goerr" where
  "ValidateAccessScenario scenario =
     (if scenario \<in> set [InteropNamespace @ ''PersonalAccess'', InteropNamespace @ ''CollaborativeAccess'',
                         InteropNamespace @ ''PublicAccess'', InteropNamespace @ ''EmergencyAccess'']
      then None else Some (ErrorsNew (''invalid access scenario: '' @ scenario)))"

definition ValidateACLMode :: "ACLMode \<Rightarrow> goerr" where
  "ValidateACLMode mode =
     (if mode \<in> set [ACLNamespace @ ''Read'', ACLNamespace @ ''Write'', ACLNamespace @ ''Append'',
                     ACLNamespace @ ''Control'']
      then None else Some (ErrorsNew (''invalid ACL mode: '' @ mode)))"

definition ValidateScopeOfGrant :: "ScopeOfGrant \<Rightarrow> goerr" where
  "ValidateScopeOfGrant scope =
     (if scope \<in> set [InteropNamespace @ ''AllFromRegistry'', InteropNamespace @ ''SelectedFromRegistry'',
                      InteropNamespace @ ''Inherited'']
      then None else Some (ErrorsNew (''invalid scope of grant: '' @ scope)))"

text \<open>The character class of the regular expression \<open>[<>"'{}|\\^\x00-\x1F\x7F]\<close>.\<close>

definition shape_path_invalid :: "char \<Rightarrow> bool" where
  "shape_path_invalid c \<longleftrightarrow> c \<in> set [CHR ''<'', CHR ''>'', CHR 0x22, CHR 0x27, CHR 0x7B, CHR 0x7D, CHR 0x7C, CHR 0x5C, CHR 0x5E] \<or> is_control c"

definition ValidateShapePath :: "string \<Rightarrow> goerr" where
  "ValidateShapePath path =
     (if path = [] then None
      else if length path > SAIMaxIRILength then Some (ErrorsNew ''shape path exceeds maximum length'')
      else if list_ex shape_path_invalid path then Some (ErrorsNew ''shape path contains invalid characters'')
      else None)"

definition ValidateTimestamp :: "gotime \<Rightarrow> gotime \<Rightarrow> goerr" where
  "ValidateTimestamp now t =
     (if IsZero t then Some (ErrorsNew ''timestamp cannot be zero'')
      else if now + 5 * minute < t then Some (ErrorsNew ''timestamp is too far in the future'')
      else if t < now - 24 * hour * 365 then Some (ErrorsNew ''timestamp is too far in the past'')
      else None)"

section \<open>The checks of structures\<close>

definition ValidateAccessNeed :: "AccessNeed option \<Rightarrow> goerr" where
  "ValidateAccessNeed need =
     (case need of None \<Rightarrow> Some (ErrorsNew ''access need cannot be nil'') | Some n \<Rightarrow>
      checkf ''invalid access need ID'' (ValidateIRI (nd_ID n))
     (checkf ''invalid registered shape tree'' (ValidateIRI (nd_RegisteredShapeTree n))
     (check_all ''invalid access mode'' ValidateACLMode (nd_AccessMode n)
     (checkf ''invalid access necessity'' (ValidateAccessNecessity (nd_AccessNecessity n))
     (checkf ''invalid inherits from need''
        (if_set (nd_InheritsFromNeed n) (ValidateIRI (nd_InheritsFromNeed n))) None)))))"

definition ValidateAccessNeedGroup :: "AccessNeedGroup option \<Rightarrow> goerr" where
  "ValidateAccessNeedGroup grp =
     (case grp of None \<Rightarrow> Some (ErrorsNew ''access need group cannot be nil'') | Some g \<Rightarrow>
      checkf ''invalid access need group ID'' (ValidateIRI (ng_ID g))
     (checkf ''invalid access necessity'' (ValidateAccessNecessity (ng_AccessNecessity g))
     (checkf ''invalid access scenario'' (ValidateAccessScenario (ng_AccessScenario g))
     (check_all ''invalid access need'' (\<lambda>n. ValidateAccessNeed (Some n)) (ng_HasAccessNeed g) None))))"

definition ValidateApplication :: "(string \<Rightarrow> string) \<Rightarrow> Application option \<Rightarrow> goerr" where
  "ValidateApplication perr app =
     (case app of None \<Rightarrow> Some (wrapf ErrSAIValidation ''application cannot be nil'') | Some a \<Rightarrow>
      checkw ErrSAIValidation ''invalid application ID'' (SAI_ValidateWebID perr (ap_ID a))
     (checkw ErrSAIValidation ''invalid application name'' (ValidateApplicationName (ap_ApplicationName a))
     (checkw ErrSAIValidation ''invalid application description'' (ValidateDescription (ap_ApplicationDescription a))
     (checkw ErrSAIValidation ''invalid application author''
        (if_set (ap_ApplicationAuthor a) (SAI_ValidateWebID perr (ap_ApplicationAuthor a)))
     (checkw ErrSAIValidation ''invalid application thumbnail''
        (if_set (ap_ApplicationThumbnail a) (ValidateURL perr (ap_ApplicationThumbnail a)))
     (check_allw ErrSAIValidation ''invalid access need group'' (\<lambda>g. ValidateAccessNeedGroup (Some g))
        (ap_HasAccessNeedGroup a)
     (checkw ErrSAIValidation ''invalid callback endpoint''
        (if_set (ap_HasAuthorizationCallbackEndpoint a) (ValidateURL perr (ap_HasAuthorizationCallbackEndpoint a)))
        None)))))))"

definition ValidateApplicationRegistration :: "(string \<Rightarrow> string) \<Rightarrow> ApplicationRegistration option \<Rightarrow> goerr" where
  "ValidateApplicationRegistration perr reg =
     (case reg of None \<Rightarrow> Some (ErrorsNew ''application registration cannot be nil'') | Some r \<Rightarrow>
      checkf ''invalid registration ID'' (ValidateIRI (rg_ID r))
     (checkf ''invalid registered by'' (SAI_ValidateWebID perr (rg_RegisteredBy r))
     (checkf ''invalid registered with'' (ValidateURL perr (rg_RegisteredWith r))
     (checkf ''invalid registered agent'' (SAI_ValidateWebID perr (rg_RegisteredAgent r))
     (if IsZero (rg_RegisteredAt r) then Some (ErrorsNew ''registered at timestamp cannot be zero'')
      else checkf ''invalid has access grant''
        (if_set (rg_HasAccessGrant r) (ValidateIRI (rg_HasAccessGrant r))) None)))))"

definition ValidateAccessGrantSubject :: "(string \<Rightarrow> string) \<Rightarrow> AccessGrantSubject option \<Rightarrow> goerr" where
  "ValidateAccessGrantSubject perr subject =
     (case subject of None \<Rightarrow> Some (ErrorsNew ''access grant subject cannot be nil'') | Some s \<Rightarrow>
      checkf ''invalid subject ID'' (ValidateIRI (gs_ID s))
     (checkf ''invalid access by agent'' (SAI_ValidateWebID perr (gs_AccessByAgent s))
     (checkf ''invalid access by application'' (SAI_ValidateWebID perr (gs_AccessByApplication s)) None)))"

definition ValidateAccessGrant :: "(string \<Rightarrow> string) \<Rightarrow> AccessGrant option \<Rightarrow> goerr" where
  "ValidateAccessGrant perr grant =
     (case grant of None \<Rightarrow> Some (ErrorsNew ''access grant cannot be nil'') | Some g \<Rightarrow>
      checkf ''invalid grant ID'' (ValidateIRI (gr_ID g))
     (checkf ''invalid granted by'' (SAI_ValidateWebID perr (gr_GrantedBy g))
     (checkf ''invalid granted with'' (ValidateURL perr (gr_GrantedWith g))
     (checkf ''invalid from agent'' (SAI_ValidateWebID perr (gr_FromAgent g))
     (if IsZero (gr_GrantedAt g) then Some (ErrorsNew ''granted at timestamp cannot be zero'')
      else if IsZero (gr_ProvidedAt g) then Some (ErrorsNew ''provided at timestamp cannot be zero'')
      else
      checkf ''invalid access grant subject'' (ValidateAccessGrantSubject perr (Some (gr_HasAccessGrantSubject g)))
     (check_all ''invalid access need group'' ValidateIRI (gr_HasAccessNeedGroup g)
     (check_all ''invalid data grant'' ValidateIRI (gr_HasDataGrant g) None)))))))"

definition ValidateDataGrant :: "(string \<Rightarrow> string) \<Rightarrow> DataGrant option \<Rightarrow> goerr" where
  "ValidateDataGrant perr grant =
     (case grant of None \<Rightarrow> Some (ErrorsNew ''data grant cannot be nil'') | Some g \<Rightarrow>
      checkf ''invalid data grant ID'' (ValidateIRI (dg_ID g))
     (checkf ''invalid data owner'' (SAI_ValidateWebID perr (dg_DataOwner g))
     (checkf ''invalid granted by'' (SAI_ValidateWebID perr (dg_GrantedBy g))
     (checkf ''invalid registered shape tree'' (ValidateIRI (dg_RegisteredShapeTree g))
     (checkf ''invalid has data registration'' (ValidateIRI (dg_HasDataRegistration g))
     (check_all ''invalid access mode'' ValidateACLMode (dg_AccessMode g)
     (checkf ''invalid scope of grant'' (ValidateScopeOfGrant (dg_ScopeOfGrant g))
     (check_all ''invalid data instance'' ValidateIRI (dg_HasDataInstance g)
     (checkf ''invalid inherits from grant''
        (if_set (dg_InheritsFromGrant g) (ValidateIRI (dg_InheritsFromGrant g)))
     (checkf ''invalid delegation of grant''
        (if_set (dg_DelegationOfGrant g) (ValidateIRI (dg_DelegationOfGrant g))) None))))))))))"

definition ValidateDataRegistration :: "(string \<Rightarrow> string) \<Rightarrow> DataRegistration option \<Rightarrow> goerr" where
  "ValidateDataRegistration perr reg =
     (case reg of None \<Rightarrow> Some (ErrorsNew ''data registration cannot be nil'') | Some r \<Rightarrow>
      checkf ''invalid registration ID'' (ValidateIRI (dr_ID r))
     (checkf ''invalid registered shape tree'' (ValidateIRI (dr_RegisteredShapeTree r))
     (checkf ''invalid registered by'' (SAI_ValidateWebID perr (dr_RegisteredBy r))
     (checkf ''invalid registered with'' (SAI_ValidateWebID perr (dr_RegisteredWith r))
     (if IsZero (dr_RegisteredAt r) then Some (ErrorsNew ''registered at timestamp cannot be zero'')
      else
      checkf ''invalid IRI prefix'' (ValidateURL perr (dr_IRIPrefix r))
     (check_all ''invalid contains entry'' ValidateIRI (dr_Contains r) None))))))"

definition ValidateDataInstance :: "DataInstance option \<Rightarrow> goerr" where
  "ValidateDataInstance instance =
     (case instance of None \<Rightarrow> Some (ErrorsNew ''data instance cannot be nil'') | Some d \<Rightarrow>
      checkf ''invalid instance ID'' (ValidateIRI (di_ID d))
     (checkf ''invalid type'' (if_set (di_Type d) (ValidateIRI (di_Type d)))
     (checkf ''invalid shape tree'' (if_set (di_ShapeTree d) (ValidateIRI (di_ShapeTree d)))
     (if length (di_Data d) > SAIMaxInputSize then
        Some (ErrorsNew (''data exceeds maximum size of '' @ format_nat SAIMaxInputSize @ '' bytes''))
      else if di_ContentType d = [] then Some (ErrorsNew ''content type cannot be empty'')
      else None))))"

definition ValidateShapeTreeReference :: "ShapeTreeReference option \<Rightarrow> goerr" where
  "ValidateShapeTreeReference ref =
     (case ref of None \<Rightarrow> Some (ErrorsNew ''shape tree reference cannot be nil'') | Some r \<Rightarrow>
      checkf ''invalid has shape tree'' (ValidateIRI (sf_HasShapeTree r))
     (checkf ''invalid via shape path''
        (if_set (sf_ViaShapePath r) (ValidateShapePath (sf_ViaShapePath r))) None))"

definition ValidateShapeTree :: "ShapeTree option \<Rightarrow> goerr" where
  "ValidateShapeTree tree =
     (case tree of None \<Rightarrow> Some (ErrorsNew ''shape tree cannot be nil'') | Some t \<Rightarrow>
      checkf ''invalid shape tree ID'' (ValidateIRI (sh_ID t))
     (checkf ''invalid expects type'' (ValidateIRI (sh_ExpectsType t))
     (checkf ''invalid shape'' (ValidateIRI (sh_Shape t))
     (check_all ''invalid reference'' (\<lambda>r. ValidateShapeTreeReference (Some r)) (sh_References t) None))))"

definition ValidateAuthorizationAgent :: "(string \<Rightarrow> string) \<Rightarrow> AuthorizationAgent option \<Rightarrow> goerr" where
  "ValidateAuthorizationAgent perr agent =
     (case agent of None \<Rightarrow> Some (ErrorsNew ''authorization agent cannot be nil'') | Some a \<Rightarrow>
      if au_ID a = [] then Some (ErrorsNew ''authorization agent ID cannot be empty'')
      else checkf ''invalid authorization agent ID'' (ValidateURL perr (au_ID a))
     (check_all ''invalid agent registry set'' ValidateIRI (au_AgentRegistrySet a) None))"

section \<open>What the checks guarantee\<close>

lemma ValidateIRI_nonempty: "ValidateIRI iri = None \<Longrightarrow> iri \<noteq> []"
  by (auto simp: ValidateIRI_def)

lemma ValidateIRI_Nil [simp]: "ValidateIRI [] = Some (ErrorsNew ''IRI cannot be empty'')"
  by (simp add: ValidateIRI_def)

lemma SAI_ValidateWebID_nonempty: "SAI_ValidateWebID perr w = None \<Longrightarrow> w \<noteq> []"
  by (auto simp: SAI_ValidateWebID_def)

text \<open>A URN of printable characters without \<open>#\<close> is an IRI.\<close>

lemma getScheme_urn: "getScheme (''urn:'' @ s) = Some (''urn'', s)"
  by (simp add: getScheme_def is_upper_def is_lower_def is_digit_def less_eq_char_def)

lemma ToLower_urn: "ToLower ''urn'' = ''urn''"
  by code_simp

lemma url_parse_hierarchy_scheme: "url_parse_hierarchy scheme query rest = Some p \<Longrightarrow> u_Scheme p = scheme"
  by (auto simp: url_parse_hierarchy_def Let_def split: option.splits prod.splits)

lemma url_parse_urn:
  assumes "url_parse (''urn:'' @ s) = Some p"
  shows "u_Scheme p = ''urn''"
proof -
  have "''urn:'' @ s \<noteq> ''*''" by simp
  with assms show ?thesis
    unfolding url_parse_def getScheme_urn
    by (auto simp: ToLower_urn Let_def dest: url_parse_hierarchy_scheme split: if_splits prod.splits)
qed

lemma Contains_char: "Contains s [c] \<longleftrightarrow> c \<in> set s"
  by (auto simp: Contains_conv in_set_conv_decomp)

lemma ValidateIRI_urn:
  assumes "\<forall>c \<in> set s. printable c \<and> c \<noteq> CHR ''#''" "length s + 4 \<le> SAIMaxIRILength"
  shows "ValidateIRI (''urn:'' @ s) = None"
proof -
  let ?iri = "''urn:'' @ s"
  have np: "\<not> list_ex (\<lambda>r. \<not> printable r) ?iri"
    using assms(1) by (auto simp: list_ex_iff printable_def less_eq_char_def)
  have "\<not> Contains ?iri ''#''" using assms(1) by (auto simp: Contains_char)
  then have "url_Parse ?iri = url_parse ?iri"
    by (auto simp: url_Parse_def Cut_def Contains_def split: option.splits)
  moreover have "u_Scheme p = ''urn''" if "url_parse ?iri = Some p" for p
    using url_parse_urn that by blast
  moreover have "isValidIRIScheme ''urn''" by (simp add: isValidIRIScheme_def)
  moreover have "?iri \<noteq> []" "\<not> length ?iri > SAIMaxIRILength" using assms(2) by simp_all
  ultimately show ?thesis
    using np unfolding ValidateIRI_def by (simp del: append.simps split: option.splits)
qed

end
