(* ===== verification/Sai_Storage.thy ===== *)
theory Sai_Storage
  imports Sai_Validation
begin

text \<open>
  The storage of the SAI service (\<^verbatim>\<open>internal/sai/storage.go\<close>) and its interface \<open>SAIStorage\<close>
  (\<^verbatim>\<open>internal/sai/service.go\<close>). Every method holds the lock throughout and ignores its context. A map of
  pointers is a map of values: no method stores \<open>nil\<close>, and the caller's later changes to a structure it has
  stored are not modelled. A pointer result is an \<open>option\<close>. The locale \<open>sai_storage\<close> is what the service
  relies on; the in-memory storage is shown to provide it.
\<close>

section \<open>Copies\<close>

text \<open>\<open>make([]T, n)\<close> followed by \<open>append\<close> leaves \<open>n\<close> zero values in front: \<open>padded\<close>.\<close>

definition padded :: "string list \<Rightarrow> string list" where
  "padded xs = replicate (length xs) [] @ xs"

definition copyAccessNeed :: "AccessNeed option \<Rightarrow> AccessNeed option" where
  "copyAccessNeed need = (case need of None \<Rightarrow> None | Some n \<Rightarrow> Some n)"

definition copyAccessNeedGroup :: "AccessNeedGroup option \<Rightarrow> AccessNeedGroup option" where
  "copyAccessNeedGroup grp =
     (case grp of None \<Rightarrow> None
      | Some g \<Rightarrow> Some (g\<lparr>ng_HasAccessNeed := map (\<lambda>n. the (copyAccessNeed (Some n))) (ng_HasAccessNeed g)\<rparr>))"

definition copyApplication :: "Application option \<Rightarrow> Application option" where
  "copyApplication app =
     (case app of None \<Rightarrow> None
      | Some a \<Rightarrow> Some (a\<lparr>ap_HasAccessNeedGroup :=
                           map (\<lambda>g. the (copyAccessNeedGroup (Some g))) (ap_HasAccessNeedGroup a)\<rparr>))"

definition copyApplicationRegistration :: "ApplicationRegistration option \<Rightarrow> ApplicationRegistration option" where
  "copyApplicationRegistration reg = (case reg of None \<Rightarrow> None | Some r \<Rightarrow> Some r)"

definition copyAccessGrantSubject :: "AccessGrantSubject option \<Rightarrow> AccessGrantSubject option" where
  "copyAccessGrantSubject subject = (case subject of None \<Rightarrow> None | Some s \<Rightarrow> Some s)"

definition copyAccessGrant :: "AccessGrant option \<Rightarrow> AccessGrant option" where
  "copyAccessGrant grant =
     (case grant of None \<Rightarrow> None
      | Some g \<Rightarrow> Some (g\<lparr>gr_HasAccessGrantSubject := the (copyAccessGrantSubject (Some (gr_HasAccessGrantSubject g))),
                          gr_HasAccessNeedGroup := padded (gr_HasAccessNeedGroup g),
                          gr_HasDataGrant := padded (gr_HasDataGrant g)\<rparr>))"

definition copyDataGrant :: "DataGrant option \<Rightarrow> DataGrant option" where
  "copyDataGrant grant =
     (case grant of None \<Rightarrow> None
      | Some g \<Rightarrow> Some (g\<lparr>dg_AccessMode := padded (dg_AccessMode g),
                          dg_HasDataInstance := padded (dg_HasDataInstance g)\<rparr>))"

definition copyDataRegistration :: "DataRegistration option \<Rightarrow> DataRegistration option" where
  "copyDataRegistration reg =
     (case reg of None \<Rightarrow> None | Some r \<Rightarrow> Some (r\<lparr>dr_Contains := padded (dr_Contains r)\<rparr>))"

definition copyDataInstance :: "DataInstance option \<Rightarrow> DataInstance option" where
  "copyDataInstance instance = (case instance of None \<Rightarrow> None | Some d \<Rightarrow> Some (d\<lparr>di_Data := [] @ di_Data d\<rparr>))"

definition copyShapeTreeReference :: "ShapeTreeReference option \<Rightarrow> ShapeTreeReference option" where
  "copyShapeTreeReference ref = (case ref of None \<Rightarrow> None | Some r \<Rightarrow> Some r)"

definition copyShapeTree :: "ShapeTree option \<Rightarrow> ShapeTree option" where
  "copyShapeTree tree =
     (case tree of None \<Rightarrow> None
      | Some t \<Rightarrow> Some (t\<lparr>sh_References := map (\<lambda>r. the (copyShapeTreeReference (Some r))) (sh_References t)\<rparr>))"

definition copyAuthorizationAgent :: "AuthorizationAgent option \<Rightarrow> AuthorizationAgent option" where
  "copyAuthorizationAgent agent =
     (case agent of None \<Rightarrow> None | Some a \<Rightarrow> Some (a\<lparr>au_AgentRegistrySet := [] @ au_AgentRegistrySet a\<rparr>))"

section \<open>The in-memory storage\<close>

definition ErrSAIStorage :: goerror where
  "ErrSAIStorage = ErrorsNew ''SAI storage failed''"

definition ErrSAINotFound :: goerror where
  "ErrSAINotFound = ErrorsNew ''SAI resource not found''"

record InMemorySAIStorage =
  ss_applications :: "(string, Application) gomap"
  ss_applicationRegistrations :: "(string, ApplicationRegistration) gomap"
  ss_applicationRegistrationsByUser :: "(string, string list) gomap"
  ss_accessGrants :: "(string, AccessGrant) gomap"
  ss_accessGrantsByUser :: "(string, string list) gomap"
  ss_dataRegistrations :: "(string, DataRegistration) gomap"
  ss_dataRegistrationsByUser :: "(string, string list) gomap"
  ss_dataGrants :: "(string, DataGrant) gomap"
  ss_dataGrantsByAccessGrant :: "(string, string list) gomap"
  ss_dataInstances :: "(string, DataInstance) gomap"
  ss_dataInstancesByRegistration :: "(string, string list) gomap"
  ss_shapeTrees :: "(string, ShapeTree) gomap"
  ss_authorizationAgents :: "(string, AuthorizationAgent) gomap"

definition NewInMemorySAIStorage :: InMemorySAIStorage where
  "NewInMemorySAIStorage =
     \<lparr>ss_applications = [], ss_applicationRegistrations = [], ss_applicationRegistrationsByUser = [],
      ss_accessGrants = [], ss_accessGrantsByUser = [], ss_dataRegistrations = [],
      ss_dataRegistrationsByUser = [], ss_dataGrants = [], ss_dataGrantsByAccessGrant = [],
      ss_dataInstances = [], ss_dataInstancesByRegistration = [], ss_shapeTrees = [],
      ss_authorizationAgents = []\<rparr>"

text \<open>The two blocks that keep an index from users to identifiers.\<close>

definition index_create :: "string \<Rightarrow> (string, string list) gomap \<Rightarrow> (string, string list) gomap" where
  "index_create u m = (case mget m u of None \<Rightarrow> mset_at u [] m | Some _ \<Rightarrow> m)"

definition index_ids :: "(string, string list) gomap \<Rightarrow> string \<Rightarrow> string list" where
  "index_ids m u = (case mget m u of Some ids \<Rightarrow> ids | None \<Rightarrow> [])"

definition index_add :: "string \<Rightarrow> string \<Rightarrow> (string, string list) gomap \<Rightarrow> (string, string list) gomap" where
  "index_add u i m = (let m' = index_create u m in mset_at u (index_ids m' u @ [i]) m')"

definition index_remove :: "string \<Rightarrow> string \<Rightarrow> (string, string list) gomap \<Rightarrow> (string, string list) gomap" where
  "index_remove u i m =
     (case mget m u of
        Some ids \<Rightarrow> if i \<in> set ids then mset_at u (remove1 i ids) m else m
      | None \<Rightarrow> m)"

text \<open>The loop of the \<open>List\<close> methods: an identifier that is not stored leaves \<open>nil\<close> in the result.\<close>

definition list_ids :: "('a option \<Rightarrow> 'a option) \<Rightarrow> (string, 'a) gomap \<Rightarrow> string list \<Rightarrow> 'a option list" where
  "list_ids copy m ids = map (\<lambda>i. case mget m i of Some r \<Rightarrow> copy (Some r) | None \<Rightarrow> None) ids"

section \<open>Applications\<close>

definition SS_StoreApplication :: "Application option \<Rightarrow> InMemorySAIStorage \<Rightarrow> goerr \<times> InMemorySAIStorage" where
  "SS_StoreApplication arg s =
     (case arg of
        None \<Rightarrow> (Some (wrapf ErrSAIStorage ''application cannot be nil''), s)
      | Some x \<Rightarrow>
          if ap_ID x = [] then (Some (wrapf ErrSAIStorage ''application ID cannot be empty''), s)
          else (None, s\<lparr>ss_applications := mset_at (ap_ID x) x (ss_applications s)\<rparr>))"

definition SS_GetApplication :: "string \<Rightarrow> InMemorySAIStorage \<Rightarrow> Application option result" where
  "SS_GetApplication i s =
     (case mget (ss_applications s) i of
        None \<Rightarrow> Inl (wrapf ErrSAINotFound (''application not found: '' @ i))
      | Some x \<Rightarrow> Inr (copyApplication (Some x)))"

definition SS_ListApplications :: "string \<Rightarrow> InMemorySAIStorage \<Rightarrow> Application option list result" where
  "SS_ListApplications owner s = Inr (map (\<lambda>(_, x). copyApplication (Some x)) (ss_applications s))"

definition SS_DeleteApplication :: "string \<Rightarrow> InMemorySAIStorage \<Rightarrow> goerr \<times> InMemorySAIStorage" where
  "SS_DeleteApplication i s =
     (case mget (ss_applications s) i of
        None \<Rightarrow> (Some (wrapf ErrSAINotFound (''application not found: '' @ i)), s)
      | Some _ \<Rightarrow> (None, s\<lparr>ss_applications := mdelete i (ss_applications s)\<rparr>))"

section \<open>Application registrations\<close>

definition SS_StoreApplicationRegistration :: "ApplicationRegistration option \<Rightarrow> InMemorySAIStorage \<Rightarrow> goerr \<times> InMemorySAIStorage" where
  "SS_StoreApplicationRegistration arg s =
     (case arg of
        None \<Rightarrow> (Some (wrapf ErrSAIStorage ''application registration cannot be nil''), s)
      | Some x \<Rightarrow>
          if rg_ID x = [] then (Some (wrapf ErrSAIStorage ''application registration ID cannot be empty''), s)
          else (None, s\<lparr>ss_applicationRegistrations := mset_at (rg_ID x) x (ss_applicationRegistrations s),
                         ss_applicationRegistrationsByUser := index_add (rg_RegisteredBy x) (rg_ID x) (ss_applicationRegistrationsByUser s)\<rparr>))"

definition SS_GetApplicationRegistration :: "string \<Rightarrow> InMemorySAIStorage \<Rightarrow> ApplicationRegistration option result" where
  "SS_GetApplicationRegistration i s =
     (case mget (ss_applicationRegistrations s) i of
        None \<Rightarrow> Inl (wrapf ErrSAINotFound (''application registration not found: '' @ i))
      | Some x \<Rightarrow> Inr (copyApplicationRegistration (Some x)))"

definition SS_ListApplicationRegistrations :: "string \<Rightarrow> InMemorySAIStorage \<Rightarrow> ApplicationRegistration option list result" where
  "SS_ListApplicationRegistrations userID s =
     (case mget (ss_applicationRegistrationsByUser s) userID of
        None \<Rightarrow> Inr []
      | Some ids \<Rightarrow> Inr (list_ids copyApplicationRegistration (ss_applicationRegistrations s) ids))"

definition SS_DeleteApplicationRegistration :: "string \<Rightarrow> InMemorySAIStorage \<Rightarrow> goerr \<times> InMemorySAIStorage" where
  "SS_DeleteApplicationRegistration i s =
     (case mget (ss_applicationRegistrations s) i of
        None \<Rightarrow> (Some (wrapf ErrSAINotFound (''application registration not found: '' @ i)), s)
      | Some x \<Rightarrow>
          (None, s\<lparr>ss_applicationRegistrationsByUser := index_remove (rg_RegisteredBy x) i (ss_applicationRegistrationsByUser s),
                    ss_applicationRegistrations := mdelete i (ss_applicationRegistrations s)\<rparr>))"

section \<open>Access grants\<close>

definition SS_StoreAccessGrant :: "AccessGrant option \<Rightarrow> InMemorySAIStorage \<Rightarrow> goerr \<times> InMemorySAIStorage" where
  "SS_StoreAccessGrant arg s =
     (case arg of
        None \<Rightarrow> (Some (wrapf ErrSAIStorage ''access grant cannot be nil''), s)
      | Some x \<Rightarrow>
          if gr_ID x = [] then (Some (wrapf ErrSAIStorage ''access grant ID cannot be empty''), s)
          else (None, s\<lparr>ss_accessGrants := mset_at (gr_ID x) x (ss_accessGrants s),
                         ss_accessGrantsByUser := index_add (gr_FromAgent x) (gr_ID x) (ss_accessGrantsByUser s)\<rparr>))"

definition SS_GetAccessGrant :: "string \<Rightarrow> InMemorySAIStorage \<Rightarrow> AccessGrant option result" where
  "SS_GetAccessGrant i s =
     (case mget (ss_accessGrants s) i of
        None \<Rightarrow> Inl (wrapf ErrSAINotFound (''access grant not found: '' @ i))
      | Some x \<Rightarrow> Inr (copyAccessGrant (Some x)))"

definition SS_ListAccessGrants :: "string \<Rightarrow> InMemorySAIStorage \<Rightarrow> AccessGrant option list result" where
  "SS_ListAccessGrants userID s =
     (case mget (ss_accessGrantsByUser s) userID of
        None \<Rightarrow> Inr []
      | Some ids \<Rightarrow> Inr (list_ids copyAccessGrant (ss_accessGrants s) ids))"

definition SS_DeleteAccessGrant :: "string \<Rightarrow> InMemorySAIStorage \<Rightarrow> goerr \<times> InMemorySAIStorage" where
  "SS_DeleteAccessGrant i s =
     (case mget (ss_accessGrants s) i of
        None \<Rightarrow> (Some (wrapf ErrSAINotFound (''access grant not found: '' @ i)), s)
      | Some x \<Rightarrow>
          (None, s\<lparr>ss_accessGrantsByUser := index_remove (gr_FromAgent x) i (ss_accessGrantsByUser s),
                    ss_accessGrants := mdelete i (ss_accessGrants s)\<rparr>))"

section \<open>Data registrations\<close>

definition SS_StoreDataRegistration :: "DataRegistration option \<Rightarrow> InMemorySAIStorage \<Rightarrow> goerr \<times> InMemorySAIStorage" where
  "SS_StoreDataRegistration arg s =
     (case arg of
        None \<Rightarrow> (Some (wrapf ErrSAIStorage ''data registration cannot be nil''), s)
      | Some x \<Rightarrow>
          if dr_ID x = [] then (Some (wrapf ErrSAIStorage ''data registration ID cannot be empty''), s)
          else (None, s\<lparr>ss_dataRegistrations := mset_at (dr_ID x) x (ss_dataRegistrations s),
                         ss_dataRegistrationsByUser := index_add (dr_RegisteredBy x) (dr_ID x) (ss_dataRegistrationsByUser s)\<rparr>))"

definition SS_GetDataRegistration :: "string \<Rightarrow> InMemorySAIStorage \<Rightarrow> DataRegistration option result" where
  "SS_GetDataRegistration i s =
     (case mget (ss_dataRegistrations s) i of
        None \<Rightarrow> Inl (wrapf ErrSAINotFound (''data registration not found: '' @ i))
      | Some x \<Rightarrow> Inr (copyDataRegistration (Some x)))"

definition SS_ListDataRegistrations :: "string \<Rightarrow> InMemorySAIStorage \<Rightarrow> DataRegistration option list result" where
  "SS_ListDataRegistrations userID s =
     (case mget (ss_dataRegistrationsByUser s) userID of
        None \<Rightarrow> Inr []
      | Some ids \<Rightarrow> Inr (list_ids copyDataRegistration (ss_dataRegistrations s) ids))"

definition SS_DeleteDataRegistration :: "string \<Rightarrow> InMemorySAIStorage \<Rightarrow> goerr \<times> InMemorySAIStorage" where
  "SS_DeleteDataRegistration i s =
     (case mget (ss_dataRegistrations s) i of
        None \<Rightarrow> (Some (wrapf ErrSAINotFound (''data registration not found: '' @ i)), s)
      | Some x \<Rightarrow>
          (None, s\<lparr>ss_dataRegistrationsByUser := index_remove (dr_RegisteredBy x) i (ss_dataRegistrationsByUser s),
                    ss_dataRegistrations := mdelete i (ss_dataRegistrations s)\<rparr>))"

section \<open>Data grants\<close>

definition SS_StoreDataGrant :: "DataGrant option \<Rightarrow> InMemorySAIStorage \<Rightarrow> goerr \<times> InMemorySAIStorage" where
  "SS_StoreDataGrant arg s =
     (case arg of
        None \<Rightarrow> (Some (wrapf ErrSAIStorage ''data grant cannot be nil''), s)
      | Some x \<Rightarrow>
          if dg_ID x = [] then (Some (wrapf ErrSAIStorage ''data grant ID cannot be empty''), s)
          else (None, s\<lparr>ss_dataGrants := mset_at (dg_ID x) x (ss_dataGrants s),
                         ss_dataGrantsByAccessGrant := index_create (dg_ID x) (ss_dataGrantsByAccessGrant s)\<rparr>))"

definition SS_GetDataGrant :: "string \<Rightarrow> InMemorySAIStorage \<Rightarrow> DataGrant option result" where
  "SS_GetDataGrant i s =
     (case mget (ss_dataGrants s) i of
        None \<Rightarrow> Inl (wrapf ErrSAINotFound (''data grant not found: '' @ i))
      | Some x \<Rightarrow> Inr (copyDataGrant (Some x)))"

definition SS_ListDataGrants :: "string \<Rightarrow> InMemorySAIStorage \<Rightarrow> DataGrant option list result" where
  "SS_ListDataGrants accessGrantID s = Inr (map (\<lambda>(_, x). copyDataGrant (Some x)) (ss_dataGrants s))"

definition SS_DeleteDataGrant :: "string \<Rightarrow> InMemorySAIStorage \<Rightarrow> goerr \<times> InMemorySAIStorage" where
  "SS_DeleteDataGrant i s =
     (case mget (ss_dataGrants s) i of
        None \<Rightarrow> (Some (wrapf ErrSAINotFound (''data grant not found: '' @ i)), s)
      | Some _ \<Rightarrow> (None, s\<lparr>ss_dataGrants := mdelete i (ss_dataGrants s)\<rparr>))"

section \<open>Data instances\<close>

definition SS_StoreDataInstance :: "DataInstance option \<Rightarrow> InMemorySAIStorage \<Rightarrow> goerr \<times> InMemorySAIStorage" where
  "SS_StoreDataInstance arg s =
     (case arg of
        None \<Rightarrow> (Some (wrapf ErrSAIStorage ''data instance cannot be nil''), s)
      | Some x \<Rightarrow>
          if di_ID x = [] then (Some (wrapf ErrSAIStorage ''data instance ID cannot be empty''), s)
          else (None, s\<lparr>ss_dataInstances := mset_at (di_ID x) x (ss_dataInstances s)\<rparr>))"

definition SS_GetDataInstance :: "string \<Rightarrow> InMemorySAIStorage \<Rightarrow> DataInstance option result" where
  "SS_GetDataInstance i s =
     (case mget (ss_dataInstances s) i of
        None \<Rightarrow> Inl (wrapf ErrSAINotFound (''data instance not found: '' @ i))
      | Some x \<Rightarrow> Inr (copyDataInstance (Some x)))"

definition SS_ListDataInstances :: "string \<Rightarrow> InMemorySAIStorage \<Rightarrow> DataInstance option list result" where
  "SS_ListDataInstances registrationID s = Inr (map (\<lambda>(_, x). copyDataInstance (Some x)) (ss_dataInstances s))"

definition SS_DeleteDataInstance :: "string \<Rightarrow> InMemorySAIStorage \<Rightarrow> goerr \<times> InMemorySAIStorage" where
  "SS_DeleteDataInstance i s =
     (case mget (ss_dataInstances s) i of
        None \<Rightarrow> (Some (wrapf ErrSAINotFound (''data instance not found: '' @ i)), s)
      | Some _ \<Rightarrow> (None, s\<lparr>ss_dataInstances := mdelete i (ss_dataInstances s)\<rparr>))"

section \<open>Shape trees\<close>

definition SS_StoreShapeTree :: "ShapeTree option \<Rightarrow> InMemorySAIStorage \<Rightarrow> goerr \<times> InMemorySAIStorage" where
  "SS_StoreShapeTree arg s =
     (case arg of
        None \<Rightarrow> (Some (wrapf ErrSAIStorage ''shape tree cannot be nil''), s)
      | Some x \<Rightarrow>
          if sh_ID x = [] then (Some (wrapf ErrSAIStorage ''shape tree ID cannot be empty''), s)
          else (None, s\<lparr>ss_shapeTrees := mset_at (sh_ID x) x (ss_shapeTrees s)\<rparr>))"

definition SS_GetShapeTree :: "string \<Rightarrow> InMemorySAIStorage \<Rightarrow> ShapeTree option result" where
  "SS_GetShapeTree i s =
     (case mget (ss_shapeTrees s) i of
        None \<Rightarrow> Inl (wrapf ErrSAINotFound (''shape tree not found: '' @ i))
      | Some x \<Rightarrow> Inr (copyShapeTree (Some x)))"

definition SS_ListShapeTrees :: "InMemorySAIStorage \<Rightarrow> ShapeTree option list result" where
  "SS_ListShapeTrees s = Inr (map (\<lambda>(_, x). copyShapeTree (Some x)) (ss_shapeTrees s))"

definition SS_DeleteShapeTree :: "string \<Rightarrow> InMemorySAIStorage \<Rightarrow> goerr \<times> InMemorySAIStorage" where
  "SS_DeleteShapeTree i s =
     (case mget (ss_shapeTrees s) i of
        None \<Rightarrow> (Some (wrapf ErrSAINotFound (''shape tree not found: '' @ i)), s)
      | Some _ \<Rightarrow> (None, s\<lparr>ss_shapeTrees := mdelete i (ss_shapeTrees s)\<rparr>))"

section \<open>Authorization agents\<close>

definition SS_StoreAuthorizationAgent :: "AuthorizationAgent option \<Rightarrow> InMemorySAIStorage \<Rightarrow> goerr \<times> InMemorySAIStorage" where
  "SS_StoreAuthorizationAgent arg s =
     (case arg of
        None \<Rightarrow> (Some (wrapf ErrSAIStorage ''authorization agent cannot be nil''), s)
      | Some x \<Rightarrow>
          if au_ID x = [] then (Some (wrapf ErrSAIStorage ''authorization agent ID cannot be empty''), s)
          else (None, s\<lparr>ss_authorizationAgents := mset_at (au_ID x) x (ss_authorizationAgents s)\<rparr>))"

definition SS_GetAuthorizationAgent :: "string \<Rightarrow> InMemorySAIStorage \<Rightarrow> AuthorizationAgent option result" where
  "SS_GetAuthorizationAgent i s =
     (case mget (ss_authorizationAgents s) i of
        None \<Rightarrow> Inl (wrapf ErrSAINotFound (''authorization agent not found: '' @ i))
      | Some x \<Rightarrow> Inr (copyAuthorizationAgent (Some x)))"

definition SS_ListAuthorizationAgents :: "InMemorySAIStorage \<Rightarrow> AuthorizationAgent option list result" where
  "SS_ListAuthorizationAgents s = Inr (map (\<lambda>(_, x). copyAuthorizationAgent (Some x)) (ss_authorizationAgents s))"

definition SS_DeleteAuthorizationAgent :: "string \<Rightarrow> InMemorySAIStorage \<Rightarrow> goerr \<times> InMemorySAIStorage" where
  "SS_DeleteAuthorizationAgent i s =
     (case mget (ss_authorizationAgents s) i of
        None \<Rightarrow> (Some (wrapf ErrSAINotFound (''authorization agent not found: '' @ i)), s)
      | Some _ \<Rightarrow> (None, s\<lparr>ss_authorizationAgents := mdelete i (ss_authorizationAgents s)\<rparr>))"

section \<open>The interface\<close>

record 's SAIStorage =
  sm_StoreApplication :: "Application option \<Rightarrow> 's \<Rightarrow> goerr \<times> 's"
  sm_GetApplication :: "string \<Rightarrow> 's \<Rightarrow> Application option result"
  sm_ListApplications :: "string \<Rightarrow> 's \<Rightarrow> Application option list result"
  sm_DeleteApplication :: "string \<Rightarrow> 's \<Rightarrow> goerr \<times> 's"
  sm_StoreApplicationRegistration :: "ApplicationRegistration option \<Rightarrow> 's \<Rightarrow> goerr \<times> 's"
  sm_GetApplicationRegistration :: "string \<Rightarrow> 's \<Rightarrow> ApplicationRegistration option result"
  sm_ListApplicationRegistrations :: "string \<Rightarrow> 's \<Rightarrow> ApplicationRegistration option list result"
  sm_DeleteApplicationRegistration :: "string \<Rightarrow> 's \<Rightarrow> goerr \<times> 's"
  sm_StoreAccessGrant :: "AccessGrant option \<Rightarrow> 's \<Rightarrow> goerr \<times> 's"
  sm_GetAccessGrant :: "string \<Rightarrow> 's \<Rightarrow> AccessGrant option result"
  sm_ListAccessGrants :: "string \<Rightarrow> 's \<Rightarrow> AccessGrant option list result"
  sm_DeleteAccessGrant :: "string \<Rightarrow> 's \<Rightarrow> goerr \<times> 's"
  sm_StoreDataRegistration :: "DataRegistration option \<Rightarrow> 's \<Rightarrow> goerr \<times> 's"
  sm_GetDataRegistration :: "string \<Rightarrow> 's \<Rightarrow> DataRegistration option result"
  sm_ListDataRegistrations :: "string \<Rightarrow> 's \<Rightarrow> DataRegistration option list result"
  sm_DeleteDataRegistration :: "string \<Rightarrow> 's \<Rightarrow> goerr \<times> 's"
  sm_StoreDataGrant :: "DataGrant option \<Rightarrow> 's \<Rightarrow> goerr \<times> 's"
  sm_GetDataGrant :: "string \<Rightarrow> 's \<Rightarrow> DataGrant option result"
  sm_ListDataGrants :: "string \<Rightarrow> 's \<Rightarrow> DataGrant option list result"
  sm_DeleteDataGrant :: "string \<Rightarrow> 's \<Rightarrow> goerr \<times> 's"
  sm_StoreDataInstance :: "DataInstance option \<Rightarrow> 's \<Rightarrow> goerr \<times> 's"
  sm_GetDataInstance :: "string \<Rightarrow> 's \<Rightarrow> DataInstance option result"
  sm_ListDataInstances :: "string \<Rightarrow> 's \<Rightarrow> DataInstance option list result"
  sm_DeleteDataInstance :: "string \<Rightarrow> 's \<Rightarrow> goerr \<times> 's"
  sm_StoreShapeTree :: "ShapeTree option \<Rightarrow> 's \<Rightarrow> goerr \<times> 's"
  sm_GetShapeTree :: "string \<Rightarrow> 's \<Rightarrow> ShapeTree option result"
  sm_ListShapeTrees :: "'s \<Rightarrow> ShapeTree option list result"
  sm_DeleteShapeTree :: "string \<Rightarrow> 's \<Rightarrow> goerr \<times> 's"
  sm_StoreAuthorizationAgent :: "AuthorizationAgent option \<Rightarrow> 's \<Rightarrow> goerr \<times> 's"
  sm_GetAuthorizationAgent :: "string \<Rightarrow> 's \<Rightarrow> AuthorizationAgent option result"
  sm_ListAuthorizationAgents :: "'s \<Rightarrow> AuthorizationAgent option list result"
  sm_DeleteAuthorizationAgent :: "string \<Rightarrow> 's \<Rightarrow> goerr \<times> 's"

definition memory_sai :: "InMemorySAIStorage SAIStorage" where
  "memory_sai =
     \<lparr>sm_StoreApplication = SS_StoreApplication, sm_GetApplication = SS_GetApplication,
      sm_ListApplications = SS_ListApplications, sm_DeleteApplication = SS_DeleteApplication,
      sm_StoreApplicationRegistration = SS_StoreApplicationRegistration, sm_GetApplicationRegistration = SS_GetApplicationRegistration,
      sm_ListApplicationRegistrations = SS_ListApplicationRegistrations, sm_DeleteApplicationRegistration = SS_DeleteApplicationRegistration,
      sm_StoreAccessGrant = SS_StoreAccessGrant, sm_GetAccessGrant = SS_GetAccessGrant,
      sm_ListAccessGrants = SS_ListAccessGrants, sm_DeleteAccessGrant = SS_DeleteAccessGrant,
      sm_StoreDataRegistration = SS_StoreDataRegistration, sm_GetDataRegistration = SS_GetDataRegistration,
      sm_ListDataRegistrations = SS_ListDataRegistrations, sm_DeleteDataRegistration = SS_DeleteDataRegistration,
      sm_StoreDataGrant = SS_StoreDataGrant, sm_GetDataGrant = SS_GetDataGrant,
      sm_ListDataGrants = SS_ListDataGrants, sm_DeleteDataGrant = SS_DeleteDataGrant,
      sm_StoreDataInstance = SS_StoreDataInstance, sm_GetDataInstance = SS_GetDataInstance,
      sm_ListDataInstances = SS_ListDataInstances, sm_DeleteDataInstance = SS_DeleteDataInstance,
      sm_StoreShapeTree = SS_StoreShapeTree, sm_GetShapeTree = SS_GetShapeTree,
      sm_ListShapeTrees = SS_ListShapeTrees, sm_DeleteShapeTree = SS_DeleteShapeTree,
      sm_StoreAuthorizationAgent = SS_StoreAuthorizationAgent, sm_GetAuthorizationAgent = SS_GetAuthorizationAgent,
      sm_ListAuthorizationAgents = SS_ListAuthorizationAgents, sm_DeleteAuthorizationAgent = SS_DeleteAuthorizationAgent\<rparr>"

section \<open>What the service relies on\<close>

text \<open>The contents of a storage: what is stored under an identifier, and the identifiers an index lists for a
  user.\<close>

record sai_view =
  v_apps :: "string \<Rightarrow> Application option"
  v_regs :: "string \<Rightarrow> ApplicationRegistration option"
  v_regs_of :: "string \<Rightarrow> string list"
  v_grants :: "string \<Rightarrow> AccessGrant option"
  v_grants_of :: "string \<Rightarrow> string list"
  v_dregs :: "string \<Rightarrow> DataRegistration option"
  v_dregs_of :: "string \<Rightarrow> string list"
  v_dgrants :: "string \<Rightarrow> DataGrant option"
  v_dinsts :: "string \<Rightarrow> DataInstance option"
  v_trees :: "string \<Rightarrow> ShapeTree option"

definition add_app :: "Application \<Rightarrow> sai_view \<Rightarrow> sai_view" where
  "add_app a v = v\<lparr>v_apps := (v_apps v)(ap_ID a \<mapsto> a)\<rparr>"

definition add_reg :: "ApplicationRegistration \<Rightarrow> sai_view \<Rightarrow> sai_view" where
  "add_reg r v = v\<lparr>v_regs := (v_regs v)(rg_ID r \<mapsto> r),
     v_regs_of := (v_regs_of v)(rg_RegisteredBy r := v_regs_of v (rg_RegisteredBy r) @ [rg_ID r])\<rparr>"

definition add_grant :: "AccessGrant \<Rightarrow> sai_view \<Rightarrow> sai_view" where
  "add_grant g v = v\<lparr>v_grants := (v_grants v)(gr_ID g \<mapsto> g),
     v_grants_of := (v_grants_of v)(gr_FromAgent g := v_grants_of v (gr_FromAgent g) @ [gr_ID g])\<rparr>"

definition add_dreg :: "DataRegistration \<Rightarrow> sai_view \<Rightarrow> sai_view" where
  "add_dreg r v = v\<lparr>v_dregs := (v_dregs v)(dr_ID r \<mapsto> r),
     v_dregs_of := (v_dregs_of v)(dr_RegisteredBy r := v_dregs_of v (dr_RegisteredBy r) @ [dr_ID r])\<rparr>"

definition add_dgrant :: "DataGrant \<Rightarrow> sai_view \<Rightarrow> sai_view" where
  "add_dgrant g v = v\<lparr>v_dgrants := (v_dgrants v)(dg_ID g \<mapsto> g)\<rparr>"

definition add_dinst :: "DataInstance \<Rightarrow> sai_view \<Rightarrow> sai_view" where
  "add_dinst d v = v\<lparr>v_dinsts := (v_dinsts v)(di_ID d \<mapsto> d)\<rparr>"

definition add_tree :: "ShapeTree \<Rightarrow> sai_view \<Rightarrow> sai_view" where
  "add_tree t v = v\<lparr>v_trees := (v_trees v)(sh_ID t \<mapsto> t)\<rparr>"

lemmas add_defs = add_app_def add_reg_def add_grant_def add_dreg_def add_dgrant_def add_dinst_def add_tree_def

text \<open>The contract: a structure with an identifier can be stored, and then the contents are as expected; the
  listed registrations are the stored ones and none is missing.\<close>

locale sai_storage =
  fixes m :: "'s SAIStorage" and ok :: "'s \<Rightarrow> bool" and view :: "'s \<Rightarrow> sai_view"
  assumes store_app: "ok s \<Longrightarrow> ap_ID a \<noteq> [] \<Longrightarrow>
      \<exists>s'. sm_StoreApplication m (Some a) s = (None, s') \<and> ok s' \<and> view s' = add_app a (view s)"
    and store_reg: "ok s \<Longrightarrow> rg_ID r \<noteq> [] \<Longrightarrow>
      \<exists>s'. sm_StoreApplicationRegistration m (Some r) s = (None, s') \<and> ok s' \<and> view s' = add_reg r (view s)"
    and store_grant: "ok s \<Longrightarrow> gr_ID g \<noteq> [] \<Longrightarrow>
      \<exists>s'. sm_StoreAccessGrant m (Some g) s = (None, s') \<and> ok s' \<and> view s' = add_grant g (view s)"
    and store_dreg: "ok s \<Longrightarrow> dr_ID q \<noteq> [] \<Longrightarrow>
      \<exists>s'. sm_StoreDataRegistration m (Some q) s = (None, s') \<and> ok s' \<and> view s' = add_dreg q (view s)"
    and store_dgrant: "ok s \<Longrightarrow> dg_ID d \<noteq> [] \<Longrightarrow>
      \<exists>s'. sm_StoreDataGrant m (Some d) s = (None, s') \<and> ok s' \<and> view s' = add_dgrant d (view s)"
    and store_dinst: "ok s \<Longrightarrow> di_ID i \<noteq> [] \<Longrightarrow>
      \<exists>s'. sm_StoreDataInstance m (Some i) s = (None, s') \<and> ok s' \<and> view s' = add_dinst i (view s)"
    and store_tree: "ok s \<Longrightarrow> sh_ID t \<noteq> [] \<Longrightarrow>
      \<exists>s'. sm_StoreShapeTree m (Some t) s = (None, s') \<and> ok s' \<and> view s' = add_tree t (view s)"
    and list_regs: "ok s \<Longrightarrow>
      sm_ListApplicationRegistrations m u s = Inr (map (v_regs (view s)) (v_regs_of (view s) u))"
    and regs_stored: "ok s \<Longrightarrow> k \<in> set (v_regs_of (view s) u) \<Longrightarrow>
      \<exists>r. v_regs (view s) k = Some r \<and> rg_ID r = k \<and> k \<noteq> []"
    and list_grants: "ok s \<Longrightarrow>
      \<exists>gs. sm_ListAccessGrants m u s = Inr gs \<and> length gs = length (v_grants_of (view s) u)"
    and get_dinst: "ok s \<Longrightarrow> v_dinsts (view s) k = Some i \<Longrightarrow> sm_GetDataInstance m k s = Inr (Some i)"

section \<open>The in-memory storage keeps the contract\<close>

lemma index_ids_create [simp]: "index_ids (index_create u m) = index_ids m"
  by (auto simp: index_ids_def index_create_def split: option.splits)

lemma index_ids_add: "index_ids (index_add u i m) = (index_ids m)(u := index_ids m u @ [i])"
  by (auto simp: index_add_def Let_def fun_eq_iff index_ids_def index_create_def split: option.splits)

definition memory_view :: "InMemorySAIStorage \<Rightarrow> sai_view" where
  "memory_view s =
     \<lparr>v_apps = mget (ss_applications s),
      v_regs = mget (ss_applicationRegistrations s),
      v_regs_of = index_ids (ss_applicationRegistrationsByUser s),
      v_grants = mget (ss_accessGrants s),
      v_grants_of = index_ids (ss_accessGrantsByUser s),
      v_dregs = mget (ss_dataRegistrations s),
      v_dregs_of = index_ids (ss_dataRegistrationsByUser s),
      v_dgrants = mget (ss_dataGrants s), v_dinsts = mget (ss_dataInstances s),
      v_trees = mget (ss_shapeTrees s)\<rparr>"

definition memory_sai_ok :: "InMemorySAIStorage \<Rightarrow> bool" where
  "memory_sai_ok s \<longleftrightarrow>
     (\<forall>u. \<forall>i \<in> set (index_ids (ss_applicationRegistrationsByUser s) u).
        \<exists>r. mget (ss_applicationRegistrations s) i = Some r \<and> rg_ID r = i \<and> i \<noteq> [])"

lemma memory_sai_ok_New [simp]: "memory_sai_ok NewInMemorySAIStorage"
  by (simp add: memory_sai_ok_def NewInMemorySAIStorage_def index_ids_def)

lemma update_fun: "map_of (AList.update k v m) = (map_of m)(k \<mapsto> v)"
  by (rule ext) simp

lemmas memory_store_defs = SS_StoreApplication_def SS_StoreApplicationRegistration_def SS_StoreAccessGrant_def
  SS_StoreDataRegistration_def SS_StoreDataGrant_def SS_StoreDataInstance_def SS_StoreShapeTree_def

lemma SS_ListApplicationRegistrations_index:
  "SS_ListApplicationRegistrations u s =
     Inr (map (mget (ss_applicationRegistrations s)) (index_ids (ss_applicationRegistrationsByUser s) u))"
proof -
  have "(case x of None \<Rightarrow> None | Some r \<Rightarrow> copyApplicationRegistration (Some r)) = x" for x
    by (cases x) (simp_all add: copyApplicationRegistration_def)
  then show ?thesis
    by (simp add: SS_ListApplicationRegistrations_def list_ids_def index_ids_def split: option.splits)
qed

interpretation ms: sai_storage memory_sai memory_sai_ok memory_view
proof unfold_locales
  fix s u
  show "sm_ListApplicationRegistrations memory_sai u s = Inr (map (v_regs (memory_view s)) (v_regs_of (memory_view s) u))"
    by (simp add: memory_sai_def memory_view_def SS_ListApplicationRegistrations_index)
  show "\<exists>gs. sm_ListAccessGrants memory_sai u s = Inr gs \<and> length gs = length (v_grants_of (memory_view s) u)"
    by (simp add: memory_sai_def memory_view_def SS_ListAccessGrants_def list_ids_def index_ids_def split: option.splits)
next
  fix s k i
  assume "v_dinsts (memory_view s) k = Some i"
  then show "sm_GetDataInstance memory_sai k s = Inr (Some i)"
    by (simp add: memory_sai_def memory_view_def SS_GetDataInstance_def copyDataInstance_def)
qed (auto simp: memory_sai_def memory_store_defs add_defs memory_view_def memory_sai_ok_def update_fun index_ids_add)

section \<open>What comes back\<close>

text \<open>A stored registration, instance or shape tree comes back as it was stored.\<close>

lemma copyApplication_id: "copyApplication (Some a) = Some a"
proof -
  have "the (copyAccessNeedGroup (Some g)) = g" for g
    by (simp add: copyAccessNeedGroup_def copyAccessNeed_def)
  then show ?thesis by (simp add: copyApplication_def)
qed

lemma get_after_store:
  "ap_ID a \<noteq> [] \<Longrightarrow> SS_GetApplication (ap_ID a) (snd (SS_StoreApplication (Some a) s)) = Inr (Some a)"
  "rg_ID r \<noteq> [] \<Longrightarrow> SS_GetApplicationRegistration (rg_ID r) (snd (SS_StoreApplicationRegistration (Some r) s)) = Inr (Some r)"
  "di_ID d \<noteq> [] \<Longrightarrow> SS_GetDataInstance (di_ID d) (snd (SS_StoreDataInstance (Some d) s)) = Inr (Some d)"
  "sh_ID t \<noteq> [] \<Longrightarrow> SS_GetShapeTree (sh_ID t) (snd (SS_StoreShapeTree (Some t) s)) = Inr (Some t)"
  by (simp_all add: memory_store_defs SS_GetApplication_def copyApplication_id SS_GetApplicationRegistration_def
      copyApplicationRegistration_def SS_GetDataInstance_def copyDataInstance_def SS_GetShapeTree_def
      copyShapeTree_def copyShapeTreeReference_def)

text \<open>A grant comes back with an empty string in front for every element of its lists, so that a valid grant
  that refers to something is not valid any more when it is read.\<close>

lemma valid_grant_refs:
  "ValidateAccessGrant perr (Some g) = None \<Longrightarrow> [] \<notin> set (gr_HasDataGrant g) \<and> [] \<notin> set (gr_HasAccessNeedGroup g)"
  by (auto simp: ValidateAccessGrant_def sai_checks split: if_splits)

lemma grant_read_back_is_invalid:
  assumes "ValidateAccessGrant perr (Some g) = None" "gr_HasDataGrant g \<noteq> [] \<or> gr_HasAccessNeedGroup g \<noteq> []"
  shows "\<exists>g'. SS_GetAccessGrant (gr_ID g) (snd (SS_StoreAccessGrant (Some g) s)) = Inr (Some g') \<and>
    gr_HasDataGrant g' = replicate (length (gr_HasDataGrant g)) [] @ gr_HasDataGrant g \<and>
    ValidateAccessGrant perr (Some g') \<noteq> None"
proof -
  have "gr_ID g \<noteq> []" using assms(1) by (auto simp: ValidateAccessGrant_def sai_checks)
  then have "SS_GetAccessGrant (gr_ID g) (snd (SS_StoreAccessGrant (Some g) s)) = Inr (copyAccessGrant (Some g))"
    by (simp add: SS_GetAccessGrant_def memory_store_defs)
  moreover have "[] \<in> set (padded xs)" if "xs \<noteq> []" for xs using that by (cases xs) (auto simp: padded_def)
  then have "ValidateAccessGrant perr (copyAccessGrant (Some g)) \<noteq> None"
    using assms(2) valid_grant_refs [of perr "the (copyAccessGrant (Some g))"] by (auto simp: copyAccessGrant_def)
  ultimately show ?thesis by (auto simp: copyAccessGrant_def padded_def)
qed

text \<open>Storing a registration again, as the service does to update it, lists it twice; deleting it then takes
  away one of the two, and the other leaves \<open>nil\<close> in the list.\<close>

lemma deleted_registration_leaves_nil:
  assumes "rg_ID r \<noteq> []"
  shows "SS_ListApplicationRegistrations (rg_RegisteredBy r)
      (snd (SS_DeleteApplicationRegistration (rg_ID r)
        (snd (SS_StoreApplicationRegistration (Some r)
          (snd (SS_StoreApplicationRegistration (Some r) NewInMemorySAIStorage)))))) = Inr [None]"
  using assms
  by (simp add: memory_store_defs SS_DeleteApplicationRegistration_def SS_ListApplicationRegistrations_def
      NewInMemorySAIStorage_def index_add_def index_create_def index_ids_def index_remove_def list_ids_def Let_def)

end
