(* ===== verification/Sai_Service.thy ===== *)
theory Sai_Service
  imports Sai_Storage Go_Sha256
begin

text \<open>
  The SAI service (\<^verbatim>\<open>internal/sai/service.go\<close>): it registers applications, grants them access and registers
  data, over any storage with the methods of \<open>SAIStorage\<close>. The state is the storage. \<open>ctx\<close> is what \<open>ctx.Err()\<close>
  returns. A clock reading that only goes into an identifier is an argument as its text in the format
  \<open>RFC3339Nano\<close>; an operation that makes several takes them as a function \<open>stamp\<close> of their position.
  \<open>None\<close> is a panic on a \<open>nil\<close> pointer. The names carry the prefix \<open>SV_\<close> where the storage has a
  method of the same name.
\<close>

section \<open>Options and identifiers\<close>

definition ErrSAIService :: goerror where
  "ErrSAIService = ErrorsNew ''SAI service failed''"

definition SAIDefaultTimeout :: duration where
  "SAIDefaultTimeout = 30 * second"

record SAIServiceOptions =
  so_Timeout :: duration
  so_MaxRetries :: int
  so_BaseURL :: string
  so_Storage :: "InMemorySAIStorage option"
  so_AuthorizationAgentURL :: string

definition DefaultSAIServiceOptions :: SAIServiceOptions where
  "DefaultSAIServiceOptions =
     \<lparr>so_Timeout = SAIDefaultTimeout, so_MaxRetries = 3, so_BaseURL = [], so_Storage = None,
      so_AuthorizationAgentURL = []\<rparr>"

record SAIService =
  sv_options :: SAIServiceOptions
  sv_storage :: InMemorySAIStorage

text \<open>The one implementation of \<open>SAIStorage\<close> in the repository is the in-memory one.\<close>

definition NewSAIService :: "SAIServiceOptions \<Rightarrow> SAIService" where
  "NewSAIService options =
     (let o1 = (if so_Timeout options \<le> 0 then options\<lparr>so_Timeout := SAIDefaultTimeout\<rparr> else options);
          o2 = (if so_MaxRetries o1 \<le> 0 then o1\<lparr>so_MaxRetries := 3\<rparr> else o1);
          storage = (case so_Storage o2 of None \<Rightarrow> NewInMemorySAIStorage | Some st \<Rightarrow> st)
      in \<lparr>sv_options = o2\<lparr>so_Storage := Some storage\<rparr>, sv_storage = storage\<rparr>)"

definition generateSAIID :: "string \<Rightarrow> string \<Rightarrow> string" where
  "generateSAIID prefix stamp =
     ''urn:sai:'' @ prefix @ '':'' @ take 24 (hex_EncodeToString (Sum256 (prefix @ stamp)))"

definition generateDataInstanceID :: "string \<Rightarrow> string \<Rightarrow> string" where
  "generateDataInstanceID prefix stamp = prefix @ take 16 (hex_EncodeToString (Sum256 (prefix @ stamp)))"

text \<open>\<open>fmt.Errorf("%w: msg: %v", ErrSAIService, err)\<close>.\<close>

definition svc_fail :: "string \<Rightarrow> goerror \<Rightarrow> goerror" where
  "svc_fail msg err = wrapf ErrSAIService (msg @ '': '' @ Error err)"

section \<open>Registration of applications\<close>

record RegisterApplicationRequest =
  ra_Application :: Application
  ra_UserID :: string
  ra_AuthorizationAgentURL :: string

record RegisterApplicationResponse =
  rr_ApplicationRegistration :: ApplicationRegistration
  rr_Application :: Application

definition validateRegisterApplicationRequest ::
  "(string \<Rightarrow> string) \<Rightarrow> RegisterApplicationRequest \<Rightarrow> goerr" where
  "validateRegisterApplicationRequest perr req =
     checkf ''invalid user ID'' (SAI_ValidateWebID perr (ra_UserID req))
    (checkf ''invalid authorization agent URL'' (ValidateURL perr (ra_AuthorizationAgentURL req))
    (checkf ''invalid application'' (ValidateApplication perr (Some (ra_Application req))) None))"

definition new_registration :: "RegisterApplicationRequest \<Rightarrow> gotime \<Rightarrow> string \<Rightarrow> ApplicationRegistration" where
  "new_registration req now stamp =
     \<lparr>rg_ID = generateSAIID ''registration'' stamp, rg_RegisteredBy = ra_UserID req,
      rg_RegisteredWith = ra_AuthorizationAgentURL req, rg_RegisteredAt = now, rg_UpdatedAt = now,
      rg_RegisteredAgent = ap_ID (ra_Application req), rg_HasAccessGrant = []\<rparr>"

definition RegisterApplication ::
  "'s SAIStorage \<Rightarrow> (string \<Rightarrow> string) \<Rightarrow> goerr \<Rightarrow> gotime \<Rightarrow> string \<Rightarrow> RegisterApplicationRequest \<Rightarrow> 's
     \<Rightarrow> RegisterApplicationResponse result \<times> 's" where
  "RegisterApplication m perr ctx now stamp req s =
     (case ctx of Some err \<Rightarrow> (Inl (svc_fail ''context cancelled'' err), s) | None \<Rightarrow>
     (case validateRegisterApplicationRequest perr req of
        Some err \<Rightarrow> (Inl (wrapf ErrSAIService (Error err)), s) | None \<Rightarrow>
     (case sm_StoreApplication m (Some (ra_Application req)) s of
        (Some err, s1) \<Rightarrow> (Inl (svc_fail ''failed to store application'' err), s1)
      | (None, s1) \<Rightarrow>
          let registration = new_registration req now stamp in
          (case sm_StoreApplicationRegistration m (Some registration) s1 of
             (Some err, s2) \<Rightarrow> (Inl (svc_fail ''failed to store application registration'' err), s2)
           | (None, s2) \<Rightarrow>
               (Inr \<lparr>rr_ApplicationRegistration = registration, rr_Application = ra_Application req\<rparr>, s2)))))"

section \<open>Discovery of the authorization agent\<close>

record DiscoverAuthorizationAgentResponse =
  da_AuthorizationAgent :: AuthorizationAgent
  da_ApplicationRegistrationID :: string
  da_HasExistingGrant :: bool

definition DiscoverAuthorizationAgent ::
  "'s SAIStorage \<Rightarrow> (string \<Rightarrow> string) \<Rightarrow> SAIServiceOptions \<Rightarrow> goerr \<Rightarrow> string \<Rightarrow> 's
     \<Rightarrow> DiscoverAuthorizationAgentResponse result option" where
  "DiscoverAuthorizationAgent m perr options ctx userID s =
     (case ctx of Some err \<Rightarrow> Some (Inl (svc_fail ''context cancelled'' err)) | None \<Rightarrow>
     (case SAI_ValidateWebID perr userID of
        Some err \<Rightarrow> Some (Inl (svc_fail ''invalid user ID'' err)) | None \<Rightarrow>
     (case sm_ListApplicationRegistrations m userID s of
        Inl err \<Rightarrow> Some (Inl (svc_fail ''failed to list application registrations'' err))
      | Inr registrations \<Rightarrow>
     (case sm_ListAccessGrants m userID s of
        Inl err \<Rightarrow> Some (Inl (svc_fail ''failed to list access grants'' err))
      | Inr grants \<Rightarrow>
          let response = \<lparr>da_AuthorizationAgent = \<lparr>au_ID = so_AuthorizationAgentURL options, au_AgentRegistrySet = []\<rparr>,
                          da_ApplicationRegistrationID = [], da_HasExistingGrant = length grants > 0\<rparr>
          in (case registrations of
                [] \<Rightarrow> Some (Inr response)
              | None # _ \<Rightarrow> None
              | Some r # _ \<Rightarrow> Some (Inr (response\<lparr>da_ApplicationRegistrationID := rg_ID r\<rparr>)))))))"

definition ParseAuthorizationAgentFromWebID :: "SAIServiceOptions \<Rightarrow> string \<Rightarrow> string result" where
  "ParseAuthorizationAgentFromWebID options webID =
     (if so_AuthorizationAgentURL options \<noteq> [] then Inr (so_AuthorizationAgentURL options)
      else Inl (ErrorsNew ''authorization agent URL not configured''))"

section \<open>Access grants\<close>

record CreateAccessGrantRequest =
  cg_UserID :: string
  cg_ApplicationID :: string
  cg_AccessNeedGroupIDs :: "string list"
  cg_DataGrants :: "DataGrant list"
  cg_AuthorizationAgentURL :: string

record CreateAccessGrantResponse =
  cr_AccessGrant :: AccessGrant
  cr_ApplicationRegistration :: ApplicationRegistration

definition validateCreateAccessGrantRequest ::
  "(string \<Rightarrow> string) \<Rightarrow> CreateAccessGrantRequest \<Rightarrow> goerr" where
  "validateCreateAccessGrantRequest perr req =
     checkf ''invalid user ID'' (SAI_ValidateWebID perr (cg_UserID req))
    (checkf ''invalid application ID'' (SAI_ValidateWebID perr (cg_ApplicationID req))
    (checkf ''invalid authorization agent URL'' (ValidateURL perr (cg_AuthorizationAgentURL req))
    (check_all ''invalid access need group ID'' ValidateIRI (cg_AccessNeedGroupIDs req)
    (check_all ''invalid data grant'' (\<lambda>g. ValidateDataGrant perr (Some g)) (cg_DataGrants req) None))))"

text \<open>The loop that stores the data grants and collects their identifiers.\<close>

fun store_data_grants ::
  "'s SAIStorage \<Rightarrow> (nat \<Rightarrow> string) \<Rightarrow> nat \<Rightarrow> DataGrant list \<Rightarrow> 's \<Rightarrow> string list result \<times> 's" where
  "store_data_grants m stamp i [] s = (Inr [], s)"
| "store_data_grants m stamp i (g # gs) s =
     (let dataGrant = (if dg_ID g = [] then g\<lparr>dg_ID := generateSAIID ''data-grant'' (stamp i)\<rparr> else g) in
      case sm_StoreDataGrant m (Some dataGrant) s of
        (Some err, s1) \<Rightarrow> (Inl (svc_fail ''failed to store data grant'' err), s1)
      | (None, s1) \<Rightarrow>
          (case store_data_grants m stamp (Suc i) gs s1 of
             (Inl err, s2) \<Rightarrow> (Inl err, s2)
           | (Inr ids, s2) \<Rightarrow> (Inr (dg_ID dataGrant # ids), s2)))"

text \<open>The loop that looks for the application's registration; it reads a field of every pointer it meets.\<close>

fun find_registration :: "string \<Rightarrow> ApplicationRegistration option list \<Rightarrow> ApplicationRegistration option option" where
  "find_registration applicationID [] = Some None"
| "find_registration applicationID (None # regs) = None"
| "find_registration applicationID (Some r # regs) =
     (if rg_RegisteredAgent r = applicationID then Some (Some r) else find_registration applicationID regs)"

definition new_grant :: "CreateAccessGrantRequest \<Rightarrow> gotime \<Rightarrow> (nat \<Rightarrow> string) \<Rightarrow> string list \<Rightarrow> AccessGrant" where
  "new_grant req now stamp ids =
     \<lparr>gr_ID = generateSAIID ''access-grant'' (stamp 1), gr_GrantedBy = cg_UserID req,
      gr_GrantedWith = cg_AuthorizationAgentURL req, gr_GrantedAt = now, gr_ProvidedAt = now, gr_UpdatedAt = now,
      gr_FromAgent = cg_UserID req, gr_ViaAgent = cg_UserID req,
      gr_HasAccessGrantSubject =
        \<lparr>gs_ID = generateSAIID ''grant-subject'' (stamp 0), gs_AccessByAgent = cg_UserID req,
         gs_AccessByApplication = cg_ApplicationID req\<rparr>,
      gr_HasAccessNeedGroup = cg_AccessNeedGroupIDs req, gr_HasDataGrant = ids\<rparr>"

definition granted_registration ::
  "CreateAccessGrantRequest \<Rightarrow> gotime \<Rightarrow> string \<Rightarrow> string \<Rightarrow> ApplicationRegistration option \<Rightarrow> ApplicationRegistration" where
  "granted_registration req now stamp grantID found =
     (case found of
        Some reg \<Rightarrow> reg\<lparr>rg_HasAccessGrant := grantID, rg_UpdatedAt := now\<rparr>
      | None \<Rightarrow>
          \<lparr>rg_ID = generateSAIID ''registration'' stamp, rg_RegisteredBy = cg_UserID req,
           rg_RegisteredWith = cg_AuthorizationAgentURL req, rg_RegisteredAt = now, rg_UpdatedAt = now,
           rg_RegisteredAgent = cg_ApplicationID req, rg_HasAccessGrant = grantID\<rparr>)"

definition CreateAccessGrant ::
  "'s SAIStorage \<Rightarrow> (string \<Rightarrow> string) \<Rightarrow> goerr \<Rightarrow> gotime \<Rightarrow> (nat \<Rightarrow> string) \<Rightarrow> CreateAccessGrantRequest \<Rightarrow> 's
     \<Rightarrow> (CreateAccessGrantResponse result \<times> 's) option" where
  "CreateAccessGrant m perr ctx now stamp req s =
     (case ctx of Some err \<Rightarrow> Some (Inl (svc_fail ''context cancelled'' err), s) | None \<Rightarrow>
     (case validateCreateAccessGrantRequest perr req of
        Some err \<Rightarrow> Some (Inl (wrapf ErrSAIService (Error err)), s) | None \<Rightarrow>
     (case store_data_grants m stamp 2 (cg_DataGrants req) s of
        (Inl err, s1) \<Rightarrow> Some (Inl err, s1)
      | (Inr ids, s1) \<Rightarrow>
     (let accessGrant = new_grant req now stamp ids in
      case sm_StoreAccessGrant m (Some accessGrant) s1 of
        (Some err, s2) \<Rightarrow> Some (Inl (svc_fail ''failed to store access grant'' err), s2)
      | (None, s2) \<Rightarrow>
     (case sm_ListApplicationRegistrations m (cg_UserID req) s2 of
        Inl err \<Rightarrow> Some (Inl (svc_fail ''failed to list application registrations'' err), s2)
      | Inr registrations \<Rightarrow>
     (case find_registration (cg_ApplicationID req) registrations of None \<Rightarrow> None | Some found \<Rightarrow>
     (let updated = granted_registration req now (stamp (length ids + 2)) (gr_ID accessGrant) found in
      case sm_StoreApplicationRegistration m (Some updated) s2 of
        (Some err, s3) \<Rightarrow> Some (Inl (svc_fail ''failed to store application registration'' err), s3)
      | (None, s3) \<Rightarrow>
          Some (Inr \<lparr>cr_AccessGrant = accessGrant, cr_ApplicationRegistration = updated\<rparr>, s3))))))))"

section \<open>Registration of data\<close>

record RegisterDataRequest =
  rd_UserID :: string
  rd_ApplicationID :: string
  rd_ShapeTreeID :: string
  rd_IRIPrefix :: string
  rd_InitialDataInstances :: "DataInstance list"

record RegisterDataResponse =
  ro_DataRegistration :: DataRegistration
  ro_DataInstances :: "DataInstance list"

definition validateRegisterDataRequest :: "(string \<Rightarrow> string) \<Rightarrow> RegisterDataRequest \<Rightarrow> goerr" where
  "validateRegisterDataRequest perr req =
     checkf ''invalid user ID'' (SAI_ValidateWebID perr (rd_UserID req))
    (checkf ''invalid application ID'' (SAI_ValidateWebID perr (rd_ApplicationID req))
    (checkf ''invalid shape tree ID'' (ValidateIRI (rd_ShapeTreeID req))
    (checkf ''invalid IRI prefix'' (ValidateURL perr (rd_IRIPrefix req))
    (check_all ''invalid data instance'' (\<lambda>d. ValidateDataInstance (Some d)) (rd_InitialDataInstances req) None))))"

text \<open>The loop that stores the instances and collects their identifiers.\<close>

fun store_instances ::
  "'s SAIStorage \<Rightarrow> string \<Rightarrow> (nat \<Rightarrow> string) \<Rightarrow> nat \<Rightarrow> DataInstance list \<Rightarrow> 's \<Rightarrow> string list result \<times> 's" where
  "store_instances m prefix stamp i [] s = (Inr [], s)"
| "store_instances m prefix stamp i (d # ds) s =
     (let dinst = (if di_ID d = [] then d\<lparr>di_ID := generateDataInstanceID prefix (stamp (Suc i))\<rparr> else d) in
      case ValidateDataInstance (Some dinst) of
        Some err \<Rightarrow> (Inl (svc_fail (''invalid data instance at index '' @ format_nat i) err), s)
      | None \<Rightarrow>
      (case sm_StoreDataInstance m (Some dinst) s of
         (Some err, s1) \<Rightarrow> (Inl (svc_fail ''failed to store data instance'' err), s1)
       | (None, s1) \<Rightarrow>
           (case store_instances m prefix stamp (Suc i) ds s1 of
              (Inl err, s2) \<Rightarrow> (Inl err, s2)
            | (Inr ids, s2) \<Rightarrow> (Inr (di_ID dinst # ids), s2))))"

definition zero_instance :: DataInstance where
  "zero_instance = \<lparr>di_ID = [], di_Type = [], di_ShapeTree = [], di_Data = [], di_ContentType = []\<rparr>"

text \<open>The loop that reads the instances back; one that cannot be read stays a zero value.\<close>

fun fetch_instances :: "'s SAIStorage \<Rightarrow> string list \<Rightarrow> 's \<Rightarrow> DataInstance list option" where
  "fetch_instances m [] s = Some []"
| "fetch_instances m (i # ids) s =
     (case sm_GetDataInstance m i s of
        Inl err \<Rightarrow> map_option (Cons zero_instance) (fetch_instances m ids s)
      | Inr None \<Rightarrow> None
      | Inr (Some d) \<Rightarrow> map_option (Cons d) (fetch_instances m ids s))"

definition new_data_registration ::
  "RegisterDataRequest \<Rightarrow> gotime \<Rightarrow> string \<Rightarrow> string list \<Rightarrow> DataRegistration" where
  "new_data_registration req now stamp ids =
     \<lparr>dr_ID = generateSAIID ''data-registration'' stamp, dr_RegisteredShapeTree = rd_ShapeTreeID req,
      dr_RegisteredAt = now, dr_RegisteredBy = rd_UserID req, dr_RegisteredWith = rd_ApplicationID req,
      dr_IRIPrefix = rd_IRIPrefix req, dr_Contains = ids\<rparr>"

definition RegisterData ::
  "'s SAIStorage \<Rightarrow> (string \<Rightarrow> string) \<Rightarrow> goerr \<Rightarrow> gotime \<Rightarrow> (nat \<Rightarrow> string) \<Rightarrow> RegisterDataRequest \<Rightarrow> 's
     \<Rightarrow> (RegisterDataResponse result \<times> 's) option" where
  "RegisterData m perr ctx now stamp req s =
     (case ctx of Some err \<Rightarrow> Some (Inl (svc_fail ''context cancelled'' err), s) | None \<Rightarrow>
     (case validateRegisterDataRequest perr req of
        Some err \<Rightarrow> Some (Inl (wrapf ErrSAIService (Error err)), s) | None \<Rightarrow>
     (case store_instances m (rd_IRIPrefix req) stamp 0 (rd_InitialDataInstances req) s of
        (Inl err, s1) \<Rightarrow> Some (Inl err, s1)
      | (Inr ids, s1) \<Rightarrow>
     (let registration = new_data_registration req now (stamp 0) ids in
      case sm_StoreDataRegistration m (Some registration) s1 of
        (Some err, s2) \<Rightarrow> Some (Inl (svc_fail ''failed to store data registration'' err), s2)
      | (None, s2) \<Rightarrow>
          map_option (\<lambda>ds. (Inr \<lparr>ro_DataRegistration = registration, ro_DataInstances = ds\<rparr>, s2))
            (fetch_instances m ids s2)))))"

section \<open>The other methods\<close>

definition SV_GetApplicationRegistration :: "'s SAIStorage \<Rightarrow> string \<Rightarrow> 's \<Rightarrow> ApplicationRegistration option result" where
  "SV_GetApplicationRegistration m i s =
     (case ValidateIRI i of Some err \<Rightarrow> Inl (svc_fail ''invalid registration ID'' err)
      | None \<Rightarrow> sm_GetApplicationRegistration m i s)"

definition SV_GetAccessGrant :: "'s SAIStorage \<Rightarrow> string \<Rightarrow> 's \<Rightarrow> AccessGrant option result" where
  "SV_GetAccessGrant m i s =
     (case ValidateIRI i of Some err \<Rightarrow> Inl (svc_fail ''invalid grant ID'' err)
      | None \<Rightarrow> sm_GetAccessGrant m i s)"

definition ListAccessGrantsForUser ::
  "'s SAIStorage \<Rightarrow> (string \<Rightarrow> string) \<Rightarrow> string \<Rightarrow> 's \<Rightarrow> AccessGrant option list result" where
  "ListAccessGrantsForUser m perr userID s =
     (case SAI_ValidateWebID perr userID of Some err \<Rightarrow> Inl (svc_fail ''invalid user ID'' err)
      | None \<Rightarrow> sm_ListAccessGrants m userID s)"

definition ListDataRegistrationsForUser ::
  "'s SAIStorage \<Rightarrow> (string \<Rightarrow> string) \<Rightarrow> string \<Rightarrow> 's \<Rightarrow> DataRegistration option list result" where
  "ListDataRegistrationsForUser m perr userID s =
     (case SAI_ValidateWebID perr userID of Some err \<Rightarrow> Inl (svc_fail ''invalid user ID'' err)
      | None \<Rightarrow> sm_ListDataRegistrations m userID s)"

definition SV_GetApplication :: "'s SAIStorage \<Rightarrow> goerr \<Rightarrow> string \<Rightarrow> 's \<Rightarrow> Application option result" where
  "SV_GetApplication m ctx i s =
     (case ctx of Some err \<Rightarrow> Inl (svc_fail ''context cancelled'' err) | None \<Rightarrow>
     (case ValidateIRI i of Some err \<Rightarrow> Inl (svc_fail ''invalid application ID'' err)
      | None \<Rightarrow> sm_GetApplication m i s))"

definition SV_ListApplications ::
  "'s SAIStorage \<Rightarrow> (string \<Rightarrow> string) \<Rightarrow> goerr \<Rightarrow> string \<Rightarrow> 's \<Rightarrow> Application option list result" where
  "SV_ListApplications m perr ctx owner s =
     (case ctx of Some err \<Rightarrow> Inl (svc_fail ''context cancelled'' err) | None \<Rightarrow>
     (case SAI_ValidateWebID perr owner of Some err \<Rightarrow> Inl (svc_fail ''invalid owner ID'' err)
      | None \<Rightarrow> sm_ListApplications m owner s))"

definition SV_StoreShapeTree :: "'s SAIStorage \<Rightarrow> goerr \<Rightarrow> ShapeTree option \<Rightarrow> 's \<Rightarrow> goerr \<times> 's" where
  "SV_StoreShapeTree m ctx tree s =
     (case ctx of Some err \<Rightarrow> (Some (svc_fail ''context cancelled'' err), s) | None \<Rightarrow>
     (case tree of None \<Rightarrow> (Some (wrapf ErrSAIService ''shape tree cannot be nil''), s)
      | Some t \<Rightarrow>
     (case ValidateIRI (sh_ID t) of Some err \<Rightarrow> (Some (svc_fail ''invalid shape tree ID'' err), s)
      | None \<Rightarrow> sm_StoreShapeTree m tree s)))"

definition SV_GetShapeTree :: "'s SAIStorage \<Rightarrow> goerr \<Rightarrow> string \<Rightarrow> 's \<Rightarrow> ShapeTree option result" where
  "SV_GetShapeTree m ctx i s =
     (case ctx of Some err \<Rightarrow> Inl (svc_fail ''context cancelled'' err) | None \<Rightarrow>
     (case ValidateIRI i of Some err \<Rightarrow> Inl (svc_fail ''invalid shape tree ID'' err)
      | None \<Rightarrow> sm_GetShapeTree m i s))"

definition SV_ListShapeTrees :: "'s SAIStorage \<Rightarrow> goerr \<Rightarrow> 's \<Rightarrow> ShapeTree option list result" where
  "SV_ListShapeTrees m ctx s =
     (case ctx of Some err \<Rightarrow> Inl (svc_fail ''context cancelled'' err) | None \<Rightarrow> sm_ListShapeTrees m s)"

definition SV_GetDataRegistration :: "'s SAIStorage \<Rightarrow> goerr \<Rightarrow> string \<Rightarrow> 's \<Rightarrow> DataRegistration option result" where
  "SV_GetDataRegistration m ctx i s =
     (case ctx of Some err \<Rightarrow> Inl (svc_fail ''context cancelled'' err) | None \<Rightarrow>
     (case ValidateIRI i of Some err \<Rightarrow> Inl (svc_fail ''invalid data registration ID'' err)
      | None \<Rightarrow> sm_GetDataRegistration m i s))"

section \<open>Identifiers are valid\<close>

lemma hex_printable: "is_hex c \<Longrightarrow> printable c \<and> c \<noteq> CHR ''#''"
  by (auto simp: is_hex_def is_digit_def printable_def less_eq_char_def)

lemma generateSAIID_nonempty [simp]: "generateSAIID prefix stamp \<noteq> []"
  by (simp add: generateSAIID_def)

lemma generateSAIID_valid:
  assumes "\<forall>c \<in> set prefix. printable c \<and> c \<noteq> CHR ''#''" "length prefix \<le> 100"
  shows "ValidateIRI (generateSAIID prefix stamp) = None"
proof -
  let ?h = "take 24 (hex_EncodeToString (Sum256 (prefix @ stamp)))"
  have "is_hex c" if "c \<in> set ?h" for c
    using that hex_EncodeToString_is_hex Sum256_bound by (metis in_set_takeD)
  then have "\<forall>c \<in> set (''sai:'' @ prefix @ '':'' @ ?h). printable c \<and> c \<noteq> CHR ''#''"
    using assms(1) hex_printable by (auto simp: printable_def less_eq_char_def)
  moreover have "length (''sai:'' @ prefix @ '':'' @ ?h) + 4 \<le> SAIMaxIRILength"
    using assms(2) by (simp add: SAIMaxIRILength_def)
  ultimately have "ValidateIRI (''urn:'' @ ''sai:'' @ prefix @ '':'' @ ?h) = None" by (rule ValidateIRI_urn)
  then show ?thesis by (simp add: generateSAIID_def)
qed

lemma generated_valid [simp]:
  "ValidateIRI (generateSAIID ''registration'' stamp) = None"
  "ValidateIRI (generateSAIID ''grant-subject'' stamp) = None"
  "ValidateIRI (generateSAIID ''access-grant'' stamp) = None"
  "ValidateIRI (generateSAIID ''data-registration'' stamp) = None"
  by (rule generateSAIID_valid; simp add: printable_def less_eq_char_def)+

section \<open>Consistent contents\<close>

text \<open>What is stored passes the checks of its type and stands under its own identifier, and every reference
  to a grant, a data grant or an instance resolves, and so does every identifier that is listed for a user.\<close>

definition consistent :: "(string \<Rightarrow> string) \<Rightarrow> sai_view \<Rightarrow> bool" where
  "consistent perr v \<longleftrightarrow>
     (\<forall>i a. v_apps v i = Some a \<longrightarrow> ap_ID a = i \<and> ValidateApplication perr (Some a) = None) \<and>
     (\<forall>i r. v_regs v i = Some r \<longrightarrow> rg_ID r = i \<and> ValidateApplicationRegistration perr (Some r) = None \<and>
        (rg_HasAccessGrant r = [] \<or> v_grants v (rg_HasAccessGrant r) \<noteq> None)) \<and>
     (\<forall>i g. v_grants v i = Some g \<longrightarrow> gr_ID g = i \<and> ValidateAccessGrant perr (Some g) = None \<and>
        (\<forall>k \<in> set (gr_HasDataGrant g). v_dgrants v k \<noteq> None)) \<and>
     (\<forall>i r. v_dregs v i = Some r \<longrightarrow> dr_ID r = i \<and> ValidateDataRegistration perr (Some r) = None \<and>
        (\<forall>k \<in> set (dr_Contains r). v_dinsts v k \<noteq> None)) \<and>
     (\<forall>i g. v_dgrants v i = Some g \<longrightarrow> dg_ID g = i \<and> ValidateDataGrant perr (Some g) = None) \<and>
     (\<forall>i d. v_dinsts v i = Some d \<longrightarrow> di_ID d = i \<and> ValidateDataInstance (Some d) = None) \<and>
     (\<forall>i t. v_trees v i = Some t \<longrightarrow> sh_ID t = i \<and> ValidateIRI i = None) \<and>
     (\<forall>u. \<forall>i \<in> set (v_regs_of v u). v_regs v i \<noteq> None) \<and>
     (\<forall>u. \<forall>i \<in> set (v_grants_of v u). v_grants v i \<noteq> None) \<and>
     (\<forall>u. \<forall>i \<in> set (v_dregs_of v u). v_dregs v i \<noteq> None)"

lemma consistent_add_app:
  "consistent perr v \<Longrightarrow> ValidateApplication perr (Some a) = None \<Longrightarrow> consistent perr (add_app a v)"
  unfolding consistent_def add_app_def by simp

lemma consistent_add_reg:
  "consistent perr v \<Longrightarrow> ValidateApplicationRegistration perr (Some r) = None \<Longrightarrow>
     rg_HasAccessGrant r = [] \<or> v_grants v (rg_HasAccessGrant r) \<noteq> None \<Longrightarrow> consistent perr (add_reg r v)"
  unfolding consistent_def add_reg_def by simp

lemma consistent_add_grant:
  "consistent perr v \<Longrightarrow> ValidateAccessGrant perr (Some g) = None \<Longrightarrow>
     \<forall>k \<in> set (gr_HasDataGrant g). v_dgrants v k \<noteq> None \<Longrightarrow> consistent perr (add_grant g v)"
  unfolding consistent_def add_grant_def by simp

lemma consistent_add_dreg:
  "consistent perr v \<Longrightarrow> ValidateDataRegistration perr (Some r) = None \<Longrightarrow>
     \<forall>k \<in> set (dr_Contains r). v_dinsts v k \<noteq> None \<Longrightarrow> consistent perr (add_dreg r v)"
  unfolding consistent_def add_dreg_def by simp

lemma consistent_add_dgrant:
  "consistent perr v \<Longrightarrow> ValidateDataGrant perr (Some g) = None \<Longrightarrow> consistent perr (add_dgrant g v)"
  unfolding consistent_def add_dgrant_def by simp

lemma consistent_add_dinst:
  "consistent perr v \<Longrightarrow> ValidateDataInstance (Some d) = None \<Longrightarrow> consistent perr (add_dinst d v)"
  unfolding consistent_def add_dinst_def by simp

lemma consistent_add_tree:
  "consistent perr v \<Longrightarrow> ValidateIRI (sh_ID t) = None \<Longrightarrow> consistent perr (add_tree t v)"
  unfolding consistent_def add_tree_def by simp

lemma fold_add_dgrant:
  "v_dgrants (fold add_dgrant gs v) k \<noteq> None \<longleftrightarrow> k \<in> dg_ID ` set gs \<or> v_dgrants v k \<noteq> None"
  "v_regs (fold add_dgrant gs v) = v_regs v" "v_regs_of (fold add_dgrant gs v) = v_regs_of v"
  "v_grants (fold add_dgrant gs v) = v_grants v" "v_grants_of (fold add_dgrant gs v) = v_grants_of v"
  by (induction gs arbitrary: v) (auto simp: add_dgrant_def)

lemma fold_add_dinst:
  "v_dinsts (fold add_dinst ds v) k \<noteq> None \<longleftrightarrow> k \<in> di_ID ` set ds \<or> v_dinsts v k \<noteq> None"
  "v_regs (fold add_dinst ds v) = v_regs v" "v_regs_of (fold add_dinst ds v) = v_regs_of v"
  "v_grants (fold add_dinst ds v) = v_grants v" "v_grants_of (fold add_dinst ds v) = v_grants_of v"
  by (induction ds arbitrary: v) (auto simp: add_dinst_def)

lemma consistent_fold_dgrant:
  "consistent perr v \<Longrightarrow> \<forall>g \<in> set gs. ValidateDataGrant perr (Some g) = None \<Longrightarrow> consistent perr (fold add_dgrant gs v)"
  by (induction gs arbitrary: v) (simp_all add: consistent_add_dgrant)

lemma consistent_fold_dinst:
  "consistent perr v \<Longrightarrow> \<forall>d \<in> set ds. ValidateDataInstance (Some d) = None \<Longrightarrow> consistent perr (fold add_dinst ds v)"
  by (induction ds arbitrary: v) (simp_all add: consistent_add_dinst)

section \<open>The operations over any storage that keeps the contract\<close>

lemma find_registration_find:
  "\<forall>r \<in> set regs. r \<noteq> None \<Longrightarrow>
     find_registration a regs = Some (find (\<lambda>r. rg_RegisteredAgent r = a) (map the regs))"
  by (induction a regs rule: find_registration.induct) auto

text \<open>What the calls of the service do to the contents, when they are accepted.\<close>

definition registered :: "RegisterApplicationRequest \<Rightarrow> gotime \<Rightarrow> string \<Rightarrow> sai_view \<Rightarrow> sai_view" where
  "registered req now stamp v = add_reg (new_registration req now stamp) (add_app (ra_Application req) v)"

definition listed_registration :: "sai_view \<Rightarrow> string \<Rightarrow> string \<Rightarrow> ApplicationRegistration option" where
  "listed_registration v u a = find (\<lambda>r. rg_RegisteredAgent r = a) (map (\<lambda>i. the (v_regs v i)) (v_regs_of v u))"

definition grant_of :: "CreateAccessGrantRequest \<Rightarrow> gotime \<Rightarrow> (nat \<Rightarrow> string) \<Rightarrow> AccessGrant" where
  "grant_of req now stamp = new_grant req now stamp (map dg_ID (cg_DataGrants req))"

definition registration_of ::
  "CreateAccessGrantRequest \<Rightarrow> gotime \<Rightarrow> (nat \<Rightarrow> string) \<Rightarrow> sai_view \<Rightarrow> ApplicationRegistration" where
  "registration_of req now stamp v =
     granted_registration req now (stamp (length (cg_DataGrants req) + 2)) (gr_ID (grant_of req now stamp))
       (listed_registration v (cg_UserID req) (cg_ApplicationID req))"

definition grant_effect :: "CreateAccessGrantRequest \<Rightarrow> gotime \<Rightarrow> (nat \<Rightarrow> string) \<Rightarrow> sai_view \<Rightarrow> sai_view" where
  "grant_effect req now stamp v =
     add_reg (registration_of req now stamp v)
       (add_grant (grant_of req now stamp) (fold add_dgrant (cg_DataGrants req) v))"

definition data_registered :: "RegisterDataRequest \<Rightarrow> gotime \<Rightarrow> (nat \<Rightarrow> string) \<Rightarrow> sai_view \<Rightarrow> sai_view" where
  "data_registered req now stamp v =
     add_dreg (new_data_registration req now (stamp 0) (map di_ID (rd_InitialDataInstances req)))
       (fold add_dinst (rd_InitialDataInstances req) v)"

context sai_storage
begin

lemma RegisterApplication_accepts:
  assumes "ok s" "validateRegisterApplicationRequest perr req = None"
  shows "\<exists>s'. RegisterApplication m perr None now stamp req s =
      (Inr \<lparr>rr_ApplicationRegistration = new_registration req now stamp, rr_Application = ra_Application req\<rparr>, s') \<and>
    ok s' \<and> view s' = registered req now stamp (view s)"
proof -
  have "ap_ID (ra_Application req) \<noteq> []"
    using assms(2) by (auto simp: validateRegisterApplicationRequest_def ValidateApplication_def sai_checks
        dest: SAI_ValidateWebID_nonempty)
  from store_app [OF assms(1) this] obtain s1 where
    1: "sm_StoreApplication m (Some (ra_Application req)) s = (None, s1)" "ok s1" "view s1 = add_app (ra_Application req) (view s)"
    by blast
  have "rg_ID (new_registration req now stamp) \<noteq> []" by (simp add: new_registration_def)
  from store_reg [OF 1(2) this] 1 assms(2) show ?thesis
    by (auto simp: RegisterApplication_def registered_def Let_def)
qed

lemma store_data_grants_stores:
  "ok s \<Longrightarrow> \<forall>g \<in> set gs. dg_ID g \<noteq> [] \<Longrightarrow>
     \<exists>s'. store_data_grants m stamp i gs s = (Inr (map dg_ID gs), s') \<and> ok s' \<and> view s' = fold add_dgrant gs (view s)"
proof (induction gs arbitrary: i s)
  case Nil
  then show ?case by simp
next
  case (Cons g gs)
  from Cons.prems obtain s1 where 1: "sm_StoreDataGrant m (Some g) s = (None, s1)" "ok s1" "view s1 = add_dgrant g (view s)"
    using store_dgrant [of s g] by auto
  from Cons.IH [OF 1(2), of "Suc i"] Cons.prems(2) 1 show ?case by (auto simp: Let_def)
qed

lemma store_instances_stores:
  "ok s \<Longrightarrow> \<forall>d \<in> set ds. ValidateDataInstance (Some d) = None \<Longrightarrow>
     \<exists>s'. store_instances m prefix stamp i ds s = (Inr (map di_ID ds), s') \<and> ok s' \<and> view s' = fold add_dinst ds (view s)"
proof (induction ds arbitrary: i s)
  case Nil
  then show ?case by simp
next
  case (Cons d ds)
  then have "di_ID d \<noteq> []" by (auto simp: ValidateDataInstance_def sai_checks)
  with Cons.prems obtain s1 where 1: "sm_StoreDataInstance m (Some d) s = (None, s1)" "ok s1" "view s1 = add_dinst d (view s)"
    using store_dinst [of s d] by auto
  from Cons.IH [OF 1(2), of "Suc i"] Cons.prems(2) 1 \<open>di_ID d \<noteq> []\<close> show ?case by (auto simp: Let_def)
qed

lemma fetch_instances_reads:
  "ok s \<Longrightarrow> \<forall>i \<in> set ids. v_dinsts (view s) i \<noteq> None \<Longrightarrow>
     fetch_instances m ids s = Some (map (\<lambda>i. the (v_dinsts (view s) i)) ids)"
  by (induction ids) (auto simp: get_dinst)

lemma listed_registrations:
  assumes "ok s"
  shows "\<exists>regs. sm_ListApplicationRegistrations m u s = Inr regs \<and>
    find_registration a regs = Some (listed_registration (view s) u a)"
  using list_regs [OF assms, of u] regs_stored [OF assms, of _ u]
    find_registration_find [of "map (v_regs (view s)) (v_regs_of (view s) u)" a]
  by (fastforce simp: listed_registration_def comp_def)

lemma listed_registration_stored:
  assumes "ok s" "listed_registration (view s) u a = Some r"
  shows "rg_ID r \<in> set (v_regs_of (view s) u) \<and> v_regs (view s) (rg_ID r) = Some r \<and> rg_ID r \<noteq> [] \<and> rg_RegisteredAgent r = a"
  using assms(2) regs_stored [OF assms(1), of _ u] by (fastforce simp: listed_registration_def find_Some_iff in_set_conv_nth)

lemma CreateAccessGrant_accepts:
  assumes "ok s" "validateCreateAccessGrantRequest perr req = None"
  shows "\<exists>s'. CreateAccessGrant m perr None now stamp req s =
      Some (Inr \<lparr>cr_AccessGrant = grant_of req now stamp,
                 cr_ApplicationRegistration = registration_of req now stamp (view s)\<rparr>, s') \<and>
    ok s' \<and> view s' = grant_effect req now stamp (view s)"
proof -
  let ?g = "grant_of req now stamp" and ?r = "registration_of req now stamp (view s)"
  have "\<forall>g \<in> set (cg_DataGrants req). dg_ID g \<noteq> []"
    using assms(2) by (auto simp: validateCreateAccessGrantRequest_def ValidateDataGrant_def sai_checks)
  from store_data_grants_stores [OF assms(1) this, of stamp 2] obtain s1 where
    1: "store_data_grants m stamp 2 (cg_DataGrants req) s = (Inr (map dg_ID (cg_DataGrants req)), s1)" "ok s1"
      "view s1 = fold add_dgrant (cg_DataGrants req) (view s)"
    by blast
  have "gr_ID ?g \<noteq> []" by (simp add: grant_of_def new_grant_def)
  from store_grant [OF 1(2) this] obtain s2 where
    2: "sm_StoreAccessGrant m (Some ?g) s1 = (None, s2)" "ok s2" "view s2 = add_grant ?g (view s1)"
    by blast
  have same: "listed_registration (view s2) u a = listed_registration (view s) u a" for u a
    by (simp add: listed_registration_def 2(3) 1(3) add_grant_def fold_add_dgrant)
  from listed_registrations [OF 2(2)] obtain regs where
    3: "sm_ListApplicationRegistrations m (cg_UserID req) s2 = Inr regs"
      "find_registration (cg_ApplicationID req) regs = Some (listed_registration (view s) (cg_UserID req) (cg_ApplicationID req))"
    unfolding same by blast
  have "rg_ID ?r \<noteq> []"
  proof (cases "listed_registration (view s) (cg_UserID req) (cg_ApplicationID req)")
    case None
    then show ?thesis by (simp add: registration_of_def granted_registration_def)
  next
    case (Some r)
    with listed_registration_stored [OF assms(1)] show ?thesis
      by (auto simp: registration_of_def granted_registration_def)
  qed
  from store_reg [OF 2(2) this] 1 2 3 assms(2) show ?thesis
    by (auto simp: CreateAccessGrant_def grant_effect_def registration_of_def grant_of_def [symmetric] Let_def)
qed

lemma RegisterData_accepts:
  assumes "ok s" "validateRegisterDataRequest perr req = None"
  shows "\<exists>s'. RegisterData m perr None now stamp req s =
      Some (Inr \<lparr>ro_DataRegistration = new_data_registration req now (stamp 0) (map di_ID (rd_InitialDataInstances req)),
                 ro_DataInstances = map (\<lambda>d. the (v_dinsts (view s') (di_ID d))) (rd_InitialDataInstances req)\<rparr>, s') \<and>
    ok s' \<and> view s' = data_registered req now stamp (view s)"
proof -
  let ?ds = "rd_InitialDataInstances req" and ?q = "new_data_registration req now (stamp 0) (map di_ID (rd_InitialDataInstances req))"
  have "\<forall>d \<in> set ?ds. ValidateDataInstance (Some d) = None"
    using assms(2) by (auto simp: validateRegisterDataRequest_def sai_checks)
  from store_instances_stores [OF assms(1) this, of "rd_IRIPrefix req" stamp 0] obtain s1 where
    1: "store_instances m (rd_IRIPrefix req) stamp 0 ?ds s = (Inr (map di_ID ?ds), s1)" "ok s1"
      "view s1 = fold add_dinst ?ds (view s)"
    by blast
  have "dr_ID ?q \<noteq> []" by (simp add: new_data_registration_def)
  from store_dreg [OF 1(2) this] obtain s2 where
    2: "sm_StoreDataRegistration m (Some ?q) s1 = (None, s2)" "ok s2" "view s2 = add_dreg ?q (view s1)"
    by blast
  have "\<forall>i \<in> set (map di_ID ?ds). v_dinsts (view s2) i \<noteq> None"
    unfolding 2(3) 1(3) using fold_add_dinst(1) [of ?ds "view s"] by (simp add: add_dreg_def del: not_None_eq)
  from fetch_instances_reads [OF 2(2) this] 1 2 assms(2) show ?thesis
    by (auto simp: RegisterData_def data_registered_def Let_def comp_def)
qed

end

section \<open>Runs of the service\<close>

text \<open>The calls that change the storage, with what they read of their context and of the clock.\<close>

datatype sai_call =
    CallRegisterApplication RegisterApplicationRequest
  | CallCreateAccessGrant CreateAccessGrantRequest
  | CallRegisterData RegisterDataRequest
  | CallStoreShapeTree "ShapeTree option"

record sai_event =
  sx_ctx :: goerr
  sx_now :: gotime
  sx_stamp :: "nat \<Rightarrow> string"
  sx_call :: sai_call

definition sai_step :: "'s SAIStorage \<Rightarrow> (string \<Rightarrow> string) \<Rightarrow> sai_event \<Rightarrow> 's \<Rightarrow> 's option" where
  "sai_step m perr e s =
     (case sx_call e of
        CallRegisterApplication req \<Rightarrow> Some (snd (RegisterApplication m perr (sx_ctx e) (sx_now e) (sx_stamp e 0) req s))
      | CallCreateAccessGrant req \<Rightarrow> map_option snd (CreateAccessGrant m perr (sx_ctx e) (sx_now e) (sx_stamp e) req s)
      | CallRegisterData req \<Rightarrow> map_option snd (RegisterData m perr (sx_ctx e) (sx_now e) (sx_stamp e) req s)
      | CallStoreShapeTree tree \<Rightarrow> Some (snd (SV_StoreShapeTree m (sx_ctx e) tree s)))"

fun sai_run :: "'s SAIStorage \<Rightarrow> (string \<Rightarrow> string) \<Rightarrow> sai_event list \<Rightarrow> 's \<Rightarrow> 's option" where
  "sai_run m perr [] s = Some s"
| "sai_run m perr (e # es) s = Option.bind (sai_step m perr e s) (sai_run m perr es)"

definition accepted :: "(string \<Rightarrow> string) \<Rightarrow> sai_event \<Rightarrow> bool" where
  "accepted perr e \<longleftrightarrow> sx_ctx e = None \<and>
     (case sx_call e of
        CallRegisterApplication req \<Rightarrow> validateRegisterApplicationRequest perr req = None
      | CallCreateAccessGrant req \<Rightarrow> validateCreateAccessGrantRequest perr req = None
      | CallRegisterData req \<Rightarrow> validateRegisterDataRequest perr req = None
      | CallStoreShapeTree tree \<Rightarrow> (case tree of None \<Rightarrow> False | Some t \<Rightarrow> ValidateIRI (sh_ID t) = None))"

definition effect :: "(string \<Rightarrow> string) \<Rightarrow> sai_event \<Rightarrow> sai_view \<Rightarrow> sai_view" where
  "effect perr e v =
     (if \<not> accepted perr e then v
      else case sx_call e of
        CallRegisterApplication req \<Rightarrow> registered req (sx_now e) (sx_stamp e 0) v
      | CallCreateAccessGrant req \<Rightarrow> grant_effect req (sx_now e) (sx_stamp e) v
      | CallRegisterData req \<Rightarrow> data_registered req (sx_now e) (sx_stamp e) v
      | CallStoreShapeTree tree \<Rightarrow> (case tree of None \<Rightarrow> v | Some t \<Rightarrow> add_tree t v))"

context sai_storage
begin

lemma step_effect:
  assumes "ok s"
  shows "\<exists>s'. sai_step m perr e s = Some s' \<and> ok s' \<and> view s' = effect perr e (view s)"
proof (cases "accepted perr e")
  case False
  then have "sai_step m perr e s = Some s"
    by (auto simp: accepted_def sai_step_def RegisterApplication_def CreateAccessGrant_def RegisterData_def
        SV_StoreShapeTree_def split: sai_call.splits option.splits)
  with False assms show ?thesis by (simp add: effect_def)
next
  case True
  show ?thesis
  proof (cases "sx_call e")
    case (CallRegisterApplication req)
    with True RegisterApplication_accepts [OF assms, of perr req "sx_now e" "sx_stamp e 0"] show ?thesis
      by (auto simp: accepted_def effect_def sai_step_def)
  next
    case (CallCreateAccessGrant req)
    with True CreateAccessGrant_accepts [OF assms, of perr req "sx_now e" "sx_stamp e"] show ?thesis
      by (auto simp: accepted_def effect_def sai_step_def)
  next
    case (CallRegisterData req)
    with True RegisterData_accepts [OF assms, of perr req "sx_now e" "sx_stamp e"] show ?thesis
      by (auto simp: accepted_def effect_def sai_step_def)
  next
    case (CallStoreShapeTree tree)
    with True obtain t where "tree = Some t" "ValidateIRI (sh_ID t) = None" by (auto simp: accepted_def split: option.splits)
    with True CallStoreShapeTree store_tree [OF assms ValidateIRI_nonempty, of t] show ?thesis
      by (auto simp: accepted_def effect_def sai_step_def SV_StoreShapeTree_def)
  qed
qed

lemma run_effect:
  "ok s \<Longrightarrow> \<exists>s'. sai_run m perr es s = Some s' \<and> ok s' \<and> view s' = fold (effect perr) es (view s)"
proof (induction es arbitrary: s)
  case Nil
  then show ?case by simp
next
  case (Cons e es)
  from step_effect [OF Cons.prems, of perr e] obtain s1 where
    "sai_step m perr e s = Some s1" "ok s1" "view s1 = effect perr e (view s)" by blast
  with Cons.IH [of s1] show ?case by simp
qed

end

section \<open>Consistency of every reachable storage\<close>

lemma new_registration_valid:
  "validateRegisterApplicationRequest perr req = None \<Longrightarrow> now \<noteq> 0 \<Longrightarrow>
     ValidateApplicationRegistration perr (Some (new_registration req now stamp)) = None"
  by (simp add: validateRegisterApplicationRequest_def ValidateApplicationRegistration_def new_registration_def
      ValidateApplication_def sai_checks)

lemma grant_of_valid:
  "validateCreateAccessGrantRequest perr req = None \<Longrightarrow> now \<noteq> 0 \<Longrightarrow>
     ValidateAccessGrant perr (Some (grant_of req now stamp)) = None"
  by (auto simp: validateCreateAccessGrantRequest_def ValidateAccessGrant_def grant_of_def new_grant_def
      ValidateAccessGrantSubject_def ValidateDataGrant_def sai_checks)

lemma new_data_registration_valid:
  "validateRegisterDataRequest perr req = None \<Longrightarrow> now \<noteq> 0 \<Longrightarrow>
     ValidateDataRegistration perr
       (Some (new_data_registration req now stamp (map di_ID (rd_InitialDataInstances req)))) = None"
  by (auto simp: validateRegisterDataRequest_def ValidateDataRegistration_def new_data_registration_def
      ValidateDataInstance_def sai_checks)

lemma listed_registration_in:
  assumes "listed_registration v u a = Some r" "\<forall>i \<in> set (v_regs_of v u). v_regs v i \<noteq> None"
  shows "\<exists>i \<in> set (v_regs_of v u). v_regs v i = Some r \<and> rg_RegisteredAgent r = a"
proof -
  obtain n where n: "n < length (v_regs_of v u)" "r = the (v_regs v (v_regs_of v u ! n))" "rg_RegisteredAgent r = a"
    using assms(1) by (auto simp: listed_registration_def find_Some_iff)
  then have "v_regs_of v u ! n \<in> set (v_regs_of v u)" by simp
  with assms(2) n show ?thesis by force
qed

lemma registration_of_valid:
  assumes "consistent perr v" "validateCreateAccessGrantRequest perr req = None" "now \<noteq> 0"
  shows "ValidateApplicationRegistration perr (Some (registration_of req now stamp v)) = None"
proof (cases "listed_registration v (cg_UserID req) (cg_ApplicationID req)")
  case None
  with assms(2,3) show ?thesis
    by (simp add: registration_of_def granted_registration_def grant_of_def new_grant_def
        ValidateApplicationRegistration_def validateCreateAccessGrantRequest_def sai_checks)
next
  case (Some r)
  have "\<forall>i \<in> set (v_regs_of v (cg_UserID req)). v_regs v i \<noteq> None" using assms(1) by (simp add: consistent_def)
  from listed_registration_in [OF Some this] obtain i where "v_regs v i = Some r" by blast
  with assms(1) have "ValidateApplicationRegistration perr (Some r) = None" unfolding consistent_def by blast
  with Some show ?thesis
    by (simp add: registration_of_def granted_registration_def grant_of_def new_grant_def
        ValidateApplicationRegistration_def sai_checks split: if_splits)
qed

lemma consistent_granted:
  assumes "consistent perr v" "validateCreateAccessGrantRequest perr req = None" "now \<noteq> 0"
  shows "consistent perr (grant_effect req now stamp v)"
proof -
  let ?v = "fold add_dgrant (cg_DataGrants req) v" and ?g = "grant_of req now stamp"
  have "\<forall>g \<in> set (cg_DataGrants req). ValidateDataGrant perr (Some g) = None"
    using assms(2) by (simp add: validateCreateAccessGrantRequest_def sai_checks)
  then have "consistent perr ?v" by (rule consistent_fold_dgrant [OF assms(1)])
  moreover have "\<forall>k \<in> set (gr_HasDataGrant ?g). v_dgrants ?v k \<noteq> None"
    unfolding fold_add_dgrant(1) by (simp add: grant_of_def new_grant_def)
  ultimately have "consistent perr (add_grant ?g ?v)"
    using grant_of_valid [OF assms(2,3)] consistent_add_grant by blast
  moreover have "rg_HasAccessGrant (registration_of req now stamp v) = gr_ID ?g"
    by (simp add: registration_of_def granted_registration_def split: option.splits)
  ultimately show ?thesis
    unfolding grant_effect_def using registration_of_valid [OF assms]
    by (intro consistent_add_reg) (simp_all add: add_grant_def)
qed

lemma consistent_effect:
  assumes "consistent perr v" "sx_now e \<noteq> 0"
  shows "consistent perr (effect perr e v)"
proof (cases "accepted perr e")
  case True
  show ?thesis
  proof (cases "sx_call e")
    case (CallRegisterApplication req)
    with True have val: "validateRegisterApplicationRequest perr req = None" by (simp add: accepted_def)
    then have "ValidateApplication perr (Some (ra_Application req)) = None"
      by (simp add: validateRegisterApplicationRequest_def sai_checks)
    with CallRegisterApplication True new_registration_valid [OF val assms(2)] consistent_add_app [OF assms(1)] show ?thesis
      by (auto simp: effect_def registered_def new_registration_def intro: consistent_add_reg)
  next
    case (CallCreateAccessGrant req)
    with True assms show ?thesis by (simp add: effect_def accepted_def consistent_granted)
  next
    case (CallRegisterData req)
    with True have val: "validateRegisterDataRequest perr req = None" by (simp add: accepted_def)
    then have "\<forall>d \<in> set (rd_InitialDataInstances req). ValidateDataInstance (Some d) = None"
      by (simp add: validateRegisterDataRequest_def sai_checks)
    from consistent_fold_dinst [OF assms(1) this] new_data_registration_valid [OF val assms(2)]
    have "consistent perr (data_registered req (sx_now e) (sx_stamp e) v)"
      unfolding data_registered_def
      by (rule consistent_add_dreg) (use fold_add_dinst(1) in \<open>simp add: new_data_registration_def del: not_None_eq\<close>)
    with CallRegisterData True show ?thesis by (simp add: effect_def)
  next
    case (CallStoreShapeTree tree)
    with True assms show ?thesis by (auto simp: effect_def accepted_def consistent_add_tree split: option.splits)
  qed
qed (simp add: effect_def assms)

lemma consistent_fold_effect:
  "consistent perr v \<Longrightarrow> \<forall>e \<in> set es. sx_now e \<noteq> 0 \<Longrightarrow> consistent perr (fold (effect perr) es v)"
  by (induction es arbitrary: v) (simp_all add: consistent_effect)


section \<open>Separation of users\<close>

text \<open>What is listed for a user was registered or granted by that user, and a registration's grant goes from
  the user who registered to the application that is registered.\<close>

definition regs_by_user :: "sai_view \<Rightarrow> bool" where
  "regs_by_user v \<longleftrightarrow>
     (\<forall>u. \<forall>i \<in> set (v_regs_of v u). \<exists>r. v_regs v i = Some r \<and> rg_ID r = i \<and> rg_RegisteredBy r = u)"

definition grants_by_user :: "sai_view \<Rightarrow> bool" where
  "grants_by_user v \<longleftrightarrow> (\<forall>u. \<forall>i \<in> set (v_grants_of v u). \<exists>g. v_grants v i = Some g \<and> gr_FromAgent g = u)"

definition dregs_by_user :: "sai_view \<Rightarrow> bool" where
  "dregs_by_user v \<longleftrightarrow> (\<forall>u. \<forall>i \<in> set (v_dregs_of v u). \<exists>q. v_dregs v i = Some q \<and> dr_RegisteredBy q = u)"

definition grant_for :: "sai_view \<Rightarrow> ApplicationRegistration \<Rightarrow> bool" where
  "grant_for v r \<longleftrightarrow>
     (\<exists>g. v_grants v (rg_HasAccessGrant r) = Some g \<and> gr_FromAgent g = rg_RegisteredBy r \<and>
          gs_AccessByApplication (gr_HasAccessGrantSubject g) = rg_RegisteredAgent r)"

definition grants_match :: "sai_view \<Rightarrow> bool" where
  "grants_match v \<longleftrightarrow> (\<forall>i r. v_regs v i = Some r \<longrightarrow> rg_HasAccessGrant r \<noteq> [] \<longrightarrow> grant_for v r)"

definition isolated :: "sai_view \<Rightarrow> bool" where
  "isolated v \<longleftrightarrow> regs_by_user v \<and> grants_by_user v \<and> dregs_by_user v \<and> grants_match v"

text \<open>The identifiers come from a hash of the clock reading alone. A call does not collide if the ones it
  makes are not in use by another user, and the one of its grant not at all.\<close>

definition reg_free :: "string \<Rightarrow> string \<Rightarrow> sai_view \<Rightarrow> bool" where
  "reg_free u i v \<longleftrightarrow> (case v_regs v i of None \<Rightarrow> True | Some r \<Rightarrow> rg_RegisteredBy r = u)"

definition no_collision :: "sai_event \<Rightarrow> sai_view \<Rightarrow> bool" where
  "no_collision e v \<longleftrightarrow>
     (case sx_call e of
        CallRegisterApplication req \<Rightarrow> reg_free (ra_UserID req) (generateSAIID ''registration'' (sx_stamp e 0)) v
      | CallCreateAccessGrant req \<Rightarrow>
          v_grants v (generateSAIID ''access-grant'' (sx_stamp e 1)) = None \<and>
          reg_free (cg_UserID req) (generateSAIID ''registration'' (sx_stamp e (length (cg_DataGrants req) + 2))) v
      | CallRegisterData req \<Rightarrow>
          (case v_dregs v (generateSAIID ''data-registration'' (sx_stamp e 0)) of
             None \<Rightarrow> True | Some q \<Rightarrow> dr_RegisteredBy q = rd_UserID req)
      | CallStoreShapeTree tree \<Rightarrow> True)"

fun collision_free :: "(string \<Rightarrow> string) \<Rightarrow> sai_event list \<Rightarrow> sai_view \<Rightarrow> bool" where
  "collision_free perr [] v \<longleftrightarrow> True"
| "collision_free perr (e # es) v \<longleftrightarrow> no_collision e v \<and> collision_free perr es (effect perr e v)"

lemma index_by_owner:
  assumes idx: "\<forall>u. \<forall>i \<in> set (idx u). \<exists>x. st i = Some x \<and> P u i x"
    and new: "P owner k y" and own: "\<And>u x. st k = Some x \<Longrightarrow> P u k x \<Longrightarrow> u = owner"
  shows "\<forall>u. \<forall>i \<in> set ((idx(owner := idx owner @ [k])) u). \<exists>x. (st(k \<mapsto> y)) i = Some x \<and> P u i x"
proof (intro allI ballI)
  fix u i
  assume i: "i \<in> set ((idx(owner := idx owner @ [k])) u)"
  show "\<exists>x. (st(k \<mapsto> y)) i = Some x \<and> P u i x"
  proof (cases "i = k")
    case True
    have "u = owner"
    proof (rule ccontr)
      assume "u \<noteq> owner"
      with i True have "k \<in> set (idx u)" by simp
      with idx own \<open>u \<noteq> owner\<close> show False by blast
    qed
    with True new show ?thesis by simp
  next
    case False
    with i have "i \<in> set (idx u)" by (simp split: if_splits)
    with idx False show ?thesis by simp
  qed
qed

lemma indexed_after_add:
  "v_regs (add_reg r v) = (v_regs v)(rg_ID r \<mapsto> r)"
  "v_regs_of (add_reg r v) = (v_regs_of v)(rg_RegisteredBy r := v_regs_of v (rg_RegisteredBy r) @ [rg_ID r])"
  "v_grants (add_grant g v) = (v_grants v)(gr_ID g \<mapsto> g)"
  "v_grants_of (add_grant g v) = (v_grants_of v)(gr_FromAgent g := v_grants_of v (gr_FromAgent g) @ [gr_ID g])"
  "v_dregs (add_dreg q v) = (v_dregs v)(dr_ID q \<mapsto> q)"
  "v_dregs_of (add_dreg q v) = (v_dregs_of v)(dr_RegisteredBy q := v_dregs_of v (dr_RegisteredBy q) @ [dr_ID q])"
  by (simp_all add: add_defs)

lemma regs_by_user_add:
  assumes "regs_by_user v" "reg_free (rg_RegisteredBy r) (rg_ID r) v"
  shows "regs_by_user (add_reg r v)"
  unfolding regs_by_user_def indexed_after_add
  by (rule index_by_owner [where P = "\<lambda>u i r. rg_ID r = i \<and> rg_RegisteredBy r = u"]) (use assms in \<open>auto simp: regs_by_user_def reg_free_def split: option.splits\<close>)

lemma grants_by_user_add:
  assumes "grants_by_user v" "v_grants v (gr_ID g) = None"
  shows "grants_by_user (add_grant g v)"
  unfolding grants_by_user_def indexed_after_add
  by (rule index_by_owner [where P = "\<lambda>u i g. gr_FromAgent g = u"]) (use assms in \<open>auto simp: grants_by_user_def\<close>)

lemma dregs_by_user_add:
  assumes "dregs_by_user v" "\<And>q'. v_dregs v (dr_ID q) = Some q' \<Longrightarrow> dr_RegisteredBy q' = dr_RegisteredBy q"
  shows "dregs_by_user (add_dreg q v)"
  unfolding dregs_by_user_def indexed_after_add
  by (rule index_by_owner [where P = "\<lambda>u i q. dr_RegisteredBy q = u"]) (use assms in \<open>auto simp: dregs_by_user_def\<close>)

lemma grants_match_add_reg:
  "grants_match v \<Longrightarrow> rg_HasAccessGrant r \<noteq> [] \<Longrightarrow> grant_for v r \<Longrightarrow> grants_match (add_reg r v)"
  "grants_match v \<Longrightarrow> rg_HasAccessGrant r = [] \<Longrightarrow> grants_match (add_reg r v)"
  by (simp_all add: grants_match_def add_reg_def grant_for_def)

lemma grants_match_add_grant:
  assumes "grants_match v" "v_grants v (gr_ID g) = None"
  shows "grants_match (add_grant g v)"
proof -
  have "grant_for (add_grant g v) r" if "grant_for v r" for r
    using that assms(2) by (auto simp: grant_for_def add_grant_def)
  moreover have "v_regs (add_grant g v) = v_regs v" by (simp add: add_grant_def)
  ultimately show ?thesis using assms(1) by (simp add: grants_match_def)
qed

lemma isolated_add_reg:
  assumes "isolated v" "reg_free (rg_RegisteredBy r) (rg_ID r) v" "rg_HasAccessGrant r \<noteq> [] \<longrightarrow> grant_for v r"
  shows "isolated (add_reg r v)"
proof -
  have "grants_by_user (add_reg r v) = grants_by_user v" "dregs_by_user (add_reg r v) = dregs_by_user v"
    by (simp_all add: grants_by_user_def dregs_by_user_def add_reg_def)
  with assms show ?thesis unfolding isolated_def using regs_by_user_add grants_match_add_reg by blast
qed

lemma isolated_add_grant:
  assumes "isolated v" "v_grants v (gr_ID g) = None"
  shows "isolated (add_grant g v)"
proof -
  have "regs_by_user (add_grant g v) = regs_by_user v" "dregs_by_user (add_grant g v) = dregs_by_user v"
    by (simp_all add: regs_by_user_def dregs_by_user_def add_grant_def)
  with assms show ?thesis unfolding isolated_def using grants_by_user_add grants_match_add_grant by blast
qed

lemma isolated_add_dreg:
  assumes "isolated v" "\<And>q'. v_dregs v (dr_ID q) = Some q' \<Longrightarrow> dr_RegisteredBy q' = dr_RegisteredBy q"
  shows "isolated (add_dreg q v)"
proof -
  have "regs_by_user (add_dreg q v) = regs_by_user v" "grants_by_user (add_dreg q v) = grants_by_user v"
    "grants_match (add_dreg q v) = grants_match v"
    by (simp_all add: regs_by_user_def grants_by_user_def grants_match_def grant_for_def add_dreg_def)
  with assms show ?thesis unfolding isolated_def using dregs_by_user_add by blast
qed

lemma isolated_other:
  "isolated (add_app a v) = isolated v" "isolated (add_tree t v) = isolated v"
  "isolated (add_dgrant g v) = isolated v" "isolated (add_dinst d v) = isolated v"
  by (simp_all add: isolated_def regs_by_user_def grants_by_user_def dregs_by_user_def grants_match_def grant_for_def add_defs)

lemma isolated_folds: "isolated (fold add_dgrant gs v) = isolated v" "isolated (fold add_dinst ds v) = isolated v"
  by (induction gs arbitrary: v) (simp_all add: isolated_other, induction ds arbitrary: v, simp_all add: isolated_other)

lemma isolated_granted:
  assumes "isolated v" "v_grants v (gr_ID (grant_of req now stamp)) = None"
    and "reg_free (cg_UserID req) (generateSAIID ''registration'' (stamp (length (cg_DataGrants req) + 2))) v"
  shows "isolated (grant_effect req now stamp v)"
proof -
  let ?g = "grant_of req now stamp" and ?r = "registration_of req now stamp v"
  let ?v = "add_grant ?g (fold add_dgrant (cg_DataGrants req) v)"
  have iso: "isolated ?v" using assms(1,2) by (simp add: isolated_add_grant isolated_folds fold_add_dgrant)
  have v: "v_regs ?v = v_regs v" "v_grants ?v (gr_ID ?g) = Some ?g" by (simp_all add: add_grant_def fold_add_dgrant)
  have g: "gr_FromAgent ?g = cg_UserID req" "gs_AccessByApplication (gr_HasAccessGrantSubject ?g) = cg_ApplicationID req"
    by (simp_all add: grant_of_def new_grant_def)
  have "rg_RegisteredBy ?r = cg_UserID req \<and> rg_RegisteredAgent ?r = cg_ApplicationID req \<and>
      rg_HasAccessGrant ?r = gr_ID ?g \<and> reg_free (cg_UserID req) (rg_ID ?r) v"
  proof (cases "listed_registration v (cg_UserID req) (cg_ApplicationID req)")
    case None
    with assms(3) show ?thesis by (simp add: registration_of_def granted_registration_def)
  next
    case (Some r)
    have listed: "\<forall>i \<in> set (v_regs_of v (cg_UserID req)). \<exists>r. v_regs v i = Some r \<and> rg_ID r = i \<and> rg_RegisteredBy r = cg_UserID req"
      using assms(1) by (simp add: isolated_def regs_by_user_def)
    then have "\<forall>i \<in> set (v_regs_of v (cg_UserID req)). v_regs v i \<noteq> None" by fastforce
    from listed_registration_in [OF Some this] listed
    have "v_regs v (rg_ID r) = Some r" "rg_RegisteredBy r = cg_UserID req" "rg_RegisteredAgent r = cg_ApplicationID req"
      by fastforce+
    with Some show ?thesis by (simp add: registration_of_def granted_registration_def reg_free_def)
  qed
  then show ?thesis
    unfolding grant_effect_def by (intro isolated_add_reg iso) (simp_all add: v g reg_free_def grant_for_def)
qed

lemma isolated_effect:
  assumes "isolated v" "no_collision e v"
  shows "isolated (effect perr e v)"
proof (cases "sx_call e")
  case (CallRegisterApplication req)
  with assms(2) have "reg_free (ra_UserID req) (generateSAIID ''registration'' (sx_stamp e 0)) (add_app (ra_Application req) v)"
    by (simp add: no_collision_def reg_free_def add_app_def)
  with assms(1) have "isolated (registered req (sx_now e) (sx_stamp e 0) v)"
    unfolding registered_def by (intro isolated_add_reg) (simp_all add: isolated_other new_registration_def)
  with assms(1) CallRegisterApplication show ?thesis by (simp add: effect_def)
next
  case (CallCreateAccessGrant req)
  with assms show ?thesis
    by (auto simp: effect_def no_collision_def grant_of_def new_grant_def intro!: isolated_granted)
next
  case (CallRegisterData req)
  have "v_dregs (fold add_dinst ds w) = v_dregs w" for ds w
    by (induction ds arbitrary: w) (simp_all add: add_dinst_def)
  with assms CallRegisterData show ?thesis
    by (auto simp: effect_def no_collision_def data_registered_def new_data_registration_def isolated_folds
        intro!: isolated_add_dreg split: option.splits)
next
  case (CallStoreShapeTree tree)
  with assms show ?thesis by (auto simp: effect_def isolated_other split: option.splits)
qed

lemma isolated_fold_effect:
  "isolated v \<Longrightarrow> collision_free perr es v \<Longrightarrow> isolated (fold (effect perr) es v)"
  by (induction es arbitrary: v) (simp_all add: isolated_effect)

lemma listed_of_user:
  assumes "\<forall>i \<in> set ids. \<exists>x. mget m i = Some x \<and> P x" "\<And>x. P x \<Longrightarrow> \<exists>y. copy (Some x) = Some y \<and> P y"
  shows "\<forall>y \<in> set (list_ids copy m ids). \<exists>x. y = Some x \<and> P x"
proof
  fix y
  assume "y \<in> set (list_ids copy m ids)"
  then obtain i where i: "i \<in> set ids" "y = (case mget m i of Some r \<Rightarrow> copy (Some r) | None \<Rightarrow> None)"
    by (auto simp: list_ids_def)
  with assms(1) obtain x where "mget m i = Some x" "P x" by blast
  with assms(2) i(2) show "\<exists>x. y = Some x \<and> P x" by simp
qed

lemma SS_Lists_index:
  "SS_ListAccessGrants u s = Inr (list_ids copyAccessGrant (ss_accessGrants s) (index_ids (ss_accessGrantsByUser s) u))"
  "SS_ListDataRegistrations u s =
     Inr (list_ids copyDataRegistration (ss_dataRegistrations s) (index_ids (ss_dataRegistrationsByUser s) u))"
  by (simp_all add: SS_ListAccessGrants_def SS_ListDataRegistrations_def index_ids_def list_ids_def split: option.splits)

lemma isolated_lists:
  assumes "isolated (memory_view s)"
  shows "\<exists>regs. SS_ListApplicationRegistrations u s = Inr regs \<and>
      (\<forall>x \<in> set regs. \<exists>r. x = Some r \<and> rg_RegisteredBy r = u \<and>
         (rg_HasAccessGrant r \<noteq> [] \<longrightarrow> grant_for (memory_view s) r))"
    and "\<exists>gs. SS_ListAccessGrants u s = Inr gs \<and> (\<forall>x \<in> set gs. \<exists>g. x = Some g \<and> gr_FromAgent g = u)"
    and "\<exists>qs. SS_ListDataRegistrations u s = Inr qs \<and> (\<forall>x \<in> set qs. \<exists>q. x = Some q \<and> dr_RegisteredBy q = u)"
proof -
  have r: "\<forall>i \<in> set (index_ids (ss_applicationRegistrationsByUser s) u).
      \<exists>r. mget (ss_applicationRegistrations s) i = Some r \<and> rg_ID r = i \<and> rg_RegisteredBy r = u"
    and m: "grants_match (memory_view s)"
    and g: "\<forall>i \<in> set (index_ids (ss_accessGrantsByUser s) u). \<exists>g. mget (ss_accessGrants s) i = Some g \<and> gr_FromAgent g = u"
    and q: "\<forall>i \<in> set (index_ids (ss_dataRegistrationsByUser s) u).
      \<exists>q. mget (ss_dataRegistrations s) i = Some q \<and> dr_RegisteredBy q = u"
    using assms by (simp_all add: isolated_def regs_by_user_def grants_by_user_def dregs_by_user_def memory_view_def)
  have "rg_HasAccessGrant r \<noteq> [] \<longrightarrow> grant_for (memory_view s) r" if "mget (ss_applicationRegistrations s) i = Some r" for i r
    using m that by (simp add: grants_match_def memory_view_def)
  with r show "\<exists>regs. SS_ListApplicationRegistrations u s = Inr regs \<and>
      (\<forall>x \<in> set regs. \<exists>r. x = Some r \<and> rg_RegisteredBy r = u \<and>
         (rg_HasAccessGrant r \<noteq> [] \<longrightarrow> grant_for (memory_view s) r))"
    unfolding SS_ListApplicationRegistrations_index by fastforce
  show "\<exists>gs. SS_ListAccessGrants u s = Inr gs \<and> (\<forall>x \<in> set gs. \<exists>g. x = Some g \<and> gr_FromAgent g = u)"
    unfolding SS_Lists_index
    using listed_of_user [where P = "\<lambda>g. gr_FromAgent g = u", OF g, of copyAccessGrant] by (simp add: copyAccessGrant_def)
  show "\<exists>qs. SS_ListDataRegistrations u s = Inr qs \<and> (\<forall>x \<in> set qs. \<exists>q. x = Some q \<and> dr_RegisteredBy q = u)"
    unfolding SS_Lists_index
    using listed_of_user [where P = "\<lambda>q. dr_RegisteredBy q = u", OF q, of copyDataRegistration]
    by (simp add: copyDataRegistration_def)
qed



section \<open>A sample run\<close>

definition no_text :: "string \<Rightarrow> string" where
  "no_text u = []"

definition alice :: string where
  "alice = ''https://alice.example/#me''"

definition sample_app :: Application where
  "sample_app =
     \<lparr>ap_ID = ''https://app.example/#id'', ap_ApplicationName = ''Notes'', ap_ApplicationDescription = [],
      ap_ApplicationAuthor = [], ap_ApplicationThumbnail = [], ap_HasAccessNeedGroup = [],
      ap_HasAuthorizationCallbackEndpoint = [], ap_AuthenticatesAs = []\<rparr>"

definition sample_registration :: RegisterApplicationRequest where
  "sample_registration = \<lparr>ra_Application = sample_app, ra_UserID = alice, ra_AuthorizationAgentURL = []\<rparr>"

definition sample_data_grant :: DataGrant where
  "sample_data_grant =
     \<lparr>dg_ID = ''urn:grant:1'', dg_DataOwner = alice, dg_GrantedBy = alice, dg_RegisteredShapeTree = ''urn:tree:1'',
      dg_HasDataRegistration = ''urn:data:1'', dg_AccessMode = [ACLNamespace @ ''Read''],
      dg_ScopeOfGrant = InteropNamespace @ ''AllFromRegistry'', dg_HasDataInstance = [],
      dg_InheritsFromGrant = [], dg_DelegationOfGrant = []\<rparr>"

definition sample_grant :: CreateAccessGrantRequest where
  "sample_grant =
     \<lparr>cg_UserID = alice, cg_ApplicationID = ap_ID sample_app, cg_AccessNeedGroupIDs = [],
      cg_DataGrants = [sample_data_grant], cg_AuthorizationAgentURL = []\<rparr>"

definition sample_events :: "sai_event list" where
  "sample_events =
     [\<lparr>sx_ctx = None, sx_now = 1, sx_stamp = \<lambda>_. ''t1'', sx_call = CallRegisterApplication sample_registration\<rparr>,
      \<lparr>sx_ctx = None, sx_now = 2, sx_stamp = \<lambda>_. ''t2'', sx_call = CallCreateAccessGrant sample_grant\<rparr>]"

lemma sample_requests_valid:
  "validateRegisterApplicationRequest no_text sample_registration = None"
  "validateCreateAccessGrantRequest no_text sample_grant = None"
  by code_simp+

lemma sample_collision_free: "collision_free no_text sample_events (memory_view NewInMemorySAIStorage)"
  using sample_requests_valid
  by (simp add: sample_events_def no_collision_def effect_def accepted_def registered_def new_registration_def
      memory_view_def NewInMemorySAIStorage_def reg_free_def add_reg_def add_app_def sample_registration_def sample_grant_def)




section \<open>Behaviours to know\<close>

text \<open>Two users who register an application at the same clock reading get the same identifier: the second
  registration replaces the first, and the first user's list shows the second user's registration.\<close>

lemma same_clock_reading_mixes_users:
  assumes "validateRegisterApplicationRequest perr req = None" "validateRegisterApplicationRequest perr req' = None"
    and "ra_UserID req \<noteq> ra_UserID req'"
  shows "\<exists>s. sai_run memory_sai perr
      [\<lparr>sx_ctx = None, sx_now = t, sx_stamp = \<lambda>_. x, sx_call = CallRegisterApplication req\<rparr>,
       \<lparr>sx_ctx = None, sx_now = t, sx_stamp = \<lambda>_. x, sx_call = CallRegisterApplication req'\<rparr>]
      NewInMemorySAIStorage = Some s \<and>
    SS_ListApplicationRegistrations (ra_UserID req) s = Inr [Some (new_registration req' t x)]"
proof -
  let ?es = "[\<lparr>sx_ctx = None, sx_now = t, sx_stamp = \<lambda>_. x, sx_call = CallRegisterApplication req\<rparr>,
       \<lparr>sx_ctx = None, sx_now = t, sx_stamp = \<lambda>_. x, sx_call = CallRegisterApplication req'\<rparr>]"
  from ms.run_effect [OF memory_sai_ok_New, of perr ?es] obtain s where
    s: "sai_run memory_sai perr ?es NewInMemorySAIStorage = Some s" "memory_sai_ok s"
      "memory_view s = fold (effect perr) ?es (memory_view NewInMemorySAIStorage)" by blast
  have "memory_view s = registered req' t x (registered req t x (memory_view NewInMemorySAIStorage))"
    using assms by (simp add: s(3) effect_def accepted_def)
  then have "v_regs (memory_view s) (generateSAIID ''registration'' x) = Some (new_registration req' t x)"
    "v_regs_of (memory_view s) (ra_UserID req) = [generateSAIID ''registration'' x]"
    using assms(3) by (simp_all add: registered_def add_reg_def add_app_def new_registration_def memory_view_def
        NewInMemorySAIStorage_def index_ids_def)
  with ms.list_regs [OF s(2), of "ra_UserID req"] s(1) show ?thesis by (simp add: memory_sai_def)
qed

text \<open>A registration that gets its grant is stored again, and is then listed twice.\<close>

lemma granted_registration_is_listed_twice:
  assumes "memory_sai_ok s" "validateCreateAccessGrantRequest perr req = None"
    and "listed_registration (memory_view s) (cg_UserID req) (cg_ApplicationID req) = Some r"
    and "rg_RegisteredBy r = cg_UserID req" "v_regs_of (memory_view s) (cg_UserID req) = [rg_ID r]"
  shows "\<exists>r' res s'. CreateAccessGrant memory_sai perr None now stamp req s = Some (res, s') \<and>
    SS_ListApplicationRegistrations (cg_UserID req) s' = Inr [Some r', Some r']"
proof -
  from ms.CreateAccessGrant_accepts [OF assms(1,2), of now stamp] obtain res s' where
    s': "CreateAccessGrant memory_sai perr None now stamp req s = Some (res, s')" "memory_sai_ok s'"
      "memory_view s' = grant_effect req now stamp (memory_view s)" by blast
  let ?r = "registration_of req now stamp (memory_view s)"
  have "rg_ID ?r = rg_ID r" "rg_RegisteredBy ?r = cg_UserID req"
    using assms(3,4) by (simp_all add: registration_of_def granted_registration_def)
  then have "v_regs (memory_view s') (rg_ID r) = Some ?r"
    "v_regs_of (memory_view s') (cg_UserID req) = [rg_ID r, rg_ID r]"
    using assms(5) by (simp_all add: s'(3) grant_effect_def indexed_after_add add_grant_def fold_add_dgrant)
  with ms.list_regs [OF s'(2), of "cg_UserID req"] s'(1) show ?thesis by (simp add: memory_sai_def)
qed

text \<open>A grant request names the identifiers of its data grants. One that is in use, by whichever user, is
  replaced.\<close>

lemma data_grant_is_replaced:
  assumes "memory_sai_ok s" "validateCreateAccessGrantRequest perr req = None" "cg_DataGrants req = [d]"
  shows "\<exists>res s'. CreateAccessGrant memory_sai perr None now stamp req s = Some (res, s') \<and>
    mget (ss_dataGrants s') (dg_ID d) = Some d"
proof -
  from ms.CreateAccessGrant_accepts [OF assms(1,2), of now stamp] obtain res s' where
    s': "CreateAccessGrant memory_sai perr None now stamp req s = Some (res, s')"
      "memory_view s' = grant_effect req now stamp (memory_view s)" by blast
  have "v_dgrants (memory_view s') (dg_ID d) = Some d"
    by (simp add: s'(2) grant_effect_def assms(3) add_reg_def add_grant_def add_dgrant_def)
  with s'(1) show ?thesis by (simp add: memory_view_def)
qed

text \<open>When a user's only registration has been deleted after it was stored twice, discovery panics.\<close>

lemma discovery_panics:
  assumes "SAI_ValidateWebID perr u = None" "SS_ListApplicationRegistrations u s = Inr [None]"
  shows "DiscoverAuthorizationAgent memory_sai perr options None u s = None"
  using assms by (simp add: DiscoverAuthorizationAgent_def memory_sai_def SS_Lists_index Let_def)

end
