(* ===== verification/Spec2Isabelle.thy ===== *)
theory Spec2Isabelle
  imports Go_Base Go_Sha256 Go_Url Go_Float Go_Text Authz_Core Decision_Cache Caching_Evaluator
    Rate_Limiter Backoff_Evaluator Replay_Cache Enforcement_Gate
    Rdf_Parser Policy_Evaluation Wac_Policy Acp_Policy
    Storage_Core Storage_Interface Memory_Backend Storage_Engine Storage_Transaction Cache_Invalidator
    Runtime_Validation Runtime_Storage Runtime_Memory Storage_Adapter
    Sai_Validation Sai_Storage Sai_Service
begin

text \<open>
  A verification development of the authorization and storage core of the Solid sidecar, a Go program
  that sits in front of a Solid server, shadows its access decisions and, behind a gate, may enforce them.

  \<^bold>\<open>The parts and how they interact.\<close> The gateway builds a request from an HTTP call
  (\<^verbatim>\<open>internal/authz/builder.go\<close>), validates it, hashes it for the audit log and asks an evaluator, the
  shadow evaluator or an external one behind a backoff. The enforcement gate decides whether a decision may
  take effect. A rate limiter and the replay check of DPoP proofs stand before all this. WAC and ACP
  evaluators answer from rules that parsers extract from RDF, and a caching evaluator can wrap any evaluator.
  A storage engine writes resources to a backend and tells cache invalidators what changed; the native
  runtime has a storage layer of its own, with an adapter to the backends of package \<open>storage\<close>. The gateway
  does not build the caching evaluator, the engine or the runtime's layer yet; their theories verify them as
  the libraries they are. It does build the service for Solid Application Interoperability (SAI), over an
  in-memory storage.

  \<^bold>\<open>Which theory models what.\<close>
  \<^item> \<open>Go_Base\<close>, \<open>Go_Sha256\<close>, \<open>Go_Url\<close>, \<open>Go_Float\<close>, \<open>Go_Text\<close>: what the sources use of Go: errors, strings,
    maps, time, machine integers, SHA-256, \<open>url.Parse\<close>, rounding of percentages, quoting and globs.
  \<^item> \<open>Authz_Core\<close>: \<^verbatim>\<open>types.go\<close>, \<^verbatim>\<open>validation.go\<close>, \<^verbatim>\<open>audit.go\<close>, \<^verbatim>\<open>evaluator.go\<close> and parts of \<^verbatim>\<open>builder.go\<close> and
    \<^verbatim>\<open>policy_input.go\<close> of \<^verbatim>\<open>internal/authz\<close>. The canonical form of a request is injective, audit hashes do
    not depend on the order of collections, the shadow evaluator is total and never allows.
  \<^item> \<open>Decision_Cache\<close> (\<^verbatim>\<open>authz/cache/cache.go\<close>), \<open>Caching_Evaluator\<close> (\<^verbatim>\<open>caching_evaluator.go\<close>): a hit goes back to an
    unexpired \<open>Put\<close> of the same key that nothing has invalidated since, and an allow from the cache to an
    allow of the evaluator.
  \<^item> \<open>Rate_Limiter\<close> (\<^verbatim>\<open>ratelimit/limiter.go\<close>), \<open>Backoff_Evaluator\<close> (\<^verbatim>\<open>backoff_evaluator.go\<close>), \<open>Replay_Cache\<close>
    (\<^verbatim>\<open>authn/replay_cache.go\<close> and the freshness check of \<^verbatim>\<open>dpop.go\<close>): rate bounds, exponential suppression, no
    replay and bounded memory.
  \<^item> \<open>Enforcement_Gate\<close> (\<^verbatim>\<open>enforcement_gate.go\<close>): the gate as a state machine over its operations; enforcement
    needs the configured evidence, and the gate as the gateway builds it never enforces.
  \<^item> \<open>Rdf_Parser\<close>, \<open>Policy_Evaluation\<close>, \<open>Wac_Policy\<close>, \<open>Acp_Policy\<close> (\<^verbatim>\<open>rdf_parser.go\<close>, \<^verbatim>\<open>wac_*.go\<close>, \<^verbatim>\<open>acp_*.go\<close>):
    the rules that are extracted and the decisions, against declarative definitions.
  \<^item> \<open>Storage_Core\<close>, \<open>Storage_Interface\<close>, \<open>Memory_Backend\<close>, \<open>Storage_Engine\<close>, \<open>Storage_Transaction\<close>,
    \<open>Cache_Invalidator\<close> (\<^verbatim>\<open>internal/storage\<close>): the in-memory backend refines an abstract store; engine and
    transactions are verified over every backend that keeps the contract \<open>storage_backend\<close>.
  \<^item> \<open>Runtime_Validation\<close>, \<open>Runtime_Storage\<close>, \<open>Runtime_Memory\<close>, \<open>Storage_Adapter\<close> (\<^verbatim>\<open>validation.go\<close>,
    \<^verbatim>\<open>storage.go\<close>, \<^verbatim>\<open>storage_conditional.go\<close>, \<^verbatim>\<open>storage_adapter.go\<close> of \<^verbatim>\<open>internal/runtime\<close>): the retry loop, and
    that the layer behaves alike over its own backend and over the adapter.
  \<^item> \<open>Sai_Validation\<close>, \<open>Sai_Storage\<close>, \<open>Sai_Service\<close> (\<^verbatim>\<open>types.go\<close>, \<^verbatim>\<open>validation.go\<close>, \<^verbatim>\<open>storage.go\<close>,
    \<^verbatim>\<open>service.go\<close> of \<^verbatim>\<open>internal/sai\<close>): the service is verified over every storage that keeps the contract
    \<open>sai_storage\<close>; over the in-memory one its contents stay consistent, users are kept apart as long as
    generated identifiers do not collide, and a grant does exactly what was asked for.
  \<^item> This theory: storage changes and cached decisions, across engine, invalidator and cache.

  \<^bold>\<open>How state and operations correspond.\<close> A struct is a record, a method a function from the state to the
  result and the new state, an error a value. Clock readings, contexts, readers and the order of map
  iteration are arguments. Mutexes are left out and runs are sequences of whole operations. For a
  method that holds its lock throughout this is what callers see; the storage engine, its transactions,
  the runtime's layer and the SAI service make several separately locked calls, and what concurrent callers may observe
  between those is outside the model. Pointers are values, except the cache
  invalidators, which an engine holds by address. A panic on a nil pointer is \<open>None\<close>. Log lines are left out.

  \<^bold>\<open>Bounds and fuel.\<close> No function runs on fuel: loops are structural recursions or have a termination proof,
  and the one loop of the cache that might not end is a partial function that is shown to return. Integers
  that the code may overflow are wrapped to 64 bits. Case conversion and trimming are modelled on ASCII.
  The gate's comparison counts are exact up to 2 to the 52nd operations, where rounding to a \<open>float64\<close> is.

  \<^bold>\<open>The manifest.\<close> It maps the types and operations. Some one-line constants and helpers whose lines lie
  within a mapped operation are defined here and not listed there one by one.

  \<^bold>\<open>Not modelled.\<close> Serialisation as JSON (backup and restore, codecs) and signature checks; the
  file-system, S3 and HTTP backends, of which only the contract is used; background goroutines; HTTP
  handlers, middleware and clients; metrics exporters, tracing and health endpoints; configuration files;
  the tools for tests, conformance, migration and security scans. Discovery and loading of policies, the SAI policy format,
  DID resolution, token verification and the other layers of the runtime could be modelled and are not yet.
  Of the SAI service, the start of an authorization flow is left out, since it prints a URL, and so are the
  retry helper, which nothing calls, and the HTTP handlers.
  The request builder and the policy input are modelled in part: media types need \<open>mime.ParseMediaType\<close>.
\<close>

section \<open>Storage writes and cached decisions\<close>

text \<open>The decisions an invalidator's caching evaluator holds.\<close>

definition cached :: "CachingEvaluator AuthzCacheInvalidator \<Rightarrow> (string, cacheEntry) gomap" where
  "cached a = mc_entries (cv_decisionCache (ai_caches a))"

text \<open>The callbacks as the comments on the invalidator's fields say they typically are: the decision
  callback is the \<open>InvalidateResource\<close> of the caching evaluator, and the policy callback, if any, works on
  another cache. This is a condition on the caller: outside of its tests the repository builds no
  invalidator and registers none with an engine.\<close>

definition wired :: "CachingEvaluator AuthzCacheInvalidator \<Rightarrow> bool" where
  "wired a \<longleftrightarrow>
     ai_decisionCacheInvalidator a = Some (\<lambda>uri isPolicy e. (None, Caching_InvalidateResource uri e)) \<and>
     (\<forall>f uri e. ai_policyCacheInvalidator a = Some f \<longrightarrow>
        mc_entries (cv_decisionCache (snd (f uri e))) = mc_entries (cv_decisionCache e))"

definition about_others :: "string \<Rightarrow> (string, cacheEntry) gomap \<Rightarrow> (string, cacheEntry) gomap" where
  "about_others u es = filter (\<lambda>(_, e). ck_Resource (ce_key e) \<noteq> u) es"

lemma about_others_idem [simp]: "about_others u (about_others u es) = about_others u es"
  by (simp add: about_others_def)

lemma InvalidateResource_entries:
  "mc_entries (cv_decisionCache (Caching_InvalidateResource u e)) = about_others u (mc_entries (cv_decisionCache e))"
  by (simp add: Caching_InvalidateResource_def MemoryCache_InvalidateResource_def invalidate_where_def
      add_Invalidations_def about_others_def)

lemma OnCacheInvalidation_wired:
  assumes "wired a" "ev_ResourceURI ev = u" "ev_PolicyURI ev = u"
  shows "wired (snd (OnCacheInvalidation now ev a)) \<and>
    cached (snd (OnCacheInvalidation now ev a)) = about_others u (cached a)"
proof -
  obtain err a' where on: "OnCacheInvalidation now ev a = (err, a')" by force
  have g: "ai_decisionCacheInvalidator a = Some (\<lambda>uri isPolicy e. (None, Caching_InvalidateResource uri e))"
    using assms(1) by (simp add: wired_def)
  from OnCacheInvalidation_caches [OF refl g, of now ev] on assms
  show ?thesis
    by (simp add: wired_def cached_def InvalidateResource_entries Let_def split: option.splits if_splits)
qed

lemma trigger_wired:
  assumes "wired (se_invalidator_at s p)" "p \<in> set (se_cacheInvalidators s)"
    and "ev_ResourceURI ev = u" "ev_PolicyURI ev = u"
  shows "cached (se_invalidator_at (SE_triggerCacheInvalidation (OnCacheInvalidation now) ev s) p) =
    about_others u (cached (se_invalidator_at s p))"
proof -
  let ?E = "cached (se_invalidator_at s p)"
  let ?I = "\<lambda>a. wired a \<and> (cached a = ?E \<or> cached a = about_others u ?E)"
  show ?thesis
  proof (rule trigger_reaches [where I = ?I])
    show "?I (snd (OnCacheInvalidation now ev x)) \<and> cached (snd (OnCacheInvalidation now ev x)) = about_others u ?E"
      if "?I x" for x
      using OnCacheInvalidation_wired [OF _ assms(3,4), of x now] that by auto
  qed (use assms in simp_all)
qed

lemma put_drops_decisions:
  assumes "mb_open (se_default s)" "normal_uri (wr_URI w)" "wr_Body w = None \<or> wr_BodyReader w = None"
    and "SE_Put memory_methods (OnCacheInvalidation now) t w s = Some (None, s')"
    and "p \<in> set (se_cacheInvalidators s)" "wired (se_invalidator_at s p)"
  shows "cached (se_invalidator_at s' p) = about_others (wr_URI w) (cached (se_invalidator_at s p))"
proof -
  have "se_invalidator_at s' =
      se_invalidator_at (SE_triggerCacheInvalidation (OnCacheInvalidation now) (put_event t w) s)"
    using mem.engine_put_stored [OF assms(1-4)] by blast
  then show ?thesis
    using trigger_wired [OF assms(6,5), of "put_event t w" "wr_URI w" now] by (simp add: put_event_def)
qed

lemma delete_drops_decisions:
  assumes "mb_open (se_default s)" "normal_uri u"
    and "SE_Delete memory_methods (OnCacheInvalidation now) t u s = (None, s')"
    and "p \<in> set (se_cacheInvalidators s)" "wired (se_invalidator_at s p)"
  shows "cached (se_invalidator_at s' p) = about_others u (cached (se_invalidator_at s p))"
proof -
  have "validateStorageURI u = None" using assms(3) by (auto simp: SE_Delete_def Let_def split: option.splits)
  from mem.engine_delete [OF assms(1,2) this, where On = "OnCacheInvalidation now" and now = t] assms(3)
  have "se_invalidator_at s' =
      se_invalidator_at (SE_triggerCacheInvalidation (OnCacheInvalidation now) (delete_event t u) s)"
    by auto
  then show ?thesis
    using trigger_wired [OF assms(5,4), of "delete_event t u" u now] by (simp add: delete_event_def)
qed


text \<open>An engine whose one invalidator holds a decision about a resource.\<close>

definition decision_about :: "string \<Rightarrow> (string, cacheEntry) gomap" where
  "decision_about u =
     [(''k'', \<lparr>ce_key = sample_key\<lparr>ck_Resource := u\<rparr>, ce_decision = sample_decision, ce_expiresAt = 99\<rparr>)]"

definition watched_engine :: "(memoryBackend, CachingEvaluator AuthzCacheInvalidator) storageEngine" where
  "watched_engine =
     SE_RegisterCacheInvalidator 0
       (projr (NewStorageEngine memory_methods (DefaultEngineConfig\<lparr>ec_DefaultBackend := ''memory''\<rparr>)
          [(''memory'', NewMemoryBackend)]
          (\<lambda>_. NewAuthzCacheInvalidator None
             (Some (\<lambda>uri isPolicy e. (None, Caching_InvalidateResource uri e)))
             (sample_ev1\<lparr>cv_decisionCache := sample_cache0\<lparr>mc_entries := decision_about ''/a''\<rparr>\<rparr>))))"

lemma watched_engine_simps:
  "se_default watched_engine = NewMemoryBackend" "se_cacheInvalidators watched_engine = [0]"
  "wired (se_invalidator_at watched_engine 0)"
  "cached (se_invalidator_at watched_engine 0) = decision_about ''/a''"
  by (simp_all add: watched_engine_def SE_RegisterCacheInvalidator_def NewStorageEngine_def memory_methods_def
      MB_Initialize_def NewMemoryBackend_def NewAuthzCacheInvalidator_def wired_def Let_def cached_def)


text \<open>An access-control document is cached under its own URI only: writing it keeps the decisions about
  the resource it governs.\<close>

lemma policy_write_keeps_governed_decisions:
  assumes "mb_open (se_default s)" "normal_uri (wr_URI w)" "wr_Body w = None \<or> wr_BodyReader w = None"
    and "isPolicyResource (md_ResourceType (wr_Metadata w))"
    and "SE_Put memory_methods (OnCacheInvalidation now) t w s = Some (None, s')"
    and "p \<in> set (se_cacheInvalidators s)" "wired (se_invalidator_at s p)"
    and "(k, e) \<in> set (cached (se_invalidator_at s p))" "ck_Resource (ce_key e) \<noteq> wr_URI w"
  shows "(k, e) \<in> set (cached (se_invalidator_at s' p))"
  using put_drops_decisions [OF assms(1-3,5-7)] assms(8,9) by (simp add: about_others_def)

text \<open>Commits of transactions and deletions with a tombstone change resources without telling any
  invalidator.\<close>

lemma silent_changes:
  "se_invalidator_at (snd (snd (TX_Commit B now t s))) = se_invalidator_at s"
  "SE_DeleteWithTombstone B now u tomb s = Some (err, s') \<Longrightarrow> se_invalidator_at s' = se_invalidator_at s"
  by (auto simp: TX_Commit_def SE_DeleteWithTombstone_def tombstone_finish_def delete_metadata_def Let_def
      split: prod.splits option.splits if_splits)

end
